(* ===== verification/Py_Text.thy ===== *)
theory Py_Text
  imports Prelude
begin

text \<open>
  The string methods of Python that the source uses: \<open>strip\<close>, \<open>lower\<close>, \<open>upper\<close>, \<open>split\<close>,
  \<open>join\<close>, \<open>replace\<close>, slices, \<open>str(int)\<close> and \<open>encode("utf-8")\<close>. A string is a list of code points
  below 256 (\<open>char\<close>); \<open>bytes\<close> is the same type read as octets. \<open>upper\<close> is modelled on ASCII,
  which is what HTTP method names are made of; \<open>lower\<close> covers every code point of the model.
\<close>

type_synonym bytes = string

subsection \<open>Characters and stripping\<close>

definition code_of :: "char \<Rightarrow> nat" where
  "code_of c = of_char c"

lemma code_of_less: "code_of c < 256"
  by (metis code_of_def of_char_mod_256 mod_less_divisor zero_less_numeral)

lemma code_of_inject [simp]: "code_of c = code_of d \<longleftrightarrow> c = d"
  by (simp add: code_of_def)

definition is_space :: "char \<Rightarrow> bool" where
  "is_space c = (let n = code_of c in
     (9 \<le> n \<and> n \<le> 13) \<or> (28 \<le> n \<and> n \<le> 32) \<or> n = 133 \<or> n = 160)"

definition strip :: "string \<Rightarrow> string" where
  "strip s = rev (dropWhile is_space (rev (dropWhile is_space s)))"

lemma dropWhile_rev_id:
  "s \<noteq> [] \<Longrightarrow> \<not> p (last s) \<Longrightarrow> rev (dropWhile p (rev s)) = s"
  by (cases s rule: rev_cases) simp_all

lemma strip_no_space_ends:
  assumes "strip s \<noteq> []"
  shows "\<not> is_space (hd (strip s))" "\<not> is_space (last (strip s))"
proof -
  let ?t = "dropWhile is_space s"
  let ?u = "dropWhile is_space (rev ?t)"
  have u: "?u \<noteq> []" using assms by (simp add: strip_def)
  then have "\<not> is_space (hd ?u)" by (rule hd_dropWhile)
  then show "\<not> is_space (last (strip s))"
    using u by (simp add: strip_def last_rev)
  have "?t \<noteq> []" using u by (metis dropWhile.simps(1) rev.simps(1))
  then have h: "\<not> is_space (hd ?t)" by (rule hd_dropWhile)
  have "rev ?t = takeWhile is_space (rev ?t) @ ?u" by simp
  then have "?t = rev ?u @ rev (takeWhile is_space (rev ?t))"
    by (metis rev_append rev_rev_ident)
  then have "hd ?t = hd (rev ?u)" using u by (metis hd_append2 rev_is_Nil_conv)
  with h show "\<not> is_space (hd (strip s))" by (simp add: strip_def)
qed

lemma strip_idem [simp]: "strip (strip s) = strip s"
proof (cases "strip s = []")
  case True
  then show ?thesis by (simp only: True) (simp add: strip_def)
next
  case False
  note ends = strip_no_space_ends [OF False]
  from False ends(1) have "dropWhile is_space (strip s) = strip s"
    by (cases "strip s") auto
  moreover from False ends(2) have "rev (dropWhile is_space (rev (strip s))) = strip s"
    by (rule dropWhile_rev_id)
  ultimately show ?thesis by (simp add: strip_def [of "strip s"])
qed

lemma strip_id:
  assumes "s \<noteq> []" "\<not> is_space (hd s)" "\<not> is_space (last s)"
  shows "strip s = s"
proof -
  from assms have "dropWhile is_space s = s" by (cases s) auto
  with assms show ?thesis by (simp add: strip_def dropWhile_rev_id)
qed

lemma length_strip: "length (strip s) \<le> length s"
  using length_dropWhile_le [of is_space s]
    length_dropWhile_le [of is_space "rev (dropWhile is_space s)"]
  by (simp add: strip_def)

subsection \<open>Case mapping\<close>

definition lower_char :: "char \<Rightarrow> char" where
  "lower_char c = (let n = code_of c in
     if (65 \<le> n \<and> n \<le> 90) \<or> (192 \<le> n \<and> n \<le> 222 \<and> n \<noteq> 215) then char_of (n + 32) else c)"

definition lower :: "string \<Rightarrow> string" where
  "lower s = map lower_char s"

definition upper_char :: "char \<Rightarrow> char" where
  "upper_char c = (let n = code_of c in if 97 \<le> n \<and> n \<le> 122 then char_of (n - 32) else c)"

definition upper :: "string \<Rightarrow> string" where
  "upper s = map upper_char s"

lemma length_case [simp]: "length (lower s) = length s" "length (upper s) = length s"
  by (simp_all add: lower_def upper_def)

subsection \<open>Splitting, joining, replacing\<close>

fun split_on :: "char \<Rightarrow> string \<Rightarrow> string list" where
  "split_on d [] = [[]]"
| "split_on d (c # cs) = (if c = d then [] # split_on d cs
     else (case split_on d cs of [] \<Rightarrow> [[c]] | p # ps \<Rightarrow> (c # p) # ps))"

text \<open>\<open>s.split(d, n)\<close>: at most \<open>n\<close> splits.\<close>

fun split_max :: "char \<Rightarrow> nat \<Rightarrow> string \<Rightarrow> string list" where
  "split_max d 0 s = [s]"
| "split_max d (Suc n) [] = [[]]"
| "split_max d (Suc n) (c # cs) = (if c = d then [] # split_max d n cs
     else (case split_max d (Suc n) cs of [] \<Rightarrow> [[c]] | p # ps \<Rightarrow> (c # p) # ps))"

fun join :: "string \<Rightarrow> string list \<Rightarrow> string" where
  "join sep [] = []"
| "join sep [p] = p"
| "join sep (p # q # ps) = p @ sep @ join sep (q # ps)"

definition replace_char :: "char \<Rightarrow> string \<Rightarrow> string \<Rightarrow> string" where
  "replace_char d t s = concat (map (\<lambda>c. if c = d then t else [c]) s)"

lemma split_on_nonempty [simp]: "split_on d s \<noteq> []"
  by (induction s) (auto split: list.splits)

lemma join_split_on: "join [d] (split_on d s) = s"
proof (induction s)
  case Nil
  then show ?case by simp
next
  case (Cons c cs)
  then show ?case
  proof (cases "split_on d cs")
    case Nil
    then show ?thesis by simp
  next
    case (Cons p ps)
    then show ?thesis using Cons.IH by (cases ps) auto
  qed
qed

lemma split_on_pieces: "p \<in> set (split_on d s) \<Longrightarrow> d \<notin> set p"
  by (induction s arbitrary: p) (auto split: list.splits if_splits)

lemma split_on_append:
  "d \<notin> set p \<Longrightarrow> split_on d (p @ d # s) = p # split_on d s"
  by (induction p) auto

lemma split_on_single: "d \<notin> set p \<Longrightarrow> split_on d p = [p]"
  by (induction p) auto

lemma split_on_join:
  "ps \<noteq> [] \<Longrightarrow> (\<And>p. p \<in> set ps \<Longrightarrow> d \<notin> set p) \<Longrightarrow> split_on d (join [d] ps) = ps"
proof (induction "[d]" ps rule: join.induct)
  case (2 p)
  then show ?case by (simp add: split_on_single)
next
  case (3 p q ps)
  then show ?case by (simp add: split_on_append)
qed simp

subsection \<open>Decimal numbers\<close>

definition digit_char :: "nat \<Rightarrow> char" where
  "digit_char n = char_of (48 + n)"

fun nat_str :: "nat \<Rightarrow> string" where
  "nat_str n = (if n < 10 then [digit_char n] else nat_str (n div 10) @ [digit_char (n mod 10)])"

declare nat_str.simps [simp del]

definition int_str :: "int \<Rightarrow> string" where
  "int_str i = (if i < 0 then CHR ''-'' # nat_str (nat (- i)) else nat_str (nat i))"

definition is_digit :: "char \<Rightarrow> bool" where
  "is_digit c = (48 \<le> code_of c \<and> code_of c \<le> 57)"

definition digits_val :: "string \<Rightarrow> nat" where
  "digits_val s = foldl (\<lambda>a c. 10 * a + (code_of c - 48)) 0 s"

lemma code_of_digit_char: "n < 10 \<Longrightarrow> code_of (digit_char n) = 48 + n"
  by (simp add: code_of_def digit_char_def)

lemma nat_str_digits: "c \<in> set (nat_str n) \<Longrightarrow> is_digit c"
proof (induction n rule: nat_str.induct)
  case (1 n)
  then show ?case
    by (auto simp: nat_str.simps [of n] is_digit_def code_of_digit_char split: if_splits)
qed

lemma nat_str_nonempty: "nat_str n \<noteq> []"
  by (subst nat_str.simps) simp

lemma digits_val_nat_str: "digits_val (nat_str n) = n"
proof (induction n rule: nat_str.induct)
  case (1 n)
  show ?case
  proof (cases "n < 10")
    case True
    then show ?thesis by (simp add: nat_str.simps [of n] digits_val_def code_of_digit_char)
  next
    case False
    have "digits_val (nat_str n) = 10 * digits_val (nat_str (n div 10)) + n mod 10"
      using False by (simp add: nat_str.simps [of n] digits_val_def code_of_digit_char)
    with 1 False show ?thesis by simp
  qed
qed

lemma nat_str_inject [simp]: "nat_str m = nat_str n \<longleftrightarrow> m = n"
  by (metis digits_val_nat_str)

lemma minus_not_digit: "\<not> is_digit (CHR ''-'')"
  by (simp add: is_digit_def code_of_def)

lemma int_str_inject [simp]: "int_str i = int_str j \<longleftrightarrow> i = j"
proof -
  have "CHR ''-'' \<notin> set (nat_str n)" for n
    using nat_str_digits minus_not_digit by blast
  then have "CHR ''-'' # xs \<noteq> nat_str n" "nat_str n \<noteq> CHR ''-'' # xs" for n xs
    by (metis list.set_intros(1))+
  then show ?thesis by (auto simp: int_str_def)
qed

lemma int_str_chars: "c \<in> set (int_str i) \<Longrightarrow> is_digit c \<or> c = CHR ''-''"
  by (auto simp: int_str_def dest: nat_str_digits split: if_splits)

subsection \<open>UTF-8\<close>

definition utf8_char :: "char \<Rightarrow> bytes" where
  "utf8_char c = (let n = code_of c in
     if n < 128 then [c] else [char_of (192 + n div 64), char_of (128 + n mod 64)])"

definition utf8 :: "string \<Rightarrow> bytes" where
  "utf8 s = concat (map utf8_char s)"

text \<open>The first octet tells one-octet from two-octet characters, so decoding is unique.\<close>

lemma code_of_char_of: "n < 256 \<Longrightarrow> code_of (char_of n) = n"
  by (simp add: code_of_def)

lemma utf8_char_prefix_free:
  assumes "utf8_char c @ x = utf8_char d @ y"
  shows "c = d \<and> x = y"
proof -
  let ?a = "code_of c" and ?b = "code_of d"
  have less: "?a < 256" "?b < 256" by (rule code_of_less)+
  have two: "code_of (char_of (192 + n div 64)) = 192 + n div 64"
    "code_of (char_of (128 + n mod 64)) = 128 + n mod 64" if "n < 256" for n :: nat
  proof -
    have "n div 64 < 4" "n mod 64 < 64" using that by auto
    then show "code_of (char_of (192 + n div 64)) = 192 + n div 64"
      "code_of (char_of (128 + n mod 64)) = 128 + n mod 64"
      by (simp_all only: code_of_char_of)
  qed
  have same: "c = d" if "char_of (192 + ?a div 64) = (char_of (192 + ?b div 64) :: char)"
    "char_of (128 + ?a mod 64) = (char_of (128 + ?b mod 64) :: char)"
  proof -
    from that two less have "?a div 64 = ?b div 64" "?a mod 64 = ?b mod 64"
      by (metis add_left_cancel)+
    then have "?a = ?b" by (metis div_mult_mod_eq)
    then show ?thesis by simp
  qed
  have mixed: "char_of (192 + ?a div 64) \<noteq> d" if "?b < 128"
  proof
    assume "char_of (192 + ?a div 64) = d"
    then have "?b = 192 + ?a div 64" using two(1) [OF less(1)] by simp
    with that show False by simp
  qed
  have mixed': "c \<noteq> char_of (192 + ?b div 64)" if "?a < 128"
  proof
    assume "c = char_of (192 + ?b div 64)"
    then have "?a = 192 + ?b div 64" using two(1) [OF less(2)] by simp
    with that show False by simp
  qed
  from assms same mixed mixed' show ?thesis
    by (auto simp: utf8_char_def Let_def split: if_splits)
qed

lemma prefix_code_inject:
  assumes "\<And>c d x y. f c @ x = f d @ y \<Longrightarrow> c = d \<and> x = y" and "\<And>c. f c \<noteq> []"
  shows "concat (map f s) = concat (map f t) \<Longrightarrow> s = t"
proof (induction s arbitrary: t)
  case Nil
  then show ?case using assms(2) by (cases t) auto
next
  case (Cons c s)
  then obtain d t' where t: "t = d # t'" using assms(2) by (cases t) auto
  with Cons.prems assms(1) [of c "concat (map f s)" d "concat (map f t')"] Cons.IH show ?case
    by simp
qed

lemma utf8_inject [simp]: "utf8 s = utf8 t \<longleftrightarrow> s = t"
proof
  have "utf8_char c \<noteq> []" for c by (simp add: utf8_char_def Let_def)
  moreover assume "utf8 s = utf8 t"
  ultimately show "s = t"
    unfolding utf8_def by (intro prefix_code_inject [of utf8_char s t] utf8_char_prefix_free)
qed simp

end
