(* ===== verification/Py_Hash.thy ===== *)
theory Py_Hash
  imports Py_Text "HOL-Library.Word"
begin

unbundle bit_operations_syntax

text \<open>
  \<open>hashlib.sha256\<close>, \<open>hmac.new(key, msg, sha256)\<close> and \<open>hexdigest\<close> of Python's standard library:
  the functions of FIPS 180-4 and RFC 2104 on octet strings, on 32-bit words. Every digest has 32
  octets and every hexdigest 64 lower-case hexadecimal digits; no other fact about the hash is
  used anywhere in the development (in particular no absence of collisions).
\<close>

type_synonym u32 = "32 word"

subsection \<open>SHA-256\<close>

text \<open>
  The constants are the first 32 bits of the fractional parts of the cube roots of the first 64 primes, and of
  the square roots of the first eight; \<open>root_bits\<close> computes a root bit by bit, from the highest one.
\<close>

definition first_primes :: "int list" where
  "first_primes =
    [2, 3, 5, 7, 11, 13, 17, 19, 23, 29, 31, 37, 41, 43, 47, 53,
     59, 61, 67, 71, 73, 79, 83, 89, 97, 101, 103, 107, 109, 113, 127, 131,
     137, 139, 149, 151, 157, 163, 167, 173, 179, 181, 191, 193, 197, 199, 211, 223,
     227, 229, 233, 239, 241, 251, 257, 263, 269, 271, 277, 281, 283, 293, 307, 311]"

fun root_bits :: "nat \<Rightarrow> int \<Rightarrow> int \<Rightarrow> nat \<Rightarrow> int" where
  "root_bits e n acc 0 = acc"
| "root_bits e n acc (Suc k) = root_bits e n (if (acc + 2 ^ k) ^ e \<le> n then acc + 2 ^ k else acc) k"

definition sha_k :: "u32 list" where
  "sha_k = map (\<lambda>p. word_of_int (root_bits 3 (p * 2 ^ 96) 0 36)) first_primes"

definition sha_h0 :: "u32 list" where
  "sha_h0 = map (\<lambda>p. word_of_int (root_bits 2 (p * 2 ^ 64) 0 36)) (take 8 first_primes)"

definition rotr :: "nat \<Rightarrow> u32 \<Rightarrow> u32" where
  "rotr n w = drop_bit n w OR push_bit (32 - n) w"

definition small_sigma0 :: "u32 \<Rightarrow> u32" where
  "small_sigma0 w = rotr 7 w XOR rotr 18 w XOR drop_bit 3 w"

definition small_sigma1 :: "u32 \<Rightarrow> u32" where
  "small_sigma1 w = rotr 17 w XOR rotr 19 w XOR drop_bit 10 w"

definition big_sigma0 :: "u32 \<Rightarrow> u32" where
  "big_sigma0 w = rotr 2 w XOR rotr 13 w XOR rotr 22 w"

definition big_sigma1 :: "u32 \<Rightarrow> u32" where
  "big_sigma1 w = rotr 6 w XOR rotr 11 w XOR rotr 25 w"

text \<open>The message schedule: a window of sixteen words that slides by one word a round.\<close>

fun schedule :: "nat \<Rightarrow> u32 list \<Rightarrow> u32 list" where
  "schedule 0 ws = []"
| "schedule (Suc n) ws = hd ws # schedule n
     (tl ws @ [small_sigma1 (ws ! 14) + ws ! 9 + small_sigma0 (ws ! 1) + ws ! 0])"

fun sha_round :: "u32 list \<Rightarrow> u32 \<times> u32 \<Rightarrow> u32 list" where
  "sha_round [a, b, c, d, e, f, g, h] (k, w) =
     (let t1 = h + big_sigma1 e + ((e AND f) XOR (NOT e AND g)) + k + w;
          t2 = big_sigma0 a + ((a AND b) XOR (a AND c) XOR (b AND c))
      in [t1 + t2, a, b, c, d + t1, e, f, g])"
| "sha_round st _ = st"

definition compress :: "u32 list \<Rightarrow> u32 list \<Rightarrow> u32 list" where
  "compress st blk = map2 (+) st (foldl sha_round st (zip sha_k (schedule 64 blk)))"

definition word_octets :: "u32 \<Rightarrow> bytes" where
  "word_octets w = map (\<lambda>i. char_of (unat (drop_bit (8 * i) w) mod 256)) [3, 2, 1, 0]"

definition octets_word :: "bytes \<Rightarrow> u32" where
  "octets_word bs = of_nat (foldl (\<lambda>a b. 256 * a + code_of b) 0 bs)"

definition sha_pad :: "bytes \<Rightarrow> bytes" where
  "sha_pad bs = (let n = length bs in
     bs @ [char_of (128 :: nat)] @ replicate ((119 - n mod 64) mod 64) (char_of (0 :: nat)) @
     word_octets (of_nat (8 * n div 2 ^ 32)) @ word_octets (of_nat (8 * n)))"

function blocks :: "nat \<Rightarrow> 'a list \<Rightarrow> 'a list list" where
  "blocks n xs = (if n = 0 \<or> xs = [] then [] else take n xs # blocks n (drop n xs))"
  by pat_completeness auto
termination
  by (relation "measure (\<lambda>(n, xs). length xs)") auto

declare blocks.simps [simp del]

definition sha256 :: "bytes \<Rightarrow> bytes" where
  "sha256 bs = concat (map word_octets
     (foldl compress sha_h0 (map (\<lambda>b. map octets_word (blocks 4 b)) (blocks 64 (sha_pad bs)))))"

subsection \<open>HMAC and hexadecimal digests\<close>

definition xor_octet :: "nat \<Rightarrow> char \<Rightarrow> char" where
  "xor_octet k c = char_of (code_of c XOR k)"

definition hmac_sha256 :: "bytes \<Rightarrow> bytes \<Rightarrow> bytes" where
  "hmac_sha256 key msg = (let
     k0 = (if 64 < length key then sha256 key else key);
     k = k0 @ replicate (64 - length k0) (char_of (0 :: nat))
   in sha256 (map (xor_octet 0x5c) k @ sha256 (map (xor_octet 0x36) k @ msg)))"

definition hex_digit :: "nat \<Rightarrow> char" where
  "hex_digit n = (if n < 10 then char_of (48 + n) else char_of (87 + n))"

definition hexdigest :: "bytes \<Rightarrow> string" where
  "hexdigest bs = concat (map (\<lambda>b. [hex_digit (code_of b div 16), hex_digit (code_of b mod 16)]) bs)"

definition sha256_hex :: "bytes \<Rightarrow> string" where
  "sha256_hex bs = hexdigest (sha256 bs)"

definition hmac_sha256_hex :: "bytes \<Rightarrow> bytes \<Rightarrow> string" where
  "hmac_sha256_hex key msg = hexdigest (hmac_sha256 key msg)"

subsection \<open>Shape of the digests\<close>

lemma length_compress: "length st = 8 \<Longrightarrow> length (compress st blk) = 8"
proof -
  have "length (foldl sha_round st xs) = length st" if "length st = 8" for xs :: "(u32 \<times> u32) list"
    using that
  proof (induction xs arbitrary: st)
    case (Cons x xs)
    have "length (sha_round st x) = 8"
      using Cons.prems by (cases "(st, x)" rule: sha_round.cases) (auto simp: Let_def)
    then show ?case using Cons by simp
  qed simp
  then show "length st = 8 \<Longrightarrow> length (compress st blk) = 8" by (simp add: compress_def)
qed

lemma length_foldl_compress: "length st = 8 \<Longrightarrow> length (foldl compress st bs) = 8"
  by (induction bs arbitrary: st) (auto simp: length_compress)

lemma length_sha256: "length (sha256 bs) = 32"
proof -
  have "length (concat (map word_octets ws)) = 4 * length ws" for ws
    by (induction ws) (auto simp: word_octets_def)
  moreover have "length (foldl compress sha_h0 xs) = 8" for xs
    by (rule length_foldl_compress) (simp add: sha_h0_def first_primes_def)
  ultimately show ?thesis by (simp only: sha256_def)
qed

definition is_lower_hex :: "char \<Rightarrow> bool" where
  "is_lower_hex c = (let n = code_of c in (48 \<le> n \<and> n \<le> 57) \<or> (97 \<le> n \<and> n \<le> 102))"

lemma hex_digit_lower_hex: "n < 16 \<Longrightarrow> is_lower_hex (hex_digit n)"
  by (simp add: hex_digit_def is_lower_hex_def code_of_def)

lemma hexdigest_lower_hex: "c \<in> set (hexdigest bs) \<Longrightarrow> is_lower_hex c"
  using code_of_less by (auto simp: hexdigest_def intro!: hex_digit_lower_hex
      simp: less_mult_imp_div_less)

lemma length_hexdigest: "length (hexdigest bs) = 2 * length bs"
  by (induction bs) (auto simp: hexdigest_def)

lemma length_sha256_hex [simp]: "length (sha256_hex bs) = 64"
  by (simp add: sha256_hex_def length_hexdigest length_sha256)

lemma length_hmac_sha256_hex [simp]: "length (hmac_sha256_hex k bs) = 64"
  by (simp add: hmac_sha256_hex_def length_hexdigest hmac_sha256_def Let_def length_sha256)

lemma lower_char_lower_hex: "is_lower_hex c \<Longrightarrow> lower_char c = c"
  by (auto simp: lower_char_def is_lower_hex_def Let_def)

lemma lower_lower_hex: "(\<And>c. c \<in> set s \<Longrightarrow> is_lower_hex c) \<Longrightarrow> lower s = s"
  by (simp add: lower_def map_idI lower_char_lower_hex)

lemma lower_hmac_hex [simp]: "lower (hmac_sha256_hex k bs) = hmac_sha256_hex k bs"
  by (rule lower_lower_hex) (simp add: hmac_sha256_hex_def hexdigest_lower_hex)

end
