(* ===== verification/Py_Json.thy ===== *)
theory Py_Json
  imports Py_Hash "HOL-Library.List_Lexorder" "HOL-Library.Char_ord"
begin

text \<open>
  JSON values as \<open>json.loads\<close> builds them, and the compact, key-sorted text that
  \<open>json.dumps(v, sort_keys=True, separators=(",", ":"), ensure_ascii=False)\<close> prints. A float is
  carried by the text \<open>repr\<close> gives it. The printer is uniquely readable on the strings, integers and
  nulls of a request payload, which is what request hashing relies on.
\<close>

datatype json =
    JNull
  | JBool bool
  | JInt int
  | JFloat string
  | JStr string
  | JList "json list"
  | JObj "(string \<times> json) list"

definition json_get :: "string \<Rightarrow> (string \<times> json) list \<Rightarrow> json option" where
  "json_get k kvs = map_of kvs k"

text \<open>Truth of a value: what \<open>if v\<close> and \<open>v or d\<close> test.\<close>

fun json_truthy :: "json \<Rightarrow> bool" where
  "json_truthy JNull = False"
| "json_truthy (JBool b) = b"
| "json_truthy (JInt i) = (i \<noteq> 0)"
| "json_truthy (JFloat f) = (f \<noteq> ''0.0'' \<and> f \<noteq> ''-0.0'')"
| "json_truthy (JStr s) = (s \<noteq> [])"
| "json_truthy (JList xs) = (xs \<noteq> [])"
| "json_truthy (JObj kvs) = (kvs \<noteq> [])"

subsection \<open>Printing\<close>

definition hex2 :: "nat \<Rightarrow> string" where
  "hex2 n = [hex_digit (n div 16), hex_digit (n mod 16)]"

abbreviation dquote :: char where
  "dquote \<equiv> CHR 0x22"

abbreviation backslash :: char where
  "backslash \<equiv> CHR 0x5C"

definition esc_char :: "char \<Rightarrow> string" where
  "esc_char c = (let n = code_of c in
     if n = 34 then [backslash, dquote]
     else if n = 92 then [backslash, backslash]
     else if n = 10 then [backslash, CHR ''n'']
     else if n = 13 then [backslash, CHR ''r'']
     else if n = 9 then [backslash, CHR ''t'']
     else if n = 12 then [backslash, CHR ''f'']
     else if n = 8 then [backslash, CHR ''b'']
     else if n < 32 then [backslash, CHR ''u'', CHR ''0'', CHR ''0''] @ hex2 n
     else [c])"

definition dumps_str :: "string \<Rightarrow> string" where
  "dumps_str s = dquote # concat (map esc_char s) @ [dquote]"

fun dumps :: "json \<Rightarrow> string" where
  "dumps JNull = ''null''"
| "dumps (JBool b) = (if b then ''true'' else ''false'')"
| "dumps (JInt i) = int_str i"
| "dumps (JFloat f) = f"
| "dumps (JStr s) = dumps_str s"
| "dumps (JList xs) = ''['' @ join '','' (map dumps xs) @ '']''"
| "dumps (JObj kvs) = ''{'' @ join '',''
     (map (\<lambda>(k, t). dumps_str k @ '':'' @ t) (sort_key fst (map (\<lambda>(k, v). (k, dumps v)) kvs))) @ ''}''"

subsection \<open>Unique reading\<close>

lemma hex_digit_inject:
  assumes "m < 16" "n < 16" "hex_digit m = hex_digit n"
  shows "m = n"
proof -
  have "code_of (hex_digit k) = (if k < 10 then 48 + k else 87 + k)" if "k < 16" for k
    using that by (simp add: hex_digit_def code_of_char_of)
  from this [OF assms(1)] this [OF assms(2)] assms(3)
  have "(if m < 10 then 48 + m else 87 + m) = (if n < 10 then 48 + n else 87 + n)" by simp
  then show ?thesis by (simp split: if_splits)
qed

lemma hex2_inject:
  assumes "m < 32" "n < 32" "hex2 m = hex2 n"
  shows "m = n"
proof -
  have "m div 16 < 16" "n div 16 < 16" "m mod 16 < 16" "n mod 16 < 16" using assms by auto
  with assms(3) have "m div 16 = n div 16" "m mod 16 = n mod 16"
    by (auto simp: hex2_def intro: hex_digit_inject)
  then show ?thesis by (metis div_mult_mod_eq)
qed

text \<open>An escape starts with a backslash and its second character tells which; anything else is itself.\<close>

lemma esc_char_cases:
  obtains (plain) "esc_char c = [c]" "c \<noteq> backslash" "c \<noteq> dquote"
  | (short) e where "esc_char c = [backslash, e]" "e \<noteq> CHR ''u''"
      "(c, e) \<in> {(dquote, dquote), (backslash, backslash), (CHR 0x0A, CHR ''n''), (CHR 0x0D, CHR ''r''),
        (CHR 0x09, CHR ''t''), (CHR 0x0C, CHR ''f''), (CHR 0x08, CHR ''b'')}"
  | (ctrl) "esc_char c = [backslash, CHR ''u'', CHR ''0'', CHR ''0''] @ hex2 (code_of c)" "code_of c < 32"
proof -
  have codes: "code_of dquote = 34" "code_of backslash = 92" "code_of (CHR 0x0A) = 10"
    "code_of (CHR 0x0D) = 13" "code_of (CHR 0x09) = 9" "code_of (CHR 0x0C) = 12"
    "code_of (CHR 0x08) = 8"
    by (simp_all add: code_of_def)
  consider "c = dquote" | "c = backslash" | "c = CHR 0x0A" | "c = CHR 0x0D" | "c = CHR 0x09"
    | "c = CHR 0x0C" | "c = CHR 0x08"
    | "c \<notin> {dquote, backslash, CHR 0x0A, CHR 0x0D, CHR 0x09, CHR 0x0C, CHR 0x08}" by blast
  then show thesis
  proof cases
    case 8
    then have "code_of c \<noteq> 34" "code_of c \<noteq> 92" "code_of c \<noteq> 10" "code_of c \<noteq> 13"
      "code_of c \<noteq> 9" "code_of c \<noteq> 12" "code_of c \<noteq> 8"
      by (simp_all add: codes [symmetric])
    then show thesis
      using 8 plain ctrl by (cases "code_of c < 32") (auto simp: esc_char_def Let_def)
  next
    case 1 then show thesis by (intro short [of dquote]) (simp_all add: esc_char_def codes)
  next
    case 2 then show thesis by (intro short [of backslash]) (simp_all add: esc_char_def codes)
  next
    case 3 then show thesis by (intro short [of "CHR ''n''"]) (simp_all add: esc_char_def codes)
  next
    case 4 then show thesis by (intro short [of "CHR ''r''"]) (simp_all add: esc_char_def codes)
  next
    case 5 then show thesis by (intro short [of "CHR ''t''"]) (simp_all add: esc_char_def codes)
  next
    case 6 then show thesis by (intro short [of "CHR ''f''"]) (simp_all add: esc_char_def codes)
  next
    case 7 then show thesis by (intro short [of "CHR ''b''"]) (simp_all add: esc_char_def codes)
  qed
qed

lemma esc_char_prefix_free:
  assumes "esc_char c @ x = esc_char d @ y"
  shows "c = d \<and> x = y"
proof (cases c rule: esc_char_cases)
  case plain
  then show ?thesis using assms by (cases d rule: esc_char_cases) auto
next
  case (short e)
  then show ?thesis using assms by (cases d rule: esc_char_cases) auto
next
  case c: ctrl
  show ?thesis
  proof (cases d rule: esc_char_cases)
    case d: ctrl
    with c assms have "hex2 (code_of c) = hex2 (code_of d) \<and> x = y" by (simp add: hex2_def)
    with hex2_inject [OF c(2) d(2)] show ?thesis by simp
  qed (use c assms in auto)
qed

lemma esc_char_not_quote: "hd (esc_char c) \<noteq> dquote \<and> esc_char c \<noteq> []"
  by (cases c rule: esc_char_cases) auto

lemma dumps_str_prefix_free:
  assumes "dumps_str s @ x = dumps_str t @ y"
  shows "s = t \<and> x = y"
proof -
  have "concat (map esc_char s) @ dquote # x = concat (map esc_char t) @ dquote # y"
    using assms by (simp add: dumps_str_def)
  then show ?thesis
  proof (induction s arbitrary: t)
    case Nil
    show ?case
    proof (cases t)
      case (Cons d t')
      with Nil esc_char_not_quote [of d] show ?thesis by (cases "esc_char d") auto
    qed (use Nil in simp)
  next
    case (Cons c s)
    show ?case
    proof (cases t)
      case Nil
      with Cons.prems esc_char_not_quote [of c] show ?thesis by (cases "esc_char c") auto
    next
      case (Cons d t')
      with Cons.prems esc_char_prefix_free
      have "c = d" "concat (map esc_char s) @ dquote # x = concat (map esc_char t') @ dquote # y"
        by fastforce+
      with Cons Cons.IH [of t'] show ?thesis by simp
    qed
  qed
qed

lemma dumps_str_inject [simp]: "dumps_str s = dumps_str t \<longleftrightarrow> s = t"
  using dumps_str_prefix_free [of s "[]" t "[]"] by auto

text \<open>The scalar values of a payload: strings, integers, null. Each ends where the text shows it.\<close>

fun json_scalar :: "json \<Rightarrow> bool" where
  "json_scalar JNull = True"
| "json_scalar (JInt i) = True"
| "json_scalar (JStr s) = True"
| "json_scalar _ = False"

definition is_delim :: "char \<Rightarrow> bool" where
  "is_delim c = (c = CHR '','' \<or> c = CHR ''}'')"

lemma digits_prefix_free:
  assumes "u @ c # x = v @ d # y"
    and "\<And>a. a \<in> set u \<union> set v \<Longrightarrow> P a" and "\<not> P c" "\<not> P d"
  shows "u = v \<and> c # x = d # y"
  using assms
proof (induction u arbitrary: v)
  case Nil
  then show ?case by (cases v) auto
next
  case (Cons a u)
  then show ?case by (cases v) auto
qed

lemma int_str_hd: "hd (int_str i) = CHR ''-'' \<or> is_digit (hd (int_str i))"
  using nat_str_digits [OF hd_in_set [OF nat_str_nonempty]] by (simp add: int_str_def)

lemma int_str_nonempty: "int_str i \<noteq> []"
  using nat_str_nonempty by (auto simp: int_str_def)

lemma scalar_prefix_free:
  assumes "json_scalar v" "json_scalar w" "is_delim c" "is_delim d"
    and eq: "dumps v @ c # x = dumps w @ d # y"
  shows "v = w \<and> c # x = d # y"
proof -
  have nodig: "\<not> (is_digit e \<or> e = CHR ''-'')" if "is_delim e \<or> e = dquote \<or> e = CHR ''n''" for e
    using that by (auto simp: is_delim_def is_digit_def code_of_def)
  have first: "int_str i @ z \<noteq> e # z'" "e # z' \<noteq> int_str i @ z"
    if "e = dquote \<or> e = CHR ''n''" for i z e z'
    using int_str_hd [of i] int_str_nonempty [of i] nodig [of e] that
    by (cases "int_str i"; auto)+
  have ints: "i = j \<and> c # x = d # y" if "int_str i @ c # x = int_str j @ d # y" for i j
    using digits_prefix_free [OF that, of "\<lambda>a. is_digit a \<or> a = CHR ''-''"] int_str_chars
      nodig assms(3,4) by auto
  from assms(1,2) eq ints first show ?thesis
    by (cases v; cases w) (auto simp: dumps_str_def dest!: dumps_str_prefix_free [unfolded dumps_str_def, simplified])
qed

end
