(* ===== verification/Domain.thy ===== *)
theory Domain
  imports Py_Json
begin

text \<open>
  The domain package (\<open>backend/app/domain\<close>): the enums with the strings the database stores for them,
  the exceptions with their names and messages, the transaction and recovery state machines, the
  ledger amount rules, and request hashing.
\<close>

subsection \<open>Enums\<close>

text \<open>\<open>E(s)\<close> for a string enum \<open>E\<close>: the member whose value is \<open>s\<close>.\<close>

definition parse_enum :: "('a \<Rightarrow> string) \<Rightarrow> 'a list \<Rightarrow> string \<Rightarrow> 'a option" where
  "parse_enum val members s = List.find (\<lambda>m. val m = s) members"

lemma parse_enum_value: "inj val \<Longrightarrow> m \<in> set members \<Longrightarrow> parse_enum val members (val m) = Some m"
  by (induction members) (auto simp: parse_enum_def dest: injD)

lemma parse_enum_Some: "parse_enum val members s = Some m \<Longrightarrow> val m = s"
  by (auto simp: parse_enum_def find_Some_iff)

datatype event_type = DEPOSIT | WITHDRAW | CANCEL

fun event_type_value :: "event_type \<Rightarrow> string" where
  "event_type_value DEPOSIT = ''DEPOSIT''"
| "event_type_value WITHDRAW = ''WITHDRAW''"
| "event_type_value CANCEL = ''CANCEL''"

definition EventType :: "string \<Rightarrow> event_type option" where
  "EventType = parse_enum event_type_value [DEPOSIT, WITHDRAW, CANCEL]"

datatype transaction_status =
  RECEIVED | VALIDATED | PROCESSING | COMPLETED | FAILED | CANCELLED | SETTLED

fun status_value :: "transaction_status \<Rightarrow> string" where
  "status_value RECEIVED = ''RECEIVED''"
| "status_value VALIDATED = ''VALIDATED''"
| "status_value PROCESSING = ''PROCESSING''"
| "status_value COMPLETED = ''COMPLETED''"
| "status_value FAILED = ''FAILED''"
| "status_value CANCELLED = ''CANCELLED''"
| "status_value SETTLED = ''SETTLED''"

definition TransactionStatus :: "string \<Rightarrow> transaction_status option" where
  "TransactionStatus =
     parse_enum status_value [RECEIVED, VALIDATED, PROCESSING, COMPLETED, FAILED, CANCELLED, SETTLED]"

datatype idempotency_status = IS_PROCESSING | IS_COMPLETED | IS_FAILED

fun idempotency_status_value :: "idempotency_status \<Rightarrow> string" where
  "idempotency_status_value IS_PROCESSING = ''PROCESSING''"
| "idempotency_status_value IS_COMPLETED = ''COMPLETED''"
| "idempotency_status_value IS_FAILED = ''FAILED''"

definition IdempotencyStatus :: "string \<Rightarrow> idempotency_status option" where
  "IdempotencyStatus = parse_enum idempotency_status_value [IS_PROCESSING, IS_COMPLETED, IS_FAILED]"

datatype idempotency_decision = STARTED | REPLAY_COMPLETED | ALREADY_PROCESSING | REPLAY_FAILED

fun decision_value :: "idempotency_decision \<Rightarrow> string" where
  "decision_value STARTED = ''STARTED''"
| "decision_value REPLAY_COMPLETED = ''REPLAY_COMPLETED''"
| "decision_value ALREADY_PROCESSING = ''ALREADY_PROCESSING''"
| "decision_value REPLAY_FAILED = ''REPLAY_FAILED''"

datatype recovery_case_status =
    RC_OPEN | RC_AUTO_ANALYZED | RC_WAITING_APPROVAL | RC_APPROVED | RC_EXECUTING | RC_EXECUTED
  | RC_EXECUTION_FAILED | RC_REJECTED | RC_CLOSED

fun recovery_status_value :: "recovery_case_status \<Rightarrow> string" where
  "recovery_status_value RC_OPEN = ''OPEN''"
| "recovery_status_value RC_AUTO_ANALYZED = ''AUTO_ANALYZED''"
| "recovery_status_value RC_WAITING_APPROVAL = ''WAITING_APPROVAL''"
| "recovery_status_value RC_APPROVED = ''APPROVED''"
| "recovery_status_value RC_EXECUTING = ''EXECUTING''"
| "recovery_status_value RC_EXECUTED = ''EXECUTED''"
| "recovery_status_value RC_EXECUTION_FAILED = ''EXECUTION_FAILED''"
| "recovery_status_value RC_REJECTED = ''REJECTED''"
| "recovery_status_value RC_CLOSED = ''CLOSED''"

definition recovery_statuses :: "recovery_case_status list" where
  "recovery_statuses = [RC_OPEN, RC_AUTO_ANALYZED, RC_WAITING_APPROVAL, RC_APPROVED, RC_EXECUTING,
     RC_EXECUTED, RC_EXECUTION_FAILED, RC_REJECTED, RC_CLOSED]"

definition RecoveryCaseStatus :: "string \<Rightarrow> recovery_case_status option" where
  "RecoveryCaseStatus = parse_enum recovery_status_value recovery_statuses"

datatype recovery_case_type =
    STALE_PROCESSING | BALANCE_MISMATCH | DUPLICATE_LEDGER | ORPHAN_IDEMPOTENCY | FAILOVER_IN_DOUBT
  | CONSISTENCY_ISSUE_CANDIDATE | WRITE_SUSPENDED_UNKNOWN_DEPENDENCY | POSTGRES_DOWN_WRITE_SUSPENDED

fun case_type_value :: "recovery_case_type \<Rightarrow> string" where
  "case_type_value STALE_PROCESSING = ''STALE_PROCESSING''"
| "case_type_value BALANCE_MISMATCH = ''BALANCE_MISMATCH''"
| "case_type_value DUPLICATE_LEDGER = ''DUPLICATE_LEDGER''"
| "case_type_value ORPHAN_IDEMPOTENCY = ''ORPHAN_IDEMPOTENCY''"
| "case_type_value FAILOVER_IN_DOUBT = ''FAILOVER_IN_DOUBT''"
| "case_type_value CONSISTENCY_ISSUE_CANDIDATE = ''CONSISTENCY_ISSUE_CANDIDATE''"
| "case_type_value WRITE_SUSPENDED_UNKNOWN_DEPENDENCY = ''WRITE_SUSPENDED_UNKNOWN_DEPENDENCY''"
| "case_type_value POSTGRES_DOWN_WRITE_SUSPENDED = ''POSTGRES_DOWN_WRITE_SUSPENDED''"

definition recovery_case_types :: "recovery_case_type list" where
  "recovery_case_types = [STALE_PROCESSING, BALANCE_MISMATCH, DUPLICATE_LEDGER, ORPHAN_IDEMPOTENCY,
     FAILOVER_IN_DOUBT, CONSISTENCY_ISSUE_CANDIDATE, WRITE_SUSPENDED_UNKNOWN_DEPENDENCY,
     POSTGRES_DOWN_WRITE_SUSPENDED]"

datatype recovery_proposed_action =
    NOOP_REVIEW_ONLY | MARK_COMPLETED | MARK_FAILED_RETRYABLE | REPLAY_EVENT | COMPENSATE_LEDGER
  | KEEP_QUARANTINED

fun action_value :: "recovery_proposed_action \<Rightarrow> string" where
  "action_value NOOP_REVIEW_ONLY = ''NOOP_REVIEW_ONLY''"
| "action_value MARK_COMPLETED = ''MARK_COMPLETED''"
| "action_value MARK_FAILED_RETRYABLE = ''MARK_FAILED_RETRYABLE''"
| "action_value REPLAY_EVENT = ''REPLAY_EVENT''"
| "action_value COMPENSATE_LEDGER = ''COMPENSATE_LEDGER''"
| "action_value KEEP_QUARANTINED = ''KEEP_QUARANTINED''"

datatype quarantine_target_type = ACCOUNT | CLIENT | EVENT | GLOBAL_WRITE

fun target_type_value :: "quarantine_target_type \<Rightarrow> string" where
  "target_type_value ACCOUNT = ''ACCOUNT''"
| "target_type_value CLIENT = ''CLIENT''"
| "target_type_value EVENT = ''EVENT''"
| "target_type_value GLOBAL_WRITE = ''GLOBAL_WRITE''"

lemma status_value_inject [simp]: "status_value a = status_value b \<longleftrightarrow> a = b"
  by (cases a; cases b) simp_all

lemma event_type_value_inject [simp]: "event_type_value a = event_type_value b \<longleftrightarrow> a = b"
  by (cases a; cases b) simp_all

lemma idempotency_status_value_inject [simp]:
  "idempotency_status_value a = idempotency_status_value b \<longleftrightarrow> a = b"
  by (cases a; cases b) simp_all

lemma recovery_status_value_inject [simp]:
  "recovery_status_value a = recovery_status_value b \<longleftrightarrow> a = b"
  by (cases a; cases b) simp_all

lemma target_type_value_inject [simp]: "target_type_value a = target_type_value b \<longleftrightarrow> a = b"
  by (cases a; cases b) simp_all

lemma TransactionStatus_value [simp]: "TransactionStatus (status_value st) = Some st"
  by (cases st) (simp_all add: TransactionStatus_def parse_enum_def)

lemma EventType_value [simp]: "EventType (event_type_value t) = Some t"
  by (cases t) (simp_all add: EventType_def parse_enum_def)

lemma IdempotencyStatus_value [simp]: "IdempotencyStatus (idempotency_status_value st) = Some st"
  by (cases st) (simp_all add: IdempotencyStatus_def parse_enum_def)

lemma RecoveryCaseStatus_value [simp]: "RecoveryCaseStatus (recovery_status_value st) = Some st"
  by (cases st) (simp_all add: RecoveryCaseStatus_def recovery_statuses_def parse_enum_def)

lemma TransactionStatus_Some: "TransactionStatus s = Some st \<Longrightarrow> s = status_value st"
  by (simp add: TransactionStatus_def parse_enum_Some)

lemma EventType_Some: "EventType s = Some t \<Longrightarrow> s = event_type_value t"
  by (simp add: EventType_def parse_enum_Some)

lemma IdempotencyStatus_Some: "IdempotencyStatus s = Some st \<Longrightarrow> s = idempotency_status_value st"
  by (simp add: IdempotencyStatus_def parse_enum_Some)

lemma RecoveryCaseStatus_Some: "RecoveryCaseStatus s = Some st \<Longrightarrow> s = recovery_status_value st"
  by (simp add: RecoveryCaseStatus_def parse_enum_Some)

instantiation transaction_status :: enum
begin

definition enum_transaction_status :: "transaction_status list" where
  "enum_transaction_status = [RECEIVED, VALIDATED, PROCESSING, COMPLETED, FAILED, CANCELLED, SETTLED]"

definition enum_all_transaction_status :: "(transaction_status \<Rightarrow> bool) \<Rightarrow> bool" where
  "enum_all_transaction_status P = list_all P Enum.enum"

definition enum_ex_transaction_status :: "(transaction_status \<Rightarrow> bool) \<Rightarrow> bool" where
  "enum_ex_transaction_status P = list_ex P Enum.enum"

instance
proof
  have all: "(UNIV :: transaction_status set) = set Enum.enum"
    using transaction_status.exhaust by (auto simp: enum_transaction_status_def)
  then show "UNIV = set (Enum.enum :: transaction_status list)" .
  show "distinct (Enum.enum :: transaction_status list)" by (simp add: enum_transaction_status_def)
  show "Enum.enum_all P = Ball UNIV P" for P :: "transaction_status \<Rightarrow> bool"
    by (simp add: enum_all_transaction_status_def all list_all_iff)
  show "Enum.enum_ex P = Bex UNIV P" for P :: "transaction_status \<Rightarrow> bool"
    by (simp add: enum_ex_transaction_status_def all list_ex_iff)
qed

end

instantiation recovery_case_status :: enum
begin

definition enum_recovery_case_status :: "recovery_case_status list" where
  "enum_recovery_case_status = recovery_statuses"

definition enum_all_recovery_case_status :: "(recovery_case_status \<Rightarrow> bool) \<Rightarrow> bool" where
  "enum_all_recovery_case_status P = list_all P Enum.enum"

definition enum_ex_recovery_case_status :: "(recovery_case_status \<Rightarrow> bool) \<Rightarrow> bool" where
  "enum_ex_recovery_case_status P = list_ex P Enum.enum"

instance
proof
  have all: "(UNIV :: recovery_case_status set) = set Enum.enum"
    using recovery_case_status.exhaust
    by (auto simp: enum_recovery_case_status_def recovery_statuses_def)
  then show "UNIV = set (Enum.enum :: recovery_case_status list)" .
  show "distinct (Enum.enum :: recovery_case_status list)"
    by (simp add: enum_recovery_case_status_def recovery_statuses_def)
  show "Enum.enum_all P = Ball UNIV P" for P :: "recovery_case_status \<Rightarrow> bool"
    by (simp add: enum_all_recovery_case_status_def all list_all_iff)
  show "Enum.enum_ex P = Bex UNIV P" for P :: "recovery_case_status \<Rightarrow> bool"
    by (simp add: enum_ex_recovery_case_status_def all list_ex_iff)
qed

end

subsection \<open>Exceptions\<close>

text \<open>
  The state a suspended write carries (\<open>services/write_suspension_service.py\<close>); the exception
  \<open>WriteSuspended\<close> holds one.
\<close>

record write_suspend_state =
  ws_active :: bool
  ws_reason :: string
  ws_activated_at :: "json"
  ws_activated_by :: "json"
  ws_retry_after_seconds :: int
  ws_source :: string
  ws_run_id :: string
  ws_resumed_at :: "json"
  ws_resumed_by :: "json"
  ws_resume_reason :: "json"

text \<open>The errors of SQLAlchemy that the source names, or that its documentation says a session raises.\<close>

datatype sa_error =
    IntegrityError string
  | OperationalError string
  | DataError string
  | PendingRollbackError
  | InvalidRequestError
  | MultipleResultsFound
  | ObjectDeletedError

datatype exn =
    InvalidStateTransition transaction_status transaction_status string
  | MissingIdempotencyKey
  | InvalidIdempotencyKey string
  | IdempotencyConflict string
  | InvalidIdempotencyState string string
  | InvalidTransactionEvent string
  | AccountNotFound
  | InsufficientBalance
  | OriginalTransactionNotFound
  | TransactionAlreadyCancelled
  | TransactionAlreadySettled
  | RecoveryCaseNotFound
  | InvalidRecoveryCaseTransition string string
  | RecoveryApprovalRequired
  | RecoveryApprovalMissingActor
  | UnsafeAnalyzerResult
  | UnsupportedAnalyzerClassification string
  | QuarantineRecordNotFound
  | TargetQuarantined string string
  | MissingSecurityHeader string
  | UnknownClient
  | DisabledClient
  | InvalidTimestamp
  | ExpiredTimestamp
  | InvalidSignature
  | WriteSuspended write_suspend_state
  | SAError sa_error
  | HTTPException int string
  | KeyError string
  | ValueError string
  | TypeError string
  | AttributeError string
  | OSError
  | RuntimeError string
  | OverflowError string

text \<open>\<open>type(exc).__name__\<close>\<close>

fun exn_name :: "exn \<Rightarrow> string" where
  "exn_name (InvalidStateTransition _ _ _) = ''InvalidStateTransition''"
| "exn_name MissingIdempotencyKey = ''MissingIdempotencyKey''"
| "exn_name (InvalidIdempotencyKey _) = ''InvalidIdempotencyKey''"
| "exn_name (IdempotencyConflict _) = ''IdempotencyConflict''"
| "exn_name (InvalidIdempotencyState _ _) = ''InvalidIdempotencyState''"
| "exn_name (InvalidTransactionEvent _) = ''InvalidTransactionEvent''"
| "exn_name AccountNotFound = ''AccountNotFound''"
| "exn_name InsufficientBalance = ''InsufficientBalance''"
| "exn_name OriginalTransactionNotFound = ''OriginalTransactionNotFound''"
| "exn_name TransactionAlreadyCancelled = ''TransactionAlreadyCancelled''"
| "exn_name TransactionAlreadySettled = ''TransactionAlreadySettled''"
| "exn_name RecoveryCaseNotFound = ''RecoveryCaseNotFound''"
| "exn_name (InvalidRecoveryCaseTransition _ _) = ''InvalidRecoveryCaseTransition''"
| "exn_name RecoveryApprovalRequired = ''RecoveryApprovalRequired''"
| "exn_name RecoveryApprovalMissingActor = ''RecoveryApprovalMissingActor''"
| "exn_name UnsafeAnalyzerResult = ''UnsafeAnalyzerResult''"
| "exn_name (UnsupportedAnalyzerClassification _) = ''UnsupportedAnalyzerClassification''"
| "exn_name QuarantineRecordNotFound = ''QuarantineRecordNotFound''"
| "exn_name (TargetQuarantined _ _) = ''TargetQuarantined''"
| "exn_name (MissingSecurityHeader _) = ''MissingSecurityHeader''"
| "exn_name UnknownClient = ''UnknownClient''"
| "exn_name DisabledClient = ''DisabledClient''"
| "exn_name InvalidTimestamp = ''InvalidTimestamp''"
| "exn_name ExpiredTimestamp = ''ExpiredTimestamp''"
| "exn_name InvalidSignature = ''InvalidSignature''"
| "exn_name (WriteSuspended _) = ''WriteSuspended''"
| "exn_name (SAError e) = (case e of
      IntegrityError _ \<Rightarrow> ''IntegrityError''
    | OperationalError _ \<Rightarrow> ''OperationalError''
    | DataError _ \<Rightarrow> ''DataError''
    | PendingRollbackError \<Rightarrow> ''PendingRollbackError''
    | InvalidRequestError \<Rightarrow> ''InvalidRequestError''
    | MultipleResultsFound \<Rightarrow> ''MultipleResultsFound''
    | ObjectDeletedError \<Rightarrow> ''ObjectDeletedError'')"
| "exn_name (HTTPException _ _) = ''HTTPException''"
| "exn_name (KeyError _) = ''KeyError''"
| "exn_name (ValueError _) = ''ValueError''"
| "exn_name (TypeError _) = ''TypeError''"
| "exn_name (AttributeError _) = ''AttributeError''"
| "exn_name OSError = ''OSError''"
| "exn_name (RuntimeError _) = ''RuntimeError''"
| "exn_name (OverflowError _) = ''OverflowError''"

text \<open>
  \<open>str(exc)\<close>. The texts of the library's own errors come with the error (\<open>IntegrityError\<close> and its kin)
  or are left empty where nothing reads them.
\<close>

fun exn_str :: "exn \<Rightarrow> string" where
  "exn_str (InvalidStateTransition _ _ m) = m"
| "exn_str MissingIdempotencyKey = ''Idempotency-Key header is required''"
| "exn_str (InvalidIdempotencyKey m) = m"
| "exn_str (IdempotencyConflict _) = ''Idempotency-Key was already used with a different request body''"
| "exn_str (InvalidIdempotencyState c a) =
     ''Cannot mark idempotency record from '' @ c @ '' to '' @ a @ ''.''"
| "exn_str (InvalidTransactionEvent m) = m"
| "exn_str AccountNotFound = ''Account not found''"
| "exn_str InsufficientBalance = ''Insufficient account balance''"
| "exn_str OriginalTransactionNotFound = ''Original transaction event not found''"
| "exn_str TransactionAlreadyCancelled = ''Original transaction event is already cancelled''"
| "exn_str TransactionAlreadySettled = ''Settled transaction event cannot be cancelled''"
| "exn_str RecoveryCaseNotFound = ''Recovery case not found''"
| "exn_str (InvalidRecoveryCaseTransition c n) =
     ''Cannot transition recovery case from '' @ c @ '' to '' @ n @ ''.''"
| "exn_str RecoveryApprovalRequired = ''Recovery case requires manual approval before execution''"
| "exn_str RecoveryApprovalMissingActor = ''Recovery approval requires approved_by''"
| "exn_str UnsafeAnalyzerResult = ''Analyzer result contains sensitive data metadata''"
| "exn_str (UnsupportedAnalyzerClassification c) =
     ''Analyzer classification is not supported for PH4 recovery case creation: '' @ c"
| "exn_str QuarantineRecordNotFound = ''Quarantine record not found''"
| "exn_str (TargetQuarantined t _) = t @ '' target is quarantined''"
| "exn_str (MissingSecurityHeader _) = ''Required security header is missing.''"
| "exn_str UnknownClient = ''The client is not allowed.''"
| "exn_str DisabledClient = ''The client is disabled.''"
| "exn_str InvalidTimestamp = ''The request timestamp is invalid.''"
| "exn_str ExpiredTimestamp = ''The request timestamp is expired.''"
| "exn_str InvalidSignature = ''The request signature is invalid.''"
| "exn_str (WriteSuspended s) = ws_reason s"
| "exn_str (SAError e) = (case e of
      IntegrityError m \<Rightarrow> m | OperationalError m \<Rightarrow> m | DataError m \<Rightarrow> m | _ \<Rightarrow> [])"
| "exn_str (HTTPException _ m) = m"
| "exn_str (KeyError m) = [CHR 0x27] @ m @ [CHR 0x27]"
| "exn_str (ValueError m) = m"
| "exn_str (TypeError m) = m"
| "exn_str (AttributeError m) = m"
| "exn_str OSError = []"
| "exn_str (RuntimeError m) = m"
| "exn_str (OverflowError m) = m"

text \<open>\<open>E(s)\<close> on a string that is no member raises \<open>ValueError\<close>.\<close>

definition enum_value_error :: "string \<Rightarrow> string \<Rightarrow> exn" where
  "enum_value_error cls s = ValueError ([CHR 0x27] @ s @ [CHR 0x27] @ '' is not a valid '' @ cls)"

definition enum_or_raise :: "string \<Rightarrow> (string \<Rightarrow> 'a option) \<Rightarrow> string \<Rightarrow> exn + 'a" where
  "enum_or_raise cls parse s = (case parse s of None \<Rightarrow> Inl (enum_value_error cls s) | Some m \<Rightarrow> Inr m)"

subsection \<open>The transaction state machine\<close>

fun allowed_transitions :: "transaction_status \<Rightarrow> transaction_status list" where
  "allowed_transitions RECEIVED = [VALIDATED, FAILED]"
| "allowed_transitions VALIDATED = [PROCESSING, FAILED]"
| "allowed_transitions PROCESSING = [COMPLETED, FAILED]"
| "allowed_transitions COMPLETED = [SETTLED, CANCELLED]"
| "allowed_transitions SETTLED = []"
| "allowed_transitions FAILED = []"
| "allowed_transitions CANCELLED = []"

text \<open>A status argument is a member or a string.\<close>

definition normalize :: "transaction_status + string \<Rightarrow> exn + transaction_status" where
  "normalize x = (case x of Inl st \<Rightarrow> Inr st
     | Inr s \<Rightarrow> enum_or_raise ''TransactionStatus'' TransactionStatus s)"

definition allowed_next_statuses ::
  "transaction_status + string \<Rightarrow> exn + transaction_status list" where
  "allowed_next_statuses x = bindE (normalize x) (\<lambda>st. Inr (allowed_transitions st))"

definition can_transition ::
  "transaction_status + string \<Rightarrow> transaction_status + string \<Rightarrow> exn + bool" where
  "can_transition x y = bindE (normalize x) (\<lambda>current. bindE (normalize y) (\<lambda>nxt.
     Inr (nxt \<in> set (allowed_transitions current))))"

text \<open>
  The message lists the allowed statuses in the order of a \<open>frozenset\<close>, which Python leaves open; the
  model takes the order they are written in.
\<close>

definition transition_message :: "transaction_status \<Rightarrow> transaction_status \<Rightarrow> string" where
  "transition_message current nxt = (let
     allowed = join '', '' (map status_value (allowed_transitions current))
   in ''Cannot transition from '' @ status_value current @ '' to '' @ status_value nxt @ ''. '' @
     ''Allowed next statuses: '' @ (if allowed = [] then ''none'' else allowed) @ ''.'')"

definition validate_transition ::
  "transaction_status + string \<Rightarrow> transaction_status + string \<Rightarrow> exn + unit" where
  "validate_transition x y = bindE (normalize x) (\<lambda>current. bindE (normalize y) (\<lambda>nxt.
     bindE (can_transition (Inl current) (Inl nxt)) (\<lambda>ok.
       if \<not> ok then Inl (InvalidStateTransition current nxt (transition_message current nxt))
       else Inr ())))"

definition can_cancel :: "transaction_status + string \<Rightarrow> exn + bool" where
  "can_cancel x = can_transition x (Inl CANCELLED)"

definition validate_cancel_allowed :: "transaction_status + string \<Rightarrow> exn + unit" where
  "validate_cancel_allowed x = validate_transition x (Inl CANCELLED)"

definition is_terminal_status :: "transaction_status + string \<Rightarrow> exn + bool" where
  "is_terminal_status x = bindE (allowed_next_statuses x) (\<lambda>sts. Inr (length sts = 0))"

lemma normalize_simps [simp]:
  "normalize (Inl st) = Inr st"
  "normalize (Inr (status_value st)) = Inr st"
  by (simp_all add: normalize_def enum_or_raise_def)

lemma validate_transition_members:
  "validate_transition (Inl a) (Inl b) =
     (if b \<in> set (allowed_transitions a) then Inr ()
      else Inl (InvalidStateTransition a b (transition_message a b)))"
  by (simp add: validate_transition_def can_transition_def)

subsection \<open>Ledger amounts\<close>

text \<open>
  An event type argument is a member or a string. Amounts are Python integers wrapped in \<open>Decimal\<close>,
  which is exact on them.
\<close>

definition normalize_event_type :: "event_type + string \<Rightarrow> exn + event_type" where
  "normalize_event_type x = (case x of Inl t \<Rightarrow> Inr t
     | Inr s \<Rightarrow> (case EventType s of Some t \<Rightarrow> Inr t
         | None \<Rightarrow> Inl (InvalidTransactionEvent ''Unsupported transaction event type'')))"

definition calculate_ledger_amount ::
  "event_type + string \<Rightarrow> int \<Rightarrow> (event_type + string) option \<Rightarrow> exn + int" where
  "calculate_ledger_amount event_type amount original_event_type =
    (if amount \<le> 0 then Inl (InvalidTransactionEvent ''Transaction amount must be greater than zero'')
     else bindE (normalize_event_type event_type) (\<lambda>normalized_event_type.
       if normalized_event_type = DEPOSIT then Inr amount
       else if normalized_event_type = WITHDRAW then Inr (- amount)
       else (case original_event_type of
           None \<Rightarrow> Inl (InvalidTransactionEvent ''CANCEL requires original_event_type'')
         | Some ot \<Rightarrow> bindE (normalize_event_type ot) (\<lambda>normalized_original_type.
             if normalized_original_type = DEPOSIT then Inr (- amount)
             else if normalized_original_type = WITHDRAW then Inr amount
             else Inl (InvalidTransactionEvent ''CANCEL supports only DEPOSIT or WITHDRAW originals'')))))"

subsection \<open>Request hashing and decisions\<close>

datatype payload = PBytes bytes | PStr string | PJson json

fun canonicalize_payload :: "payload \<Rightarrow> bytes" where
  "canonicalize_payload (PBytes b) = b"
| "canonicalize_payload (PStr s) = utf8 s"
| "canonicalize_payload (PJson j) = utf8 (dumps j)"

definition generate_request_hash :: "payload \<Rightarrow> string" where
  "generate_request_hash p = sha256_hex (canonicalize_payload p)"

record idempotency_check_result =
  chk_decision :: idempotency_decision
  chk_record_id :: "int option"
  chk_response_code :: "int option"
  chk_response_body :: "json option"

record transaction_processing_result =
  res_status_code :: int
  res_body :: "(string \<times> json) list"
  res_processed :: bool
  res_duplicated :: bool

subsection \<open>Recovery cases\<close>

fun allowed_recovery_transitions :: "recovery_case_status \<Rightarrow> recovery_case_status list" where
  "allowed_recovery_transitions RC_OPEN =
     [RC_AUTO_ANALYZED, RC_WAITING_APPROVAL, RC_REJECTED, RC_CLOSED]"
| "allowed_recovery_transitions RC_AUTO_ANALYZED =
     [RC_WAITING_APPROVAL, RC_APPROVED, RC_REJECTED, RC_CLOSED]"
| "allowed_recovery_transitions RC_WAITING_APPROVAL = [RC_APPROVED, RC_REJECTED, RC_CLOSED]"
| "allowed_recovery_transitions RC_APPROVED = [RC_EXECUTING, RC_REJECTED, RC_CLOSED]"
| "allowed_recovery_transitions RC_EXECUTING = [RC_EXECUTED, RC_EXECUTION_FAILED]"
| "allowed_recovery_transitions RC_EXECUTION_FAILED = [RC_WAITING_APPROVAL, RC_REJECTED, RC_CLOSED]"
| "allowed_recovery_transitions RC_EXECUTED = [RC_CLOSED]"
| "allowed_recovery_transitions RC_REJECTED = [RC_CLOSED]"
| "allowed_recovery_transitions RC_CLOSED = []"

definition case_type_from_classification :: "string \<Rightarrow> exn + recovery_case_type" where
  "case_type_from_classification classification =
     (case parse_enum case_type_value recovery_case_types classification of
        None \<Rightarrow> Inl (UnsupportedAnalyzerClassification classification)
      | Some t \<Rightarrow> Inr t)"

definition proposed_action_for_case_type :: "recovery_case_type \<Rightarrow> recovery_proposed_action" where
  "proposed_action_for_case_type t =
     (if t = CONSISTENCY_ISSUE_CANDIDATE then KEEP_QUARANTINED else NOOP_REVIEW_ONLY)"

text \<open>The values of the members stay folded in proofs; comparing them is comparing members.\<close>

declare event_type_value.simps [simp del] status_value.simps [simp del]
  idempotency_status_value.simps [simp del] decision_value.simps [simp del]
  recovery_status_value.simps [simp del] case_type_value.simps [simp del]
  action_value.simps [simp del] target_type_value.simps [simp del]

lemmas enum_values = event_type_value.simps status_value.simps idempotency_status_value.simps
  decision_value.simps recovery_status_value.simps case_type_value.simps action_value.simps
  target_type_value.simps

end
