(* ===== verification/Schemas.thy ===== *)
theory Schemas
  imports Domain
begin

text \<open>
  Timestamps and the request schema (\<open>backend/app/schemas/transaction_event.py\<close>). A \<open>datetime\<close> is its
  wall-clock reading in microseconds and its UTC offset, absent for a naive one; \<open>timestamp()\<close> is the
  exact instant (Python's float of it tells microseconds apart for every date before 2242). Pydantic
  renders a \<open>datetime\<close> in \<open>model_dump(mode="json")\<close>; that text is the parameter \<open>isofmt\<close>.
\<close>

type_synonym instant = int  \<comment> \<open>microseconds since the epoch, UTC\<close>

record py_datetime =
  dt_wall :: int
  dt_offset :: "int option"

definition timestamp_of :: "py_datetime \<Rightarrow> instant" where
  "timestamp_of d = dt_wall d - (case dt_offset d of None \<Rightarrow> 0 | Some off \<Rightarrow> off)"

definition utc :: "instant \<Rightarrow> py_datetime" where
  "utc t = \<lparr>dt_wall = t, dt_offset = Some 0\<rparr>"

record create_request =
  rq_external_event_id :: string
  rq_account_no :: string
  rq_event_type :: event_type
  rq_amount :: int
  rq_currency :: string
  rq_occurred_at :: py_datetime
  rq_original_external_event_id :: "string option"

text \<open>Field constraints, \<open>occurred_at_must_be_timezone_aware\<close>, \<open>validate_cancel_reference\<close>.\<close>

definition valid_fields :: "create_request \<Rightarrow> bool" where
  "valid_fields r \<longleftrightarrow>
     1 \<le> length (rq_external_event_id r) \<and> length (rq_external_event_id r) \<le> 128 \<and>
     1 \<le> length (rq_account_no r) \<and> length (rq_account_no r) \<le> 64 \<and>
     0 < rq_amount r \<and>
     1 \<le> length (rq_currency r) \<and> length (rq_currency r) \<le> 10 \<and>
     (case rq_original_external_event_id r of None \<Rightarrow> True | Some s \<Rightarrow> length s \<le> 128)"

definition occurred_at_must_be_timezone_aware :: "py_datetime \<Rightarrow> exn + py_datetime" where
  "occurred_at_must_be_timezone_aware d =
     (if dt_offset d = None then Inl (ValueError ''occurred_at must be timezone-aware'') else Inr d)"

definition validate_cancel_reference :: "create_request \<Rightarrow> exn + create_request" where
  "validate_cancel_reference r = (let
     given = (case rq_original_external_event_id r of None \<Rightarrow> False | Some s \<Rightarrow> s \<noteq> [])
   in if rq_event_type r = CANCEL \<and> \<not> given
      then Inl (ValueError ''CANCEL requires original_external_event_id'')
      else if rq_event_type r \<noteq> CANCEL \<and> given
      then Inl (ValueError ''original_external_event_id is allowed only for CANCEL events'')
      else Inr r)"

definition valid_request :: "create_request \<Rightarrow> bool" where
  "valid_request r \<longleftrightarrow> valid_fields r \<and>
     occurred_at_must_be_timezone_aware (rq_occurred_at r) = Inr (rq_occurred_at r) \<and>
     validate_cancel_reference r = Inr r"

definition opt_str :: "string option \<Rightarrow> json" where
  "opt_str x = (case x of None \<Rightarrow> JNull | Some s \<Rightarrow> JStr s)"

definition model_dump :: "(py_datetime \<Rightarrow> string) \<Rightarrow> create_request \<Rightarrow> json" where
  "model_dump isofmt r = JObj
     [(''external_event_id'', JStr (rq_external_event_id r)),
      (''account_no'', JStr (rq_account_no r)),
      (''event_type'', JStr (event_type_value (rq_event_type r))),
      (''amount'', JInt (rq_amount r)),
      (''currency'', JStr (rq_currency r)),
      (''occurred_at'', JStr (isofmt (rq_occurred_at r))),
      (''original_external_event_id'', opt_str (rq_original_external_event_id r))]"

definition schema_mask_account_no :: "string \<Rightarrow> string" where
  "schema_mask_account_no a = (if length a \<le> 4 then replicate (length a) (CHR ''*'')
     else replicate (length a - 4) (CHR ''*'') @ drop (length a - 4) a)"

subsection \<open>The hashed text determines the payload\<close>

text \<open>The seven keys in sorted order, each value ending at the comma or brace that follows it.\<close>

lemma sorted_payload_keys:
  "sort_key fst
    [(''external_event_id'', a), (''account_no'', b), (''event_type'', c), (''amount'', d),
     (''currency'', e), (''occurred_at'', f), (''original_external_event_id'', g :: string)] =
    [(''account_no'', b), (''amount'', d), (''currency'', e), (''event_type'', c),
     (''external_event_id'', a), (''occurred_at'', f), (''original_external_event_id'', g)]"
  by (simp add: less_char_def)

lemma canonical_request_text:
  "canonicalize_payload (PJson (model_dump isofmt r)) = utf8
    (''{'' @ dumps_str ''account_no'' @ '':'' @ dumps_str (rq_account_no r) @ '','' @
     dumps_str ''amount'' @ '':'' @ int_str (rq_amount r) @ '','' @
     dumps_str ''currency'' @ '':'' @ dumps_str (rq_currency r) @ '','' @
     dumps_str ''event_type'' @ '':'' @ dumps_str (event_type_value (rq_event_type r)) @ '','' @
     dumps_str ''external_event_id'' @ '':'' @ dumps_str (rq_external_event_id r) @ '','' @
     dumps_str ''occurred_at'' @ '':'' @ dumps_str (isofmt (rq_occurred_at r)) @ '','' @
     dumps_str ''original_external_event_id'' @ '':'' @
       dumps (opt_str (rq_original_external_event_id r)) @ ''}'')"
  by (simp only: model_dump_def canonicalize_payload.simps dumps.simps list.map prod.case
      sorted_payload_keys join.simps append_assoc)

lemma opt_str_inject [simp]: "opt_str x = opt_str y \<longleftrightarrow> x = y"
  by (auto simp: opt_str_def split: option.splits)

lemma str_field: "dumps_str s @ x = dumps_str t @ y \<longleftrightarrow> s = t \<and> x = y"
  using dumps_str_prefix_free by blast

lemma int_field:
  "int_str i @ CHR '','' # x = int_str j @ CHR '','' # y \<longleftrightarrow> i = j \<and> x = y"
  using scalar_prefix_free [of "JInt i" "JInt j" "CHR '',''" "CHR '',''" x y]
  by (auto simp: is_delim_def)

lemma opt_field: "dumps (opt_str x) = dumps (opt_str y) \<longleftrightarrow> x = y"
  using scalar_prefix_free [of "opt_str x" "opt_str y" "CHR '',''" "CHR '',''" "[]" "[]"]
  by (auto simp: is_delim_def opt_str_def split: option.splits)

lemma model_dump_canonical_inject:
  assumes "canonicalize_payload (PJson (model_dump isofmt r)) =
    canonicalize_payload (PJson (model_dump isofmt q))"
  shows "model_dump isofmt r = model_dump isofmt q"
  using assms unfolding canonical_request_text model_dump_def
  by (simp add: str_field int_field opt_field)

end
