(* ===== verification/Tables.thy ===== *)
theory Tables
  imports Schemas
begin

text \<open>
  The tables of the database (\<open>backend/app/models\<close>, \<open>backend/migrations/versions\<close>): one record per ORM
  model, one list of rows per table, and the constraints the migrations declare - primary keys,
  unique constraints and unique indexes, foreign keys, column lengths and the range of
  \<open>BigInteger\<close> - as an executable check that names the first violated one. Instants are kept
  in microseconds; \<open>occurred_at\<close>, whose offset the code inspects, as a \<open>datetime\<close>.
\<close>

record account =
  acc_id :: int
  acc_account_no :: string
  acc_balance :: int
  acc_status :: string
  acc_created_at :: instant
  acc_updated_at :: instant

record transaction_event =
  te_id :: int
  te_external_event_id :: string
  te_idempotency_key :: string
  te_account_id :: int
  te_event_type :: string
  te_amount :: int
  te_currency :: string
  te_status :: string
  te_occurred_at :: py_datetime
  te_created_at :: instant
  te_updated_at :: instant

record ledger_entry =
  le_id :: int
  le_transaction_event_id :: int
  le_account_id :: int
  le_entry_type :: string
  le_amount :: int
  le_balance_after :: int
  le_created_at :: instant

record idempotency_record =
  idem_id :: int
  idem_idempotency_key :: string
  idem_request_hash :: string
  idem_status :: string
  idem_response_code :: "int option"
  idem_response_body :: "json option"
  idem_error_message :: "string option"
  idem_created_at :: instant
  idem_updated_at :: instant
  idem_completed_at :: "instant option"
  idem_locked_until :: "instant option"
  idem_expires_at :: "instant option"

record event_state_history =
  esh_id :: int
  esh_transaction_event_id :: int
  esh_old_status :: "string option"
  esh_new_status :: string
  esh_reason :: "string option"
  esh_created_at :: instant

record recovery_case =
  rc_id :: int
  rc_case_id :: string
  rc_source_key :: string
  rc_case_type :: string
  rc_severity :: string
  rc_current_status :: string
  rc_classification :: string
  rc_confidence_candidate :: "json option"
  rc_account_id :: "int option"
  rc_transaction_event_id :: "int option"
  rc_external_event_id :: "string option"
  rc_idempotency_key_hash :: "string option"
  rc_client_id :: "string option"
  rc_detected_by :: string
  rc_detected_at :: instant
  rc_source_incident_id :: "string option"
  rc_source_artifact_path :: "string option"
  rc_source_analyzer_result_path :: "string option"
  rc_proposed_action :: string
  rc_approval_required :: bool
  rc_approved_by :: "string option"
  rc_approved_at :: "instant option"
  rc_approval_reason :: "string option"
  rc_executing_at :: "instant option"
  rc_executed_at :: "instant option"
  rc_execution_failed_at :: "instant option"
  rc_execution_failure_type :: "string option"
  rc_action_attempt_id :: "string option"
  rc_evidence_path :: "string option"
  rc_before_snapshot_hash :: "string option"
  rc_after_snapshot_hash :: "string option"
  rc_created_at :: instant
  rc_updated_at :: instant

record quarantine_record =
  qr_id :: int
  qr_quarantine_id :: string
  qr_target_type :: string
  qr_target_id :: string
  qr_reason :: string
  qr_source_recovery_case_id :: "int option"
  qr_source_incident_id :: "string option"
  qr_active :: bool
  qr_activated_at :: instant
  qr_activated_by :: string
  qr_released_at :: "instant option"
  qr_released_by :: "string option"
  qr_release_reason :: "string option"
  qr_created_at :: instant
  qr_updated_at :: instant

record tables =
  t_accounts :: "account list"
  t_events :: "transaction_event list"
  t_ledger :: "ledger_entry list"
  t_idem :: "idempotency_record list"
  t_hist :: "event_state_history list"
  t_cases :: "recovery_case list"
  t_quar :: "quarantine_record list"

definition empty_tables :: tables where
  "empty_tables = \<lparr>t_accounts = [], t_events = [], t_ledger = [], t_idem = [], t_hist = [],
     t_cases = [], t_quar = []\<rparr>"

subsection \<open>Column types\<close>

definition int64 :: "int \<Rightarrow> bool" where
  "int64 i \<longleftrightarrow> - 9223372036854775808 \<le> i \<and> i < 9223372036854775808"

definition int32 :: "int \<Rightarrow> bool" where
  "int32 i \<longleftrightarrow> - 2147483648 \<le> i \<and> i < 2147483648"

definition opt_all :: "('a \<Rightarrow> bool) \<Rightarrow> 'a option \<Rightarrow> bool" where
  "opt_all p x = (case x of None \<Rightarrow> True | Some y \<Rightarrow> p y)"

definition fits :: "nat \<Rightarrow> string \<Rightarrow> bool" where
  "fits n s \<longleftrightarrow> length s \<le> n"

definition account_fits :: "account \<Rightarrow> bool" where
  "account_fits a \<longleftrightarrow> int64 (acc_id a) \<and> fits 64 (acc_account_no a) \<and> int64 (acc_balance a) \<and>
     fits 20 (acc_status a)"

definition event_fits :: "transaction_event \<Rightarrow> bool" where
  "event_fits e \<longleftrightarrow> int64 (te_id e) \<and> fits 128 (te_external_event_id e) \<and>
     fits 128 (te_idempotency_key e) \<and> int64 (te_account_id e) \<and> fits 20 (te_event_type e) \<and>
     int64 (te_amount e) \<and> fits 10 (te_currency e) \<and> fits 30 (te_status e)"

definition ledger_fits :: "ledger_entry \<Rightarrow> bool" where
  "ledger_fits l \<longleftrightarrow> int64 (le_id l) \<and> int64 (le_transaction_event_id l) \<and> int64 (le_account_id l) \<and>
     fits 20 (le_entry_type l) \<and> int64 (le_amount l) \<and> int64 (le_balance_after l)"

definition idem_fits :: "idempotency_record \<Rightarrow> bool" where
  "idem_fits r \<longleftrightarrow> int64 (idem_id r) \<and> fits 128 (idem_idempotency_key r) \<and>
     fits 64 (idem_request_hash r) \<and> fits 30 (idem_status r) \<and> opt_all int32 (idem_response_code r)"

definition hist_fits :: "event_state_history \<Rightarrow> bool" where
  "hist_fits h \<longleftrightarrow> int64 (esh_id h) \<and> int64 (esh_transaction_event_id h) \<and>
     opt_all (fits 30) (esh_old_status h) \<and> fits 30 (esh_new_status h) \<and>
     opt_all (fits 255) (esh_reason h)"

definition case_fits :: "recovery_case \<Rightarrow> bool" where
  "case_fits c \<longleftrightarrow> int64 (rc_id c) \<and> fits 64 (rc_case_id c) \<and> fits 255 (rc_source_key c) \<and>
     fits 64 (rc_case_type c) \<and> fits 20 (rc_severity c) \<and> fits 40 (rc_current_status c) \<and>
     fits 80 (rc_classification c) \<and> opt_all int64 (rc_account_id c) \<and>
     opt_all int64 (rc_transaction_event_id c) \<and> opt_all (fits 128) (rc_external_event_id c) \<and>
     opt_all (fits 64) (rc_idempotency_key_hash c) \<and> opt_all (fits 64) (rc_client_id c) \<and>
     fits 80 (rc_detected_by c) \<and> opt_all (fits 128) (rc_source_incident_id c) \<and>
     fits 64 (rc_proposed_action c) \<and> opt_all (fits 128) (rc_approved_by c) \<and>
     opt_all (fits 80) (rc_execution_failure_type c) \<and> opt_all (fits 80) (rc_action_attempt_id c) \<and>
     opt_all (fits 64) (rc_before_snapshot_hash c) \<and> opt_all (fits 64) (rc_after_snapshot_hash c)"

definition quar_fits :: "quarantine_record \<Rightarrow> bool" where
  "quar_fits q \<longleftrightarrow> int64 (qr_id q) \<and> fits 64 (qr_quarantine_id q) \<and> fits 40 (qr_target_type q) \<and>
     fits 128 (qr_target_id q) \<and> opt_all int64 (qr_source_recovery_case_id q) \<and>
     opt_all (fits 128) (qr_source_incident_id q) \<and> fits 128 (qr_activated_by q) \<and>
     opt_all (fits 128) (qr_released_by q)"

subsection \<open>Constraints\<close>

definition rows_fit :: "tables \<Rightarrow> bool" where
  "rows_fit db \<longleftrightarrow> list_all account_fits (t_accounts db) \<and> list_all event_fits (t_events db) \<and>
     list_all ledger_fits (t_ledger db) \<and> list_all idem_fits (t_idem db) \<and>
     list_all hist_fits (t_hist db) \<and> list_all case_fits (t_cases db) \<and>
     list_all quar_fits (t_quar db)"

definition active_targets :: "tables \<Rightarrow> (string \<times> string) list" where
  "active_targets db =
     map (\<lambda>q. (qr_target_type q, qr_target_id q)) (filter qr_active (t_quar db))"

text \<open>The unique constraints, unique indexes and primary keys, by the names the migrations give them.\<close>

definition unique_checks :: "tables \<Rightarrow> (string \<times> bool) list" where
  "unique_checks db =
    [(''pk_accounts'', distinct (map acc_id (t_accounts db))),
     (''uq_accounts_account_no'', distinct (map acc_account_no (t_accounts db))),
     (''pk_transaction_events'', distinct (map te_id (t_events db))),
     (''uq_transaction_events_external_event_id'',
        distinct (map te_external_event_id (t_events db))),
     (''pk_ledger_entries'', distinct (map le_id (t_ledger db))),
     (''uq_ledger_entries_transaction_event_id'',
        distinct (map le_transaction_event_id (t_ledger db))),
     (''pk_idempotency_records'', distinct (map idem_id (t_idem db))),
     (''uq_idempotency_records_key'', distinct (map idem_idempotency_key (t_idem db))),
     (''pk_event_state_histories'', distinct (map esh_id (t_hist db))),
     (''pk_recovery_cases'', distinct (map rc_id (t_cases db))),
     (''uq_recovery_cases_case_id'', distinct (map rc_case_id (t_cases db))),
     (''uq_recovery_cases_source_key'', distinct (map rc_source_key (t_cases db))),
     (''pk_quarantine_records'', distinct (map qr_id (t_quar db))),
     (''ix_quarantine_records_quarantine_id'', distinct (map qr_quarantine_id (t_quar db))),
     (''uq_quarantine_records_active_target'', distinct (active_targets db))]"

definition fk_checks :: "tables \<Rightarrow> (string \<times> bool) list" where
  "fk_checks db = (let
     accounts = acc_id ` set (t_accounts db);
     events = te_id ` set (t_events db);
     cases = rc_id ` set (t_cases db)
   in [(''fk_transaction_events_account_id_accounts'',
          list_all (\<lambda>e. te_account_id e \<in> accounts) (t_events db)),
       (''fk_ledger_entries_transaction_event_id_transaction_events'',
          list_all (\<lambda>l. le_transaction_event_id l \<in> events) (t_ledger db)),
       (''fk_ledger_entries_account_id_accounts'',
          list_all (\<lambda>l. le_account_id l \<in> accounts) (t_ledger db)),
       (''fk_event_state_histories_transaction_event_id_transaction_events'',
          list_all (\<lambda>h. esh_transaction_event_id h \<in> events) (t_hist db)),
       (''fk_recovery_cases_account_id_accounts'',
          list_all (\<lambda>c. opt_all (\<lambda>i. i \<in> accounts) (rc_account_id c)) (t_cases db)),
       (''fk_recovery_cases_transaction_event_id_transaction_events'',
          list_all (\<lambda>c. opt_all (\<lambda>i. i \<in> events) (rc_transaction_event_id c)) (t_cases db)),
       (''fk_quarantine_records_source_recovery_case_id_recovery_cases'',
          list_all (\<lambda>q. opt_all (\<lambda>i. i \<in> cases) (qr_source_recovery_case_id q)) (t_quar db))])"

definition constraint_error :: "tables \<Rightarrow> sa_error option" where
  "constraint_error db =
    (if \<not> rows_fit db then Some (DataError ''value out of range'')
     else (case List.find (\<lambda>c. \<not> snd c) (unique_checks db @ fk_checks db) of
         Some c \<Rightarrow> Some (IntegrityError (fst c))
       | None \<Rightarrow> None))"

definition db_ok :: "tables \<Rightarrow> bool" where
  "db_ok db \<longleftrightarrow> constraint_error db = None"

lemma db_ok_checks: "db_ok db \<longleftrightarrow> rows_fit db \<and> (\<forall>c\<in>set (unique_checks db @ fk_checks db). snd c)"
proof -
  have "List.find (\<lambda>c. \<not> snd c) cs = None \<longleftrightarrow> (\<forall>c\<in>set cs. snd c)" for cs :: "(string \<times> bool) list"
    by (induction cs) auto
  note none = this [of "unique_checks db @ fk_checks db"]
  show ?thesis
    by (cases "List.find (\<lambda>c. \<not> snd c) (unique_checks db @ fk_checks db)")
      (use none in \<open>simp_all add: db_ok_def constraint_error_def\<close>)
qed

lemma db_ok_unique:
  assumes "db_ok db"
  shows "distinct (map acc_id (t_accounts db))" "distinct (map acc_account_no (t_accounts db))"
    "distinct (map te_id (t_events db))" "distinct (map te_external_event_id (t_events db))"
    "distinct (map le_id (t_ledger db))" "distinct (map le_transaction_event_id (t_ledger db))"
    "distinct (map idem_id (t_idem db))" "distinct (map idem_idempotency_key (t_idem db))"
    "distinct (map esh_id (t_hist db))" "distinct (map rc_id (t_cases db))"
    "distinct (map rc_case_id (t_cases db))" "distinct (map rc_source_key (t_cases db))"
    "distinct (map qr_id (t_quar db))" "distinct (map qr_quarantine_id (t_quar db))"
    "distinct (active_targets db)"
  using assms by (simp_all add: db_ok_checks unique_checks_def)

lemma db_ok_fk:
  assumes "db_ok db"
  shows "e \<in> set (t_events db) \<Longrightarrow> te_account_id e \<in> acc_id ` set (t_accounts db)"
    "l \<in> set (t_ledger db) \<Longrightarrow> le_transaction_event_id l \<in> te_id ` set (t_events db)"
    "l \<in> set (t_ledger db) \<Longrightarrow> le_account_id l \<in> acc_id ` set (t_accounts db)"
    "h \<in> set (t_hist db) \<Longrightarrow> esh_transaction_event_id h \<in> te_id ` set (t_events db)"
  using assms by (simp_all add: db_ok_checks fk_checks_def list_all_iff Let_def)

subsection \<open>Row operations\<close>

text \<open>
  Looking a row up by its primary key, the update one assignment makes, and the insert of a new row.
  A sequence hands out ascending keys; \<open>gap\<close> is how many of them other transactions used up.
\<close>

definition event_by_id :: "tables \<Rightarrow> int \<Rightarrow> transaction_event option" where
  "event_by_id db i = List.find (\<lambda>e. te_id e = i) (t_events db)"

definition account_by_id :: "tables \<Rightarrow> int \<Rightarrow> account option" where
  "account_by_id db i = List.find (\<lambda>a. acc_id a = i) (t_accounts db)"

definition ledger_by_id :: "tables \<Rightarrow> int \<Rightarrow> ledger_entry option" where
  "ledger_by_id db i = List.find (\<lambda>l. le_id l = i) (t_ledger db)"

definition idem_by_id :: "tables \<Rightarrow> int \<Rightarrow> idempotency_record option" where
  "idem_by_id db i = List.find (\<lambda>r. idem_id r = i) (t_idem db)"

definition case_by_id :: "tables \<Rightarrow> int \<Rightarrow> recovery_case option" where
  "case_by_id db i = List.find (\<lambda>c. rc_id c = i) (t_cases db)"

definition quar_by_id :: "tables \<Rightarrow> int \<Rightarrow> quarantine_record option" where
  "quar_by_id db i = List.find (\<lambda>q. qr_id q = i) (t_quar db)"

definition next_id :: "nat \<Rightarrow> int list \<Rightarrow> int" where
  "next_id gap ids = foldr max ids 0 + 1 + int gap"

definition upd_event :: "int \<Rightarrow> (transaction_event \<Rightarrow> transaction_event) \<Rightarrow> tables \<Rightarrow> tables" where
  "upd_event i f db = db\<lparr>t_events := update_rows (\<lambda>e. te_id e = i) f (t_events db)\<rparr>"

definition upd_account :: "int \<Rightarrow> (account \<Rightarrow> account) \<Rightarrow> tables \<Rightarrow> tables" where
  "upd_account i f db = db\<lparr>t_accounts := update_rows (\<lambda>a. acc_id a = i) f (t_accounts db)\<rparr>"

definition upd_idem :: "int \<Rightarrow> (idempotency_record \<Rightarrow> idempotency_record) \<Rightarrow> tables \<Rightarrow> tables" where
  "upd_idem i f db = db\<lparr>t_idem := update_rows (\<lambda>r. idem_id r = i) f (t_idem db)\<rparr>"

definition upd_case :: "int \<Rightarrow> (recovery_case \<Rightarrow> recovery_case) \<Rightarrow> tables \<Rightarrow> tables" where
  "upd_case i f db = db\<lparr>t_cases := update_rows (\<lambda>c. rc_id c = i) f (t_cases db)\<rparr>"

definition upd_quar :: "int \<Rightarrow> (quarantine_record \<Rightarrow> quarantine_record) \<Rightarrow> tables \<Rightarrow> tables" where
  "upd_quar i f db = db\<lparr>t_quar := update_rows (\<lambda>q. qr_id q = i) f (t_quar db)\<rparr>"

lemma next_id_fresh: "next_id gap ids \<notin> set ids"
proof -
  have "i \<in> set ids \<Longrightarrow> i \<le> foldr max ids 0" for i
    by (induction ids) (auto simp: max_def)
  then show ?thesis by (force simp: next_id_def)
qed

lemma next_id_greater: "i \<in> set ids \<Longrightarrow> i < next_id gap ids"
proof -
  have "i \<in> set ids \<Longrightarrow> i \<le> foldr max ids 0"
    by (induction ids) (auto simp: max_def)
  then show "i \<in> set ids \<Longrightarrow> i < next_id gap ids" by (simp add: next_id_def)
qed

lemma event_by_id_Some: "event_by_id db i = Some e \<Longrightarrow> e \<in> set (t_events db) \<and> te_id e = i"
  by (auto simp: event_by_id_def find_Some_iff)

lemma account_by_id_Some: "account_by_id db i = Some a \<Longrightarrow> a \<in> set (t_accounts db) \<and> acc_id a = i"
  by (auto simp: account_by_id_def find_Some_iff)

lemma idem_by_id_Some: "idem_by_id db i = Some r \<Longrightarrow> r \<in> set (t_idem db) \<and> idem_id r = i"
  by (auto simp: idem_by_id_def find_Some_iff)

lemma case_by_id_Some: "case_by_id db i = Some r \<Longrightarrow> r \<in> set (t_cases db) \<and> rc_id r = i"
  by (auto simp: case_by_id_def find_Some_iff)

lemma quar_by_id_Some: "quar_by_id db i = Some r \<Longrightarrow> r \<in> set (t_quar db) \<and> qr_id r = i"
  by (auto simp: quar_by_id_def find_Some_iff)

lemma find_key_distinct:
  "distinct (map k rs) \<Longrightarrow> r \<in> set rs \<Longrightarrow> List.find (\<lambda>x. k x = k r) rs = Some r"
  by (simp add: find_filter filter_key_distinct)

lemma find_update_same:
  "(\<And>r. k (f r) = k r) \<Longrightarrow>
     List.find (\<lambda>x. k x = v) (update_rows (\<lambda>x. k x = i) f rs) =
       (if v = i then map_option f (List.find (\<lambda>x. k x = v) rs) else List.find (\<lambda>x. k x = v) rs)"
  by (induction rs) (auto simp: update_rows_simps)

lemma find_append: "List.find p (xs @ ys) = (case List.find p xs of None \<Rightarrow> List.find p ys | Some x \<Rightarrow> Some x)"
  by (induction xs) auto

end
