(* ===== verification/Metrics.thy ===== *)
theory Metrics
  imports Domain
begin

text \<open>
  The Prometheus recording helpers (\<open>backend/app/observability/metrics.py\<close>). The registry maps a metric
  name with its label values to a number: a counter's total, a gauge's value, a histogram's number of
  observations (the observed durations themselves are readings of the clock and are not kept). Every
  helper is wrapped by \<open>safe_metric\<close>, so none raises; here each is a total function of the registry.
\<close>

type_synonym metric = "string \<times> string list"
type_synonym metrics = "metric \<Rightarrow> int"

definition inc :: "string \<Rightarrow> string list \<Rightarrow> metrics \<Rightarrow> metrics" where
  "inc name labels m = m((name, labels) := m (name, labels) + 1)"

definition gauge_set :: "string \<Rightarrow> string list \<Rightarrow> int \<Rightarrow> metrics \<Rightarrow> metrics" where
  "gauge_set name labels v m = m((name, labels) := v)"

definition EVENT_TYPES :: "string list" where
  "EVENT_TYPES = [''DEPOSIT'', ''WITHDRAW'', ''CANCEL'', ''unknown'']"

definition TRANSACTION_STATUSES :: "string list" where
  "TRANSACTION_STATUSES = [''RECEIVED'', ''VALIDATED'', ''PROCESSING'', ''COMPLETED'', ''FAILED'',
     ''CANCELLED'', ''SETTLED'', ''unknown'']"

definition TRANSACTION_RESULTS :: "string list" where
  "TRANSACTION_RESULTS = [''processed'', ''duplicated'', ''failed'', ''unknown'']"

definition IDEMPOTENCY_DECISIONS :: "string list" where
  "IDEMPOTENCY_DECISIONS =
     [''STARTED'', ''ALREADY_PROCESSING'', ''REPLAY_COMPLETED'', ''REPLAY_FAILED'', ''unknown'']"

definition IDEMPOTENCY_SOURCES :: "string list" where
  "IDEMPOTENCY_SOURCES = [''db'', ''cache'', ''unknown'']"

definition REDIS_RESULTS :: "string list" where
  "REDIS_RESULTS = [''success'', ''failure'', ''unavailable'', ''rejected'', ''unknown'']"

definition REDIS_OPERATIONS :: "string list" where
  "REDIS_OPERATIONS =
     [''lock_acquire'', ''lock_release'', ''cache_get'', ''cache_set'', ''cache_delete'', ''unknown'']"

definition DEPENDENCIES :: "string list" where
  "DEPENDENCIES = [''redis'', ''postgres'', ''unknown'']"

definition DEPENDENCY_RESULTS :: "string list" where
  "DEPENDENCY_RESULTS = [''success'', ''failure'', ''fallback'', ''rejected'', ''unknown'']"

definition FAILURE_REASONS :: "string list" where
  "FAILURE_REASONS = [''timeout'', ''connection_error'', ''integrity_conflict'', ''lock_not_acquired'',
     ''unavailable'', ''unknown'']"

definition HMAC_FAILURE_REASONS :: "string list" where
  "HMAC_FAILURE_REASONS = [''missing_header'', ''unknown_client'', ''disabled_client'',
     ''invalid_timestamp'', ''expired_timestamp'', ''invalid_signature'', ''unknown'']"

definition ENDPOINTS :: "string list" where
  "ENDPOINTS = [''transaction_events'', ''unknown'']"

definition STATE_RESULTS :: "string list" where
  "STATE_RESULTS = [''allowed'', ''rejected'', ''unknown'']"

definition WRITE_SUSPEND_REASONS :: "string list" where
  "WRITE_SUSPEND_REASONS = [''postgres_unavailable'', ''manual'', ''none'', ''unknown'']"

definition ROUTE_GROUPS :: "string list" where
  "ROUTE_GROUPS = [''transaction_events'', ''unknown'']"

definition status_class :: "int \<Rightarrow> string" where
  "status_class c =
    (if 200 \<le> c \<and> c < 300 then ''2xx'' else if 300 \<le> c \<and> c < 400 then ''3xx''
     else if 400 \<le> c \<and> c < 500 then ''4xx'' else if 500 \<le> c \<and> c < 600 then ''5xx''
     else ''unknown'')"

definition normalize_label :: "string \<Rightarrow> string list \<Rightarrow> string" where
  "normalize_label v allowed = (if v \<in> set allowed then v else ''unknown'')"

definition record_http_request :: "string \<Rightarrow> string \<Rightarrow> int \<Rightarrow> metrics \<Rightarrow> metrics" where
  "record_http_request meth route code m = (let
     status = status_class code;
     m1 = inc ''financial_http_requests_total'' [meth, route, status] m;
     m2 = inc ''financial_http_request_duration_seconds'' [meth, route] m1
   in if status \<in> {''4xx'', ''5xx''} then inc ''financial_http_errors_total'' [meth, route, status] m2
      else m2)"

definition record_transaction_processed ::
  "string \<Rightarrow> string \<Rightarrow> string \<Rightarrow> metrics \<Rightarrow> metrics" where
  "record_transaction_processed event_type status result m = (let
     et = normalize_label event_type EVENT_TYPES;
     st = normalize_label status TRANSACTION_STATUSES;
     res = normalize_label result TRANSACTION_RESULTS;
     m1 = inc ''financial_transaction_events_total'' [et, st, res] m
   in if res = ''processed'' then inc ''financial_transaction_event_processed_total'' [et, st] m1
      else if res = ''duplicated'' then inc ''financial_transaction_event_conflict_total'' [et, st] m1
      else if res = ''failed'' then inc ''financial_transaction_failures_total'' [et, st]
        (inc ''financial_transaction_event_failed_total'' [et, st] m1)
      else m1)"

definition record_duplicate_external_event :: "string \<Rightarrow> metrics \<Rightarrow> metrics" where
  "record_duplicate_external_event et =
     inc ''financial_duplicate_external_event_total'' [normalize_label et EVENT_TYPES]"

definition observe_transaction_duration :: "string \<Rightarrow> metrics \<Rightarrow> metrics" where
  "observe_transaction_duration et =
     inc ''financial_transaction_processing_duration_seconds'' [normalize_label et EVENT_TYPES]"

definition record_idempotency_decision :: "idempotency_decision \<Rightarrow> string \<Rightarrow> metrics \<Rightarrow> metrics" where
  "record_idempotency_decision d source m = (let
     dec = normalize_label (decision_value d) IDEMPOTENCY_DECISIONS;
     src = normalize_label source IDEMPOTENCY_SOURCES;
     m1 = inc ''financial_idempotency_decisions_total'' [dec, src] m;
     m2 = (if dec = ''ALREADY_PROCESSING'' then inc ''financial_idempotency_processing_total'' [src] m1
           else m1)
   in if dec \<in> {''ALREADY_PROCESSING'', ''REPLAY_COMPLETED''}
      then inc ''financial_idempotency_duplicate_total'' [src, dec] m2 else m2)"

definition record_idempotency_conflict :: "string \<Rightarrow> metrics \<Rightarrow> metrics" where
  "record_idempotency_conflict source =
     inc ''financial_idempotency_conflict_total'' [normalize_label source IDEMPOTENCY_SOURCES]"

definition record_redis_lock_result :: "string \<Rightarrow> metrics \<Rightarrow> metrics" where
  "record_redis_lock_result result m = (let
     n = normalize_label result REDIS_RESULTS;
     m1 = inc ''financial_redis_operations_total'' [''lock_acquire'', n] m
   in if n = ''success'' then inc ''financial_redis_lock_acquired_total'' [] m1
      else if n = ''rejected'' then inc ''financial_redis_lock_rejected_total'' [] m1
      else if n = ''unavailable'' then inc ''financial_redis_unavailable_total'' [''lock_acquire''] m1
      else m1)"

definition record_redis_operation :: "string \<Rightarrow> string \<Rightarrow> metrics \<Rightarrow> metrics" where
  "record_redis_operation operation result m = (let
     op = normalize_label operation REDIS_OPERATIONS;
     res = normalize_label result REDIS_RESULTS;
     m1 = inc ''financial_redis_operations_total'' [op, res] m
   in if res = ''unavailable'' then inc ''financial_redis_unavailable_total'' [op] m1 else m1)"

definition record_redis_operation_v2 :: "string \<Rightarrow> string \<Rightarrow> string \<Rightarrow> metrics \<Rightarrow> metrics" where
  "record_redis_operation_v2 operation result reason m = (let
     op = normalize_label operation REDIS_OPERATIONS;
     res = normalize_label result DEPENDENCY_RESULTS;
     rsn = normalize_label reason FAILURE_REASONS;
     m1 = inc ''financial_redis_operation_total'' [op, res, rsn] m
   in if res = ''failure'' then inc ''financial_redis_operation_failed_total'' [op, rsn] m1 else m1)"

definition record_redis_fallback :: "string \<Rightarrow> string \<Rightarrow> metrics \<Rightarrow> metrics" where
  "record_redis_fallback operation reason = inc ''financial_redis_fallback_total''
     [normalize_label operation REDIS_OPERATIONS, normalize_label reason FAILURE_REASONS]"

definition record_db_transaction_retry :: "string \<Rightarrow> metrics \<Rightarrow> metrics" where
  "record_db_transaction_retry reason =
     inc ''financial_db_transaction_retry_total'' [normalize_label reason FAILURE_REASONS]"

definition record_readiness_dependency_status :: "string \<Rightarrow> bool \<Rightarrow> metrics \<Rightarrow> metrics" where
  "record_readiness_dependency_status dep healthy =
     gauge_set ''financial_readiness_dependency_status'' [normalize_label dep DEPENDENCIES]
       (if healthy then 1 else 0)"

definition record_idempotency_cache_hit :: "metrics \<Rightarrow> metrics" where
  "record_idempotency_cache_hit m = record_redis_operation_v2 ''cache_get'' ''success'' ''unknown''
     (record_redis_operation ''cache_get'' ''success''
       (inc ''financial_idempotency_cache_hit_total'' [] m))"

definition record_idempotency_cache_miss :: "metrics \<Rightarrow> metrics" where
  "record_idempotency_cache_miss m = record_redis_operation_v2 ''cache_get'' ''success'' ''unknown''
     (record_redis_operation ''cache_get'' ''success''
       (inc ''financial_idempotency_cache_miss_total'' [] m))"

definition record_idempotency_cache_set_failure :: "metrics \<Rightarrow> metrics" where
  "record_idempotency_cache_set_failure m =
     record_redis_operation_v2 ''cache_set'' ''failure'' ''unknown''
       (record_redis_operation ''cache_set'' ''failure''
         (inc ''financial_idempotency_cache_set_failure_total'' [] m))"

definition record_hmac_auth_success :: "metrics \<Rightarrow> metrics" where
  "record_hmac_auth_success =
     inc ''financial_hmac_auth_success_total'' [normalize_label ''transaction_events'' ENDPOINTS]"

definition record_hmac_auth_failure :: "string \<Rightarrow> metrics \<Rightarrow> metrics" where
  "record_hmac_auth_failure reason = inc ''financial_hmac_auth_failures_total''
     [normalize_label reason HMAC_FAILURE_REASONS, normalize_label ''transaction_events'' ENDPOINTS]"

definition record_state_transition :: "string \<Rightarrow> string \<Rightarrow> string \<Rightarrow> metrics \<Rightarrow> metrics" where
  "record_state_transition from_status to_status result m = (let
     f = normalize_label from_status TRANSACTION_STATUSES;
     t = normalize_label to_status TRANSACTION_STATUSES;
     res = normalize_label result STATE_RESULTS;
     m1 = inc ''financial_state_transitions_total'' [f, t, res] m
   in if res = ''rejected'' then inc ''financial_invalid_state_transition_total'' [f, t] m1 else m1)"

definition record_reconciliation_failure :: "metrics \<Rightarrow> metrics" where
  "record_reconciliation_failure = inc ''financial_reconciliation_failures_total'' []"

definition record_write_suspended :: "string \<Rightarrow> string \<Rightarrow> metrics \<Rightarrow> metrics" where
  "record_write_suspended reason route_group = inc ''financial_write_suspended_total''
     [normalize_label reason WRITE_SUSPEND_REASONS, normalize_label route_group ROUTE_GROUPS]"

definition record_write_suspend_state :: "string \<Rightarrow> bool \<Rightarrow> metrics \<Rightarrow> metrics" where
  "record_write_suspend_state reason active = gauge_set ''financial_write_suspend_state''
     [normalize_label reason WRITE_SUSPEND_REASONS] (if active then 1 else 0)"

subsection \<open>Bounded labels\<close>

text \<open>Whatever text reaches a helper, the label it records is one of the declared ones.\<close>

lemma normalize_label_bounded: "''unknown'' \<in> set allowed \<Longrightarrow> normalize_label v allowed \<in> set allowed"
  by (simp add: normalize_label_def)

lemma normalize_label_member [simp]: "v \<in> set allowed \<Longrightarrow> normalize_label v allowed = v"
  by (simp add: normalize_label_def)

end
