(* ===== verification/Py_Convert.thy ===== *)
theory Py_Convert
  imports Py_Json
begin

text \<open>
  Conversions of decoded values: \<open>int(x)\<close>, \<open>str(x)\<close>, \<open>float(x)\<close> and the \<open>repr\<close> of a value.
\<close>

text \<open>
  \<open>int(x)\<close> on a decoded value. A text is an optional sign and digits between blanks, with single
  underscores allowed between digits. No writer of these values writes a float; one reads as unusable.
\<close>

definition int_of_str :: "string \<Rightarrow> int option" where
  "int_of_str s = (let s1 = strip s;
     neg = (s1 \<noteq> [] \<and> hd s1 = CHR ''-'');
     ds = (if s1 \<noteq> [] \<and> hd s1 \<in> {CHR ''-'', CHR ''+''} then tl s1 else s1);
     groups = split_on (CHR ''_'') ds
   in if list_all (\<lambda>g. g \<noteq> [] \<and> list_all is_digit g) groups
      then Some (if neg then - int (digits_val (concat groups)) else int (digits_val (concat groups)))
      else None)"

fun int_of_json :: "json \<Rightarrow> int option" where
  "int_of_json (JInt i) = Some i"
| "int_of_json (JBool b) = Some (if b then 1 else 0)"
| "int_of_json (JStr s) = int_of_str s"
| "int_of_json _ = None"

text \<open>\<open>repr\<close> of a string: single quotes unless only those occur in it.\<close>

definition printable :: "nat \<Rightarrow> bool" where
  "printable n \<longleftrightarrow> (32 \<le> n \<and> n < 127) \<or> (161 \<le> n \<and> n \<noteq> 173)"

definition repr_char :: "nat \<Rightarrow> char \<Rightarrow> string" where
  "repr_char q c = (let n = code_of c in
     if n = q \<or> n = 92 then [backslash, c]
     else if n = 10 then [backslash, CHR ''n'']
     else if n = 13 then [backslash, CHR ''r'']
     else if n = 9 then [backslash, CHR ''t'']
     else if printable n then [c]
     else [backslash, CHR ''x''] @ hex2 n)"

definition repr_str :: "string \<Rightarrow> string" where
  "repr_str s = (let q = (if CHR 0x27 \<in> set s \<and> dquote \<notin> set s then dquote else CHR 0x27)
   in q # concat (map (repr_char (code_of q)) s) @ [q])"

fun py_repr :: "json \<Rightarrow> string" where
  "py_repr JNull = ''None''"
| "py_repr (JBool b) = (if b then ''True'' else ''False'')"
| "py_repr (JInt i) = int_str i"
| "py_repr (JFloat f) = f"
| "py_repr (JStr s) = repr_str s"
| "py_repr (JList xs) = ''['' @ join '', '' (map py_repr xs) @ '']''"
| "py_repr (JObj kvs) = ''{'' @ join '', '' (map (\<lambda>(k, v). repr_str k @ '': '' @ py_repr v) kvs) @ ''}''"

definition py_str :: "json \<Rightarrow> string" where
  "py_str j = (case j of JStr s \<Rightarrow> s | _ \<Rightarrow> py_repr j)"

text \<open>\<open>str(v or d)\<close> for a looked-up value.\<close>

definition str_or :: "json option \<Rightarrow> string \<Rightarrow> string" where
  "str_or v d = (case v of None \<Rightarrow> d | Some j \<Rightarrow> if json_truthy j then py_str j else d)"

text \<open>
  The texts \<open>float\<close> accepts, and \<open>float(x)\<close>: a float is carried by the value it was made from.
\<close>

definition digit_groups :: "string \<Rightarrow> bool" where
  "digit_groups s \<longleftrightarrow> list_all (\<lambda>g. g \<noteq> [] \<and> list_all is_digit g) (split_on (CHR ''_'') s)"

definition unsigned :: "string \<Rightarrow> string" where
  "unsigned s = (if s \<noteq> [] \<and> hd s \<in> {CHR ''-'', CHR ''+''} then tl s else s)"

definition mantissa_text :: "string \<Rightarrow> bool" where
  "mantissa_text s = (case split_on (CHR ''.'') s of
       [a] \<Rightarrow> digit_groups a
     | [a, b] \<Rightarrow> (a \<noteq> [] \<or> b \<noteq> []) \<and> (a = [] \<or> digit_groups a) \<and> (b = [] \<or> digit_groups b)
     | _ \<Rightarrow> False)"

definition float_text :: "string \<Rightarrow> bool" where
  "float_text s = (let u = lower (unsigned (strip s)) in
     u \<in> {''inf'', ''infinity'', ''nan''} \<or>
     (case split_on (CHR ''e'') u of
        [m] \<Rightarrow> mantissa_text m
      | [m, x] \<Rightarrow> mantissa_text m \<and> digit_groups (unsigned x)
      | _ \<Rightarrow> False))"

definition as_float :: "json option \<Rightarrow> json option" where
  "as_float v = (case v of
       None \<Rightarrow> None
     | Some JNull \<Rightarrow> None
     | Some (JStr s) \<Rightarrow> if float_text s then Some (JStr s) else None
     | Some (JList _) \<Rightarrow> None
     | Some (JObj _) \<Rightarrow> None
     | Some j \<Rightarrow> Some j)"

end
