(* ===== verification/World.thy ===== *)
theory World
  imports Tables Metrics Py_Convert
begin

text \<open>
  The state one request runs in, what its environment may do to it, and the session
  (\<open>backend/app/db/session.py\<close>, a SQLAlchemy \<open>Session\<close> with \<open>autoflush=False\<close> on PostgreSQL).

  \<^item> \<open>w_committed\<close> is what the database holds durably and \<open>w_db\<close> what this transaction sees: the
    committed rows at its begin with its own changes applied. ORM objects are the rows themselves,
    named by primary key, so two variables that hold the same row see each other's assignments.
  \<^item> The environment \<open>env\<close> decides, at each step of the request's own clock \<open>w_tick\<close>, whether a
    query, flush, commit or Redis command fails and how, what other transactions have committed when
    this one begins, the time, the random identifiers, and the gaps in a sequence. It also holds the
    texts of timestamps: how Pydantic dumps one, \<open>isoformat\<close>, and \<open>datetime.fromisoformat\<close>. A
    failing commit may or may not have become durable, a failing Redis command may or may not have
    been applied. Other transactions appear at a begin; a
    concurrent insert that wins a race appears as the \<open>IntegrityError\<close> of a flush.
  \<^item> A flush writes pending changes: it fails when a constraint does not hold of the result. After a
    failing statement the transaction is unusable and every use raises \<open>PendingRollbackError\<close> until a
    rollback, as SQLAlchemy documents.
\<close>

datatype redis_error = RedisTimeout | RedisConnection | RedisOther

text \<open>A Redis value: the JSON document a text denotes, or a text that is none.\<close>

datatype redis_value = RText string | RDoc json

type_synonym redis_store = "string \<rightharpoonup> (redis_value \<times> instant)"

text \<open>The write-suspension file: its JSON document, or a content that does not parse.\<close>

datatype suspend_file = Corrupt | Document json

record env =
  flush_fault :: "nat \<Rightarrow> sa_error option"
  query_fault :: "nat \<Rightarrow> sa_error option"
  commit_fault :: "nat \<Rightarrow> (sa_error \<times> bool) option"
  others :: "nat \<Rightarrow> tables \<Rightarrow> tables"
  now :: "nat \<Rightarrow> instant"
  uuid_hex :: "nat \<Rightarrow> string"
  seq_gap :: "nat \<Rightarrow> nat"
  redis_fault :: "nat \<Rightarrow> (redis_error \<times> bool) option"
  file_fault :: "nat \<Rightarrow> bool"
  datetime_json :: "py_datetime \<Rightarrow> string"
  isoformat :: "instant \<Rightarrow> string"
  fromisoformat :: "string \<Rightarrow> py_datetime option"

datatype session_state = NoTx | InTx | Deactive

record world =
  w_db :: tables
  w_committed :: tables
  w_sess :: session_state
  w_tick :: nat
  w_redis :: redis_store
  w_metrics :: metrics
  w_active_event :: "int option"
  w_suspend_file :: "suspend_file option"
  w_suspend_state :: "write_suspend_state option"

type_synonym 'a app = "(world, exn, 'a) prog"

definition tick :: "world \<Rightarrow> world" where
  "tick w = w\<lparr>w_tick := Suc (w_tick w)\<rparr>"

subsection \<open>The session\<close>

definition start_tx :: "env \<Rightarrow> world \<Rightarrow> world" where
  "start_tx E w = (let seen = others E (w_tick w) (w_committed w) in
     tick (w\<lparr>w_committed := seen, w_db := seen, w_sess := InTx\<rparr>))"

definition autobegin :: "env \<Rightarrow> world \<Rightarrow> world" where
  "autobegin E w = (if w_sess w = NoTx then start_tx E w else w)"

definition sess_begin :: "env \<Rightarrow> unit app" where
  "sess_begin E w = (if w_sess w = NoTx then (Inr (), start_tx E w)
     else (Inl (SAError InvalidRequestError), w))"

text \<open>A statement: it starts a transaction when there is none.\<close>

definition db_query :: "env \<Rightarrow> (tables \<Rightarrow> 'a) \<Rightarrow> 'a app" where
  "db_query E f w = (if w_sess w = Deactive then (Inl (SAError PendingRollbackError), w)
     else let w1 = autobegin E w in
       (case query_fault E (w_tick w1) of
          Some e \<Rightarrow> (Inl (SAError e), tick (w1\<lparr>w_sess := Deactive\<rparr>))
        | None \<Rightarrow> (Inr (f (w_db w1)), tick w1)))"

definition db_flush :: "env \<Rightarrow> unit app" where
  "db_flush E w = (if w_sess w = Deactive then (Inl (SAError PendingRollbackError), w)
     else let w1 = autobegin E w in
       (case flush_fault E (w_tick w1) of
          Some e \<Rightarrow> (Inl (SAError e), tick (w1\<lparr>w_sess := Deactive\<rparr>))
        | None \<Rightarrow> (case constraint_error (w_db w1) of
              Some e \<Rightarrow> (Inl (SAError e), tick (w1\<lparr>w_sess := Deactive\<rparr>))
            | None \<Rightarrow> (Inr (), tick w1))))"

definition db_rollback :: "unit app" where
  "db_rollback = modifyM (\<lambda>w. w\<lparr>w_db := w_committed w, w_sess := NoTx\<rparr>)"

definition commit_point :: "env \<Rightarrow> unit app" where
  "commit_point E w = (case commit_fault E (w_tick w) of
       Some (e, durable) \<Rightarrow> (Inl (SAError e),
         tick (w\<lparr>w_committed := (if durable then w_db w else w_committed w), w_sess := Deactive\<rparr>))
     | None \<Rightarrow> (Inr (), tick (w\<lparr>w_committed := w_db w, w_sess := NoTx\<rparr>)))"

definition db_commit :: "env \<Rightarrow> unit app" where
  "db_commit E = bindM (getM w_sess) (\<lambda>s.
     if s = NoTx then returnM () else thenM (db_flush E) (commit_point E))"

text \<open>\<open>with session.begin(): body\<close>\<close>

definition with_begin :: "env \<Rightarrow> 'a app \<Rightarrow> 'a app" where
  "with_begin E body = thenM (sess_begin E)
     (bindM (catchM body (\<lambda>e. thenM db_rollback (raiseM e))) (\<lambda>x.
       thenM (catchM (db_commit E) (\<lambda>e. thenM db_rollback (raiseM e))) (returnM x)))"

subsection \<open>Objects and results\<close>

text \<open>
  Reading an attribute of a loaded object, and assigning one. A failing statement expires the
  objects, so a later read goes to the database and raises.
\<close>

definition read_row :: "(tables \<Rightarrow> int \<Rightarrow> 'r option) \<Rightarrow> int \<Rightarrow> 'r app" where
  "read_row get i w = (if w_sess w = Deactive then (Inl (SAError PendingRollbackError), w)
     else (case get (w_db w) i of None \<Rightarrow> (Inl (SAError ObjectDeletedError), w) | Some r \<Rightarrow> (Inr r, w)))"

definition assign :: "(tables \<Rightarrow> tables) \<Rightarrow> unit app" where
  "assign f = modifyM (\<lambda>w. w\<lparr>w_db := f (w_db w)\<rparr>)"

definition one_or_none :: "'r list \<Rightarrow> 'r option app" where
  "one_or_none rs = (case rs of [] \<Rightarrow> returnM None | [r] \<Rightarrow> returnM (Some r)
     | _ \<Rightarrow> raiseM (SAError MultipleResultsFound))"

definition metric :: "(metrics \<Rightarrow> metrics) \<Rightarrow> unit app" where
  "metric f = modifyM (\<lambda>w. w\<lparr>w_metrics := f (w_metrics w)\<rparr>)"

definition utc_now :: "env \<Rightarrow> instant app" where
  "utc_now E = getM (\<lambda>w. now E (w_tick w))"

definition seconds :: "int \<Rightarrow> int" where
  "seconds n = n * 1000000"

definition get_id :: "('r \<Rightarrow> int) \<Rightarrow> 'r option \<Rightarrow> int option" where
  "get_id k = map_option k"

subsection \<open>Rules\<close>

text \<open>What a statement, a flush, a commit and a transaction guarantee.\<close>

lemma tick_simps [simp]:
  "w_db (tick w) = w_db w" "w_committed (tick w) = w_committed w" "w_sess (tick w) = w_sess w"
  "w_tick (tick w) = Suc (w_tick w)" "w_redis (tick w) = w_redis w" "w_metrics (tick w) = w_metrics w"
  "w_active_event (tick w) = w_active_event w" "w_suspend_file (tick w) = w_suspend_file w"
  "w_suspend_state (tick w) = w_suspend_state w"
  by (simp_all add: tick_def)

lemma autobegin_InTx [simp]: "w_sess w = InTx \<Longrightarrow> autobegin E w = w"
  by (simp add: autobegin_def)

lemma wp_query_InTx [wp_simps]:
  assumes "w_sess w = InTx"
  shows "wp (db_query E f) Q X w \<longleftrightarrow>
     (case query_fault E (w_tick w) of
        Some e \<Rightarrow> X (SAError e) (tick (w\<lparr>w_sess := Deactive\<rparr>))
      | None \<Rightarrow> Q (f (w_db w)) (tick w))"
  using assms by (simp add: wp_def db_query_def split: option.split)

lemma wp_flush_InTx [wp_simps]:
  assumes "w_sess w = InTx"
  shows "wp (db_flush E) Q X w \<longleftrightarrow>
     (case flush_fault E (w_tick w) of
        Some e \<Rightarrow> X (SAError e) (tick (w\<lparr>w_sess := Deactive\<rparr>))
      | None \<Rightarrow> (case constraint_error (w_db w) of
            Some e \<Rightarrow> X (SAError e) (tick (w\<lparr>w_sess := Deactive\<rparr>))
          | None \<Rightarrow> Q () (tick w)))"
  using assms by (simp add: wp_def db_flush_def split: option.split)

lemma wp_read_row_InTx [wp_simps]:
  assumes "w_sess w = InTx"
  shows "wp (read_row get i) Q X w \<longleftrightarrow>
     (case get (w_db w) i of None \<Rightarrow> X (SAError ObjectDeletedError) w | Some r \<Rightarrow> Q r w)"
  using assms by (simp add: wp_def read_row_def split: option.split)

lemma wp_assign [wp_simps]: "wp (assign f) Q X w \<longleftrightarrow> Q () (w\<lparr>w_db := f (w_db w)\<rparr>)"
  by (simp add: assign_def wp_simps)

lemma wp_metric [wp_simps]: "wp (metric f) Q X w \<longleftrightarrow> Q () (w\<lparr>w_metrics := f (w_metrics w)\<rparr>)"
  by (simp add: metric_def wp_simps)

lemma wp_utc_now [wp_simps]: "wp (utc_now E) Q X w \<longleftrightarrow> Q (now E (w_tick w)) w"
  by (simp add: utc_now_def wp_simps)

lemma wp_one_or_none [wp_simps]:
  "wp (one_or_none rs) Q X w \<longleftrightarrow>
     (case rs of [] \<Rightarrow> Q None w | [r] \<Rightarrow> Q (Some r) w | _ \<Rightarrow> X (SAError MultipleResultsFound) w)"
  by (simp add: one_or_none_def wp_simps split: list.split)

lemma wp_rollback [wp_simps]:
  "wp db_rollback Q X w \<longleftrightarrow> Q () (w\<lparr>w_db := w_committed w, w_sess := NoTx\<rparr>)"
  by (simp add: db_rollback_def wp_simps)

text \<open>
  A program that runs inside a transaction: whatever it returns or raises, the durable rows are the
  ones it started from and the transaction is still open (or unusable), never closed behind the
  caller's back.
\<close>

definition in_tx :: "tables \<Rightarrow> world \<Rightarrow> bool" where
  "in_tx c w \<longleftrightarrow> w_committed w = c \<and> w_sess w \<noteq> NoTx"

lemma in_tx_query [keeps_intros]: "keeps (in_tx c) (db_query E f)"
  by (auto simp: keeps_def db_query_def in_tx_def autobegin_def Let_def split: option.split)

lemma in_tx_flush [keeps_intros]: "keeps (in_tx c) (db_flush E)"
  by (auto simp: keeps_def db_flush_def in_tx_def autobegin_def Let_def split: option.split)

lemma in_tx_read_row [keeps_intros]: "keeps (in_tx c) (read_row get i)"
  by (auto simp: keeps_def read_row_def split: option.split)

lemma in_tx_assign [keeps_intros]: "keeps (in_tx c) (assign f)"
  by (auto simp: assign_def in_tx_def intro!: keeps_modify)

lemma in_tx_metric [keeps_intros]: "keeps (in_tx c) (metric f)"
  by (auto simp: metric_def in_tx_def intro!: keeps_modify)

lemma in_tx_utc_now [keeps_intros]: "keeps (in_tx c) (utc_now E)"
  by (simp add: utc_now_def keeps_basic)

lemma in_tx_one_or_none [keeps_intros]: "keeps (in_tx c) (one_or_none rs)"
  by (auto simp: one_or_none_def intro!: keeps_basic split: list.split)

lemma wp_bindI:
  assumes "wp m R X s" "\<And>x t. R x t \<Longrightarrow> wp (f x) Q Y t" "\<And>e t. X e t \<Longrightarrow> Y e t"
  shows "wp (bindM m f) Q Y s"
  unfolding wp_bind by (rule wp_mono [OF assms(1)]) (use assms in auto)

lemma wp_thenI:
  assumes "wp m R X s" "\<And>x t. R x t \<Longrightarrow> wp n Q Y t" "\<And>e t. X e t \<Longrightarrow> Y e t"
  shows "wp (thenM m n) Q Y s"
  unfolding wp_then by (rule wp_mono [OF assms(1)]) (use assms in auto)

text \<open>
  The rule for a transaction: a body that stays inside it ends in one of three ways - it returned
  and its rows are durable, it raised (or the commit failed) and nothing is, or the commit reported a
  failure although it took effect. In every case the session is closed and holds the durable rows.
\<close>

lemma with_begin_outcome:
  assumes idle: "w_sess w = NoTx"
    and start: "start_tx E w = w0"
    and body: "wp body
      (\<lambda>x w1. in_tx (w_committed w0) w1 \<and> (w_sess w1 = InTx \<longrightarrow> db_ok (w_db w1) \<longrightarrow> P x (w_db w1)))
      (\<lambda>e w1. in_tx (w_committed w0) w1) w0"
  shows "wp (with_begin E body)
    (\<lambda>x w2. P x (w_committed w2) \<and> db_ok (w_committed w2) \<and> w_sess w2 = NoTx \<and>
       w_db w2 = w_committed w2)
    (\<lambda>e w2. (w_committed w2 = w_committed w0 \<or>
         (\<exists>x. P x (w_committed w2) \<and> db_ok (w_committed w2))) \<and>
       w_sess w2 = NoTx \<and> w_db w2 = w_committed w2) w"
proof -
  have fin: "wp (thenM (catchM (db_commit E) (\<lambda>e. thenM db_rollback (raiseM e))) (returnM x))
    (\<lambda>x w2. P x (w_committed w2) \<and> db_ok (w_committed w2) \<and> w_sess w2 = NoTx \<and>
       w_db w2 = w_committed w2)
    (\<lambda>e w2. (w_committed w2 = w_committed w0 \<or>
         (\<exists>x. P x (w_committed w2) \<and> db_ok (w_committed w2))) \<and>
       w_sess w2 = NoTx \<and> w_db w2 = w_committed w2) w1"
    if "in_tx (w_committed w0) w1"
      "w_sess w1 = InTx \<longrightarrow> db_ok (w_db w1) \<longrightarrow> P x (w_db w1)" for x w1
  proof (cases "w_sess w1")
    case NoTx
    with that show ?thesis by (simp add: in_tx_def)
  next
    case InTx
    with that show ?thesis
      by (auto simp: db_commit_def wp_simps wp_eqI [of "commit_point E"] commit_point_def db_ok_def
          in_tx_def split: option.split prod.split sum.split)
  next
    case Deactive
    with that show ?thesis
      by (auto simp: db_commit_def wp_simps wp_eqI [of "db_flush E"] db_flush_def in_tx_def
          split: option.split)
  qed
  have ran: "wp (catchM body (\<lambda>e. thenM db_rollback (raiseM e)))
    (\<lambda>x w1. in_tx (w_committed w0) w1 \<and> (w_sess w1 = InTx \<longrightarrow> db_ok (w_db w1) \<longrightarrow> P x (w_db w1)))
    (\<lambda>e w2. w_committed w2 = w_committed w0 \<and> w_sess w2 = NoTx \<and> w_db w2 = w_committed w2) w0"
    unfolding wp_catch by (rule wp_mono [OF body]) (simp_all add: wp_simps in_tx_def)
  have "sess_begin E w = (Inr (), w0)" using idle start by (simp add: sess_begin_def)
  then have "wp (sess_begin E) Q X w \<longleftrightarrow> Q () w0" for Q X by (simp add: wp_def)
  then show ?thesis
    unfolding with_begin_def wp_then [of "sess_begin E"]
    by (simp only:) (rule wp_bindI [OF ran fin]; simp)
qed

subsection \<open>Effects\<close>

text \<open>
  How the effect of an operation on an open transaction is stated: it leaves the rows \<open>db\<close> and
  touches nothing else but the clock, the metrics and Redis, or a statement failed and the transaction is
  unusable until it is rolled back.
\<close>

definition runs :: "world \<Rightarrow> tables \<Rightarrow> world \<Rightarrow> bool" where
  "runs w db w' \<longleftrightarrow> w_db w' = db \<and> w_sess w' = InTx \<and> w_committed w' = w_committed w \<and>
     w_active_event w' = w_active_event w"

definition sa_failure :: "world \<Rightarrow> exn \<Rightarrow> world \<Rightarrow> bool" where
  "sa_failure w e w' \<longleftrightarrow> (\<exists>s. e = SAError s) \<and> in_tx (w_committed w) w' \<and>
     w_active_event w' = w_active_event w"

lemma runs_refl: "w_sess w = InTx \<Longrightarrow> runs w (w_db w) w"
  by (simp add: runs_def)

lemma runs_db: "runs w db w' \<Longrightarrow> db_ok db \<Longrightarrow> db_ok (w_db w')"
  by (simp add: runs_def)

lemma runs_InTx: "runs w db w' \<Longrightarrow> w_sess w' = InTx"
  by (simp add: runs_def)

lemma runs_in_tx: "runs w db w' \<Longrightarrow> in_tx (w_committed w) w'"
  by (simp add: runs_def in_tx_def)

lemma runs_trans: "runs w db w1 \<Longrightarrow> runs w1 db' w2 \<Longrightarrow> runs w db' w2"
  by (simp add: runs_def)

lemma runs_failure: "runs w db w1 \<Longrightarrow> sa_failure w1 e w2 \<Longrightarrow> sa_failure w e w2"
  by (auto simp: runs_def sa_failure_def)

lemma runs_step [simp]:
  "runs w db (tick w') \<longleftrightarrow> runs w db w'"
  "runs w db (w'\<lparr>w_metrics := m\<rparr>) \<longleftrightarrow> runs w db w'"
  "runs w db (w'\<lparr>w_redis := st\<rparr>) \<longleftrightarrow> runs w db w'"
  "runs w db (w\<lparr>w_db := db'\<rparr>) \<longleftrightarrow> w_sess w = InTx \<and> db = db'"
  by (auto simp: runs_def)

lemma sa_failure_step [simp]:
  "sa_failure w e (tick w') \<longleftrightarrow> sa_failure w e w'"
  "sa_failure w (SAError s) (w\<lparr>w_db := db, w_sess := Deactive\<rparr>)"
  "sa_failure w (SAError s) (w\<lparr>w_sess := Deactive\<rparr>)"
  "sa_failure w (SAError s) (w'\<lparr>w_sess := Deactive, w_metrics := m\<rparr>) \<longleftrightarrow>
     sa_failure w (SAError s) (w'\<lparr>w_sess := Deactive\<rparr>)"
  by (auto simp: sa_failure_def in_tx_def)

text \<open>An assignment or an insert, flushed.\<close>

lemma write_flush_spec:
  assumes "w_sess w = InTx"
  shows "wp (thenM (assign f) (thenM (db_flush E) (returnM r)))
    (\<lambda>x w'. x = r \<and> runs w (f (w_db w)) w' \<and> db_ok (f (w_db w))) (sa_failure w) w"
  using assms by (auto simp: wp_simps db_ok_def split: option.split)

text \<open>An environment without faults and without other transactions, for concrete runs.\<close>

definition calm_env :: env where
  "calm_env = \<lparr>flush_fault = \<lambda>_. None, query_fault = \<lambda>_. None, commit_fault = \<lambda>_. None,
     others = \<lambda>_ db. db, now = \<lambda>n. int n, uuid_hex = \<lambda>n. replicate 28 (CHR ''0'') @ nat_str (1000 + n),
     seq_gap = \<lambda>_. 0, redis_fault = \<lambda>_. None, file_fault = \<lambda>_. False,
     datetime_json = \<lambda>d. int_str (timestamp_of d), isoformat = int_str,
     fromisoformat = \<lambda>s. map_option utc (int_of_str s)\<rparr>"

definition idle_world :: "tables \<Rightarrow> world" where
  "idle_world db = \<lparr>w_db = db, w_committed = db, w_sess = NoTx, w_tick = 0, w_redis = Map.empty,
     w_metrics = \<lambda>_. 0, w_active_event = None, w_suspend_file = None, w_suspend_state = None\<rparr>"

end
