(* ===== verification/Repositories.thy ===== *)
theory Repositories
  imports World "HOL-Library.Product_Lexorder"
begin

text \<open>
  The repositories (\<open>backend/app/repositories\<close>): queries, inserts and updates of one table each.
  A query for one object returns its primary key; \<open>with_for_update\<close> locks the rows it returns,
  which no other transaction changes until this one ends.
\<close>

subsection \<open>Accounts\<close>

definition account_get_by_account_no :: "env \<Rightarrow> string \<Rightarrow> int option app" where
  "account_get_by_account_no E account_no =
     bindM (db_query E (\<lambda>db. filter (\<lambda>a. acc_account_no a = account_no) (t_accounts db))) (\<lambda>rs.
     bindM (one_or_none rs) (\<lambda>r. returnM (get_id acc_id r)))"

definition get_by_account_no_for_update :: "env \<Rightarrow> string \<Rightarrow> int option app" where
  "get_by_account_no_for_update E account_no =
     bindM (db_query E (\<lambda>db. filter (\<lambda>a. acc_account_no a = account_no) (t_accounts db))) (\<lambda>rs.
     bindM (one_or_none rs) (\<lambda>r. returnM (get_id acc_id r)))"

definition get_by_id_for_update :: "env \<Rightarrow> int \<Rightarrow> int option app" where
  "get_by_id_for_update E i =
     bindM (db_query E (\<lambda>db. filter (\<lambda>a. acc_id a = i) (t_accounts db))) (\<lambda>rs.
     bindM (one_or_none rs) (\<lambda>r. returnM (get_id acc_id r)))"

definition set_balance :: "int \<Rightarrow> int \<Rightarrow> instant \<Rightarrow> tables \<Rightarrow> tables" where
  "set_balance i b t = upd_account i (\<lambda>a. a\<lparr>acc_balance := b, acc_updated_at := t\<rparr>)"

definition update_balance :: "env \<Rightarrow> int \<Rightarrow> int \<Rightarrow> int app" where
  "update_balance E i new_balance =
     bindM (utc_now E) (\<lambda>t. thenM (assign (set_balance i new_balance t))
     (thenM (db_flush E) (returnM i)))"

subsection \<open>Transaction events\<close>

definition event_get_by_id :: "env \<Rightarrow> int \<Rightarrow> int option app" where
  "event_get_by_id E i =
     bindM (db_query E (\<lambda>db. filter (\<lambda>e. te_id e = i) (t_events db))) (\<lambda>rs.
     bindM (one_or_none rs) (\<lambda>r. returnM (get_id te_id r)))"

definition get_by_external_event_id :: "env \<Rightarrow> string \<Rightarrow> int option app" where
  "get_by_external_event_id E x =
     bindM (db_query E (\<lambda>db. filter (\<lambda>e. te_external_event_id e = x) (t_events db))) (\<lambda>rs.
     bindM (one_or_none rs) (\<lambda>r. returnM (get_id te_id r)))"

definition get_original_for_cancel :: "env \<Rightarrow> string \<Rightarrow> int option app" where
  "get_original_for_cancel E x = get_by_external_event_id E x"

definition get_original_for_cancel_for_update :: "env \<Rightarrow> string \<Rightarrow> int option app" where
  "get_original_for_cancel_for_update E x =
     bindM (db_query E (\<lambda>db. filter (\<lambda>e. te_external_event_id e = x) (t_events db))) (\<lambda>rs.
     bindM (one_or_none rs) (\<lambda>r. returnM (get_id te_id r)))"

definition new_event :: "nat \<Rightarrow> instant \<Rightarrow> tables \<Rightarrow> string \<Rightarrow> string \<Rightarrow> int \<Rightarrow> string \<Rightarrow> int \<Rightarrow> string \<Rightarrow>
    py_datetime \<Rightarrow> transaction_event" where
  "new_event gap t db external_event_id idempotency_key account_id event_type amount currency occurred_at =
     \<lparr>te_id = next_id gap (map te_id (t_events db)), te_external_event_id = external_event_id,
      te_idempotency_key = idempotency_key, te_account_id = account_id, te_event_type = event_type,
      te_amount = amount, te_currency = currency, te_status = status_value RECEIVED,
      te_occurred_at = occurred_at, te_created_at = t, te_updated_at = t\<rparr>"

definition add_event :: "transaction_event \<Rightarrow> tables \<Rightarrow> tables" where
  "add_event e db = db\<lparr>t_events := t_events db @ [e]\<rparr>"

definition create_received :: "env \<Rightarrow> string \<Rightarrow> string \<Rightarrow> int \<Rightarrow> string \<Rightarrow> int \<Rightarrow> string \<Rightarrow> py_datetime \<Rightarrow>
    int app" where
  "create_received E external_event_id idempotency_key account_id event_type amount currency occurred_at =
     bindM (getM (\<lambda>w. new_event (seq_gap E (w_tick w)) (now E (w_tick w)) (w_db w) external_event_id
       idempotency_key account_id event_type amount currency occurred_at)) (\<lambda>e.
     thenM (assign (add_event e)) (thenM (db_flush E) (returnM (te_id e))))"

definition set_status :: "int \<Rightarrow> string \<Rightarrow> instant \<Rightarrow> tables \<Rightarrow> tables" where
  "set_status i st t = upd_event i (\<lambda>e. e\<lparr>te_status := st, te_updated_at := t\<rparr>)"

definition update_status :: "env \<Rightarrow> int \<Rightarrow> transaction_status + string \<Rightarrow> int app" where
  "update_status E i status =
     bindM (liftM (normalize status)) (\<lambda>st.
     bindM (utc_now E) (\<lambda>t. thenM (assign (set_status i (status_value st) t))
     (thenM (db_flush E) (returnM i))))"

subsection \<open>Ledger entries\<close>

definition get_by_transaction_event_id :: "env \<Rightarrow> int \<Rightarrow> int option app" where
  "get_by_transaction_event_id E i =
     bindM (db_query E (\<lambda>db. filter (\<lambda>l. le_transaction_event_id l = i) (t_ledger db))) (\<lambda>rs.
     bindM (one_or_none rs) (\<lambda>r. returnM (get_id le_id r)))"

definition new_ledger :: "nat \<Rightarrow> instant \<Rightarrow> tables \<Rightarrow> int \<Rightarrow> int \<Rightarrow> string \<Rightarrow> int \<Rightarrow> int \<Rightarrow> ledger_entry" where
  "new_ledger gap t db transaction_event_id account_id entry_type amount balance_after =
     \<lparr>le_id = next_id gap (map le_id (t_ledger db)), le_transaction_event_id = transaction_event_id,
      le_account_id = account_id, le_entry_type = entry_type, le_amount = amount,
      le_balance_after = balance_after, le_created_at = t\<rparr>"

definition add_ledger :: "ledger_entry \<Rightarrow> tables \<Rightarrow> tables" where
  "add_ledger l db = db\<lparr>t_ledger := t_ledger db @ [l]\<rparr>"

definition ledger_create :: "env \<Rightarrow> int \<Rightarrow> int \<Rightarrow> string \<Rightarrow> int \<Rightarrow> int \<Rightarrow> int app" where
  "ledger_create E transaction_event_id account_id entry_type amount balance_after =
     bindM (getM (\<lambda>w. new_ledger (seq_gap E (w_tick w)) (now E (w_tick w)) (w_db w)
       transaction_event_id account_id entry_type amount balance_after)) (\<lambda>l.
     thenM (assign (add_ledger l)) (thenM (db_flush E) (returnM (le_id l))))"

definition ledger_sum :: "tables \<Rightarrow> int \<Rightarrow> int" where
  "ledger_sum db i = sum_list (map le_amount (filter (\<lambda>l. le_account_id l = i) (t_ledger db)))"

definition sum_amount_by_account_id :: "env \<Rightarrow> int \<Rightarrow> int app" where
  "sum_amount_by_account_id E i = db_query E (\<lambda>db. ledger_sum db i)"

subsection \<open>Event state histories\<close>

definition new_history :: "nat \<Rightarrow> instant \<Rightarrow> tables \<Rightarrow> int \<Rightarrow> string option \<Rightarrow> string \<Rightarrow> string option \<Rightarrow>
    event_state_history" where
  "new_history gap t db transaction_event_id old_status new_status reason =
     \<lparr>esh_id = next_id gap (map esh_id (t_hist db)), esh_transaction_event_id = transaction_event_id,
      esh_old_status = old_status, esh_new_status = new_status, esh_reason = reason,
      esh_created_at = t\<rparr>"

definition add_history :: "event_state_history \<Rightarrow> tables \<Rightarrow> tables" where
  "add_history h db = db\<lparr>t_hist := t_hist db @ [h]\<rparr>"

text \<open>\<open>add\<close> only adds the object to the session; the caller flushes.\<close>

definition history_add :: "env \<Rightarrow> int \<Rightarrow> transaction_status option \<Rightarrow> transaction_status \<Rightarrow>
    string option \<Rightarrow> event_state_history app" where
  "history_add E transaction_event_id old_status new_status reason =
     bindM (getM (\<lambda>w. new_history (seq_gap E (w_tick w)) (now E (w_tick w)) (w_db w)
       transaction_event_id (map_option status_value old_status) (status_value new_status) reason)) (\<lambda>h.
     thenM (assign (add_history h)) (returnM h))"

definition list_by_transaction_event_id :: "env \<Rightarrow> int \<Rightarrow> event_state_history list app" where
  "list_by_transaction_event_id E i = db_query E (\<lambda>db.
     sort_key (\<lambda>h. (esh_created_at h, esh_id h))
       (filter (\<lambda>h. esh_transaction_event_id h = i) (t_hist db)))"

definition first :: "'r list \<Rightarrow> 'r option" where
  "first rs = (case rs of [] \<Rightarrow> None | r # _ \<Rightarrow> Some r)"

definition get_latest_by_transaction_event_id :: "env \<Rightarrow> int \<Rightarrow> event_state_history option app" where
  "get_latest_by_transaction_event_id E i = db_query E (\<lambda>db.
     first (rev (sort_key (\<lambda>h. (esh_created_at h, esh_id h))
       (filter (\<lambda>h. esh_transaction_event_id h = i) (t_hist db)))))"

subsection \<open>Idempotency records\<close>

definition get_by_key :: "env \<Rightarrow> string \<Rightarrow> int option app" where
  "get_by_key E key =
     bindM (db_query E (\<lambda>db. filter (\<lambda>r. idem_idempotency_key r = key) (t_idem db))) (\<lambda>rs.
     bindM (one_or_none rs) (\<lambda>r. returnM (get_id idem_id r)))"

definition new_idem :: "nat \<Rightarrow> instant \<Rightarrow> tables \<Rightarrow> string \<Rightarrow> string \<Rightarrow> instant \<Rightarrow> instant option \<Rightarrow>
    idempotency_record" where
  "new_idem gap t db key request_hash expires_at locked_until =
     \<lparr>idem_id = next_id gap (map idem_id (t_idem db)), idem_idempotency_key = key,
      idem_request_hash = request_hash, idem_status = idempotency_status_value IS_PROCESSING,
      idem_response_code = None, idem_response_body = None, idem_error_message = None,
      idem_created_at = t, idem_updated_at = t, idem_completed_at = None,
      idem_locked_until = locked_until, idem_expires_at = Some expires_at\<rparr>"

definition add_idem :: "idempotency_record \<Rightarrow> tables \<Rightarrow> tables" where
  "add_idem r db = db\<lparr>t_idem := t_idem db @ [r]\<rparr>"

definition create_processing :: "env \<Rightarrow> string \<Rightarrow> string \<Rightarrow> instant \<Rightarrow> instant option \<Rightarrow> int app" where
  "create_processing E key request_hash expires_at locked_until =
     bindM (getM (\<lambda>w. new_idem (seq_gap E (w_tick w)) (now E (w_tick w)) (w_db w) key request_hash
       expires_at locked_until)) (\<lambda>r.
     thenM (assign (add_idem r)) (thenM (db_flush E) (returnM (idem_id r))))"

definition completed_row ::
  "int \<Rightarrow> json option \<Rightarrow> instant \<Rightarrow> idempotency_record \<Rightarrow> idempotency_record" where
  "completed_row code body t r = r\<lparr>idem_status := idempotency_status_value IS_COMPLETED,
     idem_response_code := Some code, idem_response_body := body, idem_completed_at := Some t,
     idem_updated_at := t, idem_locked_until := None\<rparr>"

definition mark_completed :: "env \<Rightarrow> int \<Rightarrow> int \<Rightarrow> json option \<Rightarrow> instant \<Rightarrow> int app" where
  "mark_completed E i response_code response_body completed_at =
     thenM (assign (upd_idem i (completed_row response_code response_body completed_at)))
     (thenM (db_flush E) (returnM i))"

definition failed_row :: "instant \<Rightarrow> int option \<Rightarrow> json option \<Rightarrow> string option \<Rightarrow>
    idempotency_record \<Rightarrow> idempotency_record" where
  "failed_row t code body msg r = r\<lparr>idem_status := idempotency_status_value IS_FAILED,
     idem_response_code := code, idem_response_body := body, idem_error_message := msg,
     idem_updated_at := t, idem_locked_until := None\<rparr>"

definition mark_failed :: "env \<Rightarrow> int \<Rightarrow> instant \<Rightarrow> int option \<Rightarrow> json option \<Rightarrow> string option \<Rightarrow>
    int app" where
  "mark_failed E i failed_at response_code response_body error_message =
     thenM (assign (upd_idem i (failed_row failed_at response_code response_body error_message)))
     (thenM (db_flush E) (returnM i))"

definition expired :: "instant \<Rightarrow> idempotency_record \<Rightarrow> bool" where
  "expired t r \<longleftrightarrow> (case idem_expires_at r of None \<Rightarrow> False | Some x \<Rightarrow> x \<le> t) \<and>
     idem_status r \<in> {idempotency_status_value IS_COMPLETED, idempotency_status_value IS_FAILED}"

definition list_expired :: "env \<Rightarrow> instant \<Rightarrow> idempotency_record list app" where
  "list_expired E t = db_query E (\<lambda>db.
     sort_key (\<lambda>r. (the (idem_expires_at r), idem_id r)) (filter (expired t) (t_idem db)))"

definition delete_idem :: "int list \<Rightarrow> tables \<Rightarrow> tables" where
  "delete_idem ids db = db\<lparr>t_idem := filter (\<lambda>r. idem_id r \<notin> set ids) (t_idem db)\<rparr>"

definition delete_expired :: "env \<Rightarrow> instant \<Rightarrow> nat app" where
  "delete_expired E t = bindM (list_expired E t) (\<lambda>expired_records.
     thenM (assign (delete_idem (map idem_id expired_records)))
     (thenM (db_flush E) (returnM (length expired_records))))"

subsection \<open>Recovery cases and quarantine records\<close>

definition case_create :: "env \<Rightarrow> recovery_case \<Rightarrow> int app" where
  "case_create E c = thenM (assign (\<lambda>db. db\<lparr>t_cases := t_cases db @ [c]\<rparr>))
     (thenM (db_flush E) (returnM (rc_id c)))"

definition get_by_case_id :: "env \<Rightarrow> string \<Rightarrow> int option app" where
  "get_by_case_id E case_id =
     bindM (db_query E (\<lambda>db. filter (\<lambda>c. rc_case_id c = case_id) (t_cases db))) (\<lambda>rs.
     bindM (one_or_none rs) (\<lambda>r. returnM (get_id rc_id r)))"

definition get_by_source_key :: "env \<Rightarrow> string \<Rightarrow> int option app" where
  "get_by_source_key E source_key =
     bindM (db_query E (\<lambda>db. filter (\<lambda>c. rc_source_key c = source_key) (t_cases db))) (\<lambda>rs.
     bindM (one_or_none rs) (\<lambda>r. returnM (get_id rc_id r)))"

definition case_list :: "env \<Rightarrow> nat \<Rightarrow> recovery_case list app" where
  "case_list E limit = db_query E (\<lambda>db.
     take limit (rev (sort_key (\<lambda>c. (rc_created_at c, rc_id c)) (t_cases db))))"

definition case_save :: "env \<Rightarrow> int \<Rightarrow> int app" where
  "case_save E i = thenM (db_flush E) (returnM i)"

definition quarantine_create :: "env \<Rightarrow> quarantine_record \<Rightarrow> int app" where
  "quarantine_create E q = thenM (assign (\<lambda>db. db\<lparr>t_quar := t_quar db @ [q]\<rparr>))
     (thenM (db_flush E) (returnM (qr_id q)))"

definition get_by_quarantine_id :: "env \<Rightarrow> string \<Rightarrow> int option app" where
  "get_by_quarantine_id E quarantine_id =
     bindM (db_query E (\<lambda>db. filter (\<lambda>q. qr_quarantine_id q = quarantine_id) (t_quar db))) (\<lambda>rs.
     bindM (one_or_none rs) (\<lambda>r. returnM (get_id qr_id r)))"

definition active_rows :: "string \<Rightarrow> string \<Rightarrow> tables \<Rightarrow> quarantine_record list" where
  "active_rows target_type target_id db =
     filter (\<lambda>q. qr_active q \<and> qr_target_type q = target_type \<and> qr_target_id q = target_id) (t_quar db)"

definition get_active :: "env \<Rightarrow> string \<Rightarrow> string \<Rightarrow> int option app" where
  "get_active E target_type target_id = db_query E (\<lambda>db.
     get_id qr_id (first (rev (sort_key (\<lambda>q. (qr_activated_at q, qr_id q))
       (active_rows target_type target_id db)))))"

definition quarantine_list :: "env \<Rightarrow> bool option \<Rightarrow> nat \<Rightarrow> quarantine_record list app" where
  "quarantine_list E active limit = db_query E (\<lambda>db.
     take limit (rev (sort_key (\<lambda>q. (qr_created_at q, qr_id q))
       (case active of None \<Rightarrow> t_quar db | Some b \<Rightarrow> filter (\<lambda>q. qr_active q = b) (t_quar db)))))"

definition quarantine_save :: "env \<Rightarrow> int \<Rightarrow> int app" where
  "quarantine_save E i = thenM (db_flush E) (returnM i)"

lemmas repository_defs = account_get_by_account_no_def get_by_account_no_for_update_def
  get_by_id_for_update_def update_balance_def event_get_by_id_def get_by_external_event_id_def
  get_original_for_cancel_def get_original_for_cancel_for_update_def create_received_def
  update_status_def get_by_transaction_event_id_def ledger_create_def sum_amount_by_account_id_def
  history_add_def list_by_transaction_event_id_def get_latest_by_transaction_event_id_def
  get_by_key_def create_processing_def mark_completed_def mark_failed_def list_expired_def
  delete_expired_def case_create_def get_by_case_id_def get_by_source_key_def case_list_def
  case_save_def quarantine_create_def get_by_quarantine_id_def get_active_def quarantine_list_def
  quarantine_save_def

lemma find_in: "List.find p xs = Some x \<Longrightarrow> x \<in> set xs \<and> p x"
  by (auto simp: find_Some_iff)

lemma new_row_keys [simp]:
  "te_id (new_event gap t db x k a ty n cur d) = next_id gap (map te_id (t_events db))"
  "le_id (new_ledger gap t db ev acc ty n b) = next_id gap (map le_id (t_ledger db))"
  "idem_id (new_idem gap t db k h ex l) = next_id gap (map idem_id (t_idem db))"
  "esh_id (new_history gap t db i old new r) = next_id gap (map esh_id (t_hist db))"
  by (simp_all add: new_event_def new_ledger_def new_idem_def new_history_def)

text \<open>Every repository method stays inside the transaction of its caller.\<close>

lemma in_tx_repositories [keeps_intros]:
  "keeps (in_tx c) (account_get_by_account_no E s)" "keeps (in_tx c) (get_by_account_no_for_update E s)"
  "keeps (in_tx c) (get_by_id_for_update E i)" "keeps (in_tx c) (update_balance E i b)"
  "keeps (in_tx c) (event_get_by_id E i)" "keeps (in_tx c) (get_by_external_event_id E s)"
  "keeps (in_tx c) (get_original_for_cancel E s)"
  "keeps (in_tx c) (get_original_for_cancel_for_update E s)"
  "keeps (in_tx c) (create_received E s k a ty n cur d)" "keeps (in_tx c) (update_status E i st)"
  "keeps (in_tx c) (get_by_transaction_event_id E i)" "keeps (in_tx c) (ledger_create E i j s n b)"
  "keeps (in_tx c) (sum_amount_by_account_id E i)" "keeps (in_tx c) (history_add E i old new r)"
  "keeps (in_tx c) (list_by_transaction_event_id E i)"
  "keeps (in_tx c) (get_latest_by_transaction_event_id E i)"
  "keeps (in_tx c) (get_by_key E s)" "keeps (in_tx c) (create_processing E s h x l)"
  "keeps (in_tx c) (mark_completed E i code body t)" "keeps (in_tx c) (mark_failed E i t co bo m)"
  "keeps (in_tx c) (list_expired E t)" "keeps (in_tx c) (delete_expired E t)"
  "keeps (in_tx c) (case_create E rc)" "keeps (in_tx c) (get_by_case_id E s)"
  "keeps (in_tx c) (get_by_source_key E s)" "keeps (in_tx c) (case_list E lim)"
  "keeps (in_tx c) (case_save E i)" "keeps (in_tx c) (quarantine_create E q)"
  "keeps (in_tx c) (get_by_quarantine_id E s)" "keeps (in_tx c) (get_active E s s')"
  "keeps (in_tx c) (quarantine_list E act lim)" "keeps (in_tx c) (quarantine_save E i)"
  unfolding repository_defs by (intro keeps_intros)+

text \<open>The effect of the writes on an open transaction.\<close>

lemma create_received_spec:
  assumes "w_sess w = InTx"
  shows "wp (create_received E x k a ty n cur d)
    (\<lambda>i w'. \<exists>gap t. let e = new_event gap t (w_db w) x k a ty n cur d in
       i = te_id e \<and> runs w (add_event e (w_db w)) w' \<and> db_ok (add_event e (w_db w)))
    (sa_failure w) w"
  unfolding create_received_def wp_bind wp_get
  by (rule wp_mono [OF write_flush_spec [OF assms]]) (auto simp: Let_def simp del: new_row_keys)

lemma ledger_create_spec:
  assumes "w_sess w = InTx"
  shows "wp (ledger_create E ev acc ty n b)
    (\<lambda>i w'. \<exists>gap t. let l = new_ledger gap t (w_db w) ev acc ty n b in
       i = le_id l \<and> runs w (add_ledger l (w_db w)) w' \<and> db_ok (add_ledger l (w_db w)))
    (sa_failure w) w"
  unfolding ledger_create_def wp_bind wp_get
  by (rule wp_mono [OF write_flush_spec [OF assms]]) (auto simp: Let_def simp del: new_row_keys)

lemma update_balance_spec:
  assumes "w_sess w = InTx"
  shows "wp (update_balance E i b)
    (\<lambda>j w'. j = i \<and> (\<exists>t. runs w (set_balance i b t (w_db w)) w') \<and> db_ok (w_db w'))
    (sa_failure w) w"
  unfolding update_balance_def wp_bind wp_utc_now
  by (rule wp_mono [OF write_flush_spec [OF assms]]) (auto simp: runs_def)

lemma create_processing_spec:
  assumes "w_sess w = InTx"
  shows "wp (create_processing E k h ex l)
    (\<lambda>i w'. \<exists>gap t. let r = new_idem gap t (w_db w) k h ex l in
       i = idem_id r \<and> runs w (add_idem r (w_db w)) w' \<and> db_ok (add_idem r (w_db w)))
    (sa_failure w) w"
  unfolding create_processing_def wp_bind wp_get
  by (rule wp_mono [OF write_flush_spec [OF assms]]) (auto simp: Let_def simp del: new_row_keys)

lemma mark_completed_spec:
  assumes "w_sess w = InTx"
  shows "wp (mark_completed E i code body t)
    (\<lambda>j w'. j = i \<and> runs w (upd_idem i (completed_row code body t) (w_db w)) w' \<and> db_ok (w_db w'))
    (sa_failure w) w"
  unfolding mark_completed_def
  by (rule wp_mono [OF write_flush_spec [OF assms]]) (auto simp: runs_def)

lemma mark_failed_spec:
  assumes "w_sess w = InTx"
  shows "wp (mark_failed E i t code body m)
    (\<lambda>j w'. j = i \<and> runs w (upd_idem i (failed_row t code body m) (w_db w)) w' \<and> db_ok (w_db w'))
    (sa_failure w) w"
  unfolding mark_failed_def
  by (rule wp_mono [OF write_flush_spec [OF assms]]) (auto simp: runs_def)

text \<open>A query for one object by a unique column.\<close>

lemma unique_query_spec:
  assumes "w_sess w = InTx" "distinct (map k (tbl (w_db w)))"
  shows "wp (bindM (db_query E (\<lambda>db. filter (\<lambda>r. k r = v) (tbl db))) (\<lambda>rs.
      bindM (one_or_none rs) (\<lambda>r. returnM (get_id pk r))))
    (\<lambda>i w'. runs w (w_db w) w' \<and> i = map_option pk (List.find (\<lambda>r. k r = v) (tbl (w_db w))))
    (sa_failure w) w"
proof -
  consider "filter (\<lambda>r. k r = v) (tbl (w_db w)) = []" | r where "filter (\<lambda>r. k r = v) (tbl (w_db w)) = [r]"
    by (rule filter_key_cases [OF assms(2)])
  then show ?thesis
    using assms(1) by cases (auto simp: wp_simps find_filter get_id_def runs_refl split: option.split)
qed

end
