(* ===== verification/State_Service.thy ===== *)
theory State_Service
  imports Repositories
begin

text \<open>
  \<open>TransactionStateService\<close> (\<open>backend/app/services/transaction_state_service.py\<close>): a status change that
  the state machine allows appends a history row and updates the event; any other is refused.
\<close>

definition change_status ::
  "env \<Rightarrow> int \<Rightarrow> transaction_status + string \<Rightarrow> string option \<Rightarrow> event_state_history app" where
  "change_status E event next_status reason =
     bindM (read_row event_by_id event) (\<lambda>e.
     bindM (liftM (enum_or_raise ''TransactionStatus'' TransactionStatus (te_status e))) (\<lambda>current_status.
     bindM (liftM (normalize next_status)) (\<lambda>normalized_next_status.
     thenM (catchM (liftM (validate_transition (Inl current_status) (Inl normalized_next_status)))
       (\<lambda>exc. thenM (metric (record_state_transition (status_value current_status)
            (status_value normalized_next_status) ''rejected'')) (raiseM exc)))
     (bindM (history_add E event (Some current_status) normalized_next_status reason) (\<lambda>history.
     bindM (utc_now E) (\<lambda>t.
     thenM (assign (set_status event (status_value normalized_next_status) t))
     (thenM (db_flush E)
     (thenM (metric (record_state_transition (status_value current_status)
         (status_value normalized_next_status) ''allowed''))
     (returnM history)))))))))"

text \<open>The rows after an accepted change.\<close>

definition push_status :: "nat \<Rightarrow> instant \<Rightarrow> int \<Rightarrow> transaction_status \<Rightarrow> transaction_status \<Rightarrow>
    string option \<Rightarrow> tables \<Rightarrow> tables" where
  "push_status gap t i a b reason db = set_status i (status_value b) t
     (add_history (new_history gap t db i (Some (status_value a)) (status_value b) reason) db)"

lemma in_tx_change_status [keeps_intros]: "keeps (in_tx c) (change_status E i nxt reason)"
  unfolding change_status_def by (intro keeps_intros)

lemma change_status_spec:
  assumes "w_sess w = InTx" "event_by_id (w_db w) i = Some e" "te_status e = status_value a"
  shows "wp (change_status E i (Inl b) reason)
    (\<lambda>h w'. b \<in> set (allowed_transitions a) \<and> db_ok (w_db w') \<and>
       (\<exists>gap t. runs w (push_status gap t i a b reason (w_db w)) w'))
    (\<lambda>x w'. if b \<in> set (allowed_transitions a) then sa_failure w x w' \<and> w_sess w' = Deactive
       else x = InvalidStateTransition a b (transition_message a b) \<and> runs w (w_db w) w') w"
proof (cases "b \<in> set (allowed_transitions a)")
  case True
  with assms show ?thesis
    by (auto simp: change_status_def wp_simps enum_or_raise_def validate_transition_members
        history_add_def db_ok_def push_status_def split: option.split)
next
  case False
  with assms show ?thesis
    by (simp add: change_status_def wp_simps enum_or_raise_def validate_transition_members runs_def)
qed

subsection \<open>The rows of an accepted change\<close>

lemma push_status_tables [simp]:
  "t_accounts (push_status gap t i a b reason db) = t_accounts db"
  "t_ledger (push_status gap t i a b reason db) = t_ledger db"
  "t_idem (push_status gap t i a b reason db) = t_idem db"
  "t_cases (push_status gap t i a b reason db) = t_cases db"
  "t_quar (push_status gap t i a b reason db) = t_quar db"
  by (simp_all add: push_status_def set_status_def upd_event_def add_history_def)

lemma push_status_events:
  "t_events (push_status gap t i a b reason db) =
     update_rows (\<lambda>e. te_id e = i) (\<lambda>e. e\<lparr>te_status := status_value b, te_updated_at := t\<rparr>) (t_events db)"
  by (simp add: push_status_def set_status_def upd_event_def add_history_def)

lemma push_status_hist:
  "t_hist (push_status gap t i a b reason db) = t_hist db @
     [new_history gap t db i (Some (status_value a)) (status_value b) reason]"
  by (simp add: push_status_def set_status_def upd_event_def add_history_def)

lemma event_by_id_push:
  "event_by_id (push_status gap t i a b reason db) j =
     (if j = i then map_option (\<lambda>e. e\<lparr>te_status := status_value b, te_updated_at := t\<rparr>)
        (event_by_id db j) else event_by_id db j)"
  unfolding event_by_id_def push_status_events by (rule find_update_same) simp

subsection \<open>Histories\<close>

text \<open>
  The histories of an event, in the order they were written, are a walk of the state machine from
  \<open>RECEIVED\<close>; \<open>walk\<close> returns the status it ends in.
\<close>

fun walk :: "transaction_status \<Rightarrow> event_state_history list \<Rightarrow> transaction_status option" where
  "walk st [] = Some st"
| "walk st (h # hs) = (case TransactionStatus (esh_new_status h) of
       None \<Rightarrow> None
     | Some nxt \<Rightarrow> if esh_old_status h = Some (status_value st) \<and> nxt \<in> set (allowed_transitions st)
         then walk nxt hs else None)"

definition histories_of :: "tables \<Rightarrow> int \<Rightarrow> event_state_history list" where
  "histories_of db i = filter (\<lambda>h. esh_transaction_event_id h = i) (t_hist db)"

lemma walk_snoc:
  "walk st hs = Some a \<Longrightarrow> b \<in> set (allowed_transitions a) \<Longrightarrow>
     walk st (hs @ [new_history gap t db i (Some (status_value a)) (status_value b) reason]) = Some b"
  by (induction hs arbitrary: st) (auto simp: new_history_def split: option.splits if_splits)

lemma histories_of_push:
  "histories_of (push_status gap t i a b reason db) j =
     (if j = i then histories_of db i @ [new_history gap t db i (Some (status_value a)) (status_value b) reason]
      else histories_of db j)"
  by (auto simp: histories_of_def push_status_hist new_history_def)

end
