(* ===== verification/Ledger_Service.thy ===== *)
theory Ledger_Service
  imports Repositories
begin

text \<open>
  \<open>LedgerService\<close> (\<open>backend/app/services/ledger_service.py\<close>): the ledger row and the balance of one
  event, computed from its type and, for a cancellation, from the event it cancels.
\<close>

definition validate_cancel_original :: "transaction_event \<Rightarrow> transaction_event \<Rightarrow> exn + unit" where
  "validate_cancel_original cancel_event original_event =
    (if te_event_type original_event \<notin> {event_type_value DEPOSIT, event_type_value WITHDRAW}
     then Inl (InvalidTransactionEvent ''CANCEL original must be DEPOSIT or WITHDRAW'')
     else if te_status original_event = status_value SETTLED then Inl TransactionAlreadySettled
     else if te_status original_event = status_value CANCELLED then Inl TransactionAlreadyCancelled
     else if te_status original_event \<noteq> status_value COMPLETED
     then Inl (InvalidTransactionEvent ''CANCEL original must be COMPLETED'')
     else if te_account_id original_event \<noteq> te_account_id cancel_event
     then Inl (InvalidTransactionEvent ''CANCEL account does not match original'')
     else if te_amount original_event \<noteq> te_amount cancel_event
     then Inl (InvalidTransactionEvent ''CANCEL amount does not match original'')
     else if te_currency original_event \<noteq> te_currency cancel_event
     then Inl (InvalidTransactionEvent ''CANCEL currency does not match original'')
     else Inr ())"

definition original_type_for :: "event_type \<Rightarrow> transaction_event \<Rightarrow> int option \<Rightarrow> event_type option app" where
  "original_type_for event_type event original =
    (if event_type = CANCEL then
       (case original of
          None \<Rightarrow> raiseM (InvalidTransactionEvent ''CANCEL requires original event'')
        | Some i \<Rightarrow> bindM (read_row event_by_id i) (\<lambda>original_event.
            thenM (liftM (validate_cancel_original event original_event))
            (bindM (liftM (enum_or_raise ''EventType'' EventType (te_event_type original_event)))
              (\<lambda>ot. returnM (Some ot)))))
     else returnM None)"

definition apply_event :: "env \<Rightarrow> int \<Rightarrow> int \<Rightarrow> int option \<Rightarrow> int app" where
  "apply_event E account transaction_event original_event =
     bindM (read_row event_by_id transaction_event) (\<lambda>event.
     bindM (liftM (enum_or_raise ''EventType'' EventType (te_event_type event))) (\<lambda>event_type.
     bindM (original_type_for event_type event original_event) (\<lambda>original_event_type.
     bindM (liftM (calculate_ledger_amount (Inl event_type) (te_amount event)
       (map_option Inl original_event_type))) (\<lambda>ledger_amount.
     bindM (read_row account_by_id account) (\<lambda>a.
     let new_balance = acc_balance a + ledger_amount in
     if new_balance < 0 then raiseM InsufficientBalance
     else let entry_type = (if ledger_amount > 0 then ''CREDIT'' else ''DEBIT'') in
       bindM (ledger_create E transaction_event account entry_type ledger_amount new_balance) (\<lambda>ledger_entry.
       thenM (update_balance E account new_balance) (returnM ledger_entry)))))))"

text \<open>The rows after an applied event, and the amount it has to carry.\<close>

definition post_ledger :: "nat \<Rightarrow> instant \<Rightarrow> instant \<Rightarrow> int \<Rightarrow> int \<Rightarrow> string \<Rightarrow> int \<Rightarrow> int \<Rightarrow> tables \<Rightarrow> tables" where
  "post_ledger gap t t' acc ev ty amt bal db =
     set_balance acc bal t' (add_ledger (new_ledger gap t db ev acc ty amt bal) db)"

fun signed_amount :: "event_type \<Rightarrow> event_type option \<Rightarrow> int \<Rightarrow> int option" where
  "signed_amount DEPOSIT _ n = Some n"
| "signed_amount WITHDRAW _ n = Some (- n)"
| "signed_amount CANCEL (Some DEPOSIT) n = Some (- n)"
| "signed_amount CANCEL (Some WITHDRAW) n = Some n"
| "signed_amount CANCEL _ n = None"

lemma in_tx_original_type_for [keeps_intros]: "keeps (in_tx c) (original_type_for ty e original)"
  unfolding original_type_for_def by (intro keeps_intros)

lemma in_tx_apply_event [keeps_intros]: "keeps (in_tx c) (apply_event E a ev original)"
  unfolding apply_event_def Let_def by (intro keeps_intros)

lemma calculate_ledger_amount_signed:
  "calculate_ledger_amount (Inl ty) n (map_option Inl ot) = Inr k \<longleftrightarrow>
     0 < n \<and> signed_amount ty ot n = Some k"
  by (cases ty; cases ot; cases "the ot")
    (auto simp: calculate_ledger_amount_def normalize_event_type_def)

lemma calculate_ledger_amount_error:
  "calculate_ledger_amount (Inl ty) n (map_option Inl ot) = Inl x \<Longrightarrow> \<exists>m. x = InvalidTransactionEvent m"
  by (cases ty; cases ot; cases "the ot")
    (auto simp: calculate_ledger_amount_def normalize_event_type_def split: if_splits)

lemma validate_cancel_original_ok:
  "validate_cancel_original e e' = Inr () \<longleftrightarrow>
     te_event_type e' \<in> {event_type_value DEPOSIT, event_type_value WITHDRAW} \<and>
     te_status e' = status_value COMPLETED \<and> te_account_id e' = te_account_id e \<and>
     te_amount e' = te_amount e \<and> te_currency e' = te_currency e"
  by (auto simp: validate_cancel_original_def)

text \<open>The exceptions a ledger rule refuses an event with.\<close>

fun ledger_refusal :: "exn \<Rightarrow> bool" where
  "ledger_refusal (InvalidTransactionEvent _) = True"
| "ledger_refusal InsufficientBalance = True"
| "ledger_refusal TransactionAlreadyCancelled = True"
| "ledger_refusal TransactionAlreadySettled = True"
| "ledger_refusal _ = False"

lemma validate_cancel_original_error:
  "validate_cancel_original e e' = Inl x \<Longrightarrow> ledger_refusal x"
  by (auto simp: validate_cancel_original_def split: if_splits)

text \<open>What \<open>original_type_for\<close> found when it returns.\<close>

definition original_checked :: "tables \<Rightarrow> event_type \<Rightarrow> transaction_event \<Rightarrow> int option \<Rightarrow>
    event_type option \<Rightarrow> bool" where
  "original_checked db ty e original ot \<longleftrightarrow>
    (if ty = CANCEL then (\<exists>i e' t. original = Some i \<and> event_by_id db i = Some e' \<and>
        validate_cancel_original e e' = Inr () \<and> te_event_type e' = event_type_value t \<and> ot = Some t)
     else ot = None)"

lemma original_type_for_spec:
  assumes "w_sess w = InTx"
  shows "wp (original_type_for ty e original)
    (\<lambda>ot w'. w' = w \<and> original_checked (w_db w) ty e original ot)
    (\<lambda>x w'. w' = w \<and> (ledger_refusal x \<or> (\<exists>s. x = SAError s))) w"
proof (cases "ty = CANCEL")
  case False
  then show ?thesis by (simp add: original_type_for_def wp_simps original_checked_def)
next
  case cancel: True
  show ?thesis
  proof (cases original)
    case None
    with cancel show ?thesis by (simp add: original_type_for_def wp_simps)
  next
    case (Some i)
    show ?thesis
    proof (cases "event_by_id (w_db w) i")
      case None
      with cancel Some assms show ?thesis by (simp add: original_type_for_def wp_simps)
    next
      case (Some e')
      note found = cancel \<open>original = Some i\<close> Some assms
      show ?thesis
      proof (cases "validate_cancel_original e e'")
        case (Inl x)
        with found show ?thesis
          by (simp add: original_type_for_def wp_simps validate_cancel_original_error [OF Inl])
      next
        case (Inr u)
        then obtain t where "te_event_type e' = event_type_value t"
          using validate_cancel_original_ok [of e e'] by auto
        with found Inr show ?thesis
          by (simp add: original_type_for_def wp_simps original_checked_def enum_or_raise_def)
      qed
    qed
  qed
qed

text \<open>The second half of \<open>apply_event\<close>, once the amount is known.\<close>

definition post_amount :: "env \<Rightarrow> int \<Rightarrow> int \<Rightarrow> int \<Rightarrow> int app" where
  "post_amount E account transaction_event ledger_amount =
     bindM (read_row account_by_id account) (\<lambda>a.
     let new_balance = acc_balance a + ledger_amount in
     if new_balance < 0 then raiseM InsufficientBalance
     else let entry_type = (if ledger_amount > 0 then ''CREDIT'' else ''DEBIT'') in
       bindM (ledger_create E transaction_event account entry_type ledger_amount new_balance) (\<lambda>ledger_entry.
       thenM (update_balance E account new_balance) (returnM ledger_entry)))"

lemma post_amount_spec:
  assumes "w_sess w = InTx" "account_by_id (w_db w) acc = Some a"
  shows "wp (post_amount E acc ev k)
    (\<lambda>l w'. \<exists>gap t t' ety. 0 \<le> acc_balance a + k \<and> db_ok (w_db w') \<and>
       l = next_id gap (map le_id (t_ledger (w_db w))) \<and>
       runs w (post_ledger gap t t' acc ev ety k (acc_balance a + k) (w_db w)) w')
    (\<lambda>x w'. (x = InsufficientBalance \<and> runs w (w_db w) w') \<or> sa_failure w x w') w"
  (is "wp _ ?Q ?X w")
proof (cases "acc_balance a + k < 0")
  case True
  with assms show ?thesis by (simp add: post_amount_def wp_simps Let_def runs_refl)
next
  case False
  let ?ty = "if 0 < k then ''CREDIT'' else ''DEBIT''"
  have "wp (bindM (ledger_create E ev acc ?ty k (acc_balance a + k)) (\<lambda>l.
      thenM (update_balance E acc (acc_balance a + k)) (returnM l))) ?Q ?X w"
  proof (rule wp_bindI [OF ledger_create_spec [OF assms(1)]], goal_cases)
    case (1 l w1)
    then obtain gap t where row: "l = next_id gap (map le_id (t_ledger (w_db w)))"
      "runs w (add_ledger (new_ledger gap t (w_db w) ev acc ?ty k (acc_balance a + k)) (w_db w)) w1"
      by (auto simp: Let_def)
    then have "w_sess w1 = InTx" by (simp add: runs_def)
    then show ?case
    proof (rule wp_thenI [OF update_balance_spec], goal_cases)
      case (1 i w2)
      then obtain t' where "runs w1 (set_balance acc (acc_balance a + k) t' (w_db w1)) w2"
        "db_ok (w_db w2)" by auto
      with row have "runs w (post_ledger gap t t' acc ev ?ty k (acc_balance a + k) (w_db w)) w2"
        by (auto simp: post_ledger_def runs_def)
      with False row \<open>db_ok (w_db w2)\<close> show ?case unfolding wp_return by (smt (verit))
    next
      case (2 e w2)
      with row show ?case by (blast intro: runs_failure)
    qed
  qed simp
  with False assms show ?thesis by (simp add: post_amount_def wp_simps Let_def)
qed

lemma apply_event_spec:
  assumes inx: "w_sess w = InTx"
    and ev: "event_by_id (w_db w) ev = Some e"
    and ty: "te_event_type e = event_type_value ty"
    and acc: "account_by_id (w_db w) acc = Some a"
  shows "wp (apply_event E acc ev original)
    (\<lambda>l w'. \<exists>ot k gap t t' ety. original_checked (w_db w) ty e original ot \<and> 0 < te_amount e \<and>
       signed_amount ty ot (te_amount e) = Some k \<and> 0 \<le> acc_balance a + k \<and> db_ok (w_db w') \<and>
       l = next_id gap (map le_id (t_ledger (w_db w))) \<and>
       runs w (post_ledger gap t t' acc ev ety k (acc_balance a + k) (w_db w)) w')
    (\<lambda>x w'. (ledger_refusal x \<and> runs w (w_db w) w') \<or> sa_failure w x w') w"
  (is "wp _ ?Q ?X w")
proof -
  have tail: "wp (bindM (liftM (calculate_ledger_amount (Inl ty) (te_amount e) (map_option Inl ot)))
      (post_amount E acc ev)) ?Q ?X w"
    if "original_checked (w_db w) ty e original ot" for ot
  proof (cases "calculate_ledger_amount (Inl ty) (te_amount e) (map_option Inl ot)")
    case (Inl x)
    with calculate_ledger_amount_error [OF Inl] show ?thesis
      by (auto simp: wp_simps runs_refl [OF inx])
  next
    case (Inr k)
    then have "0 < te_amount e" "signed_amount ty ot (te_amount e) = Some k"
      by (simp_all add: calculate_ledger_amount_signed)
    with that show ?thesis
      unfolding Inr wp_bind wp_lift sum.case
      by - (rule wp_mono [OF post_amount_spec [OF inx acc]]; use ledger_refusal.simps in blast)
  qed
  have "wp (original_type_for ty e original)
      (\<lambda>ot. wp (bindM (liftM (calculate_ledger_amount (Inl ty) (te_amount e) (map_option Inl ot)))
        (post_amount E acc ev)) ?Q ?X) ?X w"
    by (rule wp_mono [OF original_type_for_spec [OF inx]])
      (use tail inx in \<open>auto simp: runs_refl sa_failure_def in_tx_def\<close>)
  then show ?thesis
    by (simp add: apply_event_def wp_simps inx ev ty enum_or_raise_def post_amount_def [symmetric])
qed

end
