(* ===== verification/Idempotency_Service.thy ===== *)
theory Idempotency_Service
  imports Repositories
begin

text \<open>
  \<open>IdempotencyService\<close> (\<open>backend/app/services/idempotency_service.py\<close>): one record per idempotency key,
  opened as \<open>PROCESSING\<close> by the first request and closed once, as \<open>COMPLETED\<close> or \<open>FAILED\<close>, with the
  response a repetition of the request gets.
\<close>

record idempotency_service =
  ttl_seconds :: int
  processing_lock_seconds :: int

definition ensure_same_request_hash :: "idempotency_record \<Rightarrow> string \<Rightarrow> exn + unit" where
  "ensure_same_request_hash r h =
     (if idem_request_hash r \<noteq> h then Inl (IdempotencyConflict (idem_idempotency_key r)) else Inr ())"

definition ensure_completion_matches_request ::
  "idempotency_record \<Rightarrow> payload option \<Rightarrow> string option \<Rightarrow> exn + unit" where
  "ensure_completion_matches_request r p request_hash =
    (if p \<noteq> None \<and> request_hash \<noteq> None
     then Inl (ValueError ''Provide either payload or request_hash, not both.'')
     else (case p of
         Some pl \<Rightarrow> ensure_same_request_hash r (generate_request_hash pl)
       | None \<Rightarrow> (case request_hash of
             Some h \<Rightarrow> ensure_same_request_hash r h
           | None \<Rightarrow> Inr ())))"

definition record_status :: "idempotency_record \<Rightarrow> exn + idempotency_status" where
  "record_status r = enum_or_raise ''IdempotencyStatus'' IdempotencyStatus (idem_status r)"

definition is_terminal_noop :: "idempotency_record \<Rightarrow> idempotency_status \<Rightarrow> exn + bool" where
  "is_terminal_noop r attempted_status =
     bindE (record_status r) (\<lambda>st. Inr (st = attempted_status))"

definition ensure_can_close_processing :: "idempotency_record \<Rightarrow> idempotency_status \<Rightarrow> exn + unit" where
  "ensure_can_close_processing r attempted_status =
     bindE (record_status r) (\<lambda>current_status.
       if current_status = IS_PROCESSING then Inr ()
       else Inl (InvalidIdempotencyState (idempotency_status_value current_status)
         (idempotency_status_value attempted_status)))"

definition get_existing_record :: "env \<Rightarrow> string \<Rightarrow> int app" where
  "get_existing_record E key = bindM (get_by_key E key) (\<lambda>r. case r of
       None \<Rightarrow> raiseM (KeyError ''IdempotencyRecord not found'')
     | Some i \<Rightarrow> returnM i)"

definition now_or :: "env \<Rightarrow> instant option \<Rightarrow> instant app" where
  "now_or E t = (case t of None \<Rightarrow> utc_now E | Some x \<Rightarrow> returnM x)"

definition check_result :: "idempotency_decision \<Rightarrow> int \<Rightarrow> idempotency_check_result" where
  "check_result d i = \<lparr>chk_decision = d, chk_record_id = Some i, chk_response_code = None,
     chk_response_body = None\<rparr>"

definition replay_result :: "idempotency_decision \<Rightarrow> idempotency_record \<Rightarrow> idempotency_check_result" where
  "replay_result d r = \<lparr>chk_decision = d, chk_record_id = Some (idem_id r),
     chk_response_code = idem_response_code r, chk_response_body = idem_response_body r\<rparr>"

definition check_or_start :: "env \<Rightarrow> idempotency_service \<Rightarrow> string \<Rightarrow> payload \<Rightarrow> instant option \<Rightarrow>
    idempotency_check_result app" where
  "check_or_start E svc idempotency_key p t =
     bindM (now_or E t) (\<lambda>checked_at.
     let request_hash = generate_request_hash p in
     bindM (get_by_key E idempotency_key) (\<lambda>found. case found of
       None \<Rightarrow>
         bindM (create_processing E idempotency_key request_hash
             (checked_at + seconds (ttl_seconds svc))
             (Some (checked_at + seconds (processing_lock_seconds svc)))) (\<lambda>new_record.
         thenM (metric (record_idempotency_decision STARTED ''db''))
         (returnM (check_result STARTED new_record)))
     | Some i \<Rightarrow>
         bindM (read_row idem_by_id i) (\<lambda>r.
         thenM (catchM (liftM (ensure_same_request_hash r request_hash)) (\<lambda>exc. case exc of
             IdempotencyConflict _ \<Rightarrow> thenM (metric (record_idempotency_conflict ''db'')) (raiseM exc)
           | _ \<Rightarrow> raiseM exc))
         (bindM (liftM (record_status r)) (\<lambda>status.
           if status = IS_PROCESSING then
             thenM (metric (record_idempotency_decision ALREADY_PROCESSING ''db''))
             (returnM (check_result ALREADY_PROCESSING i))
           else if status = IS_COMPLETED then
             thenM (metric (record_idempotency_decision REPLAY_COMPLETED ''db''))
             (returnM (replay_result REPLAY_COMPLETED r))
           else
             thenM (metric (record_idempotency_decision REPLAY_FAILED ''db''))
             (returnM (replay_result REPLAY_FAILED r)))))))"

definition complete :: "env \<Rightarrow> string \<Rightarrow> int \<Rightarrow> json option \<Rightarrow> payload option \<Rightarrow> string option \<Rightarrow>
    instant option \<Rightarrow> int app" where
  "complete E idempotency_key response_code response_body p request_hash t =
     bindM (get_existing_record E idempotency_key) (\<lambda>i.
     bindM (read_row idem_by_id i) (\<lambda>r.
     thenM (liftM (ensure_completion_matches_request r p request_hash))
     (bindM (liftM (is_terminal_noop r IS_COMPLETED)) (\<lambda>noop.
       if noop then returnM i
       else thenM (liftM (ensure_can_close_processing r IS_COMPLETED))
         (bindM (now_or E t) (\<lambda>completed_at.
           mark_completed E i response_code response_body completed_at))))))"

definition fail :: "env \<Rightarrow> string \<Rightarrow> int option \<Rightarrow> json option \<Rightarrow> string option \<Rightarrow> payload option \<Rightarrow>
    string option \<Rightarrow> instant option \<Rightarrow> int app" where
  "fail E idempotency_key response_code response_body error_message p request_hash t =
     bindM (get_existing_record E idempotency_key) (\<lambda>i.
     bindM (read_row idem_by_id i) (\<lambda>r.
     thenM (liftM (ensure_completion_matches_request r p request_hash))
     (bindM (liftM (is_terminal_noop r IS_FAILED)) (\<lambda>noop.
       if noop then returnM i
       else thenM (liftM (ensure_can_close_processing r IS_FAILED))
         (bindM (now_or E t) (\<lambda>failed_at.
           mark_failed E i failed_at response_code response_body error_message))))))"

subsection \<open>Effects\<close>

lemma in_tx_now_or [keeps_intros]: "keeps (in_tx c) (now_or E t)"
  unfolding now_or_def by (intro keeps_intros)

lemma in_tx_get_existing_record [keeps_intros]: "keeps (in_tx c) (get_existing_record E k)"
  unfolding get_existing_record_def by (intro keeps_intros)

lemma keeps_conflict_case [keeps_intros]:
  "(\<And>k. keeps I (f k)) \<Longrightarrow> keeps I g \<Longrightarrow>
     keeps I (case x of IdempotencyConflict k \<Rightarrow> f k | _ \<Rightarrow> g)"
  by (cases x) simp_all

lemma in_tx_check_or_start [keeps_intros]: "keeps (in_tx c) (check_or_start E svc k p t)"
  unfolding check_or_start_def Let_def by (intro keeps_intros)

lemma in_tx_complete [keeps_intros]: "keeps (in_tx c) (complete E k code body p h t)"
  unfolding complete_def by (intro keeps_intros)

lemma in_tx_fail [keeps_intros]: "keeps (in_tx c) (fail E k code body m p h t)"
  unfolding fail_def by (intro keeps_intros)

text \<open>The record of a key.\<close>

definition idem_of :: "tables \<Rightarrow> string \<Rightarrow> idempotency_record option" where
  "idem_of db k = List.find (\<lambda>r. idem_idempotency_key r = k) (t_idem db)"

lemma idem_of_Some: "idem_of db k = Some r \<Longrightarrow> r \<in> set (t_idem db) \<and> idem_idempotency_key r = k"
  by (auto simp: idem_of_def find_Some_iff)

lemma idem_of_None: "idem_of db k = None \<longleftrightarrow> k \<notin> idem_idempotency_key ` set (t_idem db)"
  by (auto simp: idem_of_def find_None_iff)

lemma idem_by_id_of:
  "db_ok db \<Longrightarrow> idem_of db k = Some r \<Longrightarrow> idem_by_id db (idem_id r) = Some r"
  using db_ok_unique(7) [of db] idem_of_Some [of db k r]
  by (simp add: idem_by_id_def find_key_distinct)

lemma get_by_key_spec:
  assumes "w_sess w = InTx" "db_ok (w_db w)"
  shows "wp (get_by_key E k)
    (\<lambda>i w'. runs w (w_db w) w' \<and> i = map_option idem_id (idem_of (w_db w) k)) (sa_failure w) w"
  unfolding get_by_key_def idem_of_def using assms by (intro unique_query_spec) (simp_all add: db_ok_unique)

text \<open>The answer for a record that exists.\<close>

definition replay_of :: "idempotency_record \<Rightarrow> string \<Rightarrow> exn + idempotency_check_result" where
  "replay_of r h = bindE (ensure_same_request_hash r h) (\<lambda>_. bindE (record_status r) (\<lambda>st.
     Inr (case st of
         IS_PROCESSING \<Rightarrow> check_result ALREADY_PROCESSING (idem_id r)
       | IS_COMPLETED \<Rightarrow> replay_result REPLAY_COMPLETED r
       | IS_FAILED \<Rightarrow> replay_result REPLAY_FAILED r)))"

lemma replay_of_Inr:
  assumes "replay_of r h = Inr c"
  obtains st where "record_status r = Inr st" "idem_request_hash r = h"
    "c = (case st of
         IS_PROCESSING \<Rightarrow> check_result ALREADY_PROCESSING (idem_id r)
       | IS_COMPLETED \<Rightarrow> replay_result REPLAY_COMPLETED r
       | IS_FAILED \<Rightarrow> replay_result REPLAY_FAILED r)"
  using assms by (auto simp: replay_of_def bindE_eq_Inr ensure_same_request_hash_def split: if_splits)

lemma replay_decision: "replay_of r h = Inr c \<Longrightarrow> chk_decision c \<noteq> STARTED"
  by (elim replay_of_Inr) (auto simp: check_result_def replay_result_def split: idempotency_status.split)

lemma wp_now_or: "(\<And>x. Q x w) \<Longrightarrow> wp (now_or E t) Q X w"
  by (simp add: now_or_def wp_simps split: option.split)

lemma check_or_start_spec:
  assumes inx: "w_sess w = InTx" and ok: "db_ok (w_db w)"
  shows "wp (check_or_start E svc k p t)
    (\<lambda>c w'. case idem_of (w_db w) k of
       None \<Rightarrow> \<exists>gap u ex l. let r = new_idem gap u (w_db w) k (generate_request_hash p) ex l in
         c = check_result STARTED (idem_id r) \<and> runs w (add_idem r (w_db w)) w' \<and> db_ok (w_db w')
     | Some r \<Rightarrow> replay_of r (generate_request_hash p) = Inr c \<and> runs w (w_db w) w')
    (\<lambda>x w'. sa_failure w x w' \<or> (\<exists>r. idem_of (w_db w) k = Some r \<and>
       replay_of r (generate_request_hash p) = Inl x \<and> runs w (w_db w) w')) w"
  (is "wp _ ?Q ?X w")
  unfolding check_or_start_def wp_bind [of "now_or E t"] Let_def
proof (rule wp_now_or, rule wp_bindI [OF get_by_key_spec [OF inx ok]], goal_cases)
  case (1 checked_at found w1)
  then have w1: "runs w (w_db w) w1" "w_sess w1 = InTx" "w_db w1 = w_db w"
    by (auto simp: runs_def)
  show ?case
  proof (cases "idem_of (w_db w) k")
    case None
    have "wp (create_processing E k (generate_request_hash p) ex l)
        (\<lambda>i. wp (thenM (metric (record_idempotency_decision STARTED ''db'')) (returnM (check_result STARTED i)))
           ?Q ?X) ?X w1" for ex l
    proof (rule wp_mono [OF create_processing_spec [OF w1(2)]], goal_cases)
      case (1 i w2)
      then obtain gap u where "let r = new_idem gap u (w_db w) k (generate_request_hash p) ex l in
          i = idem_id r \<and> runs w1 (add_idem r (w_db w)) w2 \<and> db_ok (w_db w2)"
        by (auto simp: w1(3) Let_def runs_def)
      with runs_trans [OF w1(1)] show ?case
        by (simp add: wp_then wp_metric wp_return None Let_def del: new_row_keys) blast
    qed (use w1 in \<open>blast intro: runs_failure\<close>)
    then show ?thesis
      unfolding None conjunct2 [OF 1] option.map option.case wp_bind Let_def .
  next
    case (Some r)
    then have "idem_by_id (w_db w1) (idem_id r) = Some r"
      using idem_by_id_of [OF ok] w1 by simp
    with Some w1 1 show ?thesis
      by (auto simp: wp_simps ensure_same_request_hash_def replay_of_def
          split: sum.splits idempotency_status.splits)
  qed
qed auto

text \<open>Closing a record, on every branch.\<close>

lemma get_existing_record_spec:
  assumes inx: "w_sess w = InTx" "db_ok (w_db w)"
    and none: "\<And>w'. idem_of (w_db w) k = None \<Longrightarrow> runs w (w_db w) w' \<Longrightarrow>
      X (KeyError ''IdempotencyRecord not found'') w'"
    and some: "\<And>r w'. idem_of (w_db w) k = Some r \<Longrightarrow> runs w (w_db w) w' \<Longrightarrow> wp (f (idem_id r) r) Q X w'"
    and err: "\<And>x w'. sa_failure w x w' \<Longrightarrow> X x w'"
  shows "wp (bindM (get_existing_record E k) (\<lambda>i. bindM (read_row idem_by_id i) (f i))) Q X w"
  unfolding get_existing_record_def wp_bind
proof (rule wp_mono [OF get_by_key_spec [OF inx]], goal_cases)
  case (1 found w1)
  then have w1: "w_sess w1 = InTx" "w_db w1 = w_db w" by (auto simp: runs_def)
  show ?case
  proof (cases "idem_of (w_db w) k")
    case None
    with 1 none show ?thesis by (simp add: wp_simps)
  next
    case (Some r)
    with 1 w1 idem_by_id_of [OF inx(2) Some] some show ?thesis by (simp add: wp_simps)
  qed
qed (rule err)

lemma complete_spec:
  assumes "w_sess w = InTx" "db_ok (w_db w)" "idem_of (w_db w) k = Some r"
    "idem_request_hash r = generate_request_hash p" "idem_status r = idempotency_status_value IS_PROCESSING"
  shows "wp (complete E k code body (Some p) None t)
    (\<lambda>i w'. i = idem_id r \<and> (\<exists>u. runs w (upd_idem i (completed_row code body u) (w_db w)) w') \<and>
       db_ok (w_db w'))
    (sa_failure w) w"
  unfolding complete_def
proof (rule get_existing_record_spec [OF assms(1,2)], goal_cases)
  case (2 r' w1)
  with assms(3) have r': "r' = r" by simp
  from 2 have "w_sess w1 = InTx" "w_db w1 = w_db w" by (auto simp: runs_def)
  moreover have "wp (mark_completed E (idem_id r) code body u)
      (\<lambda>i w'. i = idem_id r \<and> (\<exists>u. runs w (upd_idem i (completed_row code body u) (w_db w)) w') \<and>
         db_ok (w_db w')) (sa_failure w) w1" for u
    by (rule wp_mono [OF mark_completed_spec [OF calculation(1)]])
      (use 2 calculation in \<open>auto intro: runs_trans runs_failure\<close>)
  ultimately show ?case
    using assms r' by (simp add: wp_simps ensure_completion_matches_request_def ensure_same_request_hash_def
        is_terminal_noop_def ensure_can_close_processing_def record_status_def enum_or_raise_def wp_now_or)
qed (use assms in auto)

lemma fail_spec:
  assumes "w_sess w = InTx" "db_ok (w_db w)" "idem_of (w_db w) k = Some r"
    "idem_request_hash r = generate_request_hash p" "idem_status r = idempotency_status_value IS_PROCESSING"
  shows "wp (fail E k code body m (Some p) None t)
    (\<lambda>i w'. i = idem_id r \<and> (\<exists>u. runs w (upd_idem i (failed_row u code body m) (w_db w)) w') \<and>
       db_ok (w_db w'))
    (sa_failure w) w"
  unfolding fail_def
proof (rule get_existing_record_spec [OF assms(1,2)], goal_cases)
  case (2 r' w1)
  with assms(3) have r': "r' = r" by simp
  from 2 have "w_sess w1 = InTx" "w_db w1 = w_db w" by (auto simp: runs_def)
  moreover have "wp (mark_failed E (idem_id r) u code body m)
      (\<lambda>i w'. i = idem_id r \<and> (\<exists>u. runs w (upd_idem i (failed_row u code body m) (w_db w)) w') \<and>
         db_ok (w_db w')) (sa_failure w) w1" for u
    by (rule wp_mono [OF mark_failed_spec [OF calculation(1)]])
      (use 2 calculation in \<open>auto intro: runs_trans runs_failure\<close>)
  ultimately show ?case
    using assms r' by (simp add: wp_simps ensure_completion_matches_request_def ensure_same_request_hash_def
        is_terminal_noop_def ensure_can_close_processing_def record_status_def enum_or_raise_def wp_now_or)
qed (use assms in auto)

end
