(* ===== verification/Redis.thy ===== *)
theory Redis
  imports World
begin

text \<open>
  Redis (\<open>backend/app/cache\<close>): the key names, the short-lived lock and the cache of completed responses.
  A key holds a value until its expiry instant. A command may fail, before or after the server applied it;
  every use falls back without raising.
\<close>

definition hash_key :: "string \<Rightarrow> string" where
  "hash_key s = sha256_hex (utf8 s)"

definition idempotency_lock_key :: "string \<Rightarrow> string" where
  "idempotency_lock_key k = ''lock:idempotency:'' @ hash_key k"

definition idempotency_cache_key :: "string \<Rightarrow> string" where
  "idempotency_cache_key k = ''cache:idempotency:'' @ hash_key k"

fun redis_failure_reason :: "redis_error \<Rightarrow> string" where
  "redis_failure_reason RedisTimeout = ''timeout''"
| "redis_failure_reason RedisConnection = ''connection_error''"
| "redis_failure_reason RedisOther = ''unknown''"

subsection \<open>Commands\<close>

definition redis_live :: "redis_store \<Rightarrow> instant \<Rightarrow> string \<Rightarrow> redis_value option" where
  "redis_live st t k = (case st k of Some (v, ex) \<Rightarrow> if t < ex then Some v else None | None \<Rightarrow> None)"

definition redis_call :: "env \<Rightarrow> (instant \<Rightarrow> redis_store \<Rightarrow> 'a \<times> redis_store) \<Rightarrow> (redis_error + 'a) app" where
  "redis_call E cmd w = (let (x, st) = cmd (now E (w_tick w)) (w_redis w) in
     (case redis_fault E (w_tick w) of
        Some (e, applied) \<Rightarrow> (Inr (Inl e), tick (if applied then w\<lparr>w_redis := st\<rparr> else w))
      | None \<Rightarrow> (Inr (Inr x), tick (w\<lparr>w_redis := st\<rparr>))))"

definition redis_get :: "string \<Rightarrow> instant \<Rightarrow> redis_store \<Rightarrow> redis_value option \<times> redis_store" where
  "redis_get k t st = (redis_live st t k, st)"

text \<open>\<open>SET key value NX PX ttl\<close>, \<open>SETEX key ttl value\<close>, \<open>DEL key\<close>.\<close>

definition redis_set_nx :: "string \<Rightarrow> string \<Rightarrow> int \<Rightarrow> instant \<Rightarrow> redis_store \<Rightarrow> bool \<times> redis_store" where
  "redis_set_nx k v ttl_ms t st =
     (if redis_live st t k = None then (True, st(k \<mapsto> (RText v, t + ttl_ms * 1000))) else (False, st))"

definition redis_setex :: "string \<Rightarrow> int \<Rightarrow> json \<Rightarrow> instant \<Rightarrow> redis_store \<Rightarrow> unit \<times> redis_store" where
  "redis_setex k ttl doc t st = ((), st(k \<mapsto> (RDoc doc, t + seconds ttl)))"

definition redis_delete :: "string \<Rightarrow> instant \<Rightarrow> redis_store \<Rightarrow> unit \<times> redis_store" where
  "redis_delete k t st = ((), st(k := None))"

text \<open>The release script: delete the key when it holds the caller's token.\<close>

definition release_script :: "string \<Rightarrow> string \<Rightarrow> instant \<Rightarrow> redis_store \<Rightarrow> bool \<times> redis_store" where
  "release_script k token t st =
     (if redis_live st t k = Some (RText token) then (True, st(k := None)) else (False, st))"

subsection \<open>The lock\<close>

record redis_lock_result =
  lk_acquired :: bool
  lk_token :: "string option"
  lk_redis_available :: bool
  lk_reason :: "string option"

definition acquire :: "env \<Rightarrow> int \<Rightarrow> string \<Rightarrow> redis_lock_result app" where
  "acquire E ttl_ms key =
     bindM (getM (\<lambda>w. uuid_hex E (w_tick w))) (\<lambda>token.
     bindM (redis_call E (redis_set_nx key token ttl_ms)) (\<lambda>r. case r of
       Inl exc \<Rightarrow>
         (let reason = redis_failure_reason exc in
         thenM (metric (record_redis_lock_result ''unavailable''))
         (thenM (metric (record_redis_operation_v2 ''lock_acquire'' ''failure'' reason))
         (thenM (metric (record_redis_fallback ''lock_acquire'' reason))
         (returnM \<lparr>lk_acquired = False, lk_token = None, lk_redis_available = False,
            lk_reason = Some reason\<rparr>))))
     | Inr acquired \<Rightarrow>
         if \<not> acquired then
           thenM (metric (record_redis_lock_result ''rejected''))
           (thenM (metric (record_redis_operation_v2 ''lock_acquire'' ''rejected'' ''lock_not_acquired''))
           (returnM \<lparr>lk_acquired = False, lk_token = None, lk_redis_available = True,
              lk_reason = Some ''LOCK_NOT_ACQUIRED''\<rparr>))
         else
           thenM (metric (record_redis_lock_result ''success''))
           (thenM (metric (record_redis_operation_v2 ''lock_acquire'' ''success'' ''unknown''))
           (returnM \<lparr>lk_acquired = True, lk_token = Some token, lk_redis_available = True,
              lk_reason = None\<rparr>))))"

definition release :: "env \<Rightarrow> string \<Rightarrow> string option \<Rightarrow> unit app" where
  "release E key token = (case token of
       None \<Rightarrow> returnM ()
     | Some tok \<Rightarrow> bindM (redis_call E (release_script key tok)) (\<lambda>r. case r of
           Inr _ \<Rightarrow> thenM (metric (record_redis_operation ''lock_release'' ''success''))
             (metric (record_redis_operation_v2 ''lock_release'' ''success'' ''unknown''))
         | Inl exc \<Rightarrow> thenM (metric (record_redis_operation ''lock_release'' ''unavailable''))
             (metric (record_redis_operation_v2 ''lock_release'' ''failure'' (redis_failure_reason exc)))))"

subsection \<open>The response cache\<close>

record cached_idempotency_response =
  cr_request_hash :: json
  cr_response_code :: int
  cr_response_body :: json

text \<open>The fields of a cached document; a missing or unusable one reads as a miss.\<close>

definition decode_cached :: "redis_value \<Rightarrow> cached_idempotency_response option" where
  "decode_cached v = (case v of
       RDoc (JObj kvs) \<Rightarrow> (case (json_get ''request_hash'' kvs, json_get ''response_code'' kvs) of
           (Some h, Some c) \<Rightarrow> (case int_of_json c of
               Some code \<Rightarrow> Some \<lparr>cr_request_hash = h, cr_response_code = code,
                 cr_response_body = (case json_get ''response_body'' kvs of None \<Rightarrow> JNull | Some b \<Rightarrow> b)\<rparr>
             | None \<Rightarrow> None)
         | _ \<Rightarrow> None)
     | _ \<Rightarrow> None)"

definition is_document :: "redis_value \<Rightarrow> bool" where
  "is_document v = (case v of RDoc _ \<Rightarrow> True | RText _ \<Rightarrow> False)"

definition cache_get :: "env \<Rightarrow> string \<Rightarrow> cached_idempotency_response option app" where
  "cache_get E idempotency_key =
     bindM (redis_call E (redis_get (idempotency_cache_key idempotency_key))) (\<lambda>r. case r of
       Inl exc \<Rightarrow> (let reason = redis_failure_reason exc in
         thenM (metric (record_redis_operation ''cache_get'' ''unavailable''))
         (thenM (metric (record_redis_operation_v2 ''cache_get'' ''failure'' reason))
         (thenM (metric (record_redis_fallback ''cache_get'' reason)) (returnM None))))
     | Inr None \<Rightarrow> thenM (metric record_idempotency_cache_miss) (returnM None)
     | Inr (Some cached) \<Rightarrow>
         thenM (whenM (is_document cached) (metric record_idempotency_cache_hit))
         (case decode_cached cached of
            Some x \<Rightarrow> returnM (Some x)
          | None \<Rightarrow> thenM (metric record_idempotency_cache_miss) (returnM None)))"

definition cache_document :: "string \<Rightarrow> int \<Rightarrow> json \<Rightarrow> string \<Rightarrow> json" where
  "cache_document request_hash response_code response_body cached_at = JObj
     [(''request_hash'', JStr request_hash), (''response_code'', JInt response_code),
      (''response_body'', response_body), (''cached_at'', JStr cached_at)]"

definition set_completed :: "env \<Rightarrow> int \<Rightarrow> string \<Rightarrow> string \<Rightarrow> int \<Rightarrow> json \<Rightarrow> unit app" where
  "set_completed E ttl idempotency_key request_hash response_code response_body =
     bindM (utc_now E) (\<lambda>t.
     bindM (redis_call E (redis_setex (idempotency_cache_key idempotency_key) ttl
         (cache_document request_hash response_code response_body (isoformat E t)))) (\<lambda>r. case r of
       Inr _ \<Rightarrow> thenM (metric (record_redis_operation ''cache_set'' ''success''))
         (metric (record_redis_operation_v2 ''cache_set'' ''success'' ''unknown''))
     | Inl exc \<Rightarrow> thenM (metric record_idempotency_cache_set_failure)
         (metric (record_redis_fallback ''cache_set'' (redis_failure_reason exc)))))"

definition cache_delete :: "env \<Rightarrow> string \<Rightarrow> unit app" where
  "cache_delete E idempotency_key =
     bindM (redis_call E (redis_delete (idempotency_cache_key idempotency_key))) (\<lambda>r. case r of
       Inr _ \<Rightarrow> thenM (metric (record_redis_operation ''cache_delete'' ''success''))
         (metric (record_redis_operation_v2 ''cache_delete'' ''success'' ''unknown''))
     | Inl exc \<Rightarrow> (let reason = redis_failure_reason exc in
         thenM (metric (record_redis_operation ''cache_delete'' ''unavailable''))
         (thenM (metric (record_redis_operation_v2 ''cache_delete'' ''failure'' reason))
         (metric (record_redis_fallback ''cache_delete'' reason)))))"

subsection \<open>Effects\<close>

text \<open>Redis commands touch the Redis store, the clock and the metrics, and never raise.\<close>

lemma keeps_case_sum [keeps_intros]:
  "(\<And>x. keeps I (f x)) \<Longrightarrow> (\<And>y. keeps I (g y)) \<Longrightarrow> keeps I (case r of Inl x \<Rightarrow> f x | Inr y \<Rightarrow> g y)"
  by (cases r) simp_all

lemma in_tx_redis_call [keeps_intros]: "keeps (in_tx c) (redis_call E cmd)"
  by (auto simp: keeps_def redis_call_def in_tx_def Let_def split: prod.split option.split)

lemma in_tx_redis [keeps_intros]:
  "keeps (in_tx c) (acquire E ttl k)" "keeps (in_tx c) (release E k tok)"
  "keeps (in_tx c) (cache_get E k)" "keeps (in_tx c) (set_completed E ttl k h code body)"
  "keeps (in_tx c) (cache_delete E k)"
  unfolding acquire_def release_def cache_get_def set_completed_def cache_delete_def Let_def
  by (intro keeps_intros)+

definition redis_only :: "world \<Rightarrow> world \<Rightarrow> bool" where
  "redis_only w w' \<longleftrightarrow> w_db w' = w_db w \<and> w_committed w' = w_committed w \<and> w_sess w' = w_sess w \<and>
     w_active_event w' = w_active_event w \<and> w_suspend_file w' = w_suspend_file w \<and>
     w_suspend_state w' = w_suspend_state w"

lemma redis_only_simps [simp]:
  "redis_only w w" "redis_only w (tick w') \<longleftrightarrow> redis_only w w'"
  "redis_only w (w'\<lparr>w_redis := st\<rparr>) \<longleftrightarrow> redis_only w w'"
  "redis_only w (w'\<lparr>w_metrics := m\<rparr>) \<longleftrightarrow> redis_only w w'"
  by (simp_all add: redis_only_def)

lemma wp_redis_call [wp_simps]:
  "wp (redis_call E cmd) Q X w \<longleftrightarrow> (let (x, st) = cmd (now E (w_tick w)) (w_redis w) in
     (case redis_fault E (w_tick w) of
        Some (e, applied) \<Rightarrow> Q (Inl e) (tick (if applied then w\<lparr>w_redis := st\<rparr> else w))
      | None \<Rightarrow> Q (Inr x) (tick (w\<lparr>w_redis := st\<rparr>))))"
  by (auto simp: wp_def redis_call_def Let_def split: prod.split option.split)

lemma acquire_only: "wp (acquire E ttl k) (\<lambda>r w'. redis_only w w' \<and>
    (lk_acquired r \<longrightarrow> lk_redis_available r \<and> lk_token r = Some (uuid_hex E (w_tick w))) \<and>
    (lk_redis_available r \<and> \<not> lk_acquired r \<longrightarrow> redis_live (w_redis w) (now E (w_tick w)) k \<noteq> None)) (\<lambda>_ _. False) w"
  by (auto simp: acquire_def wp_simps redis_set_nx_def Let_def split: option.split prod.split)

lemma release_only: "wp (release E k tok) (\<lambda>_. redis_only w) (\<lambda>_ _. False) w"
  by (auto simp: release_def wp_simps release_script_def Let_def split: option.split prod.split)

lemma set_completed_only: "wp (set_completed E ttl k h code body) (\<lambda>_. redis_only w) (\<lambda>_ _. False) w"
  by (auto simp: set_completed_def wp_simps redis_setex_def Let_def split: option.split prod.split)

lemma cache_get_only: "wp (cache_get E k) (\<lambda>r w'. redis_only w w' \<and> w_redis w' = w_redis w \<and>
    (r \<noteq> None \<longrightarrow> (\<exists>v. redis_live (w_redis w) (now E (w_tick w)) (idempotency_cache_key k) = Some v \<and>
       decode_cached v = r))) (\<lambda>_ _. False) w"
  by (auto simp: cache_get_def wp_simps redis_get_def Let_def split: option.split prod.split)

lemma decode_cache_document [simp]:
  "decode_cached (RDoc (cache_document h code body t)) =
     Some \<lparr>cr_request_hash = JStr h, cr_response_code = code, cr_response_body = body\<rparr>"
  by (simp add: decode_cached_def cache_document_def json_get_def)

end
