(* ===== verification/Cached_Idempotency.thy ===== *)
theory Cached_Idempotency
  imports Idempotency_Service Redis
begin

text \<open>
  \<open>CachedIdempotencyService\<close> (\<open>backend/app/services/cached_idempotency_service.py\<close>): the response cache in
  front of the idempotency records, and the choice between the two that
  \<open>build_idempotency_service\<close> makes: a cache time-to-live, or none.
\<close>

definition body_json :: "json option \<Rightarrow> json" where
  "body_json b = (case b of None \<Rightarrow> JNull | Some j \<Rightarrow> j)"

definition body_option :: "json \<Rightarrow> json option" where
  "body_option j = (case j of JNull \<Rightarrow> None | _ \<Rightarrow> Some j)"

text \<open>\<open>code or default\<close>\<close>

definition code_or :: "int option \<Rightarrow> int \<Rightarrow> int" where
  "code_or c d = (case c of None \<Rightarrow> d | Some n \<Rightarrow> if n = 0 then d else n)"

definition cached_check_or_start :: "env \<Rightarrow> idempotency_service \<Rightarrow> int \<Rightarrow> string \<Rightarrow> payload \<Rightarrow>
    instant option \<Rightarrow> idempotency_check_result app" where
  "cached_check_or_start E svc ttl idempotency_key p t =
     (let request_hash = generate_request_hash p in
     bindM (cache_get E idempotency_key) (\<lambda>cached.
       if (case cached of None \<Rightarrow> False | Some c \<Rightarrow> cr_request_hash c = JStr request_hash)
       then thenM (metric (record_idempotency_decision REPLAY_COMPLETED ''cache''))
         (returnM \<lparr>chk_decision = REPLAY_COMPLETED, chk_record_id = None,
            chk_response_code = Some (cr_response_code (the cached)),
            chk_response_body = body_option (cr_response_body (the cached))\<rparr>)
       else bindM (check_or_start E svc idempotency_key p t) (\<lambda>result.
         thenM (whenM (chk_decision result = REPLAY_COMPLETED)
           (set_completed E ttl idempotency_key request_hash
             (code_or (chk_response_code result) 200) (body_json (chk_response_body result))))
         (returnM result))))"

definition cached_complete :: "env \<Rightarrow> int \<Rightarrow> string \<Rightarrow> int \<Rightarrow> json option \<Rightarrow> payload option \<Rightarrow>
    string option \<Rightarrow> instant option \<Rightarrow> int app" where
  "cached_complete E ttl idempotency_key response_code response_body p request_hash t =
     bindM (complete E idempotency_key response_code response_body p request_hash t) (\<lambda>r.
     let resolved_hash = (case request_hash of Some h \<Rightarrow> Some h
           | None \<Rightarrow> map_option generate_request_hash p) in
     thenM (case resolved_hash of
         None \<Rightarrow> returnM ()
       | Some h \<Rightarrow> set_completed E ttl idempotency_key h response_code (body_json response_body))
     (returnM r))"

definition cached_fail :: "env \<Rightarrow> string \<Rightarrow> int option \<Rightarrow> json option \<Rightarrow> string option \<Rightarrow>
    payload option \<Rightarrow> string option \<Rightarrow> instant option \<Rightarrow> int app" where
  "cached_fail E idempotency_key response_code response_body error_message p request_hash t =
     fail E idempotency_key response_code response_body error_message p request_hash t"

subsection \<open>The service a request uses\<close>

definition svc_check_or_start :: "env \<Rightarrow> idempotency_service \<Rightarrow> int option \<Rightarrow> string \<Rightarrow> payload \<Rightarrow>
    idempotency_check_result app" where
  "svc_check_or_start E svc cache key p = (case cache of
       None \<Rightarrow> check_or_start E svc key p None
     | Some ttl \<Rightarrow> cached_check_or_start E svc ttl key p None)"

definition svc_complete :: "env \<Rightarrow> int option \<Rightarrow> string \<Rightarrow> int \<Rightarrow> json option \<Rightarrow> payload \<Rightarrow> int app" where
  "svc_complete E cache key code body p = (case cache of
       None \<Rightarrow> complete E key code body (Some p) None None
     | Some ttl \<Rightarrow> cached_complete E ttl key code body (Some p) None None)"

definition svc_fail :: "env \<Rightarrow> int option \<Rightarrow> string \<Rightarrow> int option \<Rightarrow> json option \<Rightarrow> string option \<Rightarrow> payload \<Rightarrow>
    int app" where
  "svc_fail E cache key code body msg p = (case cache of
       None \<Rightarrow> fail E key code body msg (Some p) None None
     | Some ttl \<Rightarrow> cached_fail E key code body msg (Some p) None None)"

lemma in_tx_cached [keeps_intros]:
  "keeps (in_tx c) (cached_check_or_start E svc ttl k p t)"
  "keeps (in_tx c) (cached_complete E ttl k code body po h t)"
  "keeps (in_tx c) (cached_fail E k co bo m po h t)"
  "keeps (in_tx c) (svc_check_or_start E svc cache k p)"
  "keeps (in_tx c) (svc_complete E cache k code body p)"
  "keeps (in_tx c) (svc_fail E cache k co bo m p)"
  unfolding svc_check_or_start_def svc_complete_def svc_fail_def cached_check_or_start_def
    cached_complete_def cached_fail_def Let_def
  by (intro keeps_intros)+

subsection \<open>What a request relies on\<close>

text \<open>
  The contract of an idempotency service towards the transaction that uses it: a key without a record is
  opened in a record of its own, any other answer leaves the rows alone, and the record a request
  opened can be closed once, leaving every other row as it is.
\<close>

definition opened :: "tables \<Rightarrow> string \<Rightarrow> payload \<Rightarrow> idempotency_record \<Rightarrow> bool" where
  "opened db key p r \<longleftrightarrow> idem_of db key = Some r \<and> idem_request_hash r = generate_request_hash p \<and>
     idem_status r = idempotency_status_value IS_PROCESSING"

locale idempotency_port =
  fixes check :: "string \<Rightarrow> payload \<Rightarrow> idempotency_check_result app"
    and close_ok :: "string \<Rightarrow> int \<Rightarrow> json option \<Rightarrow> payload \<Rightarrow> int app"
    and close_failed :: "string \<Rightarrow> int option \<Rightarrow> json option \<Rightarrow> string option \<Rightarrow> payload \<Rightarrow> int app"
  assumes check_law: "\<And>w key p. w_sess w = InTx \<Longrightarrow> db_ok (w_db w) \<Longrightarrow>
      wp (check key p)
        (\<lambda>c w'. if chk_decision c = STARTED
           then idem_of (w_db w) key = None \<and> (\<exists>r. runs w (add_idem r (w_db w)) w' \<and>
             db_ok (w_db w') \<and> opened (w_db w') key p r)
           else runs w (w_db w) w')
        (\<lambda>x w'. in_tx (w_committed w) w') w"
    and close_ok_law: "\<And>w key p r code body. w_sess w = InTx \<Longrightarrow> db_ok (w_db w) \<Longrightarrow>
      opened (w_db w) key p r \<Longrightarrow>
      wp (close_ok key code body p)
        (\<lambda>_ w'. db_ok (w_db w') \<and> (\<exists>t. runs w (upd_idem (idem_id r) (completed_row code body t) (w_db w)) w'))
        (sa_failure w) w"
    and close_failed_law: "\<And>w key p r code body m. w_sess w = InTx \<Longrightarrow> db_ok (w_db w) \<Longrightarrow>
      opened (w_db w) key p r \<Longrightarrow>
      wp (close_failed key code body m p)
        (\<lambda>_ w'. db_ok (w_db w') \<and> (\<exists>t. runs w (upd_idem (idem_id r) (failed_row t code body m) (w_db w)) w'))
        (sa_failure w) w"
begin

text \<open>A started request that runs a program leaving the idempotency table alone can close its record.\<close>

lemma still_opened: "opened db key p r \<Longrightarrow> t_idem db' = t_idem db \<Longrightarrow> opened db' key p r"
  by (simp add: opened_def idem_of_def)

lemma closed_ok:
  assumes "w_sess w = InTx" "db_ok (w_db w)" "opened (w_db w) key p r"
  shows "wp (close_ok key code body p)
    (\<lambda>_ w'. w_sess w' = InTx \<and> w_committed w' = w_committed w \<and> db_ok (w_db w') \<and>
       (\<exists>t. w_db w' = upd_idem (idem_id r) (completed_row code body t) (w_db w)))
    (\<lambda>x w'. in_tx (w_committed w) w' \<and> (\<exists>s. x = SAError s)) w"
  by (rule wp_mono [OF close_ok_law [OF assms]]) (auto simp: runs_def sa_failure_def)

lemma closed_failed:
  assumes "w_sess w = InTx" "db_ok (w_db w)" "opened (w_db w) key p r"
  shows "wp (close_failed key code body m p)
    (\<lambda>_ w'. w_sess w' = InTx \<and> w_committed w' = w_committed w \<and> db_ok (w_db w') \<and>
       (\<exists>t. w_db w' = upd_idem (idem_id r) (failed_row t code body m) (w_db w)))
    (\<lambda>x w'. in_tx (w_committed w) w' \<and> (\<exists>s. x = SAError s)) w"
  by (rule wp_mono [OF close_failed_law [OF assms]]) (auto simp: runs_def sa_failure_def)

end

subsection \<open>The records and the cache keep the contract\<close>

lemma check_law_records:
  assumes inx: "w_sess w = InTx" and ok: "db_ok (w_db w)"
  shows "wp (check_or_start E svc key p t)
    (\<lambda>c w'. if chk_decision c = STARTED
       then idem_of (w_db w) key = None \<and> (\<exists>r. runs w (add_idem r (w_db w)) w' \<and>
         db_ok (w_db w') \<and> opened (w_db w') key p r)
       else runs w (w_db w) w')
    (\<lambda>x w'. in_tx (w_committed w) w') w"
proof (rule wp_mono [OF check_or_start_spec [OF inx ok]], goal_cases)
  case (1 c w')
  show ?case
  proof (cases "idem_of (w_db w) key")
    case None
    with 1 obtain gap u ex l r where r: "r = new_idem gap u (w_db w) key (generate_request_hash p) ex l"
      "c = check_result STARTED (idem_id r)" "runs w (add_idem r (w_db w)) w'" "db_ok (w_db w')"
      by (auto simp: Let_def simp del: new_row_keys)
    have "List.find (\<lambda>x. idem_idempotency_key x = idem_idempotency_key r) (t_idem (w_db w')) = Some r"
      using r by (intro find_key_distinct db_ok_unique) (auto simp: runs_def add_idem_def)
    then have "opened (w_db w') key p r" by (simp add: opened_def idem_of_def r(1) new_idem_def)
    with None r show ?thesis by (auto simp: check_result_def)
  next
    case (Some r)
    with 1 show ?thesis using replay_decision by auto
  qed
qed (auto simp: sa_failure_def runs_in_tx)

lemma runs_redis: "runs w db w1 \<Longrightarrow> redis_only w1 w2 \<Longrightarrow> runs w db w2"
  by (simp add: runs_def redis_only_def)

lemma redis_runs: "redis_only w w1 \<Longrightarrow> runs w1 db w2 \<longleftrightarrow> runs w db w2"
  by (auto simp: runs_def redis_only_def)

lemma check_law_cached:
  assumes inx: "w_sess w = InTx" and ok: "db_ok (w_db w)"
  shows "wp (cached_check_or_start E svc ttl key p t)
    (\<lambda>c w'. if chk_decision c = STARTED
       then idem_of (w_db w) key = None \<and> (\<exists>r. runs w (add_idem r (w_db w)) w' \<and>
         db_ok (w_db w') \<and> opened (w_db w') key p r)
       else runs w (w_db w) w')
    (\<lambda>x w'. in_tx (w_committed w) w') w"
  (is "wp _ ?Q ?X w")
  unfolding cached_check_or_start_def Let_def
proof (rule wp_bindI [OF cache_get_only], goal_cases)
  case (1 cached w1)
  then have w1: "w_sess w1 = InTx" "w_db w1 = w_db w" "w_committed w1 = w_committed w" "redis_only w w1"
    using inx by (auto simp: redis_only_def)
  have "wp (bindM (check_or_start E svc key p t) (\<lambda>result.
      thenM (whenM (chk_decision result = REPLAY_COMPLETED) (set_completed E ttl key (generate_request_hash p)
        (code_or (chk_response_code result) 200) (body_json (chk_response_body result))))
      (returnM result))) ?Q ?X w1"
  proof (rule wp_bindI [OF check_law_records [OF w1(1)]], goal_cases)
    case (2 result w2)
    show ?case
    proof (cases "chk_decision result = REPLAY_COMPLETED")
      case True
      have "wp (set_completed E ttl key (generate_request_hash p) (code_or (chk_response_code result) 200)
          (body_json (chk_response_body result))) (\<lambda>_ w'. ?Q result w') ?X w2"
        by (rule wp_mono [OF set_completed_only])
          (use 2 True w1 in \<open>auto simp: redis_runs dest: runs_redis\<close>)
      then show ?thesis unfolding wp_then wp_when wp_return True simp_thms if_True .
    next
      case False
      with 2 w1(2) show ?thesis
        by (auto simp: wp_simps redis_runs [OF w1(4)] split: if_splits)
    qed
  qed (use ok w1 in auto)
  then show ?case
    using w1 by (auto simp: wp_simps runs_def redis_only_def)
qed simp

lemma close_law_records:
  assumes "w_sess w = InTx" "db_ok (w_db w)" "opened (w_db w) key p r"
  shows "wp (complete E key code body (Some p) None t)
      (\<lambda>_ w'. db_ok (w_db w') \<and> (\<exists>t. runs w (upd_idem (idem_id r) (completed_row code body t) (w_db w)) w'))
      (sa_failure w) w"
    and "wp (fail E key co body m (Some p) None t)
      (\<lambda>_ w'. db_ok (w_db w') \<and> (\<exists>t. runs w (upd_idem (idem_id r) (failed_row t co body m) (w_db w)) w'))
      (sa_failure w) w"
  using assms unfolding opened_def
  by (auto intro!: wp_mono [OF complete_spec] wp_mono [OF fail_spec])

lemma close_law_cached:
  assumes "w_sess w = InTx" "db_ok (w_db w)" "opened (w_db w) key p r"
  shows "wp (cached_complete E ttl key code body (Some p) None t)
      (\<lambda>_ w'. db_ok (w_db w') \<and> (\<exists>t. runs w (upd_idem (idem_id r) (completed_row code body t) (w_db w)) w'))
      (sa_failure w) w"
  unfolding cached_complete_def
proof (rule wp_bindI [OF close_law_records(1) [OF assms]], goal_cases)
  case (1 i w1)
  then show ?case
    by (auto simp: wp_simps Let_def redis_only_def intro!: wp_mono [OF set_completed_only])
      (auto simp: runs_def redis_only_def)
qed

interpretation svc: idempotency_port "svc_check_or_start E s cache" "svc_complete E cache" "svc_fail E cache"
  for E s cache
proof unfold_locales
  show "wp (svc_check_or_start E s cache key p)
      (\<lambda>c w'. if chk_decision c = STARTED
         then idem_of (w_db w) key = None \<and> (\<exists>r. runs w (add_idem r (w_db w)) w' \<and>
           db_ok (w_db w') \<and> opened (w_db w') key p r)
         else runs w (w_db w) w')
      (\<lambda>x w'. in_tx (w_committed w) w') w" if "w_sess w = InTx" "db_ok (w_db w)" for w key p
    using check_law_records [OF that] check_law_cached [OF that]
    by (cases cache) (simp_all only: svc_check_or_start_def option.case)
qed (auto simp: svc_complete_def svc_fail_def cached_fail_def
    intro!: close_law_records close_law_cached split: option.split)

end
