(* ===== verification/Quarantine.thy ===== *)
theory Quarantine
  imports Repositories
begin

text \<open>
  \<open>QuarantineService\<close> (\<open>backend/app/services/quarantine_service.py\<close>): at most one active quarantine per
  target, a release that is final for its record, and the guard that refuses work on a quarantined target.
\<close>

definition new_quarantine :: "env \<Rightarrow> world \<Rightarrow> quarantine_target_type \<Rightarrow> string \<Rightarrow> string \<Rightarrow> string \<Rightarrow>
    int option \<Rightarrow> string option \<Rightarrow> quarantine_record" where
  "new_quarantine E w target_type target_id reason activated_by source_recovery_case_id source_incident_id =
     \<lparr>qr_id = next_id (seq_gap E (w_tick w)) (map qr_id (t_quar (w_db w))),
      qr_quarantine_id = ''qr-'' @ take 16 (uuid_hex E (w_tick w)),
      qr_target_type = target_type_value target_type, qr_target_id = target_id, qr_reason = reason,
      qr_source_recovery_case_id = source_recovery_case_id,
      qr_source_incident_id = source_incident_id, qr_active = True,
      qr_activated_at = now E (w_tick w), qr_activated_by = activated_by, qr_released_at = None,
      qr_released_by = None, qr_release_reason = None,
      qr_created_at = now E (w_tick w), qr_updated_at = now E (w_tick w)\<rparr>"

definition create_quarantine :: "env \<Rightarrow> quarantine_target_type \<Rightarrow> string \<Rightarrow> string \<Rightarrow> string \<Rightarrow>
    int option \<Rightarrow> string option \<Rightarrow> int app" where
  "create_quarantine E target_type target_id reason activated_by source_recovery_case_id source_incident_id =
     bindM (get_active E (target_type_value target_type) target_id) (\<lambda>active. case active of
       Some i \<Rightarrow> returnM i
     | None \<Rightarrow> bindM (getM (\<lambda>w. new_quarantine E w target_type target_id reason activated_by
           source_recovery_case_id source_incident_id)) (quarantine_create E))"

definition released_row :: "instant \<Rightarrow> string \<Rightarrow> string \<Rightarrow> quarantine_record \<Rightarrow> quarantine_record" where
  "released_row t released_by release_reason q = q\<lparr>qr_active := False, qr_released_at := Some t,
     qr_released_by := Some released_by, qr_release_reason := Some release_reason, qr_updated_at := t\<rparr>"

definition release_quarantine :: "env \<Rightarrow> string \<Rightarrow> string \<Rightarrow> string \<Rightarrow> int app" where
  "release_quarantine E quarantine_id released_by release_reason =
     bindM (get_by_quarantine_id E quarantine_id) (\<lambda>found. case found of
       None \<Rightarrow> raiseM QuarantineRecordNotFound
     | Some i \<Rightarrow> bindM (read_row quar_by_id i) (\<lambda>q.
         thenM (whenM (qr_active q)
           (bindM (utc_now E) (\<lambda>t.
             thenM (assign (upd_quar i (released_row t released_by release_reason)))
             (thenM (quarantine_save E i) (returnM ())))))
         (returnM i)))"

definition assert_not_quarantined :: "env \<Rightarrow> quarantine_target_type \<Rightarrow> string \<Rightarrow> unit app" where
  "assert_not_quarantined E target_type target_id =
     bindM (get_active E (target_type_value target_type) target_id) (\<lambda>active. case active of
       None \<Rightarrow> returnM ()
     | Some i \<Rightarrow> bindM (read_row quar_by_id i) (\<lambda>q.
         raiseM (TargetQuarantined (target_type_value target_type) (qr_quarantine_id q))))"

definition list_quarantines :: "env \<Rightarrow> bool option \<Rightarrow> nat \<Rightarrow> quarantine_record list app" where
  "list_quarantines E active limit = quarantine_list E active limit"

lemma in_tx_quarantine [keeps_intros]:
  "keeps (in_tx c) (create_quarantine E ty i r by src inci)"
  "keeps (in_tx c) (release_quarantine E q by r)"
  "keeps (in_tx c) (assert_not_quarantined E ty i)"
  "keeps (in_tx c) (list_quarantines E act lim)"
  unfolding create_quarantine_def release_quarantine_def assert_not_quarantined_def list_quarantines_def
  by (intro keeps_intros)+

subsection \<open>Effects\<close>

definition quarantined :: "tables \<Rightarrow> quarantine_target_type \<Rightarrow> string \<Rightarrow> bool" where
  "quarantined db ty i \<longleftrightarrow>
     (\<exists>q\<in>set (t_quar db). qr_active q \<and> qr_target_type q = target_type_value ty \<and> qr_target_id q = i)"

lemma active_rows_quarantined: "active_rows (target_type_value ty) i db = [] \<longleftrightarrow> \<not> quarantined db ty i"
  by (auto simp: active_rows_def quarantined_def filter_empty_conv)

lemma first_sorted: "first (rev (sort_key k rs)) = None \<longleftrightarrow> rs = []"
proof -
  have "sort_key k rs = [] \<longleftrightarrow> rs = []" by (metis length_0_conv length_sort)
  then show ?thesis by (auto simp: first_def split: list.split)
qed

lemma first_sorted_in: "first (rev (sort_key k rs)) = Some r \<Longrightarrow> r \<in> set rs"
  by (metis first_def list.case_eq_if list.set_sel(1) option.inject option.distinct(1) set_rev set_sort)

lemma get_active_spec:
  assumes "w_sess w = InTx"
  shows "wp (get_active E (target_type_value ty) i)
    (\<lambda>r w'. runs w (w_db w) w' \<and> (case r of
         None \<Rightarrow> \<not> quarantined (w_db w) ty i
       | Some j \<Rightarrow> \<exists>q\<in>set (t_quar (w_db w)). qr_id q = j \<and> qr_active q \<and>
           qr_target_type q = target_type_value ty \<and> qr_target_id q = i))
    (sa_failure w) w"
proof -
  let ?f = "first (rev (sort_key (\<lambda>q. (qr_activated_at q, qr_id q))
    (active_rows (target_type_value ty) i (w_db w))))"
  have "?f = None \<longleftrightarrow> \<not> quarantined (w_db w) ty i"
    by (simp add: first_sorted active_rows_quarantined)
  moreover have "q \<in> set (t_quar (w_db w)) \<and> qr_active q \<and> qr_target_type q = target_type_value ty \<and>
      qr_target_id q = i" if "?f = Some q" for q
    using first_sorted_in [OF that] by (auto simp: active_rows_def)
  ultimately show ?thesis
    using assms by (auto simp: get_active_def wp_simps get_id_def runs_refl split: option.split)
qed

lemma assert_not_quarantined_spec:
  assumes inx: "w_sess w = InTx" and ok: "db_ok (w_db w)"
  shows "wp (assert_not_quarantined E ty i)
    (\<lambda>_ w'. runs w (w_db w) w' \<and> \<not> quarantined (w_db w) ty i)
    (\<lambda>x w'. sa_failure w x w' \<or> (quarantined (w_db w) ty i \<and> runs w (w_db w) w' \<and>
       (\<exists>q. x = TargetQuarantined (target_type_value ty) q))) w"
  unfolding assert_not_quarantined_def
proof (rule wp_bindI [OF get_active_spec [OF inx]], goal_cases)
  case (1 r w1)
  then have w1: "w_sess w1 = InTx" "w_db w1 = w_db w" by (auto simp: runs_def)
  show ?case
  proof (cases r)
    case None
    with 1 show ?thesis by (simp add: wp_simps)
  next
    case (Some j)
    with 1 obtain q where q: "q \<in> set (t_quar (w_db w))" "qr_id q = j" "qr_active q"
      "qr_target_type q = target_type_value ty" "qr_target_id q = i" by auto
    then have "quar_by_id (w_db w) j = Some q"
      using find_key_distinct [OF db_ok_unique(13) [OF ok] q(1)] by (simp add: quar_by_id_def)
    with 1 Some q w1 show ?thesis by (auto simp: wp_simps quarantined_def)
  qed
qed auto

end
