(* ===== verification/Transaction_Service.thy ===== *)
theory Transaction_Service
  imports State_Service Ledger_Service Cached_Idempotency Quarantine
begin

text \<open>
  \<open>TransactionEventService\<close> (\<open>backend/app/services/transaction_event_service.py\<close>): one event is processed in
  one database transaction, under an optional Redis lock, with one retry when a concurrent request
  won a unique constraint. Log lines are left out: \<open>log_event\<close> changes nothing and never raises.
\<close>

record transaction_service =
  ts_idempotency :: idempotency_service
  ts_cache_ttl :: "int option"  \<comment> \<open>the idempotency service is cached with this time-to-live\<close>
  ts_lock_ttl_ms :: "int option"
  ts_quarantine :: bool

subsection \<open>Results and errors\<close>

definition already_processing_result :: transaction_processing_result where
  "already_processing_result =
     \<lparr>res_status_code = 202,
      res_body = [(''status'', JStr ''PROCESSING''),
        (''message'', JStr ''The same request is already being processed.''),
        (''retry_after_seconds'', JInt 3), (''idempotency_key_status'', JStr ''processing'')],
      res_processed = False, res_duplicated = True\<rparr>"

definition is_domain_failure :: "exn \<Rightarrow> bool" where
  "is_domain_failure exc = (case exc of
       AccountNotFound \<Rightarrow> True | InsufficientBalance \<Rightarrow> True | InvalidTransactionEvent _ \<Rightarrow> True
     | OriginalTransactionNotFound \<Rightarrow> True | TargetQuarantined _ _ \<Rightarrow> True
     | TransactionAlreadyCancelled \<Rightarrow> True | TransactionAlreadySettled \<Rightarrow> True | _ \<Rightarrow> False)"

definition status_code_for_exception :: "exn \<Rightarrow> int" where
  "status_code_for_exception exc = (case exc of
       AccountNotFound \<Rightarrow> 404 | OriginalTransactionNotFound \<Rightarrow> 404
     | IdempotencyConflict _ \<Rightarrow> 409 | TransactionAlreadyCancelled \<Rightarrow> 409
     | TransactionAlreadySettled \<Rightarrow> 409 | TargetQuarantined _ _ \<Rightarrow> 409
     | InsufficientBalance \<Rightarrow> 422 | InvalidTransactionEvent _ \<Rightarrow> 422
     | _ \<Rightarrow> 500)"

definition error_body :: "exn \<Rightarrow> (string \<times> json) list" where
  "error_body exc = [(''status'', JStr ''error''), (''code'', JStr (exn_name exc)),
     (''message'', JStr (exn_str exc))]"

definition success_body :: "transaction_event \<Rightarrow> ledger_entry \<Rightarrow> bool \<Rightarrow> bool \<Rightarrow> (string \<times> json) list" where
  "success_body e l processed duplicated =
     [(''event_id'', JStr (int_str (te_id e))), (''external_event_id'', JStr (te_external_event_id e)),
      (''status'', JStr (te_status e)), (''processed'', JBool processed),
      (''duplicated'', JBool duplicated), (''balance_after'', JInt (le_balance_after l))]"

definition success_result :: "int \<Rightarrow> int \<Rightarrow> bool \<Rightarrow> bool \<Rightarrow> transaction_processing_result app" where
  "success_result event ledger processed duplicated =
     bindM (read_row event_by_id event) (\<lambda>e. bindM (read_row ledger_by_id ledger) (\<lambda>l.
     returnM \<lparr>res_status_code = 200, res_body = success_body e l processed duplicated,
       res_processed = processed, res_duplicated = duplicated\<rparr>))"

definition failed_result :: "exn \<Rightarrow> transaction_processing_result" where
  "failed_result exc = \<lparr>res_status_code = status_code_for_exception exc, res_body = error_body exc,
     res_processed = False, res_duplicated = False\<rparr>"

definition datetimes_match :: "py_datetime \<Rightarrow> py_datetime \<Rightarrow> bool" where
  "datetimes_match existing incoming =
    (if dt_offset existing \<noteq> None \<and> dt_offset incoming \<noteq> None
     then timestamp_of existing = timestamp_of incoming
     else dt_wall existing = dt_wall incoming)"

definition ensure_duplicate_matches_request ::
  "transaction_event \<Rightarrow> create_request \<Rightarrow> int \<Rightarrow> exn + unit" where
  "ensure_duplicate_matches_request existing_event request account_id =
    (if te_account_id existing_event \<noteq> account_id
     then Inl (InvalidTransactionEvent ''external_event_id already exists with different account'')
     else if te_event_type existing_event \<noteq> event_type_value (rq_event_type request)
     then Inl (InvalidTransactionEvent ''external_event_id already exists with different event_type'')
     else if te_amount existing_event \<noteq> rq_amount request
     then Inl (InvalidTransactionEvent ''external_event_id already exists with different amount'')
     else if te_currency existing_event \<noteq> rq_currency request
     then Inl (InvalidTransactionEvent ''external_event_id already exists with different currency'')
     else if \<not> datetimes_match (te_occurred_at existing_event) (rq_occurred_at request)
     then Inl (InvalidTransactionEvent ''external_event_id already exists with different occurred_at'')
     else Inr ())"

definition duplicate_result :: "env \<Rightarrow> int \<Rightarrow> transaction_processing_result app" where
  "duplicate_result E event = bindM (get_by_transaction_event_id E event) (\<lambda>ledger. case ledger of
       None \<Rightarrow> raiseM (InvalidTransactionEvent ''Duplicate event has no ledger entry'')
     | Some l \<Rightarrow> success_result event l False True)"

subsection \<open>Applying a started request\<close>

definition set_active :: "int option \<Rightarrow> unit app" where
  "set_active x = modifyM (\<lambda>w. w\<lparr>w_active_event := x\<rparr>)"

definition get_original_event_for_cancel :: "env \<Rightarrow> create_request \<Rightarrow> int option app" where
  "get_original_event_for_cancel E request =
    (if rq_event_type request \<noteq> CANCEL then returnM None
     else (case rq_original_external_event_id request of
         None \<Rightarrow> raiseM (InvalidTransactionEvent ''CANCEL requires original_external_event_id'')
       | Some x \<Rightarrow> bindM (get_original_for_cancel_for_update E x) (\<lambda>original. case original of
             None \<Rightarrow> raiseM OriginalTransactionNotFound
           | Some i \<Rightarrow> returnM (Some i))))"

definition run_event :: "env \<Rightarrow> create_request \<Rightarrow> int \<Rightarrow> int \<Rightarrow> int option \<Rightarrow>
    transaction_processing_result app" where
  "run_event E request account event original_event =
     thenM (change_status E event (Inl VALIDATED) (Some ''basic validation succeeded''))
     (thenM (change_status E event (Inl PROCESSING) (Some ''ledger processing started''))
     (bindM (apply_event E account event original_event) (\<lambda>ledger.
     thenM (case original_event of
         Some i \<Rightarrow> if rq_event_type request = CANCEL
           then thenM (change_status E i (Inl CANCELLED) (Some ''cancel event completed'')) (returnM ())
           else returnM ()
       | None \<Rightarrow> returnM ())
     (thenM (change_status E event (Inl COMPLETED) (Some ''ledger processing completed''))
     (success_result event ledger True False)))))"

definition apply_started_request :: "env \<Rightarrow> transaction_service \<Rightarrow> string \<Rightarrow> create_request \<Rightarrow>
    transaction_processing_result app" where
  "apply_started_request E svc idempotency_key request =
     bindM (get_by_account_no_for_update E (rq_account_no request)) (\<lambda>found. case found of
       None \<Rightarrow> raiseM AccountNotFound
     | Some account \<Rightarrow>
         thenM (whenM (ts_quarantine svc) (assert_not_quarantined E ACCOUNT (int_str account)))
         (bindM (get_by_external_event_id E (rq_external_event_id request)) (\<lambda>existing_event.
           case existing_event of
             Some i \<Rightarrow>
               bindM (read_row event_by_id i) (\<lambda>e.
               thenM (liftM (ensure_duplicate_matches_request e request account))
               (thenM (metric (record_duplicate_external_event (event_type_value (rq_event_type request))))
               (duplicate_result E i)))
           | None \<Rightarrow>
               bindM (get_original_event_for_cancel E request) (\<lambda>original_event.
               bindM (create_received E (rq_external_event_id request) idempotency_key account
                 (event_type_value (rq_event_type request)) (rq_amount request) (rq_currency request)
                 (rq_occurred_at request)) (\<lambda>event.
               thenM (set_active (Some event)) (run_event E request account event original_event))))))"

definition mark_active_event_failed :: "env \<Rightarrow> exn \<Rightarrow> unit app" where
  "mark_active_event_failed E exc = bindM (getM w_active_event) (\<lambda>active. case active of
       None \<Rightarrow> returnM ()
     | Some i \<Rightarrow> bindM (read_row event_by_id i) (\<lambda>e.
         if te_status e = status_value FAILED then returnM ()
         else catchM (thenM (change_status E i (Inl FAILED) (Some (exn_str exc))) (returnM ()))
           (\<lambda>_. returnM ())))"

definition process_started :: "env \<Rightarrow> transaction_service \<Rightarrow> string \<Rightarrow> create_request \<Rightarrow> payload \<Rightarrow>
    transaction_processing_result app" where
  "process_started E svc idempotency_key request p =
     finallyM
       (catchM
         (thenM (set_active None)
         (bindM (apply_started_request E svc idempotency_key request) (\<lambda>result.
         thenM (svc_complete E (ts_cache_ttl svc) idempotency_key (res_status_code result)
           (Some (JObj (res_body result))) p)
         (returnM result))))
         (\<lambda>exc.
           thenM (whenM (is_domain_failure exc) (mark_active_event_failed E exc))
           (thenM (svc_fail E (ts_cache_ttl svc) idempotency_key (Some (status_code_for_exception exc))
             (Some (JObj (error_body exc))) (Some (exn_str exc)) p)
           (if is_domain_failure exc then returnM (failed_result exc) else raiseM exc))))
       (set_active None)"

subsection \<open>Processing a request\<close>

text \<open>\<open>dict(body or {})\<close>: a stored body is an object or absent; anything else is no mapping.\<close>

definition dict_of :: "json option \<Rightarrow> exn + (string \<times> json) list" where
  "dict_of b = (case b of
       None \<Rightarrow> Inr []
     | Some j \<Rightarrow> if \<not> json_truthy j then Inr []
         else (case j of JObj kvs \<Rightarrow> Inr kvs | _ \<Rightarrow> Inl (ValueError ''cannot convert to dict'')))"

definition replayed :: "int option \<Rightarrow> int \<Rightarrow> json option \<Rightarrow> transaction_processing_result app" where
  "replayed code dflt body = bindM (liftM (dict_of body)) (\<lambda>kvs.
     returnM \<lparr>res_status_code = code_or code dflt, res_body = kvs, res_processed = False,
       res_duplicated = True\<rparr>)"

definition process_body :: "env \<Rightarrow> transaction_service \<Rightarrow> string \<Rightarrow> create_request \<Rightarrow> payload \<Rightarrow>
    transaction_processing_result app" where
  "process_body E svc idempotency_key request p =
     bindM (svc_check_or_start E (ts_idempotency svc) (ts_cache_ttl svc) idempotency_key p) (\<lambda>idem.
     case chk_decision idem of
       ALREADY_PROCESSING \<Rightarrow> returnM already_processing_result
     | REPLAY_COMPLETED \<Rightarrow> replayed (chk_response_code idem) 200 (chk_response_body idem)
     | REPLAY_FAILED \<Rightarrow> replayed (chk_response_code idem) 422 (chk_response_body idem)
     | STARTED \<Rightarrow> process_started E svc idempotency_key request p)"

fun process_attempts :: "env \<Rightarrow> transaction_service \<Rightarrow> string \<Rightarrow> create_request \<Rightarrow> payload \<Rightarrow> nat \<Rightarrow>
    transaction_processing_result app" where
  "process_attempts E svc key request p 0 =
     raiseM (RuntimeError ''unreachable transaction retry state'')"
| "process_attempts E svc key request p (Suc n) =
     catchM (with_begin E (process_body E svc key request p)) (\<lambda>exc. case exc of
         SAError (IntegrityError m) \<Rightarrow>
           thenM db_rollback
           (if n = 0 then raiseM exc
            else thenM (metric (record_db_transaction_retry ''integrity_conflict''))
              (process_attempts E svc key request p n))
       | _ \<Rightarrow> thenM db_rollback (raiseM exc))"

definition request_payload :: "env \<Rightarrow> create_request \<Rightarrow> payload" where
  "request_payload E request = PJson (model_dump (datetime_json E) request)"

definition process_with_db_fallback :: "env \<Rightarrow> transaction_service \<Rightarrow> string \<Rightarrow> create_request \<Rightarrow>
    transaction_processing_result app" where
  "process_with_db_fallback E svc key request =
     process_attempts E svc key request (request_payload E request) 2"

definition body_status :: "(string \<times> json) list \<Rightarrow> string" where
  "body_status kvs = (case json_get ''status'' kvs of Some (JStr s) \<Rightarrow> s | _ \<Rightarrow> ''unknown'')"

definition record_process_result :: "create_request \<Rightarrow> transaction_processing_result \<Rightarrow> unit app" where
  "record_process_result request result = (let
     event_type = event_type_value (rq_event_type request);
     outcome = (if res_processed result then ''processed''
       else if res_duplicated result then ''duplicated'' else ''failed'')
   in thenM (metric (observe_transaction_duration event_type))
      (metric (record_transaction_processed event_type (body_status (res_body result)) outcome)))"

definition process_recorded :: "env \<Rightarrow> transaction_service \<Rightarrow> string \<Rightarrow> create_request \<Rightarrow>
    transaction_processing_result app" where
  "process_recorded E svc key request =
     bindM (process_with_db_fallback E svc key request) (\<lambda>result.
     thenM (record_process_result request result) (returnM result))"

definition process :: "env \<Rightarrow> transaction_service \<Rightarrow> string \<Rightarrow> create_request \<Rightarrow>
    transaction_processing_result app" where
  "process E svc key request = (case ts_lock_ttl_ms svc of
       None \<Rightarrow> process_recorded E svc key request
     | Some ttl \<Rightarrow> bindM (acquire E ttl (idempotency_lock_key key)) (\<lambda>lock_result.
         if lk_redis_available lock_result \<and> \<not> lk_acquired lock_result then
           thenM (record_process_result request already_processing_result)
             (returnM already_processing_result)
         else finallyM (process_recorded E svc key request)
           (whenM (lk_acquired lock_result)
             (release E (idempotency_lock_key key) (lk_token lock_result)))))"

subsection \<open>Staying inside the transaction\<close>

lemma in_tx_set_active [keeps_intros]: "keeps (in_tx c) (set_active x)"
  by (auto simp: set_active_def in_tx_def intro!: keeps_modify)

lemma keeps_case_decision [keeps_intros]:
  "keeps I a \<Longrightarrow> keeps I b \<Longrightarrow> keeps I r \<Longrightarrow> keeps I f \<Longrightarrow>
    keeps I (case d of STARTED \<Rightarrow> a | REPLAY_COMPLETED \<Rightarrow> b | ALREADY_PROCESSING \<Rightarrow> r | REPLAY_FAILED \<Rightarrow> f)"
  by (cases d) simp_all

lemma in_tx_process_body [keeps_intros]: "keeps (in_tx c) (process_body E svc key request p)"
  unfolding process_body_def process_started_def apply_started_request_def run_event_def
    mark_active_event_failed_def get_original_event_for_cancel_def duplicate_result_def
    success_result_def replayed_def
  by (intro keeps_intros)

end
