(* ===== verification/Consistency.thy ===== *)
theory Consistency
  imports State_Service Ledger_Service Idempotency_Service
begin

text \<open>
  What a consistent database is, and that the row changes one event makes lead from one consistent
  database to another. Committed rows are consistent when the schema's constraints hold and

  \<^item> every balance is the sum of its ledger entries and is not negative,
  \<^item> every ledger entry carries the account and, up to sign, the amount of its event,
  \<^item> every event has left its intermediate states, has a ledger entry exactly when its status says the
    money moved, and its histories are a walk of the state machine that ends in its status,
  \<^item> no idempotency record is still \<open>PROCESSING\<close>.
\<close>

definition has_ledger :: "tables \<Rightarrow> int \<Rightarrow> bool" where
  "has_ledger db i \<longleftrightarrow> i \<in> le_transaction_event_id ` set (t_ledger db)"

definition intermediate :: "transaction_status \<Rightarrow> bool" where
  "intermediate st \<longleftrightarrow> st \<in> {RECEIVED, VALIDATED, PROCESSING}"

definition posted :: "transaction_status \<Rightarrow> bool" where
  "posted st \<longleftrightarrow> st \<in> {COMPLETED, CANCELLED, SETTLED}"

definition event_consistent :: "tables \<Rightarrow> transaction_event \<Rightarrow> bool" where
  "event_consistent db e \<longleftrightarrow> (case TransactionStatus (te_status e) of
       None \<Rightarrow> False
     | Some st \<Rightarrow> \<not> intermediate st \<and> (has_ledger db (te_id e) \<longleftrightarrow> posted st) \<and>
         walk RECEIVED (histories_of db (te_id e)) = Some st)"

definition ledger_consistent :: "tables \<Rightarrow> ledger_entry \<Rightarrow> bool" where
  "ledger_consistent db l \<longleftrightarrow> list_all (\<lambda>e. te_id e = le_transaction_event_id l \<longrightarrow>
     le_account_id l = te_account_id e \<and> \<bar>le_amount l\<bar> = te_amount e) (t_events db)"

definition balance_consistent :: "tables \<Rightarrow> account \<Rightarrow> bool" where
  "balance_consistent db a \<longleftrightarrow> acc_balance a = ledger_sum db (acc_id a) \<and> 0 \<le> acc_balance a"

definition idem_closed :: "idempotency_record \<Rightarrow> bool" where
  "idem_closed r \<longleftrightarrow> idem_status r \<in> {idempotency_status_value IS_COMPLETED, idempotency_status_value IS_FAILED}"

definition money_ok :: "tables \<Rightarrow> bool" where
  "money_ok db \<longleftrightarrow> list_all (balance_consistent db) (t_accounts db) \<and>
     list_all (ledger_consistent db) (t_ledger db)"

definition events_ok :: "int set \<Rightarrow> tables \<Rightarrow> bool" where
  "events_ok S db \<longleftrightarrow> list_all (\<lambda>e. te_id e \<notin> S \<longrightarrow> event_consistent db e) (t_events db)"

definition consistent :: "tables \<Rightarrow> bool" where
  "consistent db \<longleftrightarrow> db_ok db \<and> money_ok db \<and> events_ok {} db \<and> list_all idem_closed (t_idem db)"

text \<open>An event on its way: consistent but for that event, which has status \<open>st\<close> and no ledger entry.\<close>

definition on_its_way :: "tables \<Rightarrow> int \<Rightarrow> transaction_status \<Rightarrow> int \<Rightarrow> event_type \<Rightarrow> int \<Rightarrow> bool" where
  "on_its_way db i st acc ty n \<longleftrightarrow> db_ok db \<and> money_ok db \<and> events_ok {i} db \<and> \<not> has_ledger db i \<and>
     walk RECEIVED (histories_of db i) = Some st \<and>
     (\<exists>e. event_by_id db i = Some e \<and> te_status e = status_value st \<and> te_account_id e = acc \<and>
        te_event_type e = event_type_value ty \<and> te_amount e = n)"

lemma list_all_event_id:
  "db_ok db \<Longrightarrow> event_by_id db i = Some e \<Longrightarrow>
     list_all (\<lambda>x. te_id x = i \<longrightarrow> P x) (t_events db) \<longleftrightarrow> P e"
  using db_ok_unique(3) [of db] event_by_id_Some [of db i e]
  by (auto simp: list_all_iff dest: distinct_key_unique)

lemma events_ok_mono: "events_ok S db \<Longrightarrow> S \<subseteq> T \<Longrightarrow> events_ok T db"
  by (auto simp: events_ok_def list_all_iff)

subsection \<open>Rows that do not matter\<close>

lemma money_ok_cong:
  "t_accounts db' = t_accounts db \<Longrightarrow> t_ledger db' = t_ledger db \<Longrightarrow>
    map (\<lambda>e. (te_id e, te_account_id e, te_amount e)) (t_events db') =
      map (\<lambda>e. (te_id e, te_account_id e, te_amount e)) (t_events db) \<Longrightarrow>
    money_ok db' \<longleftrightarrow> money_ok db"
proof -
  assume tabs: "t_accounts db' = t_accounts db" "t_ledger db' = t_ledger db"
    and keys: "map (\<lambda>e. (te_id e, te_account_id e, te_amount e)) (t_events db') =
      map (\<lambda>e. (te_id e, te_account_id e, te_amount e)) (t_events db)"
  let ?P = "\<lambda>l (i, a, n). i = le_transaction_event_id l \<longrightarrow> le_account_id l = a \<and> \<bar>le_amount l\<bar> = n"
  have "ledger_consistent d l \<longleftrightarrow>
      list_all (?P l) (map (\<lambda>e. (te_id e, te_account_id e, te_amount e)) (t_events d))" for d l
    by (simp add: ledger_consistent_def list_all_iff)
  then have "ledger_consistent db' = ledger_consistent db" using keys by (simp add: fun_eq_iff)
  moreover have "balance_consistent db' = balance_consistent db"
    using tabs by (simp add: fun_eq_iff balance_consistent_def ledger_sum_def)
  ultimately show ?thesis using tabs by (simp add: money_ok_def)
qed

lemma event_consistent_cong:
  "t_ledger db' = t_ledger db \<Longrightarrow> histories_of db' (te_id e) = histories_of db (te_id e) \<Longrightarrow>
    event_consistent db' e \<longleftrightarrow> event_consistent db e"
  by (simp add: event_consistent_def has_ledger_def cong: option.case_cong)

lemma idem_irrelevant:
  "money_ok (db\<lparr>t_idem := rs\<rparr>) \<longleftrightarrow> money_ok db"
  "events_ok S (db\<lparr>t_idem := rs\<rparr>) \<longleftrightarrow> events_ok S db"
proof -
  show "money_ok (db\<lparr>t_idem := rs\<rparr>) \<longleftrightarrow> money_ok db" by (rule money_ok_cong) simp_all
  have "event_consistent (db\<lparr>t_idem := rs\<rparr>) = event_consistent db"
    by (rule ext, rule event_consistent_cong) (simp_all add: histories_of_def)
  then show "events_ok S (db\<lparr>t_idem := rs\<rparr>) \<longleftrightarrow> events_ok S db" by (simp add: events_ok_def)
qed

subsection \<open>A new event\<close>

lemma add_event_on_its_way:
  assumes db: "db_ok db" "money_ok db" "events_ok {} db"
    and ok: "db_ok (add_event e db)"
    and e: "e = new_event gap t db x k acc (event_type_value ty) n cur d"
  shows "on_its_way (add_event e db) (te_id e) RECEIVED acc ty n"
proof -
  let ?i = "te_id e"
  have fresh: "?i \<notin> te_id ` set (t_events db)"
    using next_id_fresh [of gap "map te_id (t_events db)"] by (simp add: e)
  have l: "le_transaction_event_id l \<noteq> ?i" if "l \<in> set (t_ledger db)" for l
    using db_ok_fk(2) [OF db(1) that] fresh by metis
  have "esh_transaction_event_id h \<noteq> ?i" if "h \<in> set (t_hist db)" for h
    using db_ok_fk(4) [OF db(1) that] fresh by metis
  then have no_hist: "histories_of db ?i = []" by (simp add: histories_of_def filter_empty_conv)
  have none: "\<not> has_ledger db ?i" unfolding has_ledger_def using l by (metis imageE)
  have "balance_consistent (add_event e db) = balance_consistent db"
    by (simp add: fun_eq_iff balance_consistent_def ledger_sum_def add_event_def)
  moreover have "ledger_consistent (add_event e db) x \<longleftrightarrow> ledger_consistent db x"
    if "x \<in> set (t_ledger db)" for x
    using l [OF that] by (auto simp: ledger_consistent_def add_event_def)
  ultimately have "money_ok (add_event e db)"
    using db(2) by (simp add: money_ok_def add_event_def list_all_iff)
  moreover have "event_consistent (add_event e db) = event_consistent db"
    by (rule ext, rule event_consistent_cong) (simp_all add: add_event_def histories_of_def)
  then have "events_ok {?i} (add_event e db)"
    using db(3) by (simp add: events_ok_def add_event_def list_all_iff)
  moreover have "event_by_id (add_event e db) ?i = Some e"
    using find_key_distinct [OF db_ok_unique(3) [OF ok], of e]
    by (simp add: event_by_id_def add_event_def)
  ultimately show ?thesis
    using ok none no_hist by (simp add: on_its_way_def add_event_def has_ledger_def histories_of_def)
      (simp add: e new_event_def)
qed

subsection \<open>Status changes\<close>

lemma push_status_money: "money_ok (push_status gap t i a b reason db) \<longleftrightarrow> money_ok db"
  by (rule money_ok_cong) (simp_all add: push_status_events map_update_rows)

lemma push_status_has_ledger [simp]: "has_ledger (push_status gap t i a b reason db) j \<longleftrightarrow> has_ledger db j"
  by (simp add: has_ledger_def)

lemma push_status_others:
  assumes "events_ok S db" "i \<in> S"
  shows "events_ok S (push_status gap t i a b reason db)"
proof -
  have "event_consistent (push_status gap t i a b reason db) e \<longleftrightarrow> event_consistent db e"
    if "te_id e \<noteq> i" for e
    by (rule event_consistent_cong) (simp_all add: that histories_of_push)
  with assms show ?thesis
    by (auto simp: events_ok_def push_status_events list_all_iff set_update_rows)
qed

lemma push_status_on_its_way:
  assumes "on_its_way db i a acc ty n" "b \<in> set (allowed_transitions a)"
    "db_ok (push_status gap t i a b reason db)"
  shows "on_its_way (push_status gap t i a b reason db) i b acc ty n"
  using assms push_status_others [of "{i}" db i gap t a b reason]
  by (auto simp: on_its_way_def push_status_money histories_of_push event_by_id_push walk_snoc)

text \<open>The last change of an event makes it consistent: money moved and \<open>COMPLETED\<close>, or neither.\<close>

lemma push_status_final:
  assumes "events_ok (insert i S) db" "walk RECEIVED (histories_of db i) = Some a"
    "b \<in> set (allowed_transitions a)" "\<not> intermediate b" "has_ledger db i \<longleftrightarrow> posted b"
  shows "events_ok S (push_status gap t i a b reason db)"
proof -
  let ?db = "push_status gap t i a b reason db"
  have "event_consistent ?db e \<longleftrightarrow> event_consistent db e" if "te_id e \<noteq> i" for e
    by (rule event_consistent_cong) (simp_all add: that histories_of_push)
  moreover have "event_consistent ?db e" if "te_id e = i" "te_status e = status_value b" for e
    using that assms by (simp add: event_consistent_def histories_of_push walk_snoc)
  ultimately show ?thesis
    using assms(1) by (auto simp: events_ok_def push_status_events list_all_iff set_update_rows)
qed

text \<open>Cancelling a completed event keeps it consistent.\<close>

lemma push_status_cancelled:
  assumes "events_ok S db" "event_by_id db i = Some e" "i \<notin> S" "te_status e = status_value COMPLETED"
  shows "events_ok S (push_status gap t i COMPLETED CANCELLED reason db)"
proof (rule push_status_final)
  have "event_consistent db e"
    using assms event_by_id_Some [OF assms(2)] by (auto simp: events_ok_def list_all_iff)
  with assms event_by_id_Some [OF assms(2)]
  show "walk RECEIVED (histories_of db i) = Some COMPLETED" "has_ledger db i \<longleftrightarrow> posted CANCELLED"
    by (auto simp: event_consistent_def posted_def)
qed (use assms in \<open>auto simp: events_ok_def list_all_iff intermediate_def\<close>)

subsection \<open>A ledger entry with its balance\<close>

lemma post_ledger_tables [simp]:
  "t_events (post_ledger gap t t' acc ev ety k b db) = t_events db"
  "t_hist (post_ledger gap t t' acc ev ety k b db) = t_hist db"
  "t_idem (post_ledger gap t t' acc ev ety k b db) = t_idem db"
  "t_ledger (post_ledger gap t t' acc ev ety k b db) = t_ledger db @ [new_ledger gap t db ev acc ety k b]"
  by (simp_all add: post_ledger_def set_balance_def upd_account_def add_ledger_def)

lemma post_ledger_accounts:
  "t_accounts (post_ledger gap t t' acc ev ety k b db) =
     update_rows (\<lambda>a. acc_id a = acc) (\<lambda>a. a\<lparr>acc_balance := b, acc_updated_at := t'\<rparr>) (t_accounts db)"
  by (simp add: post_ledger_def set_balance_def upd_account_def add_ledger_def)

lemma post_ledger_has_ledger [simp]:
  "has_ledger (post_ledger gap t t' acc ev ety k b db) i \<longleftrightarrow> i = ev \<or> has_ledger db i"
  by (auto simp: has_ledger_def new_ledger_def)

lemma post_ledger_histories [simp]:
  "histories_of (post_ledger gap t t' acc ev ety k b db) i = histories_of db i"
  by (simp add: histories_of_def)

lemma post_ledger_event [simp]:
  "event_by_id (post_ledger gap t t' acc ev ety k b db) i = event_by_id db i"
  by (simp add: event_by_id_def)

lemma ledger_sum_post:
  "ledger_sum (post_ledger gap t t' acc ev ety k b db) i =
     ledger_sum db i + (if i = acc then k else 0)"
  by (simp add: ledger_sum_def new_ledger_def)

lemma post_ledger_events:
  "events_ok S db \<Longrightarrow> ev \<in> S \<Longrightarrow> events_ok S (post_ledger gap t t' acc ev ety k b db)"
proof -
  have "event_consistent (post_ledger gap t t' acc ev ety k b db) e \<longleftrightarrow> event_consistent db e"
    if "te_id e \<noteq> ev" for e
    using that by (simp add: event_consistent_def cong: option.case_cong)
  then show "events_ok S db \<Longrightarrow> ev \<in> S \<Longrightarrow> events_ok S (post_ledger gap t t' acc ev ety k b db)"
    unfolding events_ok_def list_all_iff by (metis post_ledger_tables(1))
qed

lemma post_ledger_money:
  assumes "db_ok db" "money_ok db" "account_by_id db acc = Some a" "b = acc_balance a + k" "0 \<le> b"
    and e: "event_by_id db ev = Some e" "te_account_id e = acc" "\<bar>k\<bar> = te_amount e"
  shows "money_ok (post_ledger gap t t' acc ev ety k b db)"
proof -
  let ?db = "post_ledger gap t t' acc ev ety k b db"
  have a: "a \<in> set (t_accounts db)" "acc_id a = acc"
    using account_by_id_Some [OF assms(3)] by simp_all
  have "balance_consistent ?db x" if "x \<in> set (t_accounts ?db)" for x
  proof -
    from that consider y where "y \<in> set (t_accounts db)" "acc_id y = acc"
        "x = y\<lparr>acc_balance := b, acc_updated_at := t'\<rparr>"
      | "x \<in> set (t_accounts db)" "acc_id x \<noteq> acc"
      by (auto simp: post_ledger_accounts set_update_rows)
    then show ?thesis
    proof cases
      case 1
      then have "y = a" using distinct_key_unique [OF db_ok_unique(1) [OF assms(1)]] a by blast
      moreover have "acc_balance a = ledger_sum db acc"
        using assms(2) a by (auto simp: money_ok_def balance_consistent_def list_all_iff)
      ultimately show ?thesis using 1 assms by (simp add: balance_consistent_def ledger_sum_post)
    next
      case 2
      then show ?thesis
        using assms(2) by (auto simp: balance_consistent_def ledger_sum_post money_ok_def list_all_iff)
    qed
  qed
  moreover have "ledger_consistent ?db l" if "l \<in> set (t_ledger ?db)" for l
  proof (cases "l \<in> set (t_ledger db)")
    case True
    then show ?thesis using assms(2) by (auto simp: money_ok_def ledger_consistent_def list_all_iff)
  next
    case False
    with that have "l = new_ledger gap t db ev acc ety k b" by simp
    then show ?thesis
      using list_all_event_id [OF assms(1) e(1), of "\<lambda>x. acc = te_account_id x \<and> \<bar>k\<bar> = te_amount x"] e
      by (auto simp: ledger_consistent_def new_ledger_def elim!: list.pred_mono_strong)
  qed
  ultimately show ?thesis by (simp add: money_ok_def list_all_iff)
qed

lemma signed_amount_abs: "signed_amount ty ot n = Some k \<Longrightarrow> 0 < n \<Longrightarrow> \<bar>k\<bar> = n"
  by (cases "(ty, ot, n)" rule: signed_amount.cases) auto

subsection \<open>Closing the idempotency record\<close>

lemma upd_idem_tables [simp]:
  "t_events (upd_idem i f db) = t_events db" "t_ledger (upd_idem i f db) = t_ledger db"
  "t_hist (upd_idem i f db) = t_hist db" "t_accounts (upd_idem i f db) = t_accounts db"
  by (simp_all add: upd_idem_def)

lemma close_idem_consistent:
  assumes "db_ok (upd_idem i f db)" "money_ok db" "events_ok {} db" "\<And>r. idem_closed (f r)"
    "list_all (\<lambda>r. idem_id r \<noteq> i \<longrightarrow> idem_closed r) (t_idem db)"
  shows "consistent (upd_idem i f db)"
  using assms by (auto simp: consistent_def upd_idem_def idem_irrelevant list_all_iff set_update_rows)

lemma closed_rows [simp]: "idem_closed (completed_row code body t r)" "idem_closed (failed_row t co bo m r)"
  by (simp_all add: idem_closed_def completed_row_def failed_row_def)

end
