(* ===== verification/Row_Checks.thy ===== *)
theory Row_Checks
  imports State_Service Ledger_Service Idempotency_Service
begin

text \<open>
  When a write keeps the constraints of the schema: replacing one table of a valid database is valid exactly
  when its own rows fit, its keys are distinct and its references are known.
\<close>

lemmas table_checks = db_ok_checks rows_fit_def unique_checks_def fk_checks_def active_targets_def Let_def

lemma db_ok_set_idem:
  "db_ok db \<Longrightarrow> db_ok (db\<lparr>t_idem := rs\<rparr>) \<longleftrightarrow> list_all idem_fits rs \<and> distinct (map idem_id rs) \<and>
     distinct (map idem_idempotency_key rs)"
  by (auto simp: table_checks)

lemma db_ok_set_hist:
  "db_ok db \<Longrightarrow> db_ok (db\<lparr>t_hist := hs\<rparr>) \<longleftrightarrow> list_all hist_fits hs \<and> distinct (map esh_id hs) \<and>
     list_all (\<lambda>h. esh_transaction_event_id h \<in> te_id ` set (t_events db)) hs"
  by (auto simp: table_checks)

lemma db_ok_set_ledger:
  "db_ok db \<Longrightarrow> db_ok (db\<lparr>t_ledger := ls\<rparr>) \<longleftrightarrow> list_all ledger_fits ls \<and> distinct (map le_id ls) \<and>
     distinct (map le_transaction_event_id ls) \<and>
     list_all (\<lambda>l. le_transaction_event_id l \<in> te_id ` set (t_events db)) ls \<and>
     list_all (\<lambda>l. le_account_id l \<in> acc_id ` set (t_accounts db)) ls"
  by (auto simp: table_checks)

lemma db_ok_set_accounts:
  assumes "db_ok db" "acc_id ` set (t_accounts db) \<subseteq> acc_id ` set as" "list_all account_fits as"
    "distinct (map acc_id as)" "distinct (map acc_account_no as)"
  shows "db_ok (db\<lparr>t_accounts := as\<rparr>)"
  using assms by (auto simp: table_checks list_all_iff subset_iff opt_all_def split: option.splits)

lemma db_ok_set_events:
  assumes "db_ok db" "te_id ` set (t_events db) \<subseteq> te_id ` set es" "list_all event_fits es"
    "distinct (map te_id es)" "distinct (map te_external_event_id es)"
    "list_all (\<lambda>e. te_account_id e \<in> acc_id ` set (t_accounts db)) es"
  shows "db_ok (db\<lparr>t_events := es\<rparr>)"
  using assms by (auto simp: table_checks list_all_iff subset_iff opt_all_def split: option.splits)

text \<open>What one row has to satisfy.\<close>

lemma db_ok_fits:
  assumes "db_ok db"
  shows "list_all account_fits (t_accounts db)" "list_all event_fits (t_events db)"
    "list_all ledger_fits (t_ledger db)" "list_all idem_fits (t_idem db)" "list_all hist_fits (t_hist db)"
  using assms by (simp_all add: db_ok_checks rows_fit_def)

lemma db_ok_add_idem:
  "db_ok db \<Longrightarrow> idem_fits r \<Longrightarrow> idem_id r \<notin> set (map idem_id (t_idem db)) \<Longrightarrow> idem_of db (idem_idempotency_key r) = None \<Longrightarrow>
     db_ok (add_idem r db)"
  by (simp add: add_idem_def db_ok_set_idem db_ok_fits db_ok_unique idem_of_None)

lemma db_ok_add_hist:
  "db_ok db \<Longrightarrow> hist_fits h \<Longrightarrow> esh_id h \<notin> set (map esh_id (t_hist db)) \<Longrightarrow>
     esh_transaction_event_id h \<in> te_id ` set (t_events db) \<Longrightarrow> db_ok (add_history h db)"
  using db_ok_fk(4) [of db]
  by (auto simp: add_history_def db_ok_set_hist db_ok_fits [unfolded list_all_iff] db_ok_unique list_all_iff)

lemma db_ok_add_ledger:
  "db_ok db \<Longrightarrow> ledger_fits l \<Longrightarrow> le_id l \<notin> set (map le_id (t_ledger db)) \<Longrightarrow>
     le_transaction_event_id l \<notin> le_transaction_event_id ` set (t_ledger db) \<Longrightarrow>
     le_transaction_event_id l \<in> te_id ` set (t_events db) \<Longrightarrow> le_account_id l \<in> acc_id ` set (t_accounts db) \<Longrightarrow>
     db_ok (add_ledger l db)"
  using db_ok_fk(2,3) [of db]
  by (auto simp: add_ledger_def db_ok_set_ledger db_ok_fits [unfolded list_all_iff] db_ok_unique list_all_iff)

lemma db_ok_add_event:
  "db_ok db \<Longrightarrow> event_fits e \<Longrightarrow> te_id e \<notin> set (map te_id (t_events db)) \<Longrightarrow>
     te_external_event_id e \<notin> te_external_event_id ` set (t_events db) \<Longrightarrow>
     te_account_id e \<in> acc_id ` set (t_accounts db) \<Longrightarrow> db_ok (add_event e db)"
  unfolding add_event_def
  by (rule db_ok_set_events) (auto simp: db_ok_fits [unfolded list_all_iff] db_ok_unique db_ok_fk list_all_iff)

text \<open>Updates that keep the key columns.\<close>

lemma key_update_rows:
  "(\<And>r. k (f r) = k r) \<Longrightarrow> map k (update_rows p f rs) = map k rs"
  by (simp add: update_rows_def)

lemma image_update_rows: "(\<And>r. k (f r) = k r) \<Longrightarrow> k ` set (update_rows p f rs) = k ` set rs"
  by (metis list.set_map key_update_rows)

lemma list_all_update_rows:
  "list_all P rs \<Longrightarrow> (\<And>r. r \<in> set rs \<Longrightarrow> p r \<Longrightarrow> P (f r)) \<Longrightarrow> list_all P (update_rows p f rs)"
  by (auto simp: update_rows_def list_all_iff)

lemma db_ok_upd_idem:
  assumes "db_ok db" "\<And>r. idem_id (f r) = idem_id r" "\<And>r. idem_idempotency_key (f r) = idem_idempotency_key r"
    "\<And>r. r \<in> set (t_idem db) \<Longrightarrow> idem_id r = i \<Longrightarrow> idem_fits (f r)"
  shows "db_ok (upd_idem i f db)"
  unfolding upd_idem_def
  using assms by (simp add: db_ok_set_idem key_update_rows db_ok_unique list_all_update_rows db_ok_fits)

lemma db_ok_set_status:
  assumes "db_ok db" "fits 30 st"
  shows "db_ok (set_status i st t db)"
  unfolding set_status_def upd_event_def
proof (rule db_ok_set_events [OF assms(1)], goal_cases)
  case 2
  then show ?case
    using assms db_ok_fits(2) [OF assms(1)] by (auto simp: list_all_iff event_fits_def update_rows_def)
next
  case 5
  then show ?case using db_ok_fk(1) [OF assms(1)] by (auto simp: list_all_iff update_rows_def)
qed (use assms in \<open>simp_all add: image_update_rows key_update_rows db_ok_unique\<close>)

lemma db_ok_set_balance:
  assumes "db_ok db" "int64 bal"
  shows "db_ok (set_balance i bal t db)"
  unfolding set_balance_def upd_account_def
proof (rule db_ok_set_accounts [OF assms(1)], goal_cases)
  case 2
  then show ?case
    using assms db_ok_fits(1) [OF assms(1)] by (auto simp: list_all_iff account_fits_def update_rows_def)
qed (use assms in \<open>simp_all add: image_update_rows key_update_rows db_ok_unique\<close>)

lemma status_value_fits [simp]: "fits 30 (status_value st)"
  by (cases st) (simp_all add: fits_def enum_values)

lemma db_ok_push_status:
  assumes "db_ok db" "i \<in> te_id ` set (t_events db)" "int64 i" "opt_all (fits 255) reason"
    "int64 (next_id gap (map esh_id (t_hist db)))"
  shows "db_ok (add_history (new_history gap t db i (Some (status_value a)) (status_value b) reason) db)"
    "db_ok (push_status gap t i a b reason db)"
proof -
  show added: "db_ok (add_history (new_history gap t db i (Some (status_value a)) (status_value b) reason) db)"
    using assms next_id_fresh [of gap "map esh_id (t_hist db)"]
    by (intro db_ok_add_hist) (simp_all add: new_history_def hist_fits_def opt_all_def)
  show "db_ok (push_status gap t i a b reason db)"
    unfolding push_status_def by (rule db_ok_set_status [OF added]) simp
qed

end
