(* ===== verification/Samples.thy ===== *)
theory Samples
  imports Transaction_Service Consistency Row_Checks
begin

text \<open>
  A small database, a request and a service, at which the general statements are applied: one account with
  one completed deposit of 500 behind it, and a request to deposit 100 more.
\<close>

definition sample_account :: account where
  "sample_account = \<lparr>acc_id = 1, acc_account_no = ''110-222-3333'', acc_balance = 500, acc_status = ''ACTIVE'',
     acc_created_at = 0, acc_updated_at = 0\<rparr>"

definition sample_event :: transaction_event where
  "sample_event = \<lparr>te_id = 1, te_external_event_id = ''ext-1'', te_idempotency_key = ''key-1'', te_account_id = 1,
     te_event_type = ''DEPOSIT'', te_amount = 500, te_currency = ''KRW'', te_status = ''COMPLETED'',
     te_occurred_at = utc 0, te_created_at = 0, te_updated_at = 0\<rparr>"

definition sample_ledger :: ledger_entry where
  "sample_ledger = \<lparr>le_id = 1, le_transaction_event_id = 1, le_account_id = 1, le_entry_type = ''DEPOSIT'',
     le_amount = 500, le_balance_after = 500, le_created_at = 0\<rparr>"

definition sample_history :: "int \<Rightarrow> transaction_status \<Rightarrow> transaction_status \<Rightarrow> event_state_history" where
  "sample_history i a b = \<lparr>esh_id = i, esh_transaction_event_id = 1, esh_old_status = Some (status_value a),
     esh_new_status = status_value b, esh_reason = None, esh_created_at = 0\<rparr>"

definition sample_db :: tables where
  "sample_db = empty_tables\<lparr>t_accounts := [sample_account], t_events := [sample_event],
     t_ledger := [sample_ledger],
     t_hist := [sample_history 1 RECEIVED VALIDATED, sample_history 2 VALIDATED PROCESSING,
       sample_history 3 PROCESSING COMPLETED]\<rparr>"

definition sample_request :: create_request where
  "sample_request = \<lparr>rq_external_event_id = ''ext-2'', rq_account_no = ''110-222-3333'', rq_event_type = DEPOSIT,
     rq_amount = 100, rq_currency = ''KRW'', rq_occurred_at = utc 0, rq_original_external_event_id = None\<rparr>"

definition sample_service :: transaction_service where
  "sample_service = \<lparr>ts_idempotency = \<lparr>ttl_seconds = 86400, processing_lock_seconds = 30\<rparr>,
     ts_cache_ttl = None, ts_lock_ttl_ms = None, ts_quarantine = True\<rparr>"

definition sample_world :: world where
  "sample_world = idle_world sample_db"

text \<open>The same, inside a transaction.\<close>

definition sample_tx :: world where
  "sample_tx = sample_world\<lparr>w_sess := InTx\<rparr>"

lemma sample_consistent: "consistent sample_db"
  by code_simp

lemma sample_db_ok [simp]: "db_ok sample_db"
  using sample_consistent by (simp add: consistent_def)

lemma sample_tx_facts [simp]: "w_sess sample_tx = InTx" "w_db sample_tx = sample_db"
  by (simp_all add: sample_tx_def sample_world_def idle_world_def)

lemma sample_rows [simp]:
  "event_by_id sample_db 1 = Some sample_event" "account_by_id sample_db 1 = Some sample_account"
  "idem_of sample_db k = None"
  by (simp_all add: sample_db_def empty_tables_def event_by_id_def account_by_id_def idem_of_def sample_event_def
      sample_account_def)

text \<open>The same database with an answered request.\<close>

definition sample_record :: "string \<Rightarrow> idempotency_record" where
  "sample_record h = \<lparr>idem_id = 1, idem_idempotency_key = ''key-1'', idem_request_hash = h,
     idem_status = ''COMPLETED'', idem_response_code = Some 200,
     idem_response_body = Some (JObj [(''status'', JStr ''COMPLETED'')]), idem_error_message = None,
     idem_created_at = 0, idem_updated_at = 0, idem_completed_at = Some 0, idem_locked_until = None,
     idem_expires_at = Some 10\<rparr>"

definition sample_answered :: "string \<Rightarrow> tables" where
  "sample_answered h = sample_db\<lparr>t_idem := [sample_record h]\<rparr>"

lemma sample_answered_consistent: "length h = 64 \<Longrightarrow> consistent (sample_answered h)"
  using sample_consistent
  by (simp add: consistent_def sample_answered_def db_ok_set_idem idem_irrelevant sample_record_def idem_fits_def
      fits_def int64_def int32_def opt_all_def idem_closed_def enum_values)

lemma sample_answered_record [simp]: "idem_of (sample_answered h) ''key-1'' = Some (sample_record h)"
  by (simp add: sample_answered_def idem_of_def sample_record_def)

end
