(* ===== verification/Recovery.thy ===== *)
theory Recovery
  imports Quarantine
begin

text \<open>
  \<open>RecoveryCaseService\<close> (\<open>backend/app/services/recovery_case_service.py\<close>): recovery cases, one per source
  key, opened by hand or from an analyzer result, approved by a named person before anything is executed,
  and moved only along the transitions of \<open>ALLOWED_RECOVERY_TRANSITIONS\<close>.
\<close>

text \<open>The keyword arguments of \<open>create_case\<close>.\<close>

record case_args =
  ca_source_key :: string
  ca_case_type :: string
  ca_severity :: string
  ca_classification :: string
  ca_confidence_candidate :: "json option"
  ca_detected_by :: string
  ca_proposed_action :: string
  ca_approval_required :: bool
  ca_status :: recovery_case_status
  ca_source_incident_id :: "string option"
  ca_source_artifact_path :: "string option"
  ca_source_analyzer_result_path :: "string option"
  ca_external_event_id :: "string option"
  ca_idempotency_key_hash :: "string option"
  ca_client_id :: "string option"
  ca_account_id :: "int option"
  ca_transaction_event_id :: "int option"
  ca_evidence_path :: "string option"

definition new_case :: "env \<Rightarrow> world \<Rightarrow> case_args \<Rightarrow> recovery_case" where
  "new_case E w a =
     \<lparr>rc_id = next_id (seq_gap E (w_tick w)) (map rc_id (t_cases (w_db w))),
      rc_case_id = ''rc-'' @ take 16 (uuid_hex E (w_tick w)), rc_source_key = ca_source_key a,
      rc_case_type = ca_case_type a, rc_severity = ca_severity a,
      rc_current_status = recovery_status_value (ca_status a), rc_classification = ca_classification a,
      rc_confidence_candidate = ca_confidence_candidate a, rc_account_id = ca_account_id a,
      rc_transaction_event_id = ca_transaction_event_id a, rc_external_event_id = ca_external_event_id a,
      rc_idempotency_key_hash = ca_idempotency_key_hash a, rc_client_id = ca_client_id a,
      rc_detected_by = ca_detected_by a, rc_detected_at = now E (w_tick w),
      rc_source_incident_id = ca_source_incident_id a,
      rc_source_artifact_path = ca_source_artifact_path a,
      rc_source_analyzer_result_path = ca_source_analyzer_result_path a,
      rc_proposed_action = ca_proposed_action a, rc_approval_required = ca_approval_required a,
      rc_approved_by = None, rc_approved_at = None, rc_approval_reason = None, rc_executing_at = None,
      rc_executed_at = None, rc_execution_failed_at = None, rc_execution_failure_type = None,
      rc_action_attempt_id = None, rc_evidence_path = ca_evidence_path a,
      rc_before_snapshot_hash = None, rc_after_snapshot_hash = None,
      rc_created_at = now E (w_tick w), rc_updated_at = now E (w_tick w)\<rparr>"

definition create_case :: "env \<Rightarrow> case_args \<Rightarrow> int app" where
  "create_case E a = bindM (get_by_source_key E (ca_source_key a)) (\<lambda>existing. case existing of
       Some i \<Rightarrow> returnM i
     | None \<Rightarrow> bindM (getM (\<lambda>w. new_case E w a)) (case_create E))"

text \<open>
  Ingesting an analyzer result. \<open>loaded\<close> is what reading and parsing
  \<open>analyzer-result.json\<close> gave; paths are their texts.
\<close>

definition path_name :: "string \<Rightarrow> string" where
  "path_name p = last (split_on (CHR ''/'') p)"

definition path_join :: "string \<Rightarrow> string \<Rightarrow> string" where
  "path_join p f = p @ ''/'' @ f"

definition analyzer_case :: "string \<Rightarrow> (string \<times> json) list \<Rightarrow> exn + (recovery_case_type \<times> string \<times> case_args)" where
  "analyzer_case incident_dir pay =
    (if json_get ''sensitive_data_included'' pay \<noteq> Some (JBool False) then Inl UnsafeAnalyzerResult
     else let classification = str_or (json_get ''classification'' pay) [] in
       bindE (case_type_from_classification classification) (\<lambda>case_type.
       let incident_id = str_or (json_get ''incident_id'' pay) (path_name incident_dir);
           source_key = incident_id @ '':'' @ case_type_value case_type @ '':'' @
             target_type_value GLOBAL_WRITE @ '':'' @ incident_id @ '':unknown''
       in Inr (case_type, incident_id,
         \<lparr>ca_source_key = source_key, ca_case_type = case_type_value case_type,
          ca_severity = str_or (json_get ''severity_candidate'' pay) ''SEV3'',
          ca_classification = (if classification = [] then case_type_value case_type else classification),
          ca_confidence_candidate = as_float (json_get ''confidence_candidate'' pay),
          ca_detected_by = str_or (json_get ''analyzer_version'' pay) ''ph3-analyzer'',
          ca_proposed_action = action_value (proposed_action_for_case_type case_type),
          ca_approval_required = True, ca_status = RC_WAITING_APPROVAL,
          ca_source_incident_id = Some incident_id, ca_source_artifact_path = Some incident_dir,
          ca_source_analyzer_result_path = Some (path_join incident_dir ''analyzer-result.json''),
          ca_external_event_id = None, ca_idempotency_key_hash = None, ca_client_id = None,
          ca_account_id = None, ca_transaction_event_id = None,
          ca_evidence_path = Some (path_join incident_dir ''incident-analysis.md'')\<rparr>)))"

definition create_from_analyzer_result :: "env \<Rightarrow> bool \<Rightarrow> string \<Rightarrow> exn + json \<Rightarrow> int app" where
  "create_from_analyzer_result E quarantine_service incident_dir loaded =
     bindM (liftM loaded) (\<lambda>j.
     bindM (liftM (case j of JObj pay \<Rightarrow> analyzer_case incident_dir pay
       | _ \<Rightarrow> Inl (AttributeError ''get''))) (\<lambda>(case_type, incident_id, args).
     bindM (create_case E args) (\<lambda>recovery_case.
     thenM (whenM (quarantine_service \<and> case_type = CONSISTENCY_ISSUE_CANDIDATE)
       (thenM (create_quarantine E GLOBAL_WRITE incident_id
          ''PH3 analyzer detected consistency issue candidate'' ''ph4_recovery_case''
          (Some recovery_case) (Some incident_id)) (returnM ())))
     (returnM recovery_case))))"

subsection \<open>The lifecycle\<close>

definition case_get :: "env \<Rightarrow> string \<Rightarrow> int app" where
  "case_get E case_id = bindM (get_by_case_id E case_id) (\<lambda>r. case r of
       None \<Rightarrow> raiseM RecoveryCaseNotFound | Some i \<Rightarrow> returnM i)"

text \<open>An assignment to a column of the case; \<open>onupdate\<close> stamps the row.\<close>

definition assign_case :: "env \<Rightarrow> int \<Rightarrow> (instant \<Rightarrow> recovery_case \<Rightarrow> recovery_case) \<Rightarrow> unit app" where
  "assign_case E i f = bindM (utc_now E) (\<lambda>t. assign (upd_case i (\<lambda>c. (f t c)\<lparr>rc_updated_at := t\<rparr>)))"

definition transition :: "env \<Rightarrow> int \<Rightarrow> recovery_case_status \<Rightarrow> unit app" where
  "transition E i next_status =
     bindM (read_row case_by_id i) (\<lambda>c.
     bindM (liftM (enum_or_raise ''RecoveryCaseStatus'' RecoveryCaseStatus (rc_current_status c))) (\<lambda>current.
       if next_status \<notin> set (allowed_recovery_transitions current)
       then raiseM (InvalidRecoveryCaseTransition (recovery_status_value current)
         (recovery_status_value next_status))
       else assign_case E i (\<lambda>t c. c\<lparr>rc_current_status := recovery_status_value next_status\<rparr>)))"

definition approve :: "env \<Rightarrow> string \<Rightarrow> string \<Rightarrow> string option \<Rightarrow> int app" where
  "approve E case_id approved_by approval_reason =
    (if approved_by = [] then raiseM RecoveryApprovalMissingActor
     else bindM (case_get E case_id) (\<lambda>i.
       thenM (transition E i RC_APPROVED)
       (thenM (assign_case E i (\<lambda>t c. c\<lparr>rc_approved_by := Some approved_by, rc_approved_at := Some t,
          rc_approval_reason := approval_reason\<rparr>))
       (case_save E i))))"

definition reject :: "env \<Rightarrow> string \<Rightarrow> string option \<Rightarrow> int app" where
  "reject E case_id reason = bindM (case_get E case_id) (\<lambda>i.
     thenM (transition E i RC_REJECTED)
     (thenM (assign_case E i (\<lambda>t c. c\<lparr>rc_approval_reason := reason\<rparr>)) (case_save E i)))"

definition unapproved :: "recovery_case \<Rightarrow> bool" where
  "unapproved c \<longleftrightarrow> rc_approval_required c \<and>
     (case rc_approved_by c of None \<Rightarrow> True | Some s \<Rightarrow> s = [])"

definition start_execution :: "env \<Rightarrow> string \<Rightarrow> int app" where
  "start_execution E case_id =
     bindM (case_get E case_id) (\<lambda>i. bindM (read_row case_by_id i) (\<lambda>c.
       if rc_current_status c \<noteq> recovery_status_value RC_APPROVED then
         thenM (if unapproved c
           then bindM (liftM (enum_or_raise ''RecoveryCaseStatus'' RecoveryCaseStatus (rc_current_status c)))
             (\<lambda>current_status. if current_status \<in> {RC_AUTO_ANALYZED, RC_WAITING_APPROVAL}
                then raiseM RecoveryApprovalRequired else returnM ())
           else returnM ())
         (raiseM (InvalidRecoveryCaseTransition (rc_current_status c) (recovery_status_value RC_EXECUTING)))
       else if unapproved c then raiseM RecoveryApprovalRequired
       else bindM (getM (\<lambda>w. ''attempt-'' @ take 16 (uuid_hex E (w_tick w)))) (\<lambda>attempt.
         thenM (assign_case E i (\<lambda>t c. c\<lparr>rc_current_status := recovery_status_value RC_EXECUTING,
           rc_executing_at := Some t,
           rc_action_attempt_id := (case rc_action_attempt_id c of
               None \<Rightarrow> Some attempt | Some s \<Rightarrow> if s = [] then Some attempt else Some s)\<rparr>))
         (case_save E i))))"

definition mark_executed :: "env \<Rightarrow> string \<Rightarrow> string option \<Rightarrow> int app" where
  "mark_executed E case_id after_snapshot_hash = bindM (case_get E case_id) (\<lambda>i.
     thenM (transition E i RC_EXECUTED)
     (thenM (assign_case E i (\<lambda>t c. c\<lparr>rc_executed_at := Some t,
        rc_after_snapshot_hash := after_snapshot_hash\<rparr>)) (case_save E i)))"

definition mark_execution_failed :: "env \<Rightarrow> string \<Rightarrow> string \<Rightarrow> int app" where
  "mark_execution_failed E case_id failure_type = bindM (case_get E case_id) (\<lambda>i.
     thenM (transition E i RC_EXECUTION_FAILED)
     (thenM (assign_case E i (\<lambda>t c. c\<lparr>rc_execution_failed_at := Some t,
        rc_execution_failure_type := Some failure_type\<rparr>)) (case_save E i)))"

definition close :: "env \<Rightarrow> string \<Rightarrow> int app" where
  "close E case_id = bindM (case_get E case_id) (\<lambda>i. thenM (transition E i RC_CLOSED) (case_save E i))"

definition list_cases :: "env \<Rightarrow> nat \<Rightarrow> recovery_case list app" where
  "list_cases E limit = case_list E limit"

lemma keeps_case_prod [keeps_intros]: "(\<And>x y. keeps I (f x y)) \<Longrightarrow> keeps I (case p of (x, y) \<Rightarrow> f x y)"
  by (cases p) simp

lemma in_tx_assign_case [keeps_intros]: "keeps (in_tx c) (assign_case E i f)"
  unfolding assign_case_def by (intro keeps_intros)

lemma in_tx_recovery [keeps_intros]:
  "keeps (in_tx c) (create_case E a)" "keeps (in_tx c) (create_from_analyzer_result E q d l)"
  "keeps (in_tx c) (approve E s s' r)" "keeps (in_tx c) (reject E s r)" "keeps (in_tx c) (start_execution E s)"
  "keeps (in_tx c) (mark_executed E s h)" "keeps (in_tx c) (mark_execution_failed E s ty)"
  "keeps (in_tx c) (close E s)" "keeps (in_tx c) (list_cases E n)"
  unfolding create_case_def create_from_analyzer_result_def approve_def reject_def start_execution_def
    mark_executed_def mark_execution_failed_def close_def list_cases_def case_get_def transition_def
  by (intro keeps_intros)+

subsection \<open>Effects\<close>

definition case_of :: "tables \<Rightarrow> string \<Rightarrow> recovery_case option" where
  "case_of db k = List.find (\<lambda>c. rc_case_id c = k) (t_cases db)"

lemma case_by_id_of: "db_ok db \<Longrightarrow> case_of db k = Some c \<Longrightarrow> case_by_id db (rc_id c) = Some c"
  using db_ok_unique(10) [of db] by (auto simp: case_of_def case_by_id_def dest!: find_in intro!: find_key_distinct)

lemma case_get_spec:
  assumes "w_sess w = InTx" "db_ok (w_db w)"
  shows "wp (case_get E k)
    (\<lambda>i w'. runs w (w_db w) w' \<and> (\<exists>c. case_of (w_db w) k = Some c \<and> i = rc_id c))
    (\<lambda>x w'. sa_failure w x w' \<or> (x = RecoveryCaseNotFound \<and> case_of (w_db w) k = None \<and> runs w (w_db w) w')) w"
proof -
  have "wp (get_by_case_id E k)
    (\<lambda>i w'. runs w (w_db w) w' \<and> i = map_option rc_id (case_of (w_db w) k)) (sa_failure w) w"
    unfolding get_by_case_id_def case_of_def
    using assms by (intro unique_query_spec) (simp_all add: db_ok_unique)
  then show ?thesis
    unfolding case_get_def by (rule wp_bindI) (auto simp: wp_simps split: option.split)
qed

text \<open>One accepted change of a case: its status moved along an allowed transition, other cases untouched.\<close>

definition case_moved :: "string \<Rightarrow> recovery_case_status \<Rightarrow> (recovery_case \<Rightarrow> bool) \<Rightarrow> tables \<Rightarrow> tables \<Rightarrow> bool" where
  "case_moved k st P db db' \<longleftrightarrow> (\<exists>c cur g. case_of db k = Some c \<and>
     rc_current_status c = recovery_status_value cur \<and> st \<in> set (allowed_recovery_transitions cur) \<and>
     db' = upd_case (rc_id c) g db \<and> rc_current_status (g c) = recovery_status_value st \<and>
     rc_approval_required (g c) = rc_approval_required c \<and> P (g c) \<and>
     (rc_approved_by (g c) = rc_approved_by c \<or> st = RC_APPROVED))"

lemma upd_case_twice: "upd_case i g (upd_case i f db) = upd_case i (\<lambda>c. if rc_id (f c) = i then g (f c) else f c) db"
  by (simp add: upd_case_def update_rows_def comp_def)

lemma case_by_id_upd:
  "(\<And>c. rc_id (f c) = rc_id c) \<Longrightarrow> case_by_id (upd_case i f db) j =
     (if j = i then map_option f (case_by_id db j) else case_by_id db j)"
  unfolding case_by_id_def upd_case_def by (simp add: find_update_same)

definition move_case :: "env \<Rightarrow> string \<Rightarrow> recovery_case_status \<Rightarrow> (instant \<Rightarrow> recovery_case \<Rightarrow> recovery_case) \<Rightarrow> int app" where
  "move_case E k st f = bindM (case_get E k) (\<lambda>i. thenM (transition E i st)
     (thenM (assign_case E i f) (case_save E i)))"

lemma move_case_spec:
  assumes inx: "w_sess w = InTx" and ok: "db_ok (w_db w)"
    and f: "\<And>t c. rc_id (f t c) = rc_id c" "\<And>t c. rc_current_status (f t c) = rc_current_status c"
      "\<And>t c. rc_approval_required (f t c) = rc_approval_required c"
      "\<And>t c. rc_approved_by (f t c) = rc_approved_by c \<or> st = RC_APPROVED"
      "\<And>t t' c. P ((f t c)\<lparr>rc_updated_at := t'\<rparr>)"
  shows "wp (move_case E k st f)
    (\<lambda>i w'. case_moved k st P (w_db w) (w_db w') \<and> db_ok (w_db w') \<and> runs w (w_db w') w')
    (\<lambda>x w'. in_tx (w_committed w) w') w"
  unfolding move_case_def
proof (rule wp_bindI [OF case_get_spec [OF inx ok]], goal_cases)
  case (1 i w1)
  then obtain c where c: "case_of (w_db w) k = Some c" "i = rc_id c" and r1: "runs w (w_db w) w1" by auto
  then have w1: "w_sess w1 = InTx" "w_db w1 = w_db w" "case_by_id (w_db w1) i = Some c"
    "w_committed w1 = w_committed w" "w_active_event w1 = w_active_event w"
    using case_by_id_of [OF ok] by (auto simp: runs_def)
  show ?case
  proof (cases "RecoveryCaseStatus (rc_current_status c)")
    case None
    with w1 show ?thesis by (simp add: transition_def wp_simps enum_or_raise_def in_tx_def)
  next
    case (Some cur)
    then have cur: "rc_current_status c = recovery_status_value cur" by (rule RecoveryCaseStatus_Some)
    show ?thesis
    proof (cases "st \<in> set (allowed_recovery_transitions cur)")
      case False
      with w1 Some show ?thesis by (simp add: transition_def wp_simps enum_or_raise_def in_tx_def)
    next
      case True
      let ?s = "\<lambda>t c. c\<lparr>rc_current_status := recovery_status_value st, rc_updated_at := t\<rparr>"
      let ?g = "\<lambda>t t' x. (f t' (?s t x))\<lparr>rc_updated_at := t'\<rparr>"
      have "upd_case i (\<lambda>x. (f t' x)\<lparr>rc_updated_at := t'\<rparr>) (upd_case i (?s t) (w_db w)) =
          upd_case i (\<lambda>x. if rc_id x = i then ?g t t' x else ?s t x) (w_db w)" for t t'
        unfolding upd_case_twice by simp
      then have eff: "case_moved k st P (w_db w)
          (upd_case i (\<lambda>x. (f t' x)\<lparr>rc_updated_at := t'\<rparr>) (upd_case i (?s t) (w_db w)))" for t t'
        unfolding case_moved_def
        using c cur True f(4) [of t' "?s t c"]
        by (intro exI [of _ c] exI [of _ cur] exI [of _ "\<lambda>x. if rc_id x = i then ?g t t' x else ?s t x"])
          (simp add: f)
      from True Some w1 show ?thesis
        by (auto simp: transition_def wp_simps enum_or_raise_def assign_case_def case_save_def eff db_ok_def
            in_tx_def runs_def split: option.split)
    qed
  qed
qed (auto simp: sa_failure_def runs_in_tx)

lemma close_moves:
  assumes "w_sess w = InTx" "db_ok (w_db w)"
  shows "wp (close E k)
    (\<lambda>i w'. case_moved k RC_CLOSED (\<lambda>_. True) (w_db w) (w_db w') \<and> db_ok (w_db w') \<and> runs w (w_db w') w')
    (\<lambda>x w'. in_tx (w_committed w) w') w"
  unfolding close_def
proof (rule wp_bindI [OF case_get_spec [OF assms]], goal_cases)
  case (1 i w1)
  then obtain c where c: "case_of (w_db w) k = Some c" "i = rc_id c" and r1: "runs w (w_db w) w1" by auto
  then have w1: "w_sess w1 = InTx" "w_db w1 = w_db w" "case_by_id (w_db w1) i = Some c"
    "w_committed w1 = w_committed w" "w_active_event w1 = w_active_event w"
    using case_by_id_of [OF assms(2)] by (auto simp: runs_def)
  have eff: "case_moved k RC_CLOSED (\<lambda>_. True) (w_db w) (upd_case i
      (\<lambda>c. c\<lparr>rc_current_status := recovery_status_value RC_CLOSED, rc_updated_at := t\<rparr>) (w_db w))"
    if "RC_CLOSED \<in> set (allowed_recovery_transitions cur)" "rc_current_status c = recovery_status_value cur" for t cur
    unfolding case_moved_def using c that
    by (intro exI [of _ c] exI [of _ cur] exI [of _ "\<lambda>c. c\<lparr>rc_current_status := recovery_status_value RC_CLOSED,
      rc_updated_at := t\<rparr>"]) simp
  show ?case
    using w1 eff
    by (auto simp: transition_def wp_simps enum_or_raise_def assign_case_def case_save_def db_ok_def in_tx_def
        runs_def dest: RecoveryCaseStatus_Some split: option.split)
qed (auto simp: sa_failure_def runs_in_tx)

lemma start_execution_moves:
  assumes "w_sess w = InTx" "db_ok (w_db w)"
  shows "wp (start_execution E k)
    (\<lambda>i w'. case_moved k RC_EXECUTING (\<lambda>c. \<not> unapproved c) (w_db w) (w_db w') \<and> db_ok (w_db w') \<and> runs w (w_db w') w')
    (\<lambda>x w'. in_tx (w_committed w) w') w"
  unfolding start_execution_def
proof (rule wp_bindI [OF case_get_spec [OF assms]], goal_cases)
  case (1 i w1)
  then obtain c where c: "case_of (w_db w) k = Some c" "i = rc_id c" and r1: "runs w (w_db w) w1" by auto
  then have w1: "w_sess w1 = InTx" "w_db w1 = w_db w" "case_by_id (w_db w1) i = Some c"
    "w_committed w1 = w_committed w" "w_active_event w1 = w_active_event w"
    using case_by_id_of [OF assms(2)] by (auto simp: runs_def)
  show ?case
  proof (cases "rc_current_status c = recovery_status_value RC_APPROVED \<and> \<not> unapproved c")
    case False
    with w1 show ?thesis
      by (auto simp: wp_simps enum_or_raise_def in_tx_def split: option.split)
  next
    case True
    let ?g = "\<lambda>a t c. c\<lparr>rc_current_status := recovery_status_value RC_EXECUTING,
      rc_executing_at := Some t, rc_action_attempt_id := (case rc_action_attempt_id c of
        None \<Rightarrow> Some a | Some s \<Rightarrow> if s = [] then Some a else Some s), rc_updated_at := t\<rparr>"
    have eff: "case_moved k RC_EXECUTING (\<lambda>c. \<not> unapproved c) (w_db w) (upd_case i (?g a t) (w_db w))" for a t
      unfolding case_moved_def using c True
      by (intro exI [of _ c] exI [of _ RC_APPROVED] exI [of _ "?g a t"]) (simp add: unapproved_def)
    show ?thesis
      using w1 True eff
      by (auto simp: wp_simps assign_case_def case_save_def db_ok_def in_tx_def runs_def split: option.split)
  qed
qed (auto simp: sa_failure_def runs_in_tx)

subsection \<open>The lifecycle as a step relation\<close>

datatype recovery_op =
    OpCreate case_args
  | OpApprove string string "string option"
  | OpReject string "string option"
  | OpStart string
  | OpExecuted string "string option"
  | OpExecutionFailed string string
  | OpClose string

fun run_op :: "env \<Rightarrow> recovery_op \<Rightarrow> int app" where
  "run_op E (OpCreate a) = create_case E a"
| "run_op E (OpApprove k by reason) = approve E k by reason"
| "run_op E (OpReject k reason) = reject E k reason"
| "run_op E (OpStart k) = start_execution E k"
| "run_op E (OpExecuted k h) = mark_executed E k h"
| "run_op E (OpExecutionFailed k ty) = mark_execution_failed E k ty"
| "run_op E (OpClose k) = close E k"

text \<open>A case is opened in a state that precedes approval; each operation is its own transaction.\<close>

fun op_ok :: "recovery_op \<Rightarrow> bool" where
  "op_ok (OpCreate a) \<longleftrightarrow> ca_status a \<in> {RC_OPEN, RC_AUTO_ANALYZED, RC_WAITING_APPROVAL}"
| "op_ok _ \<longleftrightarrow> True"

inductive recovery_reach :: "tables \<Rightarrow> tables \<Rightarrow> bool" for db0 where
  start: "recovery_reach db0 db0"
| step: "recovery_reach db0 db \<Longrightarrow> op_ok op \<Longrightarrow> w_sess w = NoTx \<Longrightarrow> w_committed w = db \<Longrightarrow>
    others E (w_tick w) db = db \<Longrightarrow>
    recovery_reach db0 (w_committed (snd (with_begin E (run_op E op) w)))"

text \<open>Approved by someone, wherever approval has been given or used.\<close>

definition approval_ok :: "recovery_case \<Rightarrow> bool" where
  "approval_ok c \<longleftrightarrow> (rc_current_status c \<in> {recovery_status_value RC_APPROVED, recovery_status_value RC_EXECUTING,
     recovery_status_value RC_EXECUTED, recovery_status_value RC_EXECUTION_FAILED} \<longrightarrow> \<not> unapproved c)"

definition cases_ok :: "tables \<Rightarrow> bool" where
  "cases_ok db \<longleftrightarrow> db_ok db \<and> list_all approval_ok (t_cases db)"

lemma case_moved_ok:
  assumes "case_moved k st P db db'" "db_ok db'" "cases_ok db"
    and st: "st \<in> {RC_EXECUTED, RC_EXECUTION_FAILED} \<or> (\<forall>c. P c \<longrightarrow> rc_current_status c = recovery_status_value st \<longrightarrow>
      approval_ok c)"
  shows "cases_ok db'"
proof -
  from assms(1) obtain c cur g where c: "case_of db k = Some c" "rc_current_status c = recovery_status_value cur"
    "st \<in> set (allowed_recovery_transitions cur)" "db' = upd_case (rc_id c) g db"
    "rc_current_status (g c) = recovery_status_value st" "rc_approval_required (g c) = rc_approval_required c"
    "P (g c)" "rc_approved_by (g c) = rc_approved_by c \<or> st = RC_APPROVED" by (auto simp: case_moved_def)
  have in_db: "c \<in> set (t_cases db)" using c(1) by (auto simp: case_of_def dest: find_in)
  then have "approval_ok c" using assms(3) by (auto simp: cases_ok_def list_all_iff)
  have "approval_ok (g c)"
  proof (cases "st \<in> {RC_EXECUTED, RC_EXECUTION_FAILED}")
    case True
    then have "cur = RC_EXECUTING" using c(3) by (cases cur) auto
    then have "\<not> unapproved c" using \<open>approval_ok c\<close> c(2) by (simp add: approval_ok_def)
    with c(6,8) True show ?thesis by (auto simp: approval_ok_def unapproved_def)
  qed (use st c in auto)
  moreover have "approval_ok x" if "x \<in> set (t_cases db)" for x
    using that assms(3) by (auto simp: cases_ok_def list_all_iff)
  moreover have "x = c" if "x \<in> set (t_cases db)" "rc_id x = rc_id c" for x
    using that in_db assms(3) distinct_key_unique [OF db_ok_unique(10)] by (auto simp: cases_ok_def)
  ultimately show ?thesis
    using assms(2) c(4) by (auto simp: cases_ok_def upd_case_def list_all_iff set_update_rows)
qed

lemma create_case_ok:
  assumes "w_sess w = InTx" "cases_ok (w_db w)" "ca_status a \<in> {RC_OPEN, RC_AUTO_ANALYZED, RC_WAITING_APPROVAL}"
  shows "wp (create_case E a) (\<lambda>i w'. cases_ok (w_db w') \<and> runs w (w_db w') w')
    (\<lambda>x w'. in_tx (w_committed w) w') w"
proof -
  have ok: "db_ok (w_db w)" using assms by (simp add: cases_ok_def)
  have q: "wp (get_by_source_key E (ca_source_key a)) (\<lambda>i w'. runs w (w_db w) w' \<and>
      i = map_option rc_id (List.find (\<lambda>c. rc_source_key c = ca_source_key a) (t_cases (w_db w)))) (sa_failure w) w"
    unfolding get_by_source_key_def
    using assms(1) ok by (intro unique_query_spec) (simp_all add: db_ok_unique)
  have new: "approval_ok (new_case E w1 a)" for w1
    using assms(3) by (auto simp: approval_ok_def new_case_def)
  show ?thesis
    unfolding create_case_def
    by (rule wp_bindI [OF q])
      (use assms new in \<open>auto simp: wp_simps case_create_def runs_def in_tx_def sa_failure_def cases_ok_def db_ok_def
        split: option.split\<close>)
qed

lemma move_case_ok:
  assumes "w_sess w = InTx" "cases_ok (w_db w)"
    and f: "\<And>t c. rc_id (f t c) = rc_id c" "\<And>t c. rc_current_status (f t c) = rc_current_status c"
      "\<And>t c. rc_approval_required (f t c) = rc_approval_required c"
      "\<And>t c. rc_approved_by (f t c) = rc_approved_by c \<or> st = RC_APPROVED"
      "\<And>t t' c. P ((f t c)\<lparr>rc_updated_at := t'\<rparr>)"
    and st: "st \<in> {RC_EXECUTED, RC_EXECUTION_FAILED} \<or> (\<forall>c. P c \<longrightarrow> rc_current_status c = recovery_status_value st \<longrightarrow>
      approval_ok c)"
  shows "wp (bindM (case_get E k) (\<lambda>i. thenM (transition E i st) (thenM (assign_case E i f) (case_save E i))))
    (\<lambda>i w'. cases_ok (w_db w') \<and> runs w (w_db w') w') (\<lambda>x w'. in_tx (w_committed w) w') w"
  unfolding move_case_def [symmetric]
  by (rule wp_mono [OF move_case_spec [where P = P]])
    (use assms case_moved_ok [OF _ _ assms(2) st] in \<open>auto simp: cases_ok_def\<close>)

lemma run_op_ok:
  assumes "w_sess w = InTx" "cases_ok (w_db w)" "op_ok op"
  shows "wp (run_op E op) (\<lambda>i w'. cases_ok (w_db w') \<and> runs w (w_db w') w') (\<lambda>x w'. in_tx (w_committed w) w') w"
proof -
  have ok: "db_ok (w_db w)" using assms by (simp add: cases_ok_def)
  show ?thesis
  proof (cases op)
    case (OpCreate a)
    with assms create_case_ok show ?thesis by simp
  next
    case (OpApprove k who reason)
    show ?thesis
    proof (cases "who = []")
      case True
      with OpApprove assms show ?thesis by (simp add: approve_def wp_simps in_tx_def)
    next
      case False
      with OpApprove show ?thesis
        by (simp add: approve_def, intro move_case_ok [where P = "\<lambda>c. rc_approved_by c = Some who"])
          (use assms False in \<open>auto simp: approval_ok_def unapproved_def\<close>)
    qed
  next
    case (OpReject k reason)
    then show ?thesis
      by (simp add: reject_def, intro move_case_ok [where P = "\<lambda>c. True"])
        (use assms in \<open>auto simp: approval_ok_def\<close>)
  next
    case (OpStart k)
    then show ?thesis
      by (auto intro!: wp_mono [OF start_execution_moves [OF assms(1) ok]] case_moved_ok [OF _ _ assms(2)]
          simp: approval_ok_def)
  next
    case (OpExecuted k h)
    then show ?thesis
      by (simp add: mark_executed_def, intro move_case_ok [where P = "\<lambda>c. True"]) (use assms in auto)
  next
    case (OpExecutionFailed k ty)
    then show ?thesis
      by (simp add: mark_execution_failed_def, intro move_case_ok [where P = "\<lambda>c. True"]) (use assms in auto)
  next
    case (OpClose k)
    then show ?thesis
      by (auto intro!: wp_mono [OF close_moves [OF assms(1) ok]] case_moved_ok [OF _ _ assms(2)]
          simp: approval_ok_def)
  qed
qed

lemma recovery_reach_ok: "recovery_reach db0 db \<Longrightarrow> cases_ok db0 \<Longrightarrow> cases_ok db"
proof (induction rule: recovery_reach.induct)
  case (step db op w E)
  have "wp (run_op E op)
    (\<lambda>x w1. in_tx (w_committed (start_tx E w)) w1 \<and> (w_sess w1 = InTx \<longrightarrow> db_ok (w_db w1) \<longrightarrow> cases_ok (w_db w1)))
    (\<lambda>e w1. in_tx (w_committed (start_tx E w)) w1) (start_tx E w)"
    by (rule wp_mono [OF run_op_ok])
      (use step in \<open>auto simp: start_tx_def Let_def runs_def in_tx_def\<close>)
  from with_begin_outcome [OF step.hyps(3) refl this] step show ?case
    by (auto simp: wp_def start_tx_def Let_def split: prod.splits sum.splits)
qed simp

end
