(* ===== verification/Reconciliation.thy ===== *)
theory Reconciliation
  imports Recovery
begin

text \<open>
  \<open>ReconciliationService\<close> (\<open>backend/app/services/reconciliation_service.py\<close>): the detector of stale
  \<open>PROCESSING\<close> records, the consistency counts, and the recovery cases and quarantines they open.
  Each count is one query; the pure functions below are what the queries compute.
\<close>

record stale_processing_candidate =
  sp_idempotency_record_id :: int
  sp_idempotency_key_hash :: string
  sp_status :: string
  sp_locked_until :: "string option"
  sp_expires_at :: "string option"
  sp_created_at :: string
  sp_updated_at :: string
  sp_matching_transaction_event_exists :: bool
  sp_matching_ledger_entry_exists :: bool
  sp_account_balance_check :: string
  sp_proposed_action :: string
  sp_recovery_case_id :: "string option"
  sp_recovery_case_source_key :: "string option"

definition stale_to_dict :: "stale_processing_candidate \<Rightarrow> (string \<times> json) list" where
  "stale_to_dict c =
    [(''idempotency_record_id'', JInt (sp_idempotency_record_id c)),
     (''idempotency_key_hash'', JStr (sp_idempotency_key_hash c)), (''status'', JStr (sp_status c)),
     (''locked_until'', opt_str (sp_locked_until c)), (''expires_at'', opt_str (sp_expires_at c)),
     (''created_at'', JStr (sp_created_at c)), (''updated_at'', JStr (sp_updated_at c)),
     (''matching_transaction_event_exists'', JBool (sp_matching_transaction_event_exists c)),
     (''matching_ledger_entry_exists'', JBool (sp_matching_ledger_entry_exists c)),
     (''account_balance_check'', JStr (sp_account_balance_check c)),
     (''proposed_action'', JStr (sp_proposed_action c)),
     (''recovery_case_id'', opt_str (sp_recovery_case_id c)),
     (''recovery_case_source_key'', opt_str (sp_recovery_case_source_key c))]"

record reconciliation_counts =
  duplicate_ledger_count :: nat
  duplicate_external_event_count :: nat
  completed_idempotency_without_transaction_event_count :: nat
  transaction_event_without_ledger_count :: nat
  ledger_without_transaction_event_count :: nat
  account_balance_mismatch_count :: nat
  stale_processing_count :: nat

definition counts_to_dict :: "reconciliation_counts \<Rightarrow> (string \<times> json) list" where
  "counts_to_dict c =
    [(''duplicate_ledger_count'', JInt (int (duplicate_ledger_count c))),
     (''duplicate_external_event_count'', JInt (int (duplicate_external_event_count c))),
     (''completed_idempotency_without_transaction_event_count'',
        JInt (int (completed_idempotency_without_transaction_event_count c))),
     (''transaction_event_without_ledger_count'', JInt (int (transaction_event_without_ledger_count c))),
     (''ledger_without_transaction_event_count'', JInt (int (ledger_without_transaction_event_count c))),
     (''account_balance_mismatch_count'', JInt (int (account_balance_mismatch_count c))),
     (''stale_processing_count'', JInt (int (stale_processing_count c)))]"

record recovery_case_link =
  ln_issue_type :: string
  ln_case_type :: string
  ln_source_key :: string
  ln_case_id :: string
  ln_quarantine_id :: "string option"

definition link_to_dict :: "recovery_case_link \<Rightarrow> (string \<times> json) list" where
  "link_to_dict l = [(''issue_type'', JStr (ln_issue_type l)), (''case_type'', JStr (ln_case_type l)),
     (''source_key'', JStr (ln_source_key l)), (''case_id'', JStr (ln_case_id l)),
     (''quarantine_id'', opt_str (ln_quarantine_id l))]"

subsection \<open>What the queries compute\<close>

definition minutes :: "int \<Rightarrow> int" where
  "minutes n = n * 60000000"

definition safe_hash :: "string \<Rightarrow> string" where
  "safe_hash s = sha256_hex (utf8 s)"

definition is_stale :: "instant \<Rightarrow> int \<Rightarrow> idempotency_record \<Rightarrow> bool" where
  "is_stale t threshold_minutes r \<longleftrightarrow> idem_status r = idempotency_status_value IS_PROCESSING \<and>
     ((case idem_locked_until r of None \<Rightarrow> False | Some u \<Rightarrow> u < t) \<or>
      idem_updated_at r < t - minutes threshold_minutes)"

definition stale_records :: "instant \<Rightarrow> int \<Rightarrow> tables \<Rightarrow> idempotency_record list" where
  "stale_records t threshold_minutes db =
     sort_key (\<lambda>r. (idem_updated_at r, idem_id r)) (filter (is_stale t threshold_minutes) (t_idem db))"

definition count_group_duplicates :: "'a list \<Rightarrow> nat" where
  "count_group_duplicates xs = length (filter (\<lambda>v. 1 < length (filter (\<lambda>x. x = v) xs)) (remdups xs))"

definition orphan_completed :: "tables \<Rightarrow> idempotency_record list" where
  "orphan_completed db = filter (\<lambda>r. idem_status r = idempotency_status_value IS_COMPLETED \<and>
     idem_idempotency_key r \<notin> te_idempotency_key ` set (t_events db)) (t_idem db)"

definition events_without_ledger :: "instant \<Rightarrow> int \<Rightarrow> tables \<Rightarrow> transaction_event list" where
  "events_without_ledger t threshold_minutes db = filter (\<lambda>e.
     te_id e \<notin> le_transaction_event_id ` set (t_ledger db) \<and>
     (te_status e \<in> status_value ` {COMPLETED, CANCELLED, SETTLED} \<or>
      te_status e \<in> status_value ` {RECEIVED, VALIDATED, PROCESSING} \<and>
      te_updated_at e < t - minutes threshold_minutes)) (t_events db)"

definition ledger_without_event :: "tables \<Rightarrow> ledger_entry list" where
  "ledger_without_event db =
     filter (\<lambda>l. le_transaction_event_id l \<notin> te_id ` set (t_events db)) (t_ledger db)"

definition balance_mismatches :: "tables \<Rightarrow> account list" where
  "balance_mismatches db = filter (\<lambda>a. acc_balance a \<noteq> ledger_sum db (acc_id a)) (t_accounts db)"

subsection \<open>The service\<close>

definition matching_event :: "env \<Rightarrow> string \<Rightarrow> transaction_event option app" where
  "matching_event E key = db_query E (\<lambda>db.
     first (sort_key te_id (filter (\<lambda>e. te_idempotency_key e = key) (t_events db))))"

definition ledger_exists_for_event :: "env \<Rightarrow> int \<Rightarrow> bool app" where
  "ledger_exists_for_event E i = db_query E (\<lambda>db. i \<in> le_transaction_event_id ` set (t_ledger db))"

definition proposed_stale_action :: "transaction_event option \<Rightarrow> bool \<Rightarrow> string" where
  "proposed_stale_action event matching_ledger =
     (if event \<noteq> None \<and> matching_ledger then action_value MARK_COMPLETED
      else action_value MARK_FAILED_RETRYABLE)"

definition blank_args :: case_args where
  "blank_args = \<lparr>ca_source_key = [], ca_case_type = [], ca_severity = [], ca_classification = [],
     ca_confidence_candidate = None, ca_detected_by = ''ph5_reconciliation'', ca_proposed_action = [],
     ca_approval_required = True, ca_status = RC_WAITING_APPROVAL, ca_source_incident_id = None,
     ca_source_artifact_path = None, ca_source_analyzer_result_path = None, ca_external_event_id = None,
     ca_idempotency_key_hash = None, ca_client_id = None, ca_account_id = None,
     ca_transaction_event_id = None, ca_evidence_path = None\<rparr>"

definition create_stale_recovery_case :: "env \<Rightarrow> idempotency_record \<Rightarrow> transaction_event option \<Rightarrow> string \<Rightarrow>
    int app" where
  "create_stale_recovery_case E r event proposed_action = create_case E
     (blank_args\<lparr>ca_source_key := ''ph5:stale:'' @ int_str (idem_id r),
        ca_case_type := case_type_value STALE_PROCESSING, ca_severity := ''SEV2'',
        ca_classification := ''STALE_PROCESSING_DETECTED'',
        ca_confidence_candidate := Some (JFloat ''0.8''), ca_proposed_action := proposed_action,
        ca_transaction_event_id := map_option te_id event, ca_account_id := map_option te_account_id event,
        ca_external_event_id := map_option te_external_event_id event,
        ca_idempotency_key_hash := Some (safe_hash (idem_idempotency_key r))\<rparr>)"

definition stale_candidate :: "env \<Rightarrow> bool \<Rightarrow> idempotency_record \<Rightarrow> stale_processing_candidate app" where
  "stale_candidate E create_recovery_cases r =
     bindM (matching_event E (idem_idempotency_key r)) (\<lambda>event.
     bindM (case event of None \<Rightarrow> returnM False | Some e \<Rightarrow> ledger_exists_for_event E (te_id e))
       (\<lambda>matching_ledger.
     let proposed_action = proposed_stale_action event matching_ledger in
     bindM (if create_recovery_cases
       then bindM (create_stale_recovery_case E r event proposed_action) (\<lambda>i.
         bindM (read_row case_by_id i) (\<lambda>c. returnM (Some c)))
       else returnM None) (\<lambda>recovery_case.
     returnM \<lparr>sp_idempotency_record_id = idem_id r,
       sp_idempotency_key_hash = safe_hash (idem_idempotency_key r), sp_status = idem_status r,
       sp_locked_until = map_option (isoformat E) (idem_locked_until r),
       sp_expires_at = map_option (isoformat E) (idem_expires_at r),
       sp_created_at = isoformat E (idem_created_at r), sp_updated_at = isoformat E (idem_updated_at r),
       sp_matching_transaction_event_exists = (event \<noteq> None),
       sp_matching_ledger_entry_exists = matching_ledger,
       sp_account_balance_check = (if event \<noteq> None then ''candidate_only'' else ''not_applicable''),
       sp_proposed_action = proposed_action,
       sp_recovery_case_id = map_option rc_case_id recovery_case,
       sp_recovery_case_source_key = map_option rc_source_key recovery_case\<rparr>)))"

definition detect_stale_processing :: "env \<Rightarrow> int \<Rightarrow> bool \<Rightarrow> stale_processing_candidate list app" where
  "detect_stale_processing E threshold_minutes create_recovery_cases =
     bindM (utc_now E) (\<lambda>t.
     bindM (db_query E (stale_records t threshold_minutes)) (\<lambda>records.
     mapM (stale_candidate E create_recovery_cases) records))"

definition count_stale_processing :: "env \<Rightarrow> int \<Rightarrow> nat app" where
  "count_stale_processing E threshold_minutes =
     bindM (detect_stale_processing E threshold_minutes False) (\<lambda>cs. returnM (length cs))"

definition reconcile_counts :: "env \<Rightarrow> int \<Rightarrow> reconciliation_counts app" where
  "reconcile_counts E threshold_minutes =
     bindM (db_query E (\<lambda>db. count_group_duplicates (map le_transaction_event_id (t_ledger db)))) (\<lambda>n1.
     bindM (db_query E (\<lambda>db. count_group_duplicates (map te_external_event_id (t_events db)))) (\<lambda>n2.
     bindM (db_query E (\<lambda>db. length (orphan_completed db))) (\<lambda>n3.
     bindM (utc_now E) (\<lambda>t.
     bindM (db_query E (\<lambda>db. length (events_without_ledger t threshold_minutes db))) (\<lambda>n4.
     bindM (db_query E (\<lambda>db. length (ledger_without_event db))) (\<lambda>n5.
     bindM (db_query E (\<lambda>db. length (balance_mismatches db))) (\<lambda>n6.
     bindM (count_stale_processing E threshold_minutes) (\<lambda>n7.
     returnM \<lparr>duplicate_ledger_count = n1, duplicate_external_event_count = n2,
       completed_idempotency_without_transaction_event_count = n3,
       transaction_event_without_ledger_count = n4, ledger_without_transaction_event_count = n5,
       account_balance_mismatch_count = n6, stale_processing_count = n7\<rparr>))))))))"

definition create_count_case :: "env \<Rightarrow> bool \<Rightarrow> string \<Rightarrow> recovery_case_type \<Rightarrow> recovery_proposed_action \<Rightarrow> string \<Rightarrow>
    nat \<Rightarrow> bool \<Rightarrow> recovery_case_link app" where
  "create_count_case E quarantine_service issue_type case_type proposed_action severity count quarantine_global =
     bindM (create_case E (blank_args\<lparr>ca_source_key := ''ph5:reconcile:'' @ issue_type,
        ca_case_type := case_type_value case_type, ca_severity := severity,
        ca_classification := upper issue_type @ ''_DETECTED'',
        ca_confidence_candidate := Some (JFloat ''0.85''),
        ca_proposed_action := action_value proposed_action\<rparr>)) (\<lambda>i.
     bindM (read_row case_by_id i) (\<lambda>recovery_case.
     bindM (if quarantine_global \<and> quarantine_service
       then bindM (create_quarantine E GLOBAL_WRITE (''ph5:'' @ issue_type)
           (''PH5 reconciliation detected '' @ nat_str count @ '' '' @ issue_type @ '' candidate(s)'')
           ''ph5_reconciliation'' (Some (rc_id recovery_case)) None) (\<lambda>j.
         bindM (read_row quar_by_id j) (\<lambda>q. returnM (Some (qr_quarantine_id q))))
       else returnM None) (\<lambda>quarantine_id.
     returnM \<lparr>ln_issue_type = issue_type, ln_case_type = case_type_value case_type,
       ln_source_key = rc_source_key recovery_case, ln_case_id = rc_case_id recovery_case,
       ln_quarantine_id = quarantine_id\<rparr>)))"

text \<open>The issues that open a case, in the order they are looked at.\<close>

definition reconciliation_issues :: "reconciliation_counts \<Rightarrow>
    (string \<times> recovery_case_type \<times> recovery_proposed_action \<times> string \<times> nat \<times> bool) list" where
  "reconciliation_issues c = filter (\<lambda>(_, _, _, _, n, _). 0 < n)
    [(''duplicate_ledger'', DUPLICATE_LEDGER, KEEP_QUARANTINED, ''SEV1'', duplicate_ledger_count c, True),
     (''account_balance_mismatch'', BALANCE_MISMATCH, KEEP_QUARANTINED, ''SEV1'',
        account_balance_mismatch_count c, True),
     (''completed_idempotency_without_transaction_event'', ORPHAN_IDEMPOTENCY, NOOP_REVIEW_ONLY, ''SEV2'',
        completed_idempotency_without_transaction_event_count c, False),
     (''transaction_event_without_ledger'', FAILOVER_IN_DOUBT, KEEP_QUARANTINED, ''SEV1'',
        transaction_event_without_ledger_count c, True),
     (''ledger_without_transaction_event'', CONSISTENCY_ISSUE_CANDIDATE, KEEP_QUARANTINED, ''SEV1'',
        ledger_without_transaction_event_count c, True)]"

definition create_reconciliation_cases :: "env \<Rightarrow> bool \<Rightarrow> reconciliation_counts \<Rightarrow> recovery_case_link list app" where
  "create_reconciliation_cases E quarantine_service c =
     mapM (\<lambda>(issue, case_type, action, severity, n, global).
       create_count_case E quarantine_service issue case_type action severity n global)
     (reconciliation_issues c)"

definition reconcile :: "env \<Rightarrow> bool \<Rightarrow> int \<Rightarrow> bool \<Rightarrow> (reconciliation_counts \<times> recovery_case_link list) app" where
  "reconcile E quarantine_service threshold_minutes create_recovery_cases =
     bindM (reconcile_counts E threshold_minutes) (\<lambda>counts.
     bindM (if create_recovery_cases then create_reconciliation_cases E quarantine_service counts
       else returnM []) (\<lambda>links. returnM (counts, links)))"

lemma in_tx_reconciliation [keeps_intros]:
  "keeps (in_tx c) (stale_candidate E b r)" "keeps (in_tx c) (detect_stale_processing E n b)"
  "keeps (in_tx c) (count_stale_processing E n)" "keeps (in_tx c) (reconcile_counts E n)"
  "keeps (in_tx c) (create_reconciliation_cases E q counts)" "keeps (in_tx c) (reconcile E q n b)"
  unfolding stale_candidate_def detect_stale_processing_def count_stale_processing_def reconcile_counts_def
    create_reconciliation_cases_def create_count_case_def reconcile_def matching_event_def
    ledger_exists_for_event_def create_stale_recovery_case_def Let_def
  by (intro keeps_intros)+

end
