(* ===== verification/Processing.thy ===== *)
theory Processing
  imports Transaction_Service Consistency
begin

text \<open>
  The transaction of one request, step by step: what \<open>run_event\<close>, \<open>apply_started_request\<close> and
  \<open>process_started\<close> leave behind when they return and when they raise, for every environment.
\<close>

subsection \<open>The effect of an applied event\<close>

definition status_of :: "tables \<Rightarrow> int \<Rightarrow> string option" where
  "status_of db i = map_option te_status (event_by_id db i)"

definition event_applied :: "tables \<Rightarrow> tables \<Rightarrow> account \<Rightarrow> int \<Rightarrow> int option \<Rightarrow> int \<Rightarrow> bool" where
  "event_applied db db' a i original k \<longleftrightarrow>
     (\<exists>l. t_ledger db' = t_ledger db @ [l] \<and> le_transaction_event_id l = i \<and>
        le_account_id l = acc_id a \<and> le_amount l = k \<and> le_balance_after l = acc_balance a + k) \<and>
     (\<exists>t. t_accounts db' = update_rows (\<lambda>x. acc_id x = acc_id a)
        (\<lambda>x. x\<lparr>acc_balance := acc_balance a + k, acc_updated_at := t\<rparr>) (t_accounts db)) \<and>
     status_of db' i = Some (status_value COMPLETED) \<and>
     (\<forall>j. original = Some j \<longrightarrow> status_of db' j = Some (status_value CANCELLED))"

definition success_of :: "tables \<Rightarrow> int \<Rightarrow> int \<Rightarrow> transaction_processing_result \<Rightarrow> bool" where
  "success_of db i bal res \<longleftrightarrow> (\<exists>e. event_by_id db i = Some e \<and>
     res = \<lparr>res_status_code = 200,
       res_body = [(''event_id'', JStr (int_str i)), (''external_event_id'', JStr (te_external_event_id e)),
         (''status'', JStr (te_status e)), (''processed'', JBool True), (''duplicated'', JBool False),
         (''balance_after'', JInt bal)],
       res_processed = True, res_duplicated = False\<rparr>)"

subsection \<open>Status changes of the event on its way\<close>

lemma change_on_its_way:
  assumes inx: "w_sess w = InTx" and way: "on_its_way (w_db w) i a acc ty n"
    and ok: "b \<in> set (allowed_transitions a)"
  shows "wp (change_status E i (Inl b) reason)
    (\<lambda>_ w'. on_its_way (w_db w') i b acc ty n \<and> runs w (w_db w') w' \<and>
       (\<exists>gap t. w_db w' = push_status gap t i a b reason (w_db w)))
    (sa_failure w) w"
proof -
  from way obtain e where e: "event_by_id (w_db w) i = Some e" "te_status e = status_value a"
    by (auto simp: on_its_way_def)
  show ?thesis
  proof (rule wp_mono [OF change_status_spec [OF inx e]], goal_cases)
    case (1 h w')
    then obtain gap t where p: "runs w (push_status gap t i a b reason (w_db w)) w'" and db: "db_ok (w_db w')"
      by auto
    from p have "w_db w' = push_status gap t i a b reason (w_db w)" by (simp add: runs_def)
    with p db push_status_on_its_way [OF way ok] show ?case by auto
  qed (use ok in auto)
qed

text \<open>The steps after the ledger entry: cancel the original, complete the event, build the response.\<close>

definition finish_event :: "env \<Rightarrow> create_request \<Rightarrow> int \<Rightarrow> int option \<Rightarrow> int \<Rightarrow> transaction_processing_result app" where
  "finish_event E request event original_event ledger =
     thenM (case original_event of
         Some i \<Rightarrow> if rq_event_type request = CANCEL
           then thenM (change_status E i (Inl CANCELLED) (Some ''cancel event completed'')) (returnM ())
           else returnM ()
       | None \<Rightarrow> returnM ())
     (thenM (change_status E event (Inl COMPLETED) (Some ''ledger processing completed''))
     (success_result event ledger True False))"

definition ledger_posted :: "tables \<Rightarrow> tables \<Rightarrow> account \<Rightarrow> int \<Rightarrow> int \<Rightarrow> int \<Rightarrow> bool" where
  "ledger_posted db0 db a i lid k \<longleftrightarrow> db_ok db \<and> money_ok db \<and> events_ok {i} db \<and> has_ledger db i \<and>
     walk RECEIVED (histories_of db i) = Some PROCESSING \<and>
     status_of db i = Some (status_value PROCESSING) \<and>
     (\<exists>l. t_ledger db = t_ledger db0 @ [l] \<and> le_id l = lid \<and> le_transaction_event_id l = i \<and>
        le_account_id l = acc_id a \<and> le_amount l = k \<and> le_balance_after l = acc_balance a + k) \<and>
     (\<exists>t. t_accounts db = update_rows (\<lambda>x. acc_id x = acc_id a)
        (\<lambda>x. x\<lparr>acc_balance := acc_balance a + k, acc_updated_at := t\<rparr>) (t_accounts db0))"

lemma status_of_push:
  "status_of (push_status gap t i a b reason db) j =
     (if j = i \<and> status_of db j \<noteq> None then Some (status_value b) else status_of db j)"
  by (auto simp: status_of_def event_by_id_push)

lemma ledger_posted_by_id:
  assumes "ledger_posted db0 db a i lid k"
  shows "\<exists>l. ledger_by_id db lid = Some l \<and> le_balance_after l = acc_balance a + k"
proof -
  from assms obtain l where l: "t_ledger db = t_ledger db0 @ [l]" "le_id l = lid"
    "le_balance_after l = acc_balance a + k" and ok: "db_ok db" by (auto simp: ledger_posted_def)
  have "List.find (\<lambda>x. le_id x = le_id l) (t_ledger db) = Some l"
    using db_ok_unique(5) [OF ok] l(1) by (intro find_key_distinct) simp_all
  with l show ?thesis by (auto simp: ledger_by_id_def)
qed

lemma complete_event_spec:
  assumes inx: "w_sess w = InTx" and post: "ledger_posted db0 (w_db w) a i lid k"
  shows "wp (thenM (change_status E i (Inl COMPLETED) (Some ''ledger processing completed''))
      (success_result i lid True False))
    (\<lambda>res w'. runs w (w_db w') w' \<and> db_ok (w_db w') \<and> money_ok (w_db w') \<and> events_ok {} (w_db w') \<and>
       t_idem (w_db w') = t_idem (w_db w) \<and> success_of (w_db w') i (acc_balance a + k) res \<and>
       event_applied db0 (w_db w') a i None k \<and>
       (\<forall>j. j \<noteq> i \<longrightarrow> status_of (w_db w') j = status_of (w_db w) j))
    (sa_failure w) w"
proof -
  from post obtain e where e: "event_by_id (w_db w) i = Some e" "te_status e = status_value PROCESSING"
    by (auto simp: ledger_posted_def status_of_def)
  from ledger_posted_by_id [OF post] obtain l where
    l: "ledger_by_id (w_db w) lid = Some l" "le_balance_after l = acc_balance a + k" by blast
  show ?thesis
  proof (rule wp_thenI [OF change_status_spec [OF inx e]], goal_cases)
    case (1 h w1)
    then obtain gap t where p: "runs w (push_status gap t i PROCESSING COMPLETED
        (Some ''ledger processing completed'') (w_db w)) w1" and ok: "db_ok (w_db w1)" by auto
    then have w1: "w_sess w1 = InTx" and db1: "w_db w1 = push_status gap t i PROCESSING COMPLETED
        (Some ''ledger processing completed'') (w_db w)" by (auto simp: runs_def)
    have "ledger_by_id (w_db w1) lid = Some l" using l(1) by (simp add: db1 ledger_by_id_def)
    moreover have "event_by_id (w_db w1) i = Some (e\<lparr>te_status := status_value COMPLETED, te_updated_at := t\<rparr>)"
      by (simp add: db1 event_by_id_push e(1))
    moreover have "events_ok {} (w_db w1)" "money_ok (w_db w1)"
      using post by (simp_all add: db1 ledger_posted_def push_status_money push_status_final
          intermediate_def posted_def)
    moreover have "event_applied db0 (w_db w1) a i None k"
      using post by (auto simp: event_applied_def ledger_posted_def db1 status_of_push)
    moreover have "\<forall>j. j \<noteq> i \<longrightarrow> status_of (w_db w1) j = status_of (w_db w) j"
      by (simp add: db1 status_of_push)
    moreover have "t_idem (w_db w1) = t_idem (w_db w)" by (simp add: db1)
    moreover have "runs w (w_db w1) w1" using p by (simp add: db1)
    moreover have "te_id e = i" using event_by_id_Some [OF e(1)] by simp
    ultimately show ?case
      using w1 ok l(2) by (simp add: success_result_def wp_simps success_of_def success_body_def)
  qed auto
qed

lemma finish_event_spec:
  assumes inx: "w_sess w = InTx" and post: "ledger_posted db0 (w_db w) a i lid k"
    and orig: "rq_event_type request = CANCEL \<Longrightarrow> original = Some j \<Longrightarrow>
      j \<noteq> i \<and> (\<exists>e'. event_by_id (w_db w) j = Some e' \<and> te_status e' = status_value COMPLETED)"
    and none: "rq_event_type request \<noteq> CANCEL \<Longrightarrow> original = None"
    and some: "original = None \<or> original = Some j"
  shows "wp (finish_event E request i original lid)
    (\<lambda>res w'. runs w (w_db w') w' \<and> db_ok (w_db w') \<and> money_ok (w_db w') \<and> events_ok {} (w_db w') \<and>
       t_idem (w_db w') = t_idem (w_db w) \<and> success_of (w_db w') i (acc_balance a + k) res \<and>
       event_applied db0 (w_db w') a i original k)
    (sa_failure w) w"
proof (cases original)
  case None
  then show ?thesis
    unfolding finish_event_def None option.case wp_then wp_return
    using complete_event_spec [OF inx post, of E, unfolded wp_then]
    by (elim wp_mono) auto
next
  case (Some j')
  with some have j': "j' = j" by simp
  with Some none orig have ty: "rq_event_type request = CANCEL" and ji: "j \<noteq> i" by auto
  from orig ty Some j' obtain e' where e': "event_by_id (w_db w) j = Some e'" "te_status e' = status_value COMPLETED"
    by auto
  have "wp (thenM (change_status E j (Inl CANCELLED) (Some ''cancel event completed'')) (returnM ()))
    (\<lambda>_ w1. runs w (w_db w1) w1 \<and> ledger_posted db0 (w_db w1) a i lid k \<and> t_idem (w_db w1) = t_idem (w_db w) \<and>
       status_of (w_db w1) j = Some (status_value CANCELLED)) (sa_failure w) w"
    unfolding wp_then wp_return
  proof (rule wp_mono [OF change_status_spec [OF inx e']], goal_cases)
    case (1 h w1)
    then obtain gap t where p: "runs w (push_status gap t j COMPLETED CANCELLED
        (Some ''cancel event completed'') (w_db w)) w1" and ok: "db_ok (w_db w1)" by auto
    then have db1: "w_db w1 = push_status gap t j COMPLETED CANCELLED
        (Some ''cancel event completed'') (w_db w)" by (auto simp: runs_def)
    have "events_ok {i} (w_db w1)"
      unfolding db1 using post e' ji by (intro push_status_cancelled) (auto simp: ledger_posted_def)
    with post ok p e'(1) ji show ?case
      by (simp add: ledger_posted_def db1 push_status_money histories_of_push status_of_push)
        (simp add: status_of_def)
  qed auto
  then show ?thesis
    unfolding finish_event_def Some option.case j'
  proof (simp only: ty if_True simp_thms, elim wp_thenI, goal_cases)
    case (1 u w1)
    then have "w_sess w1 = InTx" "ledger_posted db0 (w_db w1) a i lid k" by (auto simp: runs_def)
    then show ?case
      by (rule wp_mono [OF complete_event_spec])
        (use 1 ji in \<open>auto simp: event_applied_def intro: runs_trans runs_failure\<close>)
  qed auto
qed

subsection \<open>Running the event\<close>

text \<open>
  A refusal by a ledger rule leaves the event in \<open>PROCESSING\<close>, to be marked as failed, and no money
  moved; any other exception is a failed statement.
\<close>

lemma run_event_split:
  "run_event E request account event original =
     thenM (change_status E event (Inl VALIDATED) (Some ''basic validation succeeded''))
     (thenM (change_status E event (Inl PROCESSING) (Some ''ledger processing started''))
     (bindM (apply_event E account event original) (finish_event E request event original)))"
  unfolding run_event_def finish_event_def ..

lemma post_ledger_posted:
  assumes way: "on_its_way db i PROCESSING (acc_id a) ty n" and acc: "account_by_id db (acc_id a) = Some a"
    and k: "signed_amount ty ot n = Some k" "0 < n" "0 \<le> acc_balance a + k"
    and ok: "db_ok (post_ledger gap t t' (acc_id a) i ety k (acc_balance a + k) db)"
  shows "ledger_posted db (post_ledger gap t t' (acc_id a) i ety k (acc_balance a + k) db) a i
    (next_id gap (map le_id (t_ledger db))) k"
proof -
  from way obtain e where e: "event_by_id db i = Some e" "te_status e = status_value PROCESSING"
    "te_account_id e = acc_id a" "te_amount e = n" by (auto simp: on_its_way_def)
  have "money_ok (post_ledger gap t t' (acc_id a) i ety k (acc_balance a + k) db)"
    using way acc k e signed_amount_abs [OF k(1,2)] by (intro post_ledger_money) (auto simp: on_its_way_def)
  with way ok e k show ?thesis
    by (simp add: ledger_posted_def on_its_way_def post_ledger_events status_of_def new_ledger_def
        post_ledger_accounts) auto
qed

lemma run_event_spec:
  assumes inx: "w_sess w = InTx" and way: "on_its_way (w_db w) i RECEIVED (acc_id a) ty n"
    and acc: "account_by_id (w_db w) (acc_id a) = Some a" and ty: "rq_event_type request = ty"
    and orig: "if ty = CANCEL then \<exists>j. original = Some j \<and> j \<noteq> i else original = None"
  shows "wp (run_event E request (acc_id a) i original)
    (\<lambda>res w'. \<exists>k ot. runs w (w_db w') w' \<and> db_ok (w_db w') \<and> money_ok (w_db w') \<and> events_ok {} (w_db w') \<and>
       t_idem (w_db w') = t_idem (w_db w) \<and> success_of (w_db w') i (acc_balance a + k) res \<and>
       signed_amount ty ot n = Some k \<and> 0 < n \<and> 0 \<le> acc_balance a + k \<and>
       event_applied (w_db w) (w_db w') a i original k)
    (\<lambda>x w'. sa_failure w x w' \<or> (ledger_refusal x \<and> runs w (w_db w') w' \<and>
       on_its_way (w_db w') i PROCESSING (acc_id a) ty n \<and> t_idem (w_db w') = t_idem (w_db w) \<and>
       t_ledger (w_db w') = t_ledger (w_db w) \<and> t_accounts (w_db w') = t_accounts (w_db w))) w"
  (is "wp _ ?Q ?X w")
  unfolding run_event_split
proof (rule wp_thenI [OF change_on_its_way [OF inx way, of VALIDATED]], goal_cases)
  case (2 u w1)
  then have w1: "w_sess w1 = InTx" "runs w (w_db w1) w1" "on_its_way (w_db w1) i VALIDATED (acc_id a) ty n"
    "t_idem (w_db w1) = t_idem (w_db w)" "t_ledger (w_db w1) = t_ledger (w_db w)"
    "t_accounts (w_db w1) = t_accounts (w_db w)" by (auto simp: runs_def)
  show ?case
  proof (rule wp_thenI [OF change_on_its_way [OF w1(1,3), of PROCESSING]], goal_cases)
    case (2 u w2)
    then have w2: "w_sess w2 = InTx" "runs w (w_db w2) w2" "on_its_way (w_db w2) i PROCESSING (acc_id a) ty n"
      "t_idem (w_db w2) = t_idem (w_db w)" "t_ledger (w_db w2) = t_ledger (w_db w)"
      "t_accounts (w_db w2) = t_accounts (w_db w)" using w1 by (auto simp: runs_def)
    then have acc2: "account_by_id (w_db w2) (acc_id a) = Some a" using acc by (simp add: account_by_id_def)
    from w2(3) obtain e where e: "event_by_id (w_db w2) i = Some e" "te_event_type e = event_type_value ty"
      "te_amount e = n" by (auto simp: on_its_way_def)
    show ?case
    proof (rule wp_bindI [OF apply_event_spec [OF w2(1) e(1,2) acc2]], goal_cases)
      case (1 lid w3)
      then obtain ot k gap t t' ety where
        chk: "original_checked (w_db w2) ty e original ot" and
        k: "0 < n" "signed_amount ty ot n = Some k" "0 \<le> acc_balance a + k" and
        w3: "db_ok (w_db w3)" "lid = next_id gap (map le_id (t_ledger (w_db w2)))"
          "runs w2 (post_ledger gap t t' (acc_id a) i ety k (acc_balance a + k) (w_db w2)) w3"
        using e(3) by auto
      then have db3: "w_db w3 = post_ledger gap t t' (acc_id a) i ety k (acc_balance a + k) (w_db w2)"
        and inx3: "w_sess w3 = InTx" by (auto simp: runs_def)
      have post: "ledger_posted (w_db w2) (w_db w3) a i lid k"
        unfolding db3 w3(2) using w3(1) by (intro post_ledger_posted [OF w2(3) acc2 k(2,1,3)]) (simp add: db3)
      have fin: "wp (finish_event E request i original lid)
        (\<lambda>res w'. runs w3 (w_db w') w' \<and> db_ok (w_db w') \<and> money_ok (w_db w') \<and> events_ok {} (w_db w') \<and>
           t_idem (w_db w') = t_idem (w_db w3) \<and> success_of (w_db w') i (acc_balance a + k) res \<and>
           event_applied (w_db w2) (w_db w') a i original k)
        (sa_failure w3) w3"
      proof (rule finish_event_spec [OF inx3 post, where j = "the original"])
        show "the original \<noteq> i \<and> (\<exists>e'. event_by_id (w_db w3) (the original) = Some e' \<and>
            te_status e' = status_value COMPLETED)"
          if "rq_event_type request = CANCEL" "original = Some (the original)"
          using that chk orig ty by (auto simp: original_checked_def db3 validate_cancel_original_ok)
      qed (use orig ty in \<open>auto split: if_splits\<close>)
      show ?case
        by (rule wp_mono [OF fin])
          (use w2 w3 k chk in \<open>auto simp: event_applied_def db3 runs_def sa_failure_def\<close>)
    next
      case (2 x w3)
      then show ?case
      proof
        assume "ledger_refusal x \<and> runs w2 (w_db w2) w3"
        then show ?thesis using w2 by (auto simp: runs_def)
      next
        assume "sa_failure w2 x w3"
        with w2(2) show ?thesis by (blast intro: runs_failure)
      qed
    qed
  qed (use w1 in \<open>auto intro: runs_failure\<close>)
qed auto

subsection \<open>Applying a started request\<close>

definition account_of :: "tables \<Rightarrow> string \<Rightarrow> account option" where
  "account_of db no = List.find (\<lambda>a. acc_account_no a = no) (t_accounts db)"

definition event_of :: "tables \<Rightarrow> string \<Rightarrow> transaction_event option" where
  "event_of db x = List.find (\<lambda>e. te_external_event_id e = x) (t_events db)"

text \<open>
  What a request did to the money: it was processed now, for the first time, and exactly one ledger
  entry was added; or it was not, and ledger and balances are as they were.
\<close>

definition money_moved :: "create_request \<Rightarrow> tables \<Rightarrow> tables \<Rightarrow> transaction_processing_result \<Rightarrow> bool" where
  "money_moved request db db' res \<longleftrightarrow> (\<exists>a i original k ot.
     account_of db (rq_account_no request) = Some a \<and> event_of db (rq_external_event_id request) = None \<and>
     signed_amount (rq_event_type request) ot (rq_amount request) = Some k \<and> 0 < rq_amount request \<and>
     0 \<le> acc_balance a + k \<and> success_of db' i (acc_balance a + k) res \<and>
     event_applied db db' a i original k)"

definition money_kept :: "tables \<Rightarrow> tables \<Rightarrow> bool" where
  "money_kept db db' \<longleftrightarrow> t_ledger db' = t_ledger db \<and> t_accounts db' = t_accounts db"

text \<open>The refusals that are answered, and the rows they leave behind.\<close>

definition refused :: "tables \<Rightarrow> world \<Rightarrow> bool" where
  "refused db w' \<longleftrightarrow> w_sess w' = InTx \<and> db_ok (w_db w') \<and> money_ok (w_db w') \<and>
     t_idem (w_db w') = t_idem db \<and> money_kept db (w_db w') \<and>
     (case w_active_event w' of
        None \<Rightarrow> events_ok {} (w_db w')
      | Some i \<Rightarrow> \<exists>st acc ty n. on_its_way (w_db w') i st acc ty n \<and> intermediate st)"

lemma not_domain_SAError [simp]: "\<not> is_domain_failure (SAError s)"
  by (simp add: is_domain_failure_def)

lemma sa_failure_not_domain: "sa_failure w x w' \<Longrightarrow> in_tx (w_committed w) w' \<and> \<not> is_domain_failure x"
  by (auto simp: sa_failure_def)

lemma account_by_id_of:
  "db_ok db \<Longrightarrow> account_of db no = Some a \<Longrightarrow> account_by_id db (acc_id a) = Some a"
  using db_ok_unique(1) [of db] by (auto simp: account_of_def account_by_id_def dest!: find_in
      intro!: find_key_distinct)

lemma event_by_id_of:
  "db_ok db \<Longrightarrow> event_of db x = Some e \<Longrightarrow> event_by_id db (te_id e) = Some e"
  using db_ok_unique(3) [of db] by (auto simp: event_of_def event_by_id_def dest!: find_in
      intro!: find_key_distinct)

lemma account_query_spec:
  assumes "w_sess w = InTx" "db_ok (w_db w)"
  shows "wp (get_by_account_no_for_update E no)
    (\<lambda>i w'. runs w (w_db w) w' \<and> i = map_option acc_id (account_of (w_db w) no)) (sa_failure w) w"
  unfolding get_by_account_no_for_update_def account_of_def
  using assms by (intro unique_query_spec) (simp_all add: db_ok_unique)

lemma event_query_spec:
  assumes "w_sess w = InTx" "db_ok (w_db w)"
  shows "wp (get_by_external_event_id E x)
    (\<lambda>i w'. runs w (w_db w) w' \<and> i = map_option te_id (event_of (w_db w) x)) (sa_failure w) w"
  unfolding get_by_external_event_id_def event_of_def
  using assms by (intro unique_query_spec) (simp_all add: db_ok_unique)

lemma original_query_spec:
  assumes "w_sess w = InTx" "db_ok (w_db w)"
  shows "wp (get_original_event_for_cancel E request)
    (\<lambda>original w'. runs w (w_db w) w' \<and>
       (if rq_event_type request = CANCEL
        then \<exists>j. original = Some j \<and> j \<in> te_id ` set (t_events (w_db w)) else original = None))
    (\<lambda>x w'. sa_failure w x w' \<or> runs w (w_db w) w') w"
proof -
  have "wp (get_original_for_cancel_for_update E x)
    (\<lambda>i w'. runs w (w_db w) w' \<and> i = map_option te_id (event_of (w_db w) x)) (sa_failure w) w" for x
    unfolding get_original_for_cancel_for_update_def event_of_def
    using assms by (intro unique_query_spec) (simp_all add: db_ok_unique)
  from wp_mono [OF this] show ?thesis
    using assms(1)
    by (auto simp: get_original_event_for_cancel_def wp_simps event_of_def runs_refl find_Some_iff
        intro!: wp_mono [OF \<open>\<And>x. wp (get_original_for_cancel_for_update E x) _ _ _\<close>] split: option.split)
qed

lemma duplicate_result_spec:
  assumes "w_sess w = InTx" "db_ok (w_db w)"
  shows "wp (duplicate_result E i)
    (\<lambda>res w'. runs w (w_db w) w' \<and> \<not> res_processed res \<and> res_duplicated res)
    (\<lambda>x w'. in_tx (w_committed w) w' \<and> (is_domain_failure x \<longrightarrow> runs w (w_db w) w')) w"
proof -
  have "wp (get_by_transaction_event_id E i)
    (\<lambda>j w'. runs w (w_db w) w' \<and>
       j = map_option le_id (List.find (\<lambda>l. le_transaction_event_id l = i) (t_ledger (w_db w)))) (sa_failure w) w"
    unfolding get_by_transaction_event_id_def
    using assms by (intro unique_query_spec) (simp_all add: db_ok_unique)
  then show ?thesis
    unfolding duplicate_result_def
    by (rule wp_bindI) (auto simp: wp_simps success_result_def runs_InTx in_tx_def runs_def
        dest: sa_failure_not_domain split: option.split)
qed

text \<open>A first occurrence of the event: the rows of \<open>create_received\<close>, then \<open>run_event\<close>.\<close>

lemma first_occurrence_spec:
  assumes inx: "w_sess w = InTx" and db: "db_ok (w_db w)" "money_ok (w_db w)" "events_ok {} (w_db w)"
    and acc: "account_of (w_db w) (rq_account_no request) = Some a"
    and new: "event_of (w_db w) (rq_external_event_id request) = None"
    and orig: "if rq_event_type request = CANCEL
      then \<exists>j. original = Some j \<and> j \<in> te_id ` set (t_events (w_db w)) else original = None"
  shows "wp (bindM (create_received E (rq_external_event_id request) key (acc_id a)
        (event_type_value (rq_event_type request)) (rq_amount request) (rq_currency request)
        (rq_occurred_at request)) (\<lambda>event.
      thenM (set_active (Some event)) (run_event E request (acc_id a) event original)))
    (\<lambda>res w'. w_sess w' = InTx \<and> w_committed w' = w_committed w \<and> db_ok (w_db w') \<and> money_ok (w_db w') \<and>
       events_ok {} (w_db w') \<and> t_idem (w_db w') = t_idem (w_db w) \<and>
       money_moved request (w_db w) (w_db w') res)
    (\<lambda>x w'. in_tx (w_committed w) w' \<and> (is_domain_failure x \<longrightarrow> refused (w_db w) w')) w"
proof (rule wp_bindI [OF create_received_spec [OF inx]], goal_cases)
  case (1 i w1)
  then obtain gap t e where e: "e = new_event gap t (w_db w) (rq_external_event_id request) key (acc_id a)
      (event_type_value (rq_event_type request)) (rq_amount request) (rq_currency request)
      (rq_occurred_at request)" and i: "i = te_id e" and r1: "runs w (add_event e (w_db w)) w1"
    and ok1: "db_ok (add_event e (w_db w))" by (auto simp: Let_def simp del: new_row_keys)
  then have db1: "w_db w1 = add_event e (w_db w)" by (simp add: runs_def)
  let ?w = "w1\<lparr>w_active_event := Some i\<rparr>"
  have way: "on_its_way (w_db ?w) i RECEIVED (acc_id a) (rq_event_type request) (rq_amount request)"
    using add_event_on_its_way [OF db ok1 e] by (simp add: db1 i)
  have acc1: "account_by_id (w_db ?w) (acc_id a) = Some a"
    using account_by_id_of [OF db(1) acc] by (simp add: db1 account_by_id_def add_event_def)
  have fresh: "i \<notin> te_id ` set (t_events (w_db w))"
    using next_id_fresh [of gap "map te_id (t_events (w_db w))"] by (simp add: i e)
  then have orig1: "if rq_event_type request = CANCEL then \<exists>j. original = Some j \<and> j \<noteq> i else original = None"
    using orig by (auto split: if_splits)
  show ?case
    unfolding wp_then set_active_def wp_modify
  proof (rule wp_mono [OF run_event_spec [OF _ way acc1 refl orig1]], goal_cases)
    case 1
    then show ?case using r1 by (simp add: runs_def)
  next
    case (2 res w')
    then show ?case
      using r1 acc new unfolding money_moved_def
      by (fastforce simp: runs_def db1 add_event_def event_applied_def)
  next
    case (3 x w')
    then show ?case
    proof
      assume "sa_failure ?w x w'"
      with r1 show ?thesis by (auto simp: sa_failure_def runs_def)
    next
      assume *: "ledger_refusal x \<and> runs ?w (w_db w') w' \<and>
        on_its_way (w_db w') i PROCESSING (acc_id a) (rq_event_type request) (rq_amount request) \<and>
        t_idem (w_db w') = t_idem (w_db ?w) \<and> t_ledger (w_db w') = t_ledger (w_db ?w) \<and>
        t_accounts (w_db w') = t_accounts (w_db ?w)"
      then have "refused (w_db w) w'"
        by (auto simp: refused_def runs_def on_its_way_def db1 add_event_def money_kept_def intermediate_def)
      with * r1 show ?thesis by (auto simp: runs_def in_tx_def)
    qed
  qed
qed (auto dest: sa_failure_not_domain)

lemma refused_unchanged:
  assumes "runs w (w_db w) w'" "db_ok (w_db w)" "money_ok (w_db w)" "events_ok {} (w_db w)"
    "w_active_event w = None"
  shows "refused (w_db w) w'"
  using assms by (simp add: refused_def runs_def money_kept_def)

lemma quarantine_guard_spec:
  assumes "w_sess w = InTx" "db_ok (w_db w)"
  shows "wp (whenM q (assert_not_quarantined E ty i))
    (\<lambda>_ w'. runs w (w_db w) w' \<and> (q \<longrightarrow> \<not> quarantined (w_db w) ty i))
    (\<lambda>x w'. sa_failure w x w' \<or> runs w (w_db w) w') w"
  using wp_mono [OF assert_not_quarantined_spec [OF assms]] assms(1)
  by (auto simp: wp_when runs_refl intro!: wp_mono [OF assert_not_quarantined_spec [OF assms]])

text \<open>An answer without a change of rows: a repetition of an event that was processed before.\<close>

lemma apply_started_request_spec:
  assumes inx: "w_sess w = InTx" and db: "db_ok (w_db w)" "money_ok (w_db w)" "events_ok {} (w_db w)"
    and act: "w_active_event w = None"
  shows "wp (apply_started_request E svc key request)
    (\<lambda>res w'. w_sess w' = InTx \<and> w_committed w' = w_committed w \<and> db_ok (w_db w') \<and> money_ok (w_db w') \<and>
       events_ok {} (w_db w') \<and> t_idem (w_db w') = t_idem (w_db w) \<and>
       (if res_processed res then money_moved request (w_db w) (w_db w') res
        else res_duplicated res \<and> w_db w' = w_db w))
    (\<lambda>x w'. in_tx (w_committed w) w' \<and> (is_domain_failure x \<longrightarrow> refused (w_db w) w')) w"
  (is "wp _ ?Q ?X w")
  unfolding apply_started_request_def
proof (rule wp_bindI [OF account_query_spec [OF inx db(1)]], goal_cases)
  case (1 found w1)
  then have r1: "runs w (w_db w) w1" by simp
  have X: "?X x w'" if "sa_failure w x w' \<or> runs w (w_db w) w'" for x w'
    using that refused_unchanged [OF _ db act] by (auto dest: sa_failure_not_domain runs_in_tx)
  show ?case
  proof (cases "account_of (w_db w) (rq_account_no request)")
    case None
    with 1 X show ?thesis by (auto simp: wp_simps)
  next
    case (Some a)
    with r1 db have w1: "w_sess w1 = InTx" "db_ok (w_db w1)" by (auto simp: runs_def)
    show ?thesis
      unfolding conjunct2 [OF 1] Some option.map option.case
    proof (rule wp_thenI [OF quarantine_guard_spec [OF w1]], goal_cases)
      case (1 u w2)
      then have r2: "runs w (w_db w) w2" using r1 by (auto simp: runs_def)
      with db have w2: "w_sess w2 = InTx" "db_ok (w_db w2)" by (auto simp: runs_def)
      show ?case
      proof (rule wp_bindI [OF event_query_spec [OF w2]], goal_cases)
        case (1 found w3)
        then have r3: "runs w (w_db w) w3"
          and found: "found = map_option te_id (event_of (w_db w) (rq_external_event_id request))"
          using r2 by (auto simp: runs_def)
        with db have w3: "w_sess w3 = InTx" "db_ok (w_db w3)" and db3: "w_db w3 = w_db w"
          by (auto simp: runs_def)
        show ?case
        proof (cases "event_of (w_db w) (rq_external_event_id request)")
          case (Some e)
          have e: "event_by_id (w_db w3) (te_id e) = Some e"
            using event_by_id_of [OF db(1) Some] by (simp add: db3)
          let ?w = "w3\<lparr>w_metrics := record_duplicate_external_event
            (event_type_value (rq_event_type request)) (w_metrics w3)\<rparr>"
          have "wp (duplicate_result E (te_id e)) ?Q ?X ?w"
            by (rule wp_mono [OF duplicate_result_spec])
              (use w3 r3 db refused_unchanged [OF _ db act] in \<open>auto simp: runs_def in_tx_def db3\<close>)
          then show ?thesis
            unfolding found Some option.map option.case
            using w3 e X [of _ w3] r3
            by (cases "ensure_duplicate_matches_request e request (acc_id a)") (auto simp: wp_simps)
        next
          case None
          show ?thesis
            unfolding found None option.map option.case
          proof (rule wp_bindI [OF original_query_spec [OF w3]], goal_cases)
            case (1 original w4)
            then have r4: "runs w (w_db w) w4" using r3 by (auto simp: runs_def)
            with db have w4: "w_sess w4 = InTx" "db_ok (w_db w4)" "money_ok (w_db w4)" "events_ok {} (w_db w4)"
              and db4: "w_db w4 = w_db w" by (auto simp: runs_def)
            show ?case
              by (rule wp_mono [OF first_occurrence_spec [OF w4]])
                (use 1 r4 \<open>account_of (w_db w) (rq_account_no request) = Some a\<close> None in
                  \<open>auto simp: db4 db3 runs_def money_moved_def success_of_def\<close>)
          qed (use r3 X in \<open>auto simp: runs_def sa_failure_def\<close>)
        qed
      qed (use r2 X in \<open>auto simp: runs_def sa_failure_def\<close>)
    qed (use r1 X in \<open>auto simp: runs_def sa_failure_def\<close>)
  qed
qed (auto dest: sa_failure_not_domain)

subsection \<open>The started request\<close>

text \<open>Marking the active event as failed, or a failed statement that the next query will report.\<close>

lemma mark_active_event_failed_spec:
  assumes "refused db w"
  shows "wp (mark_active_event_failed E exc)
    (\<lambda>_ w'. in_tx (w_committed w) w' \<and> (w_sess w' = InTx \<longrightarrow> db_ok (w_db w') \<and> money_ok (w_db w') \<and>
       events_ok {} (w_db w') \<and> t_idem (w_db w') = t_idem db \<and> money_kept db (w_db w')))
    (\<lambda>x w'. False) w"
proof (cases "w_active_event w")
  case None
  with assms show ?thesis by (simp add: mark_active_event_failed_def wp_simps refused_def in_tx_def)
next
  case (Some i)
  with assms obtain st acc ty n where way: "on_its_way (w_db w) i st acc ty n" and st: "intermediate st"
    by (auto simp: refused_def)
  from way obtain e where e: "event_by_id (w_db w) i = Some e" "te_status e = status_value st"
    by (auto simp: on_its_way_def)
  have inx: "w_sess w = InTx" using assms by (simp add: refused_def)
  have al: "FAILED \<in> set (allowed_transitions st)" "st \<noteq> FAILED"
    using st by (auto simp: intermediate_def)
  have "wp (change_status E i (Inl FAILED) (Some (exn_str exc)))
    (\<lambda>_ w'. in_tx (w_committed w) w' \<and> (w_sess w' = InTx \<longrightarrow> db_ok (w_db w') \<and> money_ok (w_db w') \<and>
       events_ok {} (w_db w') \<and> t_idem (w_db w') = t_idem db \<and> money_kept db (w_db w')))
    (\<lambda>x w'. w_committed w' = w_committed w \<and> w_sess w' = Deactive) w"
  proof (rule wp_mono [OF change_status_spec [OF inx e]], goal_cases)
    case (1 h w')
    then obtain gap t where p: "runs w (push_status gap t i st FAILED (Some (exn_str exc)) (w_db w)) w'"
      and ok: "db_ok (w_db w')" by auto
    then have db': "w_db w' = push_status gap t i st FAILED (Some (exn_str exc)) (w_db w)"
      by (simp add: runs_def)
    have "events_ok {} (w_db w')"
      unfolding db' using way al by (intro push_status_final) (auto simp: on_its_way_def intermediate_def posted_def)
    with way ok assms p show ?case
      by (auto simp: db' push_status_money on_its_way_def refused_def money_kept_def runs_def in_tx_def)
  qed (use al in \<open>auto simp: sa_failure_def in_tx_def\<close>)
  then show ?thesis
    using Some e al inx
    by (auto simp: mark_active_event_failed_def wp_simps in_tx_def elim!: wp_mono)
qed

text \<open>The record of a request that was answered holds the answer.\<close>

definition answered :: "tables \<Rightarrow> string \<Rightarrow> payload \<Rightarrow> transaction_processing_result \<Rightarrow> bool" where
  "answered db key p res \<longleftrightarrow> (\<exists>r. idem_of db key = Some r \<and> idem_request_hash r = generate_request_hash p \<and>
     idem_closed r \<and> idem_response_code r = Some (res_status_code res) \<and>
     idem_response_body r = Some (JObj (res_body res)))"

definition only_open :: "tables \<Rightarrow> idempotency_record \<Rightarrow> bool" where
  "only_open db r \<longleftrightarrow> list_all (\<lambda>x. idem_id x \<noteq> idem_id r \<longrightarrow> idem_closed x) (t_idem db)"

lemma upd_idem_reads [simp]:
  "event_by_id (upd_idem i f db) j = event_by_id db j"
  "success_of (upd_idem i f db) j bal res \<longleftrightarrow> success_of db j bal res"
  "money_moved request db0 (upd_idem i f db) res \<longleftrightarrow> money_moved request db0 db res"
  "money_kept db0 (upd_idem i f db) \<longleftrightarrow> money_kept db0 db"
proof -
  show ev: "event_by_id (upd_idem i f db) j = event_by_id db j" for j by (simp add: event_by_id_def)
  then have su: "success_of (upd_idem i f db) j bal res \<longleftrightarrow> success_of db j bal res" for j bal
    by (simp add: success_of_def)
  show "success_of (upd_idem i f db) j bal res \<longleftrightarrow> success_of db j bal res" by (rule su)
  show "money_moved request db0 (upd_idem i f db) res \<longleftrightarrow> money_moved request db0 db res"
    by (simp add: money_moved_def su event_applied_def status_of_def ev)
  show "money_kept db0 (upd_idem i f db) \<longleftrightarrow> money_kept db0 db" by (simp add: money_kept_def)
qed

lemma closed_answered:
  assumes op: "opened db key p r" and ok: "db_ok db"
    and f: "idem_closed (f r)" "idem_response_code (f r) = Some (res_status_code res)"
      "idem_response_body (f r) = Some (JObj (res_body res))"
      "\<And>x. idem_idempotency_key (f x) = idem_idempotency_key x" "idem_request_hash (f r) = idem_request_hash r"
  shows "answered (upd_idem (idem_id r) f db) key p res"
proof -
  have r: "r \<in> set (t_idem db)" "idem_idempotency_key r = key"
    using op idem_of_Some [of db key r] by (auto simp: opened_def)
  have keys: "map idem_idempotency_key (t_idem (upd_idem (idem_id r) f db)) = map idem_idempotency_key (t_idem db)"
    by (simp add: upd_idem_def map_update_rows f(4))
  then have "idem_of (upd_idem (idem_id r) f db) (idem_idempotency_key (f r)) = Some (f r)"
    unfolding idem_of_def using db_ok_unique(8) [OF ok] r
    by (intro find_key_distinct) (auto simp: upd_idem_def set_update_rows)
  then show ?thesis using op r f by (auto simp: answered_def opened_def f(4))
qed

text \<open>The records of other keys stay as they are.\<close>

definition others_kept :: "string \<Rightarrow> tables \<Rightarrow> tables \<Rightarrow> bool" where
  "others_kept key db db' \<longleftrightarrow> (\<forall>k. k \<noteq> key \<longrightarrow> idem_of db' k = idem_of db k)"

lemma find_update_other:
  "(\<And>x. x \<in> set rs \<Longrightarrow> q x \<Longrightarrow> k x \<noteq> v) \<Longrightarrow> (\<And>x. k (f x) = k x) \<Longrightarrow>
     List.find (\<lambda>x. k x = v) (update_rows q f rs) = List.find (\<lambda>x. k x = v) rs"
  by (induction rs) (auto simp: update_rows_simps)

lemma upd_idem_others:
  assumes "opened db key p r" "db_ok db" "\<And>x. idem_idempotency_key (f x) = idem_idempotency_key x"
  shows "others_kept key db (upd_idem (idem_id r) f db)"
proof -
  have "r \<in> set (t_idem db)" "idem_idempotency_key r = key"
    using assms(1) idem_of_Some [of db key r] by (auto simp: opened_def)
  then have "idem_idempotency_key x = key" if "x \<in> set (t_idem db)" "idem_id x = idem_id r" for x
    using that distinct_key_unique [OF db_ok_unique(7) [OF assms(2)], of x r] by blast
  then show ?thesis
    unfolding others_kept_def idem_of_def upd_idem_def using assms(3) by (auto intro!: find_update_other)
qed

lemma others_kept_same: "t_idem db' = t_idem db \<Longrightarrow> others_kept key db' db'' \<Longrightarrow> others_kept key db db''"
  by (simp add: others_kept_def idem_of_def)

text \<open>Closing the record makes the rows consistent again.\<close>

lemma closing_spec:
  assumes "db_ok db" "money_ok db" "events_ok {} db" "opened db key p r" "only_open db r"
    and ok: "db_ok (upd_idem (idem_id r) f db)"
    and f: "\<And>x. idem_closed (f x)" "\<And>x. idem_response_code (f x) = Some (res_status_code res)"
      "\<And>x. idem_response_body (f x) = Some (JObj (res_body res))"
      "\<And>x. idem_idempotency_key (f x) = idem_idempotency_key x" "\<And>x. idem_request_hash (f x) = idem_request_hash x"
  shows "consistent (upd_idem (idem_id r) f db)" "answered (upd_idem (idem_id r) f db) key p res"
  using assms by (auto intro!: close_idem_consistent closed_answered simp: only_open_def)

lemma closing_rows:
  assumes "db_ok db" "money_ok db" "events_ok {} db" "opened db key p r" "only_open db r"
  shows "db_ok (upd_idem (idem_id r) (completed_row (res_status_code res) (Some (JObj (res_body res))) t) db) \<Longrightarrow>
      (let db' = upd_idem (idem_id r) (completed_row (res_status_code res) (Some (JObj (res_body res))) t) db
       in consistent db' \<and> answered db' key p res \<and> others_kept key db db')"
    and "db_ok (upd_idem (idem_id r) (failed_row t (Some (res_status_code res)) (Some (JObj (res_body res))) m) db) \<Longrightarrow>
      (let db' = upd_idem (idem_id r) (failed_row t (Some (res_status_code res)) (Some (JObj (res_body res))) m) db
       in consistent db' \<and> answered db' key p res \<and> others_kept key db db')"
  unfolding Let_def
  by (intro conjI closing_spec [OF assms] upd_idem_others [OF assms(4,1)]; simp add: completed_row_def failed_row_def closed_rows
      del: closed_rows; simp add: idem_closed_def)+

lemma svc_fail_dead:
  "w_sess w = Deactive \<Longrightarrow> wp (svc_fail E cache key code body m p) (\<lambda>_ _. False)
     (\<lambda>x w'. w_committed w' = w_committed w \<and> w_sess w' = Deactive) w"
  by (auto simp: svc_fail_def cached_fail_def fail_def get_existing_record_def get_by_key_def wp_bind
      wp_eqI [of "db_query E f" for f] db_query_def split: option.split)

lemma handler_spec:
  assumes ref: "is_domain_failure exc \<longrightarrow> refused db w" and inx: "in_tx c w"
    and op: "opened db key p r" "only_open db r"
  shows "wp (thenM (whenM (is_domain_failure exc) (mark_active_event_failed E exc))
      (thenM (svc_fail E cache key (Some (status_code_for_exception exc))
        (Some (JObj (error_body exc))) (Some (exn_str exc)) p)
      (if is_domain_failure exc then returnM (failed_result exc) else raiseM exc)))
    (\<lambda>res w'. in_tx c w' \<and> (w_sess w' = InTx \<longrightarrow> consistent (w_db w') \<and> \<not> res_processed res \<and>
       money_kept db (w_db w') \<and> answered (w_db w') key p res \<and> others_kept key db (w_db w')))
    (\<lambda>x w'. in_tx c w') w"
proof (cases "is_domain_failure exc")
  case False
  have "keeps (in_tx c) (thenM (svc_fail E cache key (Some (status_code_for_exception exc))
        (Some (JObj (error_body exc))) (Some (exn_str exc)) p) (raiseM exc))"
    by (intro keeps_intros)
  from keeps_wp [OF this inx] have "wp (thenM (svc_fail E cache key (Some (status_code_for_exception exc))
      (Some (JObj (error_body exc))) (Some (exn_str exc)) p) (raiseM exc)) (\<lambda>_ _. False) (\<lambda>_. in_tx c) w"
    by (auto simp: wp_then wp_raise elim!: wp_mono)
  with False show ?thesis by (auto simp: wp_then wp_when elim!: wp_mono)
next
  case True
  with ref have ref: "refused db w" by simp
  have c: "w_committed w = c" using inx by (simp add: in_tx_def)
  show ?thesis
  proof (simp only: wp_then [of "whenM _ _"] wp_when True if_True, rule wp_mono [OF mark_active_event_failed_spec [OF ref]], goal_cases)
    case (1 u w1)
    show ?case
    proof (cases "w_sess w1")
      case InTx
      with 1 have w1: "db_ok (w_db w1)" "money_ok (w_db w1)" "events_ok {} (w_db w1)"
        "t_idem (w_db w1) = t_idem db" "money_kept db (w_db w1)" "w_committed w1 = c"
        by (auto simp: in_tx_def c)
      have op1: "opened (w_db w1) key p r" "only_open (w_db w1) r"
        using op w1(4) by (auto simp: only_open_def intro: svc.still_opened)
      show ?thesis
        unfolding wp_then wp_return
      proof (rule wp_mono [OF svc.closed_failed [OF InTx w1(1) op1(1)]], goal_cases)
        case (1 i w2)
        then obtain t where "w_db w2 = upd_idem (idem_id r) (failed_row t (Some (status_code_for_exception exc))
          (Some (JObj (error_body exc))) (Some (exn_str exc))) (w_db w1)" by auto
        with 1 closing_rows(2) [OF w1(1-3) op1, where res = "failed_result exc"] w1 show ?case
          by (auto simp: failed_result_def in_tx_def Let_def intro: others_kept_same)
      qed (use w1 in auto)
    next
      case Deactive
      with 1 show ?thesis
        unfolding wp_then by (intro wp_mono [OF svc_fail_dead]) (auto simp: in_tx_def c)
    qed (use 1 in \<open>auto simp: in_tx_def\<close>)
  qed auto
qed

definition answer_ok :: "create_request \<Rightarrow> string \<Rightarrow> payload \<Rightarrow> tables \<Rightarrow> transaction_processing_result \<Rightarrow>
    tables \<Rightarrow> bool" where
  "answer_ok request key p db res db' \<longleftrightarrow> consistent db' \<and> answered db' key p res \<and> others_kept key db db' \<and>
     (if res_processed res then money_moved request db db' res else money_kept db db')"

lemma process_started_spec:
  assumes inx: "w_sess w = InTx" and db: "db_ok (w_db w)" "money_ok (w_db w)" "events_ok {} (w_db w)"
    and op: "opened (w_db w) key p r" "only_open (w_db w) r"
  shows "wp (process_started E svc key request p)
    (\<lambda>res w'. in_tx (w_committed w) w' \<and> (w_sess w' = InTx \<longrightarrow> answer_ok request key p (w_db w) res (w_db w')))
    (\<lambda>x w'. in_tx (w_committed w) w') w"
proof -
  let ?w = "w\<lparr>w_active_event := None\<rparr>"
  have pre: "w_sess ?w = InTx" "db_ok (w_db ?w)" "money_ok (w_db ?w)" "events_ok {} (w_db ?w)"
    "w_active_event ?w = None" using inx db by simp_all
  let ?X = "\<lambda>x w'. in_tx (w_committed w) w' \<and> (is_domain_failure x \<longrightarrow> refused (w_db w) w')"
  let ?Q = "\<lambda>res w'. in_tx (w_committed w) w' \<and> (w_sess w' = InTx \<longrightarrow> answer_ok request key p (w_db w) res (w_db w'))"
  have body: "wp (thenM (set_active None) (bindM (apply_started_request E svc key request) (\<lambda>result.
      thenM (svc_complete E (ts_cache_ttl svc) key (res_status_code result) (Some (JObj (res_body result))) p)
      (returnM result)))) ?Q ?X w"
    unfolding set_active_def wp_then [of "modifyM _"] wp_modify
  proof (rule wp_bindI [OF apply_started_request_spec [OF pre]], goal_cases)
    case (1 res w1)
    then have w1: "w_sess w1 = InTx" "db_ok (w_db w1)" "money_ok (w_db w1)" "events_ok {} (w_db w1)"
      "t_idem (w_db w1) = t_idem (w_db w)" "w_committed w1 = w_committed w" by auto
    have op1: "opened (w_db w1) key p r" "only_open (w_db w1) r"
      using op w1(5) by (auto simp: only_open_def intro: svc.still_opened)
    show ?case
      unfolding wp_then wp_return
    proof (rule wp_mono [OF svc.closed_ok [OF w1(1,2) op1(1)]], goal_cases)
      case (1 i w2)
      then obtain t where "w_db w2 = upd_idem (idem_id r) (completed_row (res_status_code res)
        (Some (JObj (res_body res))) t) (w_db w1)" by auto
      with 1 closing_rows(1) [OF w1(2-4) op1, where res = res] w1
        \<open>w_sess w1 = InTx \<and> _\<close> show ?case
        by (auto simp: answer_ok_def in_tx_def Let_def money_kept_def intro: others_kept_same)
    qed (use w1 in auto)
  qed auto
  show ?thesis
    unfolding process_started_def wp_finally wp_catch
  proof (rule wp_mono [OF body], goal_cases)
    case (1 res w1)
    then show ?case by (simp add: set_active_def wp_modify in_tx_def)
  next
    case (2 exc w1)
    show ?case
      by (rule wp_mono [OF handler_spec [where c = "w_committed w", OF _ _ op]])
        (use 2 in \<open>auto simp: set_active_def wp_modify in_tx_def answer_ok_def\<close>)
  qed
qed

text \<open>
  The body of the transaction: a consistent database stays consistent; what the request was answered
  with is kept for its repetitions, and money moved exactly when the answer says so.
\<close>

definition body_ok :: "create_request \<Rightarrow> string \<Rightarrow> payload \<Rightarrow> tables \<Rightarrow> transaction_processing_result \<Rightarrow>
    tables \<Rightarrow> bool" where
  "body_ok request key p db res db' \<longleftrightarrow>
     (answer_ok request key p db res db' \<and> idem_of db key = None) \<or>
     (db' = db \<and> consistent db' \<and> \<not> res_processed res \<and> res_duplicated res)"

lemma process_body_spec:
  assumes inx: "w_sess w = InTx" and con: "consistent (w_db w)"
  shows "wp (process_body E svc key request p)
    (\<lambda>res w'. in_tx (w_committed w) w' \<and> (w_sess w' = InTx \<longrightarrow> body_ok request key p (w_db w) res (w_db w')))
    (\<lambda>x w'. in_tx (w_committed w) w') w"
  unfolding process_body_def
proof (rule wp_bindI [OF svc.check_law [OF inx]], goal_cases)
  case 1
  show ?case using con by (simp add: consistent_def)
next
  case (2 c w1)
  show ?case
  proof (cases "chk_decision c = STARTED")
    case True
    with 2 obtain r where new: "idem_of (w_db w) key = None" "runs w (add_idem r (w_db w)) w1" "db_ok (w_db w1)"
      "opened (w_db w1) key p r" by auto
    then have db1: "w_db w1 = (w_db w)\<lparr>t_idem := t_idem (w_db w) @ [r]\<rparr>" "w_sess w1 = InTx"
      "w_committed w1 = w_committed w" by (auto simp: runs_def add_idem_def)
    have ok1: "money_ok (w_db w1)" "events_ok {} (w_db w1)" "only_open (w_db w1) r"
      using con by (auto simp: db1 consistent_def idem_irrelevant only_open_def list_all_iff)
    have "idem_idempotency_key r = key" using new(4) idem_of_Some by (auto simp: opened_def)
    then have "others_kept key (w_db w1) db' \<Longrightarrow> others_kept key (w_db w) db'" for db'
      by (simp add: others_kept_def idem_of_def db1 find_append split: option.splits)
    then have same: "answer_ok request key p (w_db w1) res db' \<Longrightarrow> answer_ok request key p (w_db w) res db'" for res db'
      by (auto simp: answer_ok_def db1 money_moved_def money_kept_def event_applied_def account_of_def event_of_def
          split: if_splits)
    from True new(1) show ?thesis
      by (auto simp: db1(3) body_ok_def intro: same
          intro!: wp_mono [OF process_started_spec [OF db1(2) new(3) ok1(1,2) new(4) ok1(3)]])
  next
    case False
    with 2 have "runs w (w_db w) w1" by auto
    with False con show ?thesis
      by (cases "chk_decision c")
        (auto simp: wp_simps replayed_def already_processing_result_def body_ok_def runs_def in_tx_def
          split: sum.split)
  qed
qed auto

end
