(* ===== verification/Guarantees.thy ===== *)
theory Guarantees
  imports Processing Samples
begin

text \<open>
  What \<open>TransactionEventService.process\<close> guarantees its callers, for every environment: statements and
  commits that fail at any point, commits whose outcome is unknown, Redis that fails, concurrent
  transactions that keep the database consistent.
\<close>

definition idle :: "world \<Rightarrow> bool" where
  "idle w \<longleftrightarrow> w_sess w = NoTx"

text \<open>Other transactions keep the database consistent, or there are none.\<close>

definition others_consistent :: "env \<Rightarrow> bool" where
  "others_consistent E \<longleftrightarrow> (\<forall>n db. consistent db \<longrightarrow> consistent (others E n db))"

definition alone :: "env \<Rightarrow> bool" where
  "alone E \<longleftrightarrow> (\<forall>n db. others E n db = db)"

lemma alone_consistent: "alone E \<Longrightarrow> others_consistent E"
  by (simp add: alone_def others_consistent_def)

subsection \<open>One attempt\<close>

lemma start_tx_simps [simp]:
  "w_sess (start_tx E w) = InTx"
  "w_db (start_tx E w) = others E (w_tick w) (w_committed w)"
  "w_committed (start_tx E w) = others E (w_tick w) (w_committed w)"
  by (simp_all add: start_tx_def Let_def)

lemma attempt_spec:
  assumes "idle w" "consistent (others E (w_tick w) (w_committed w))"
  shows "wp (with_begin E (process_body E svc key request p))
    (\<lambda>res w'. body_ok request key p (others E (w_tick w) (w_committed w)) res (w_committed w') \<and> idle w')
    (\<lambda>e w'. (w_committed w' = others E (w_tick w) (w_committed w) \<or>
       (\<exists>res. body_ok request key p (others E (w_tick w) (w_committed w)) res (w_committed w'))) \<and> idle w') w"
proof -
  have "wp (process_body E svc key request p)
    (\<lambda>res w1. in_tx (w_committed (start_tx E w)) w1 \<and> (w_sess w1 = InTx \<longrightarrow> db_ok (w_db w1) \<longrightarrow>
       body_ok request key p (others E (w_tick w) (w_committed w)) res (w_db w1)))
    (\<lambda>e w1. in_tx (w_committed (start_tx E w)) w1) (start_tx E w)"
    by (rule wp_mono [OF process_body_spec]) (use assms in auto)
  from with_begin_outcome [OF _ refl this] assms(1) show ?thesis
    by (auto simp: idle_def elim!: wp_mono)
qed

lemma body_ok_consistent: "body_ok request key p db res db' \<Longrightarrow> consistent db'"
  by (auto simp: body_ok_def answer_ok_def)

subsection \<open>All attempts\<close>

lemma wp_case_integrity:
  "wp (case exc of SAError (IntegrityError m) \<Rightarrow> f m | _ \<Rightarrow> g) Q X w \<longleftrightarrow>
     (case exc of SAError (IntegrityError m) \<Rightarrow> wp (f m) Q X w | _ \<Rightarrow> wp g Q X w)"
  by (simp split: exn.split sa_error.split)

lemma attempts_consistent:
  assumes "others_consistent E"
  shows "idle w \<Longrightarrow> consistent (w_committed w) \<Longrightarrow>
    wp (process_attempts E svc key request p n)
      (\<lambda>res w'. idle w' \<and> consistent (w_committed w') \<and>
         (\<exists>db. consistent db \<and> body_ok request key p db res (w_committed w')))
      (\<lambda>e w'. idle w' \<and> consistent (w_committed w')) w"
proof (induction n arbitrary: w)
  case 0
  then show ?case by (simp add: wp_simps)
next
  case (Suc n)
  let ?c = "others E (w_tick w) (w_committed w)"
  have con: "consistent ?c" using assms Suc.prems by (simp add: others_consistent_def)
  show ?case
    unfolding process_attempts.simps wp_catch
  proof (rule wp_mono [OF attempt_spec [OF Suc.prems(1) con]], goal_cases)
    case (1 res w')
    then show ?case using con body_ok_consistent by blast
  next
    case (2 e w')
    then have w': "idle w'" "consistent (w_committed w')" using con body_ok_consistent by auto
    let ?r = "w'\<lparr>w_db := w_committed w', w_sess := NoTx\<rparr>"
    let ?m = "?r\<lparr>w_metrics := record_db_transaction_retry ''integrity_conflict'' (w_metrics ?r)\<rparr>"
    have "idle ?m" "consistent (w_committed ?m)" using w' by (simp_all add: idle_def)
    from Suc.IH [OF this] w' show ?case
      by (auto simp: wp_case_integrity wp_simps idle_def split: exn.split sa_error.split)
  qed
qed

text \<open>
  Without concurrent transactions the attempts of one request change the rows at most once, by the answer
  that is recorded for its key.
\<close>

lemma answered_not_new: "answered db key p res \<Longrightarrow> idem_of db key \<noteq> None"
  by (auto simp: answered_def)

lemma attempts_at_most_once:
  assumes "alone E"
  shows "idle w \<Longrightarrow> consistent (w_committed w) \<Longrightarrow>
    wp (process_attempts E svc key request p n)
      (\<lambda>res w'. idle w' \<and> (w_committed w' = w_committed w \<and> \<not> res_processed res \<or>
         idem_of (w_committed w) key = None \<and>
         (\<exists>res'. answer_ok request key p (w_committed w) res' (w_committed w') \<and>
            (res_processed res \<longrightarrow> res = res'))))
      (\<lambda>e w'. idle w' \<and> (w_committed w' = w_committed w \<or> idem_of (w_committed w) key = None \<and>
         (\<exists>res'. answer_ok request key p (w_committed w) res' (w_committed w')))) w"
proof (induction n arbitrary: w)
  case 0
  then show ?case by (simp add: wp_simps)
next
  case (Suc n)
  have same: "others E (w_tick w) (w_committed w) = w_committed w" using assms by (simp add: alone_def)
  show ?case
    unfolding process_attempts.simps wp_catch
  proof (rule wp_mono [OF attempt_spec [OF Suc.prems(1)]], goal_cases)
    case 1
    then show ?case using Suc.prems same by simp
  next
    case (2 res w')
    then show ?case unfolding same by (auto simp: body_ok_def)
  next
    case (3 e w')
    then have w': "idle w'" "w_committed w' = w_committed w \<or> idem_of (w_committed w) key = None \<and>
         (\<exists>res'. answer_ok request key p (w_committed w) res' (w_committed w'))"
      unfolding same by (auto simp: body_ok_def)
    have con: "consistent (w_committed w')" using w' Suc.prems by (auto simp: answer_ok_def)
    let ?r = "w'\<lparr>w_db := w_committed w', w_sess := NoTx\<rparr>"
    let ?m = "?r\<lparr>w_metrics := record_db_transaction_retry ''integrity_conflict'' (w_metrics ?r)\<rparr>"
    have "idle ?m" "consistent (w_committed ?m)" using con w' by (simp_all add: idle_def)
    note again = Suc.IH [OF this]
    have "wp (process_attempts E svc key request p n)
      (\<lambda>res w''. idle w'' \<and> (w_committed w'' = w_committed w \<and> \<not> res_processed res \<or>
         idem_of (w_committed w) key = None \<and>
         (\<exists>res'. answer_ok request key p (w_committed w) res' (w_committed w'') \<and>
            (res_processed res \<longrightarrow> res = res'))))
      (\<lambda>e w''. idle w'' \<and> (w_committed w'' = w_committed w \<or> idem_of (w_committed w) key = None \<and>
         (\<exists>res'. answer_ok request key p (w_committed w) res' (w_committed w'')))) ?m"
      by (rule wp_mono [OF again])
        (use w'(2) in \<open>auto simp: answer_ok_def dest: answered_not_new\<close>)
    then show ?case
      using w' by (auto simp: wp_case_integrity wp_simps idle_def split: exn.split sa_error.split)
  qed
qed

subsection \<open>Around the attempts: the lock and the metrics\<close>

lemma wp_record_process_result:
  "(\<And>m. Q () (w\<lparr>w_metrics := m\<rparr>)) \<Longrightarrow> wp (record_process_result request res) Q X w"
  by (simp add: record_process_result_def wp_simps Let_def)

lemma process_lift:
  assumes run: "\<And>w1. redis_only w w1 \<Longrightarrow> wp (process_with_db_fallback E svc key request)
      (\<lambda>res w'. idle w' \<and> P res (w_committed w')) (\<lambda>e w'. idle w' \<and> R e (w_committed w')) w1"
    and idl: "idle w" and locked: "ts_lock_ttl_ms svc \<noteq> None \<Longrightarrow>
      redis_live (w_redis w) (now E (w_tick w)) (idempotency_lock_key key) \<noteq> None \<Longrightarrow>
      P already_processing_result (w_committed w)"
  shows "wp (process E svc key request)
      (\<lambda>res w'. idle w' \<and> P res (w_committed w')) (\<lambda>e w'. idle w' \<and> R e (w_committed w')) w"
  (is "wp _ ?Q ?X w")
proof -
  have rec: "wp (process_recorded E svc key request) ?Q ?X w1" if "redis_only w w1" for w1
    unfolding process_recorded_def wp_bind
    by (rule wp_mono [OF run [OF that]])
      (auto simp: wp_then wp_return idle_def intro!: wp_record_process_result)
  show ?thesis
  proof (cases "ts_lock_ttl_ms svc")
    case None
    with rec show ?thesis by (simp add: process_def)
  next
    case (Some ttl)
    show ?thesis
      unfolding process_def Some option.case
    proof (rule wp_bindI [OF acquire_only], goal_cases)
      case (1 l w1)
      then have w1: "redis_only w w1" by simp
      show ?case
      proof (cases "lk_redis_available l \<and> \<not> lk_acquired l")
        case True
        with 1 w1 idl locked Some show ?thesis
          by (auto simp: wp_then wp_return idle_def redis_only_def intro!: wp_record_process_result)
      next
        case False
        have rel: "wp (whenM b (release E k tok)) (\<lambda>_. redis_only w2) (\<lambda>_ _. False) w2" for b k tok w2
          by (simp add: wp_when release_only)
        from False show ?thesis
          by (auto simp: wp_finally redis_only_def idle_def intro!: wp_mono [OF rec [OF w1]] wp_mono [OF rel])
      qed
    qed simp
  qed
qed

subsection \<open>Without faults\<close>

definition calm :: "env \<Rightarrow> bool" where
  "calm E \<longleftrightarrow> (\<forall>n. query_fault E n = None \<and> flush_fault E n = None \<and> commit_fault E n = None) \<and> alone E"

lemma calm_calm_env: "calm calm_env"
  by (simp add: calm_def alone_def calm_env_def)

lemma with_begin_calm:
  assumes "calm E" "idle w"
    and body: "wp body (\<lambda>x w1. w_sess w1 = InTx \<and> db_ok (w_db w1) \<and> P x (w_db w1))
      (\<lambda>e w1. in_tx (w_committed w) w1 \<and> X e) (start_tx E w)"
  shows "wp (with_begin E body) (\<lambda>x w2. P x (w_committed w2) \<and> idle w2)
    (\<lambda>e w2. X e \<and> w_committed w2 = w_committed w \<and> idle w2) w"
proof -
  have started: "sess_begin E w = (Inr (), start_tx E w)" using assms by (simp add: sess_begin_def idle_def)
  have "wp (db_commit E) (\<lambda>_ w2. w_committed w2 = w_db w1 \<and> idle w2) (\<lambda>_ _. False) w1"
    if "w_sess w1 = InTx" "db_ok (w_db w1)" for w1
    using that assms(1) by (simp add: db_commit_def wp_simps wp_eqI [of "commit_point E"] commit_point_def
        calm_def db_ok_def idle_def)
  note commit = wp_mono [OF this]
  have "wp (bindM (catchM body (\<lambda>e. thenM db_rollback (raiseM e))) (\<lambda>x.
      thenM (catchM (db_commit E) (\<lambda>e. thenM db_rollback (raiseM e))) (returnM x)))
    (\<lambda>x w2. P x (w_committed w2) \<and> idle w2)
    (\<lambda>e w2. X e \<and> w_committed w2 = w_committed w \<and> idle w2) (start_tx E w)"
    unfolding wp_bind wp_catch [of body]
  proof (rule wp_mono [OF body], goal_cases)
    case (1 x w1)
    then show ?case unfolding wp_then wp_catch wp_return by (intro commit) auto
  qed (simp add: wp_simps in_tx_def idle_def)
  with started show ?thesis by (simp add: with_begin_def wp_then wp_eqI [of "sess_begin E"])
qed

lemma get_by_key_calm:
  assumes "calm E" "w_sess w = InTx" "db_ok (w_db w)"
  shows "wp (get_by_key E k)
    (\<lambda>i w'. runs w (w_db w) w' \<and> i = map_option idem_id (idem_of (w_db w) k)) (\<lambda>_ _. False) w"
proof -
  consider "filter (\<lambda>r. idem_idempotency_key r = k) (t_idem (w_db w)) = []"
    | r where "filter (\<lambda>r. idem_idempotency_key r = k) (t_idem (w_db w)) = [r]"
    by (rule filter_key_cases [OF db_ok_unique(8) [OF assms(3)]])
  then show ?thesis
    using assms(1,2)
    by cases (auto simp: get_by_key_def wp_simps calm_def idem_of_def find_filter get_id_def runs_refl)
qed

text \<open>A key with a record is answered from it.\<close>

lemma check_replay_calm:
  assumes "calm E" "w_sess w = InTx" "db_ok (w_db w)" "idem_of (w_db w) k = Some r"
  shows "wp (check_or_start E svc k p t)
    (\<lambda>c w'. replay_of r (generate_request_hash p) = Inr c \<and> runs w (w_db w) w')
    (\<lambda>x w'. replay_of r (generate_request_hash p) = Inl x \<and> runs w (w_db w) w') w"
  unfolding check_or_start_def wp_bind [of "now_or E t"] Let_def
proof (rule wp_now_or, rule wp_bindI [OF get_by_key_calm [OF assms(1-3)]], goal_cases)
  case (1 checked_at found w1)
  then have "w_sess w1 = InTx" "idem_by_id (w_db w1) (idem_id r) = Some r" "runs w (w_db w) w1"
    "found = Some (idem_id r)"
    using idem_by_id_of [OF assms(3,4)] assms(4) by (auto simp: runs_def)
  then show ?case
    by (auto simp: wp_simps ensure_same_request_hash_def replay_of_def
        split: sum.splits idempotency_status.splits)
qed simp

definition replay_answer :: "int option \<Rightarrow> int \<Rightarrow> json option \<Rightarrow> exn + transaction_processing_result" where
  "replay_answer code dflt body = bindE (dict_of body) (\<lambda>kvs. Inr \<lparr>res_status_code = code_or code dflt,
     res_body = kvs, res_processed = False, res_duplicated = True\<rparr>)"

text \<open>The answer to a request whose key has the record \<open>r\<close>.\<close>

definition recorded_answer :: "idempotency_record \<Rightarrow> string \<Rightarrow> exn + transaction_processing_result" where
  "recorded_answer r h = bindE (replay_of r h) (\<lambda>c. case chk_decision c of
       REPLAY_COMPLETED \<Rightarrow> replay_answer (chk_response_code c) 200 (chk_response_body c)
     | REPLAY_FAILED \<Rightarrow> replay_answer (chk_response_code c) 422 (chk_response_body c)
     | _ \<Rightarrow> Inr already_processing_result)"

lemma process_body_replay:
  assumes "calm E" "w_sess w = InTx" "db_ok (w_db w)" "idem_of (w_db w) key = Some r"
    "ts_cache_ttl svc = None"
  shows "wp (process_body E svc key request p)
    (\<lambda>res w'. recorded_answer r (generate_request_hash p) = Inr res \<and> runs w (w_db w) w')
    (\<lambda>x w'. recorded_answer r (generate_request_hash p) = Inl x \<and> runs w (w_db w) w') w"
  unfolding process_body_def svc_check_or_start_def assms(5) option.case
proof (rule wp_bindI [OF check_replay_calm [OF assms(1-4)]], goal_cases)
  case (1 c w1)
  then have "replay_of r (generate_request_hash p) = Inr c" "chk_decision c \<noteq> STARTED" "runs w (w_db w) w1"
    by (auto dest: replay_decision)
  then show ?case
    by (cases "chk_decision c")
      (auto simp: recorded_answer_def replayed_def replay_answer_def wp_simps bindE_eq_Inr bindE_eq_Inl
        split: sum.split)
qed (simp add: recorded_answer_def)

lemma attempts_calm:
  assumes "calm E" "idle w" "consistent (w_committed w)"
    and body: "\<And>w0. w_sess w0 = InTx \<Longrightarrow> w_db w0 = w_committed w \<Longrightarrow> w_committed w0 = w_committed w \<Longrightarrow>
      wp (process_body E svc key request p) (\<lambda>x w1. w_sess w1 = InTx \<and> db_ok (w_db w1) \<and> P x (w_db w1))
        (\<lambda>e w1. in_tx (w_committed w0) w1 \<and> X e) w0"
    and no_integrity: "\<And>m. \<not> X (SAError (IntegrityError m))"
  shows "wp (process_attempts E svc key request p (Suc n))
    (\<lambda>x w2. idle w2 \<and> P x (w_committed w2))
    (\<lambda>e w2. idle w2 \<and> X e \<and> w_committed w2 = w_committed w) w"
proof -
  have same: "others E (w_tick w) (w_committed w) = w_committed w" using assms(1) by (simp add: calm_def alone_def)
  have "wp (process_body E svc key request p) (\<lambda>x w1. w_sess w1 = InTx \<and> db_ok (w_db w1) \<and> P x (w_db w1))
      (\<lambda>e w1. in_tx (w_committed w) w1 \<and> X e) (start_tx E w)"
    using body [of "start_tx E w"] by (simp add: same)
  note run = with_begin_calm [OF assms(1,2) this]
  show ?thesis
    unfolding process_attempts.simps wp_catch
    by (rule wp_mono [OF run])
      (auto simp: wp_case_integrity wp_simps idle_def no_integrity split: exn.split sa_error.split)
qed

lemma replay_answer_error: "recorded_answer r h = Inl x \<Longrightarrow> x \<noteq> SAError s"
  by (auto simp: recorded_answer_def replay_of_def ensure_same_request_hash_def record_status_def
      enum_or_raise_def enum_value_error_def replay_answer_def dict_of_def bindE_eq_Inl
      split: if_splits option.splits idempotency_decision.splits json.splits)

lemma process_repeat:
  assumes "calm E" "idle w" "consistent (w_committed w)" "idem_of (w_committed w) key = Some r"
    "ts_cache_ttl svc = None"
  shows "wp (process E svc key request)
    (\<lambda>res w'. idle w' \<and> (w_committed w' = w_committed w \<and>
       (recorded_answer r (generate_request_hash (request_payload E request)) = Inr res \<or>
        ts_lock_ttl_ms svc \<noteq> None \<and> res = already_processing_result)))
    (\<lambda>x w'. idle w' \<and> (w_committed w' = w_committed w \<and>
       recorded_answer r (generate_request_hash (request_payload E request)) = Inl x)) w"
proof (rule process_lift)
  fix w1 :: world
  assume "redis_only w w1"
  then have w1: "idle w1" "w_committed w1 = w_committed w" using assms(2) by (auto simp: redis_only_def idle_def)
  let ?h = "generate_request_hash (request_payload E request)"
  have "wp (process_attempts E svc key request (request_payload E request) (Suc 1))
    (\<lambda>x w2. idle w2 \<and> (w_committed w2 = w_committed w \<and> recorded_answer r ?h = Inr x))
    (\<lambda>e w2. idle w2 \<and> recorded_answer r ?h = Inl e \<and> w_committed w2 = w_committed w1) w1"
  proof (rule attempts_calm [OF assms(1) w1(1)])
    fix w0 :: world
    assume w0: "w_sess w0 = InTx" "w_db w0 = w_committed w1" "w_committed w0 = w_committed w1"
    have "wp (process_body E svc key request (request_payload E request))
      (\<lambda>res w'. recorded_answer r ?h = Inr res \<and> runs w0 (w_db w0) w')
      (\<lambda>x w'. recorded_answer r ?h = Inl x \<and> runs w0 (w_db w0) w') w0"
      using assms w0 w1 by (intro process_body_replay) (auto simp: consistent_def)
    then show "wp (process_body E svc key request (request_payload E request))
      (\<lambda>x w1. w_sess w1 = InTx \<and> db_ok (w_db w1) \<and> (w_db w1 = w_committed w \<and> recorded_answer r ?h = Inr x))
      (\<lambda>e w1. in_tx (w_committed w0) w1 \<and> recorded_answer r ?h = Inl e) w0"
      by (rule wp_mono) (use w0 w1 assms(3) in \<open>auto simp: runs_def in_tx_def consistent_def\<close>)
  qed (use assms w1 replay_answer_error in auto)
  then show "wp (process_with_db_fallback E svc key request)
    (\<lambda>res w'. idle w' \<and> (w_committed w' = w_committed w \<and>
       (recorded_answer r ?h = Inr res \<or> ts_lock_ttl_ms svc \<noteq> None \<and> res = already_processing_result)))
    (\<lambda>x w'. idle w' \<and> (w_committed w' = w_committed w \<and> recorded_answer r ?h = Inl x)) w1"
    unfolding process_with_db_fallback_def numeral_2_eq_2 One_nat_def
    by (rule wp_mono) (use w1 in auto)
qed (use assms in auto)

lemma recorded_answer_answered:
  assumes "answered db key p res" "idem_of db key = Some r" "res_status_code res \<noteq> 0"
  shows "recorded_answer r (generate_request_hash p) = Inr \<lparr>res_status_code = res_status_code res,
    res_body = res_body res, res_processed = False, res_duplicated = True\<rparr>"
  using assms by (auto simp: answered_def recorded_answer_def replay_of_def ensure_same_request_hash_def
      record_status_def enum_or_raise_def idem_closed_def replay_result_def replay_answer_def dict_of_def
      code_or_def)

lemma sample_world_facts [simp]:
  "idle sample_world" "w_committed sample_world = sample_db" "consistent sample_db"
  by (simp_all add: sample_world_def idle_world_def idle_def sample_consistent)

lemma calm_env_alone [simp]: "alone calm_env" "others_consistent calm_env"
  by (simp_all add: alone_def others_consistent_def calm_env_def)

lemma process_consistent:
  assumes "others_consistent E" "idle w" "consistent (w_committed w)"
  shows "wp (process E svc key request)
    (\<lambda>res w'. idle w' \<and> consistent (w_committed w')) (\<lambda>e w'. idle w' \<and> consistent (w_committed w')) w"
proof (rule process_lift)
  fix w1 :: world
  assume "redis_only w w1"
  with assms have "idle w1" "consistent (w_committed w1)" by (auto simp: redis_only_def idle_def)
  from attempts_consistent [OF assms(1) this]
  show "wp (process_with_db_fallback E svc key request)
    (\<lambda>res w'. idle w' \<and> consistent (w_committed w')) (\<lambda>e w'. idle w' \<and> consistent (w_committed w')) w1"
    unfolding process_with_db_fallback_def by (rule wp_mono) auto
qed (use assms in auto)

lemma process_changes:
  assumes "alone E" "idle w" "consistent (w_committed w)"
  shows "wp (process E svc key request)
    (\<lambda>res w'. idle w' \<and> (w_committed w' = w_committed w \<or> idem_of (w_committed w) key = None \<and>
       (\<exists>res. answer_ok request key (request_payload E request) (w_committed w) res (w_committed w'))))
    (\<lambda>e w'. idle w' \<and> (w_committed w' = w_committed w \<or> idem_of (w_committed w) key = None \<and>
       (\<exists>res. answer_ok request key (request_payload E request) (w_committed w) res (w_committed w')))) w"
proof (rule process_lift)
  fix w1 :: world
  assume r: "redis_only w w1"
  with assms have "idle w1" "consistent (w_committed w1)" by (auto simp: redis_only_def idle_def)
  from attempts_at_most_once [OF assms(1) this]
  show "wp (process_with_db_fallback E svc key request)
    (\<lambda>res w'. idle w' \<and> (w_committed w' = w_committed w \<or> idem_of (w_committed w) key = None \<and>
       (\<exists>res. answer_ok request key (request_payload E request) (w_committed w) res (w_committed w'))))
    (\<lambda>e w'. idle w' \<and> (w_committed w' = w_committed w \<or> idem_of (w_committed w) key = None \<and>
       (\<exists>res. answer_ok request key (request_payload E request) (w_committed w) res (w_committed w')))) w1"
    unfolding process_with_db_fallback_def by (rule wp_mono) (use r in \<open>auto simp: redis_only_def\<close>)
qed (use assms in auto)

subsection \<open>Properties\<close>

text \<open>
  C1: whatever fails, and whatever other consistent transactions commit in between, processing a
  request leaves the committed database consistent - balances equal their ledger sums, every event has a
  ledger entry exactly when its status says so, every history is a walk of the state machine, no
  idempotency record is left open - and the session closed.
\<close>

theorem process_keeps_consistent:
  assumes "others_consistent E" "idle w" "consistent (w_committed w)"
  shows "consistent (w_committed (snd (process E svc key request w))) \<and>
    idle (snd (process E svc key request w))"
  using process_consistent [OF assms, of svc key request] by (auto simp: wp_def split: prod.splits sum.splits)

theorem process_keeps_consistent_witness:
  "consistent (w_committed (snd (process calm_env sample_service ''key-2'' sample_request sample_world))) \<and>
    idle (snd (process calm_env sample_service ''key-2'' sample_request sample_world))"
  by (rule process_keeps_consistent) simp_all

text \<open>
  C2: one request, however often its transaction is retried and whatever it reports, changes the committed
  rows at most once: they are as before, or its key was new and they are the rows of one recorded answer,
  in which exactly one ledger entry was added if the answer is a processed event and none otherwise.
\<close>

theorem process_at_most_once:
  assumes "alone E" "idle w" "consistent (w_committed w)"
  shows "let w' = snd (process E svc key request w) in
    w_committed w' = w_committed w \<or>
    idem_of (w_committed w) key = None \<and>
    (\<exists>res. answer_ok request key (request_payload E request) (w_committed w) res (w_committed w'))"
  using process_changes [OF assms, of svc key request] by (auto simp: wp_def split: prod.splits sum.splits)

theorem process_at_most_once_witness:
  "let w' = snd (process calm_env sample_service ''key-2'' sample_request sample_world) in
    w_committed w' = sample_db \<or>
    idem_of sample_db ''key-2'' = None \<and>
    (\<exists>res. answer_ok sample_request ''key-2'' (request_payload calm_env sample_request) sample_db res (w_committed w'))"
  using process_at_most_once [of calm_env sample_world sample_service "''key-2''" sample_request] by simp

end
