(* ===== verification/Service_Properties.thy ===== *)
theory Service_Properties
  imports Samples Reconciliation Guarantees
begin

text \<open>
  What each service under \<open>backend/app/services\<close> and \<open>backend/app/cache\<close> promises on its own, stated on the
  rows before and after.
\<close>

subsection \<open>State changes\<close>

fun status_rank :: "transaction_status \<Rightarrow> nat" where
  "status_rank RECEIVED = 0"
| "status_rank VALIDATED = 1"
| "status_rank PROCESSING = 2"
| "status_rank COMPLETED = 3"
| "status_rank _ = 4"

lemma transition_rank: "b \<in> set (allowed_transitions a) \<Longrightarrow> status_rank a < status_rank b"
  by (cases a) auto

lemma walk_rank: "walk a hs = Some b \<Longrightarrow> status_rank a + length hs \<le> status_rank b"
proof (induction hs arbitrary: a)
  case (Cons h hs)
  then obtain c where "c \<in> set (allowed_transitions a)" "walk c hs = Some b"
    by (auto split: option.splits if_splits)
  with Cons.IH [of c] transition_rank [of c a] show ?case by simp
qed simp

lemma walk_append: "walk a (hs @ gs) = (case walk a hs of None \<Rightarrow> None | Some b \<Rightarrow> walk b gs)"
  by (induction hs arbitrary: a) (auto split: option.split)

lemma status_rank_le: "status_rank st \<le> 4"
  by (cases st) auto

text \<open>
  The state machine cannot be walked for ever: an event's history, started at \<open>RECEIVED\<close>, has at most four
  entries, and once \<open>is_terminal_status\<close> says so no further entry is possible.
\<close>

theorem history_bounded:
  assumes "walk RECEIVED hs = Some st"
  shows "length hs \<le> 4 \<and> (is_terminal_status (Inl st) = Inr True \<longrightarrow> walk RECEIVED (hs @ [h]) = None)"
proof
  show "length hs \<le> 4" using walk_rank [OF assms] status_rank_le [of st] by simp
  show "is_terminal_status (Inl st) = Inr True \<longrightarrow> walk RECEIVED (hs @ [h]) = None"
    using assms by (auto simp: walk_append is_terminal_status_def allowed_next_statuses_def split: option.split)
qed

theorem history_bounded_witness:
  "length (histories_of sample_db 1) \<le> 4 \<and>
    walk RECEIVED (histories_of sample_db 1 @ [sample_history 4 RECEIVED FAILED]) = None"
proof -
  have "walk RECEIVED (histories_of sample_db 1) = Some COMPLETED" "is_terminal_status (Inl CANCELLED) = Inr True"
    by code_simp+
  then show ?thesis using history_bounded [of "histories_of sample_db 1" COMPLETED "sample_history 4 RECEIVED FAILED"]
    by code_simp
qed

text \<open>
  C9: \<open>change_status\<close> moves an event exactly along the allowed transitions: it succeeds only on one, then the
  event has the new status, its history has grown by one entry from the old to the new status, and no
  balance or ledger entry changed; on any other it raises \<open>InvalidStateTransition\<close> and leaves every row as
  it was. The only other failure is a failing statement.
\<close>

theorem change_status_moves:
  assumes "w_sess w = InTx" "event_by_id (w_db w) i = Some e" "te_status e = status_value a"
  shows "wp (change_status E i (Inl b) reason)
    (\<lambda>h w'. b \<in> set (allowed_transitions a) \<and>
       map_option te_status (event_by_id (w_db w') i) = Some (status_value b) \<and>
       (\<exists>r. histories_of (w_db w') i = histories_of (w_db w) i @ [r] \<and>
          esh_old_status r = Some (status_value a) \<and> esh_new_status r = status_value b \<and> esh_reason r = reason) \<and>
       t_ledger (w_db w') = t_ledger (w_db w) \<and> t_accounts (w_db w') = t_accounts (w_db w))
    (\<lambda>x w'. if b \<in> set (allowed_transitions a) then \<exists>s. x = SAError s
       else x = InvalidStateTransition a b (transition_message a b) \<and> w_db w' = w_db w) w"
  by (rule wp_mono [OF change_status_spec [OF assms]])
    (use assms(2) in \<open>auto simp: runs_def sa_failure_def event_by_id_push histories_of_push new_history_def
      split: if_splits\<close>)

theorem change_status_moves_witness:
  "wp (change_status calm_env 1 (Inl RECEIVED) None)
    (\<lambda>h w'. RECEIVED \<in> set (allowed_transitions COMPLETED) \<and>
       map_option te_status (event_by_id (w_db w') 1) = Some (status_value RECEIVED) \<and>
       (\<exists>r. histories_of (w_db w') 1 = histories_of (w_db sample_tx) 1 @ [r] \<and>
          esh_old_status r = Some (status_value COMPLETED) \<and> esh_new_status r = status_value RECEIVED \<and>
          esh_reason r = None) \<and>
       t_ledger (w_db w') = t_ledger (w_db sample_tx) \<and> t_accounts (w_db w') = t_accounts (w_db sample_tx))
    (\<lambda>x w'. if RECEIVED \<in> set (allowed_transitions COMPLETED) then \<exists>s. x = SAError s
       else x = InvalidStateTransition COMPLETED RECEIVED (transition_message COMPLETED RECEIVED) \<and>
         w_db w' = w_db sample_tx) sample_tx"
  by (rule change_status_moves [where e = sample_event]) (simp_all add: sample_event_def enum_values)

subsection \<open>Ledger\<close>

lemma account_by_id_post:
  "account_by_id (post_ledger gap t t' acc ev ty k bal db) acc =
     map_option (\<lambda>a. a\<lparr>acc_balance := bal, acc_updated_at := t'\<rparr>) (account_by_id db acc)"
  unfolding post_ledger_def set_balance_def upd_account_def add_ledger_def account_by_id_def
  by (simp add: find_update_same)

text \<open>
  C8: \<open>apply_event\<close> posts the money of an event once and keeps the books: when it returns, one ledger entry was
  appended, for this event and account, whose amount is the event's up to sign and whose balance is the
  account's new balance, old balance plus amount, which is not negative. When a rule refuses the event no
  row changed.
\<close>

theorem apply_event_posts:
  assumes "w_sess w = InTx" "event_by_id (w_db w) ev = Some e" "te_event_type e = event_type_value ty"
    "account_by_id (w_db w) acc = Some a"
  shows "wp (apply_event E acc ev original)
    (\<lambda>l w'. \<exists>row k. \<bar>k\<bar> = te_amount e \<and> 0 \<le> acc_balance a + k \<and>
       t_ledger (w_db w') = t_ledger (w_db w) @ [row] \<and> le_id row = l \<and> le_transaction_event_id row = ev \<and>
       le_account_id row = acc \<and> le_amount row = k \<and> le_balance_after row = acc_balance a + k \<and>
       map_option acc_balance (account_by_id (w_db w') acc) = Some (acc_balance a + k))
    (\<lambda>x w'. ledger_refusal x \<and> w_db w' = w_db w \<or> (\<exists>s. x = SAError s)) w"
proof (rule wp_mono [OF apply_event_spec [OF assms]], goal_cases)
  case (1 l w')
  then obtain ot k gap t t' ety where k: "0 < te_amount e" "signed_amount ty ot (te_amount e) = Some k"
    "0 \<le> acc_balance a + k" "l = next_id gap (map le_id (t_ledger (w_db w)))"
    and r: "runs w (post_ledger gap t t' acc ev ety k (acc_balance a + k) (w_db w)) w'" by blast
  then show ?case
    using assms(4) signed_amount_abs [OF k(2,1)]
    by (intro exI [of _ "new_ledger gap t (w_db w) ev acc ety k (acc_balance a + k)"] exI [of _ k])
      (auto simp: runs_def account_by_id_post, simp_all add: post_ledger_def set_balance_def upd_account_def
        add_ledger_def new_ledger_def)
qed (auto simp: runs_def sa_failure_def)

theorem apply_event_posts_witness:
  "wp (apply_event calm_env 1 1 None)
    (\<lambda>l w'. \<exists>row k. \<bar>k\<bar> = te_amount sample_event \<and> 0 \<le> acc_balance sample_account + k \<and>
       t_ledger (w_db w') = t_ledger (w_db sample_tx) @ [row] \<and> le_id row = l \<and> le_transaction_event_id row = 1 \<and>
       le_account_id row = 1 \<and> le_amount row = k \<and> le_balance_after row = acc_balance sample_account + k \<and>
       map_option acc_balance (account_by_id (w_db w') 1) = Some (acc_balance sample_account + k))
    (\<lambda>x w'. ledger_refusal x \<and> w_db w' = w_db sample_tx \<or> (\<exists>s. x = SAError s)) sample_tx"
  by (rule apply_event_posts [where ty = DEPOSIT and e = sample_event]) (simp_all add: sample_event_def enum_values)

text \<open>
  A cancellation books exactly the opposite of what its original booked: for the same amount, the amount
  computed for a \<open>CANCEL\<close> of a type is the negative of the amount computed for that type, and a cancellation of
  a cancellation has none.
\<close>

theorem cancel_reverses:
  "calculate_ledger_amount (Inl CANCEL) n (Some (Inl ty)) =
    (if n \<le> 0 then Inl (InvalidTransactionEvent ''Transaction amount must be greater than zero'')
     else case calculate_ledger_amount (Inl ty) n None of
         Inr k \<Rightarrow> Inr (- k)
       | Inl _ \<Rightarrow> Inl (InvalidTransactionEvent ''CANCEL supports only DEPOSIT or WITHDRAW originals''))"
  by (cases ty) (auto simp: calculate_ledger_amount_def normalize_event_type_def)

subsection \<open>Idempotency records\<close>

text \<open>
  C10: the decision for a key is determined by its record: a new key opens one \<open>PROCESSING\<close> record carrying the
  request's hash and nothing else changes; a known key changes nothing, is refused with
  \<open>IdempotencyConflict\<close> when the hash differs, and otherwise answers with the decision of its status and the
  recorded response.
\<close>

theorem check_or_start_decides:
  assumes "w_sess w = InTx" "db_ok (w_db w)"
  shows "wp (check_or_start E svc k p t)
    (\<lambda>c w'. case idem_of (w_db w) k of
       None \<Rightarrow> chk_decision c = STARTED \<and> (\<exists>r. w_db w' = (w_db w)\<lparr>t_idem := t_idem (w_db w) @ [r]\<rparr> \<and>
         idem_idempotency_key r = k \<and> idem_request_hash r = generate_request_hash p \<and>
         idem_status r = idempotency_status_value IS_PROCESSING \<and> chk_record_id c = Some (idem_id r))
     | Some r \<Rightarrow> w_db w' = w_db w \<and> idem_request_hash r = generate_request_hash p \<and>
         chk_record_id c = Some (idem_id r) \<and>
         (idem_status r = idempotency_status_value IS_PROCESSING \<and> chk_decision c = ALREADY_PROCESSING \<or>
          idem_status r = idempotency_status_value IS_COMPLETED \<and> chk_decision c = REPLAY_COMPLETED \<and>
            chk_response_code c = idem_response_code r \<and> chk_response_body c = idem_response_body r \<or>
          idem_status r = idempotency_status_value IS_FAILED \<and> chk_decision c = REPLAY_FAILED \<and>
            chk_response_code c = idem_response_code r \<and> chk_response_body c = idem_response_body r))
    (\<lambda>x w'. (\<exists>s. x = SAError s) \<or> (w_db w' = w_db w \<and> (\<exists>r. idem_of (w_db w) k = Some r \<and>
       (if idem_request_hash r \<noteq> generate_request_hash p then x = IdempotencyConflict k
        else IdempotencyStatus (idem_status r) = None)))) w"
proof (rule wp_mono [OF check_or_start_spec [OF assms]], goal_cases)
  case (1 c w')
  show ?case
  proof (cases "idem_of (w_db w) k")
    case None
    with 1 obtain gap u ex l where "let r = new_idem gap u (w_db w) k (generate_request_hash p) ex l in
      c = check_result STARTED (idem_id r) \<and> runs w (add_idem r (w_db w)) w' \<and> db_ok (w_db w')" by auto
    then show ?thesis
      unfolding None option.case
      by (intro conjI exI [of _ "new_idem gap u (w_db w) k (generate_request_hash p) ex l"])
        (auto simp: Let_def check_result_def runs_def add_idem_def new_idem_def)
  next
    case (Some r)
    with 1 have "replay_of r (generate_request_hash p) = Inr c" "w_db w' = w_db w" by (auto simp: runs_def)
    with Some show ?thesis
      by (elim replay_of_Inr)
        (auto simp: check_result_def replay_result_def record_status_def enum_or_raise_def
          split: option.splits idempotency_status.split dest: IdempotencyStatus_Some)
  qed
next
  case (2 x w')
  then show ?case
    by (auto simp: sa_failure_def runs_def replay_of_def bindE_eq_Inl ensure_same_request_hash_def
        record_status_def enum_or_raise_def dest: idem_of_Some split: if_splits option.splits)
qed

theorem check_or_start_decides_witness:
  "wp (check_or_start calm_env (ts_idempotency sample_service) ''key-2'' (PStr ''x'') None)
    (\<lambda>c w'. chk_decision c = STARTED \<and> (\<exists>r. w_db w' = sample_db\<lparr>t_idem := t_idem sample_db @ [r]\<rparr> \<and>
         idem_idempotency_key r = ''key-2'' \<and> idem_request_hash r = generate_request_hash (PStr ''x'') \<and>
         idem_status r = idempotency_status_value IS_PROCESSING \<and> chk_record_id c = Some (idem_id r)))
    (\<lambda>x w'. \<exists>s. x = SAError s) sample_tx"
  using check_or_start_decides [of sample_tx calm_env "ts_idempotency sample_service" "''key-2''" "PStr ''x''" None]
  by simp

text \<open>
  C11: a record is closed at most once. \<open>complete\<close> on the record of its own request marks a \<open>PROCESSING\<close> record
  \<open>COMPLETED\<close> with the response, leaves a \<open>COMPLETED\<close> one untouched, and refuses a \<open>FAILED\<close> one without changing
  a row; a payload with another hash is refused as a conflict.
\<close>

theorem complete_closes_once:
  assumes "w_sess w = InTx" "db_ok (w_db w)" "idem_of (w_db w) k = Some r" "idem_status r = idempotency_status_value st"
  shows "wp (complete E k code body (Some p) None t)
    (\<lambda>i w'. i = idem_id r \<and> idem_request_hash r = generate_request_hash p \<and>
       (st = IS_COMPLETED \<and> w_db w' = w_db w \<or>
        st = IS_PROCESSING \<and> (\<exists>u. w_db w' = upd_idem i (completed_row code body u) (w_db w))))
    (\<lambda>x w'. (\<exists>s. x = SAError s) \<or> (w_db w' = w_db w \<and>
       (if idem_request_hash r \<noteq> generate_request_hash p then x = IdempotencyConflict k
        else st = IS_FAILED \<and> x = InvalidIdempotencyState (idempotency_status_value IS_FAILED)
          (idempotency_status_value IS_COMPLETED)))) w"
  unfolding complete_def
proof (rule get_existing_record_spec [OF assms(1,2)], goal_cases)
  case (2 r' w1)
  then have r': "r' = r" and w1: "w_sess w1 = InTx" "w_db w1 = w_db w" using assms(3) by (auto simp: runs_def)
  have key: "idem_idempotency_key r = k" using idem_of_Some [OF assms(3)] by simp
  have closing: "wp (mark_completed E (idem_id r) code body u)
      (\<lambda>i w'. i = idem_id r \<and> (\<exists>u. w_db w' = upd_idem i (completed_row code body u) (w_db w)))
      (\<lambda>x w'. \<exists>s. x = SAError s) w1" for u
    by (rule wp_mono [OF mark_completed_spec [OF w1(1)]]) (auto simp: w1 runs_def sa_failure_def)
  show ?case
    using w1 assms(4) key wp_mono [OF closing]
    by (cases st) (auto simp: r' wp_simps ensure_completion_matches_request_def ensure_same_request_hash_def
        is_terminal_noop_def ensure_can_close_processing_def record_status_def enum_or_raise_def
        intro!: wp_now_or wp_mono [OF closing])
qed (use assms in \<open>auto simp: sa_failure_def\<close>)

theorem complete_closes_once_witness:
  "wp (complete calm_env ''key-1'' 201 None (Some (PStr ''x'')) None None)
    (\<lambda>i w'. i = 1 \<and> w_db w' = sample_answered (generate_request_hash (PStr ''x'')))
    (\<lambda>x w'. \<exists>s. x = SAError s) (sample_tx\<lparr>w_db := sample_answered (generate_request_hash (PStr ''x''))\<rparr>)"
proof -
  let ?h = "generate_request_hash (PStr ''x'')"
  have len: "length ?h = 64" by (simp add: generate_request_hash_def)
  then have "db_ok (sample_answered ?h)" using sample_answered_consistent by (simp add: consistent_def)
  then show ?thesis
    using complete_closes_once [of "sample_tx\<lparr>w_db := sample_answered ?h\<rparr>" "''key-1''" "sample_record ?h" IS_COMPLETED
        calm_env 201 None "PStr ''x''" None]
    by (simp add: sample_record_def enum_values)
qed

text \<open>
  Deleting expired records never loses an open one: \<open>delete_expired\<close> removes exactly the closed records whose
  expiry has passed and reports how many; every record still \<open>PROCESSING\<close>, or not yet expired, is kept, and no
  other table changes.
\<close>

theorem delete_expired_safe:
  assumes "w_sess w = InTx" "db_ok (w_db w)"
  shows "wp (delete_expired E t)
    (\<lambda>n w'. w_db w' = (w_db w)\<lparr>t_idem := filter (\<lambda>r. \<not> expired t r) (t_idem (w_db w))\<rparr> \<and>
       n = length (filter (expired t) (t_idem (w_db w))) \<and>
       (\<forall>r\<in>set (t_idem (w_db w)). idem_status r = idempotency_status_value IS_PROCESSING \<longrightarrow> r \<in> set (t_idem (w_db w'))))
    (\<lambda>x w'. \<exists>s. x = SAError s) w"
proof -
  let ?rs = "t_idem (w_db w)"
  have "idem_id r \<in> idem_id ` {r \<in> set ?rs. expired t r} \<longleftrightarrow> expired t r" if "r \<in> set ?rs" for r
    using that distinct_key_unique [OF db_ok_unique(7) [OF assms(2)]] by blast
  then have gone: "delete_idem (map idem_id (sort_key k (filter (expired t) ?rs))) (w_db w) =
      (w_db w)\<lparr>t_idem := filter (\<lambda>r. \<not> expired t r) ?rs\<rparr>" for k :: "idempotency_record \<Rightarrow> instant \<times> int"
    by (simp add: delete_idem_def cong: filter_cong)
  have kept: "\<not> expired t r" if "idem_status r = idempotency_status_value IS_PROCESSING" for r
    using that by (simp add: expired_def)
  show ?thesis
    using assms
    by (simp add: delete_expired_def list_expired_def wp_simps gone kept split: option.split)
qed

theorem delete_expired_safe_witness:
  "wp (delete_expired calm_env 20)
    (\<lambda>n w'. w_db w' = sample_db\<lparr>t_idem := filter (\<lambda>r. \<not> expired 20 r) (t_idem sample_db)\<rparr> \<and>
       n = length (filter (expired 20) (t_idem sample_db)))
    (\<lambda>x w'. \<exists>s. x = SAError s) sample_tx"
  by (rule wp_mono [OF delete_expired_safe [of sample_tx calm_env 20]]) simp_all

text \<open>
  The hash compared for a repeated key stands for the whole request: two requests whose canonical texts are
  equal agree on every field that is dumped, so a different account, amount, type, currency, reference or time
  text gives a different text.
\<close>

theorem canonical_text_injective:
  "canonicalize_payload (PJson (model_dump isofmt r)) = canonicalize_payload (PJson (model_dump isofmt q)) \<longleftrightarrow>
    rq_external_event_id r = rq_external_event_id q \<and> rq_account_no r = rq_account_no q \<and>
    rq_event_type r = rq_event_type q \<and> rq_amount r = rq_amount q \<and> rq_currency r = rq_currency q \<and>
    isofmt (rq_occurred_at r) = isofmt (rq_occurred_at q) \<and>
    rq_original_external_event_id r = rq_original_external_event_id q"
  (is "?l \<longleftrightarrow> ?r")
proof
  assume ?l
  then have "model_dump isofmt r = model_dump isofmt q" by (rule model_dump_canonical_inject)
  then show ?r by (simp add: model_dump_def)
qed (simp add: model_dump_def)

subsection \<open>Redis\<close>

text \<open>
  The lock excludes: of two acquisitions of one key in a row, both succeed only when the first one's
  time-to-live had run out at the second, whatever Redis does.
\<close>

theorem lock_excludes:
  assumes "now E (Suc (w_tick w)) < now E (w_tick w) + ttl * 1000"
  shows "wp (bindM (acquire E ttl k) (\<lambda>first. bindM (acquire E ttl k) (\<lambda>second. returnM (first, second))))
    (\<lambda>(first, second) w'. \<not> (lk_acquired first \<and> lk_acquired second)) (\<lambda>_ _. False) w"
  using assms
  by (auto simp: acquire_def wp_simps redis_set_nx_def redis_live_def Let_def split: option.split prod.split)

theorem lock_excludes_witness:
  "wp (bindM (acquire calm_env 3000 ''k'') (\<lambda>first. bindM (acquire calm_env 3000 ''k'') (\<lambda>second. returnM (first, second))))
    (\<lambda>(first, second) w'. \<not> (lk_acquired first \<and> lk_acquired second)) (\<lambda>_ _. False) sample_world"
  by (rule lock_excludes) (simp add: calm_env_def)

text \<open>
  A release only ever removes the caller's own lock: it leaves the store as it is, or the key held the
  caller's token and is the only entry removed - also when the command fails after it was applied. It never
  raises.
\<close>

theorem release_only_own:
  "wp (release E k (Some token))
    (\<lambda>_ w'. w_redis w' = w_redis w \<or>
       redis_live (w_redis w) (now E (w_tick w)) k = Some (RText token) \<and> w_redis w' = (w_redis w)(k := None))
    (\<lambda>_ _. False) w"
  by (auto simp: release_def wp_simps release_script_def Let_def split: option.split prod.split)

text \<open>
  C28: what was cached is what is replayed: after \<open>set_completed\<close>, a \<open>get\<close> of the same key before the
  time-to-live has passed returns the hash, code and body that were stored; both fall back silently when Redis fails.
\<close>

theorem cache_roundtrip:
  assumes "now E (Suc (w_tick w)) < now E (w_tick w) + seconds ttl"
  shows "wp (thenM (set_completed E ttl k h code body) (cache_get E k))
    (\<lambda>c w'. redis_fault E (w_tick w) = None \<longrightarrow> redis_fault E (Suc (w_tick w)) = None \<longrightarrow>
       c = Some \<lparr>cr_request_hash = JStr h, cr_response_code = code, cr_response_body = body\<rparr>)
    (\<lambda>_ _. False) w"
  using assms
  by (auto simp: set_completed_def cache_get_def wp_simps redis_setex_def redis_get_def redis_live_def Let_def
      is_document_def split: option.split prod.split)

theorem cache_roundtrip_witness:
  "wp (thenM (set_completed calm_env 60 ''k'' ''h'' 200 JNull) (cache_get calm_env ''k''))
    (\<lambda>c w'. c = Some \<lparr>cr_request_hash = JStr ''h'', cr_response_code = 200, cr_response_body = JNull\<rparr>)
    (\<lambda>_ _. False) sample_world"
  using cache_roundtrip [of calm_env sample_world 60 "''k''" "''h''" 200 JNull] by (simp add: calm_env_def seconds_def)

subsection \<open>Quarantine\<close>

lemma one_active_row:
  assumes "db_ok db" "quarantined db ty i"
  shows "length (active_rows (target_type_value ty) i db) = 1"
proof -
  let ?k = "\<lambda>q. (qr_target_type q, qr_target_id q)"
  from assms(2) obtain q where q: "q \<in> set (filter qr_active (t_quar db))"
    "?k q = (target_type_value ty, i)" by (auto simp: quarantined_def)
  have "filter (\<lambda>x. ?k x = ?k q) (filter qr_active (t_quar db)) = [q]"
    using db_ok_unique(15) [OF assms(1)] q(1) unfolding active_targets_def by (rule filter_key_distinct)
  with q(2) show ?thesis by (simp add: active_rows_def conj_commute)
qed

text \<open>
  Asking for a quarantine leaves exactly one active record for the target, whether it was there already (then
  nothing changes) or not (then one record was added); the money tables are untouched.
\<close>

theorem create_quarantine_one_active:
  assumes "w_sess w = InTx" "db_ok (w_db w)"
  shows "wp (create_quarantine E ty i reason who src incident)
    (\<lambda>j w'. length (active_rows (target_type_value ty) i (w_db w')) = 1 \<and>
       (if quarantined (w_db w) ty i then w_db w' = w_db w
        else \<exists>q. w_db w' = (w_db w)\<lparr>t_quar := t_quar (w_db w) @ [q]\<rparr> \<and> qr_id q = j \<and> qr_reason q = reason))
    (\<lambda>x w'. \<exists>s. x = SAError s) w"
  unfolding create_quarantine_def
proof (rule wp_bindI [OF get_active_spec [OF assms(1)]], goal_cases)
  case (1 r w1)
  then have w1: "w_sess w1 = InTx" "w_db w1 = w_db w" by (auto simp: runs_def)
  show ?case
  proof (cases r)
    case None
    let ?q = "new_quarantine E w1 ty i reason who src incident"
    let ?db = "(w_db w)\<lparr>t_quar := t_quar (w_db w) @ [?q]\<rparr>"
    have "quarantined ?db ty i" "qr_reason ?q = reason"
      by (auto simp: quarantined_def new_quarantine_def)
    then have "db_ok ?db \<Longrightarrow> length (active_rows (target_type_value ty) i ?db) = 1"
      and "\<exists>q. ?db = (w_db w)\<lparr>t_quar := t_quar (w_db w) @ [q]\<rparr> \<and> qr_id q = qr_id ?q \<and> qr_reason q = reason"
      using one_active_row by blast+
    with None 1 w1 show ?thesis
      by (simp add: wp_simps quarantine_create_def db_ok_def split: option.split)
  next
    case (Some j)
    with 1 have "quarantined (w_db w) ty i" by (auto simp: quarantined_def)
    with Some w1 show ?thesis by (simp add: wp_simps one_active_row [OF assms(2)])
  qed
qed (auto simp: sa_failure_def)

theorem create_quarantine_one_active_witness:
  "wp (create_quarantine calm_env ACCOUNT ''1'' ''manual'' ''op'' None None)
    (\<lambda>j w'. length (active_rows (target_type_value ACCOUNT) ''1'' (w_db w')) = 1 \<and>
       (if quarantined sample_db ACCOUNT ''1'' then w_db w' = sample_db
        else \<exists>q. w_db w' = sample_db\<lparr>t_quar := t_quar sample_db @ [q]\<rparr> \<and> qr_id q = j \<and> qr_reason q = ''manual''))
    (\<lambda>x w'. \<exists>s. x = SAError s) sample_tx"
  by (rule create_quarantine_one_active [of sample_tx, unfolded sample_tx_facts]) simp_all

text \<open>
  The guard lets a target pass exactly when it is not quarantined: it returns only then, and otherwise raises
  \<open>TargetQuarantined\<close>; it changes no row.
\<close>

theorem quarantine_guard:
  assumes "w_sess w = InTx" "db_ok (w_db w)"
  shows "wp (assert_not_quarantined E ty i)
    (\<lambda>_ w'. \<not> quarantined (w_db w) ty i \<and> w_db w' = w_db w)
    (\<lambda>x w'. (\<exists>s. x = SAError s) \<or>
       quarantined (w_db w) ty i \<and> w_db w' = w_db w \<and> (\<exists>q. x = TargetQuarantined (target_type_value ty) q)) w"
  by (rule wp_mono [OF assert_not_quarantined_spec [OF assms]]) (auto simp: runs_def sa_failure_def)

theorem quarantine_guard_witness:
  "wp (assert_not_quarantined calm_env ACCOUNT ''1'')
    (\<lambda>_ w'. \<not> quarantined sample_db ACCOUNT ''1'' \<and> w_db w' = sample_db)
    (\<lambda>x w'. (\<exists>s. x = SAError s) \<or>
       quarantined sample_db ACCOUNT ''1'' \<and> w_db w' = sample_db \<and>
       (\<exists>q. x = TargetQuarantined (target_type_value ACCOUNT) q)) sample_tx"
  using quarantine_guard [of sample_tx calm_env ACCOUNT "''1''"] by simp

subsection \<open>Recovery cases\<close>


definition sample_case :: recovery_case where
  "sample_case = (new_case calm_env sample_world blank_args)\<lparr>rc_id := 1, rc_current_status := ''EXECUTED'',
     rc_approved_by := Some ''kim''\<rparr>"


subsection \<open>Reconciliation\<close>

lemma no_group_duplicates: "distinct xs \<Longrightarrow> count_group_duplicates xs = 0"
proof -
  assume "distinct xs"
  then have "length (filter (\<lambda>x. x = v) xs) \<le> 1" for v
    using length_remdups_card_conv [of "filter (\<lambda>x. x = v) xs"]
    by (induction xs) (auto simp: filter_empty_conv)
  then show ?thesis by (simp add: count_group_duplicates_def filter_empty_conv leD)
qed

lemma db_ok_counts:
  assumes "db_ok db"
  shows "count_group_duplicates (map le_transaction_event_id (t_ledger db)) = 0"
    "count_group_duplicates (map te_external_event_id (t_events db)) = 0" "ledger_without_event db = []"
  using assms db_ok_fk(2) [OF assms] by (auto simp: no_group_duplicates db_ok_unique ledger_without_event_def filter_empty_conv)

lemma consistent_no_stale: "consistent db \<Longrightarrow> stale_records t n db = []"
proof -
  assume "consistent db"
  then have "filter (is_stale t n) (t_idem db) = []"
    by (auto simp: consistent_def list_all_iff idem_closed_def is_stale_def filter_empty_conv)
  then show ?thesis by (simp add: stale_records_def)
qed

lemma consistent_no_missing_ledger: "consistent db \<Longrightarrow> events_without_ledger t n db = []"
  by (auto simp: consistent_def events_ok_def list_all_iff event_consistent_def events_without_ledger_def
      filter_empty_conv posted_def intermediate_def has_ledger_def split: option.splits dest!: bspec)

lemma reconcile_counts_run:
  assumes "w_sess w = InTx" "\<And>t. stale_records t n (w_db w) = []"
  shows "wp (reconcile_counts E n)
    (\<lambda>c w'. w_db w' = w_db w \<and> c =
       \<lparr>duplicate_ledger_count = count_group_duplicates (map le_transaction_event_id (t_ledger (w_db w))),
        duplicate_external_event_count = count_group_duplicates (map te_external_event_id (t_events (w_db w))),
        completed_idempotency_without_transaction_event_count = length (orphan_completed (w_db w)),
        transaction_event_without_ledger_count =
          length (events_without_ledger (now E (Suc (Suc (Suc (w_tick w))))) n (w_db w)),
        ledger_without_transaction_event_count = length (ledger_without_event (w_db w)),
        account_balance_mismatch_count = length (balance_mismatches (w_db w)), stale_processing_count = 0\<rparr>)
    (\<lambda>x w'. \<exists>s. x = SAError s) w"
  using assms
  by (auto simp: reconcile_counts_def count_stale_processing_def detect_stale_processing_def wp_simps split: option.split)

text \<open>
  C15: reconciliation raises no false alarm about money: on a consistent database it counts no duplicate or orphaned
  ledger entry, no duplicate event, no event without its ledger entry, no wrong balance and no stale record, and it
  changes no row.
\<close>

theorem reconcile_finds_no_defect:
  assumes "w_sess w = InTx" "consistent (w_db w)"
  shows "wp (reconcile_counts E n)
    (\<lambda>c w'. w_db w' = w_db w \<and> duplicate_ledger_count c = 0 \<and> duplicate_external_event_count c = 0 \<and>
       transaction_event_without_ledger_count c = 0 \<and> ledger_without_transaction_event_count c = 0 \<and>
       account_balance_mismatch_count c = 0 \<and> stale_processing_count c = 0)
    (\<lambda>x w'. \<exists>s. x = SAError s) w"
proof -
  have "db_ok (w_db w)" "balance_mismatches (w_db w) = []"
    using assms(2) by (auto simp: consistent_def money_ok_def list_all_iff balance_consistent_def
        balance_mismatches_def filter_empty_conv)
  then show ?thesis
    by (intro wp_mono [OF reconcile_counts_run [OF assms(1) consistent_no_stale [OF assms(2)]]])
      (simp_all add: db_ok_counts consistent_no_missing_ledger [OF assms(2)])
qed

theorem reconcile_finds_no_defect_witness:
  "wp (reconcile_counts calm_env 10)
    (\<lambda>c w'. w_db w' = sample_db \<and> duplicate_ledger_count c = 0 \<and> duplicate_external_event_count c = 0 \<and>
       transaction_event_without_ledger_count c = 0 \<and> ledger_without_transaction_event_count c = 0 \<and>
       account_balance_mismatch_count c = 0 \<and> stale_processing_count c = 0)
    (\<lambda>x w'. \<exists>s. x = SAError s) sample_tx"
  by (rule reconcile_finds_no_defect [of sample_tx, unfolded sample_tx_facts]) (simp_all add: sample_consistent)



end
