(* ===== verification/Security_Hmac.thy ===== *)
theory Security_Hmac
  imports World
begin

text \<open>
  Request authentication (\<open>backend/app/security\<close>): signatures, timestamps, client secrets, masking.
  Texts are Latin-1, as HTTP headers are decoded.
\<close>

subsection \<open>Signatures\<close>

definition newline :: string where
  "newline = [CHR 0x0A]"

definition generate_body_hash :: "bytes \<Rightarrow> string" where
  "generate_body_hash raw_body = sha256_hex raw_body"

definition build_signature_base_string :: "string \<Rightarrow> string \<Rightarrow> string \<Rightarrow> string \<Rightarrow> string" where
  "build_signature_base_string meth path timestamp body_hash =
     join newline [upper meth, path, timestamp, body_hash]"

definition generate_hmac_signature :: "string \<Rightarrow> string \<Rightarrow> string" where
  "generate_hmac_signature secret base_string = hmac_sha256_hex (utf8 secret) (utf8 base_string)"

text \<open>\<open>int(s, 16)\<close> succeeds: blanks around, a sign, a \<open>0x\<close> prefix, digits with single underscores between.\<close>

definition is_hex_char :: "char \<Rightarrow> bool" where
  "is_hex_char c \<longleftrightarrow> is_lower_hex (lower_char c)"

definition hex_groups :: "string \<Rightarrow> bool" where
  "hex_groups s \<longleftrightarrow> list_all (\<lambda>g. g \<noteq> [] \<and> list_all is_hex_char g) (split_on (CHR ''_'') s)"

definition int16_ok :: "string \<Rightarrow> bool" where
  "int16_ok s = (let u = unsigned (strip s) in
     hex_groups u \<or>
     (lower (take 2 u) = ''0x'' \<and> (hex_groups (drop 2 u) \<or>
        (take 1 (drop 2 u) = ''_'' \<and> hex_groups (drop 3 u)))))"

definition is_hex_digest :: "string \<Rightarrow> bool" where
  "is_hex_digest s \<longleftrightarrow> length s = 64 \<and> int16_ok s"

text \<open>\<open>hmac.compare_digest\<close> on texts takes ASCII only.\<close>

definition compare_digest :: "string \<Rightarrow> string \<Rightarrow> exn + bool" where
  "compare_digest a b =
    (if list_all (\<lambda>c. code_of c < 128) a \<and> list_all (\<lambda>c. code_of c < 128) b then Inr (a = b)
     else Inl (TypeError ''comparing strings with non-ASCII characters is not supported''))"

definition verify_hmac_signature :: "string \<Rightarrow> string \<Rightarrow> string \<Rightarrow> exn + bool" where
  "verify_hmac_signature secret base_string signature =
    (if secret = [] \<or> signature = [] then Inr False
     else if \<not> is_hex_digest signature then Inr False
     else compare_digest (generate_hmac_signature secret base_string) (lower signature))"

subsection \<open>Timestamps\<close>

definition with_offset :: "string \<Rightarrow> string" where
  "with_offset s = replace_char (CHR ''Z'') ''+00:00'' s"

definition parse_timestamp :: "env \<Rightarrow> string \<Rightarrow> exn + py_datetime" where
  "parse_timestamp E s = (case fromisoformat E (with_offset s) of
       None \<Rightarrow> Inl InvalidTimestamp
     | Some d \<Rightarrow> if dt_offset d = None then Inl InvalidTimestamp else Inr d)"

definition validate_timestamp_window :: "py_datetime \<Rightarrow> py_datetime \<Rightarrow> int \<Rightarrow> exn + unit" where
  "validate_timestamp_window timestamp current allowed_skew_seconds =
    (if dt_offset timestamp = None then Inl InvalidTimestamp
     else let cur = (if dt_offset current = None then current\<lparr>dt_offset := Some 0\<rparr> else current) in
       if \<bar>timestamp_of timestamp - timestamp_of cur\<bar> > seconds allowed_skew_seconds
       then Inl ExpiredTimestamp else Inr ())"

subsection \<open>Client secrets\<close>

record external_client =
  xc_client_id :: string
  xc_secret :: string
  xc_enabled :: bool

definition parse_entry :: "string \<Rightarrow> (string \<times> external_client) option" where
  "parse_entry e = (let normalized = strip e in
     if normalized = [] \<or> CHR '':'' \<notin> set normalized then None
     else (case split_max (CHR '':'') 1 normalized of
         [c, s] \<Rightarrow> let client_id = strip c; secret = strip s in
           if client_id = [] \<or> secret = [] then None
           else Some (client_id, \<lparr>xc_client_id = client_id, xc_secret = secret, xc_enabled = True\<rparr>)
       | _ \<Rightarrow> None))"

text \<open>Later entries replace earlier ones.\<close>

definition parse_secrets :: "string \<Rightarrow> (string \<times> external_client) list" where
  "parse_secrets raw = rev (List.map_filter parse_entry (split_on (CHR '','') raw))"

definition get_client :: "(string \<times> external_client) list \<Rightarrow> string \<Rightarrow> external_client option" where
  "get_client clients client_id = map_of clients client_id"

definition get_secret :: "(string \<times> external_client) list \<Rightarrow> string \<Rightarrow> string option" where
  "get_secret clients client_id = (case map_of clients client_id of
       None \<Rightarrow> None
     | Some c \<Rightarrow> if \<not> xc_enabled c \<or> xc_secret c = [] then None else Some (xc_secret c))"

subsection \<open>Masking\<close>

definition stars :: "nat \<Rightarrow> string" where
  "stars n = replicate n (CHR ''*'')"

definition mask_account_no :: "string option \<Rightarrow> string" where
  "mask_account_no a = (case a of None \<Rightarrow> [] | Some s \<Rightarrow>
     if s = [] then [] else if length s \<le> 4 then stars (length s)
     else stars (length s - 4) @ drop (length s - 4) s)"

definition mask_idempotency_key :: "string option \<Rightarrow> string" where
  "mask_idempotency_key k = (case k of None \<Rightarrow> [] | Some s \<Rightarrow>
     if s = [] then [] else if length s \<le> 8 then ''***''
     else take 4 s @ ''...'' @ drop (length s - 4) s)"

definition mask_signature :: "string option \<Rightarrow> string" where
  "mask_signature k = (case k of None \<Rightarrow> [] | Some s \<Rightarrow>
     if s = [] then [] else if length s \<le> 8 then ''<redacted>'' else take 8 s @ ''***'')"

definition redact_secret :: "string option \<Rightarrow> string" where
  "redact_secret v = ''<redacted>''"

text \<open>\<open>sanitize_log_extra\<close> (\<open>backend/app/observability/logging.py\<close>): the values of a log record.\<close>

definition pop :: "string \<Rightarrow> (string \<times> json) list \<Rightarrow> (string \<times> json) list" where
  "pop k kvs = filter (\<lambda>(k', _). k' \<noteq> k) kvs"

definition put :: "string \<Rightarrow> json \<Rightarrow> (string \<times> json) list \<Rightarrow> (string \<times> json) list" where
  "put k v kvs = (if k \<in> fst ` set kvs then map (\<lambda>(k', x). (k', if k' = k then v else x)) kvs
     else kvs @ [(k, v)])"

definition masked_field :: "string \<Rightarrow> string \<Rightarrow> (string option \<Rightarrow> string) \<Rightarrow> (string \<times> json) list \<Rightarrow>
    (string \<times> json) list" where
  "masked_field k k' f kvs = (case json_get k kvs of
       None \<Rightarrow> kvs
     | Some v \<Rightarrow> put k' (JStr (f (Some (py_str v)))) (pop k kvs))"

definition redacted_field :: "string \<Rightarrow> (string \<times> json) list \<Rightarrow> (string \<times> json) list" where
  "redacted_field k kvs = (case json_get k kvs of
       None \<Rightarrow> kvs | Some v \<Rightarrow> put k (JStr (redact_secret (Some (py_str v)))) kvs)"

definition sanitize_log_extra :: "(string \<times> json) list \<Rightarrow> (string \<times> json) list" where
  "sanitize_log_extra extra =
     pop ''raw_body''
      (redacted_field ''expected_signature''
      (redacted_field ''secret''
      (masked_field ''signature'' ''signature_masked'' mask_signature
      (masked_field ''idempotency_key'' ''idempotency_key_masked'' mask_idempotency_key
      (masked_field ''account_no'' ''account_no_masked'' mask_account_no extra)))))"

subsection \<open>Digests as texts\<close>

text \<open>A text that passes the digest check is ASCII, so comparing it raises nothing; every digest passes it.\<close>

abbreviation ascii :: "string \<Rightarrow> bool" where
  "ascii s \<equiv> list_all (\<lambda>c. code_of c < 128) s"

lemma set_split_on: "c \<in> set s \<Longrightarrow> c = d \<or> (\<exists>p\<in>set (split_on d s). c \<in> set p)"
  by (induction s) (auto split: list.split)

lemma lower_char_ascii: "code_of (lower_char c) < 128 \<longleftrightarrow> code_of c < 128"
  by (auto simp: lower_char_def Let_def code_of_char_of code_of_less)

lemma lower_ascii [simp]: "ascii (lower s) \<longleftrightarrow> ascii s"
  by (simp add: lower_def list_all_iff lower_char_ascii)

lemma is_lower_hex_ascii: "is_lower_hex c \<Longrightarrow> code_of c < 128"
  by (auto simp: is_lower_hex_def Let_def)

lemma is_hex_char_ascii: "is_hex_char c \<Longrightarrow> code_of c < 128"
  by (metis is_hex_char_def is_lower_hex_ascii lower_char_ascii)

lemma code_of_underscore: "code_of (CHR ''_'') < 128"
  by (simp add: code_of_def)

lemma hex_groups_ascii: "hex_groups s \<Longrightarrow> ascii s"
  unfolding hex_groups_def list_all_iff
  by (metis set_split_on is_hex_char_ascii code_of_underscore)

lemma ascii_take_drop: "ascii (take n s) \<Longrightarrow> ascii (drop n s) \<Longrightarrow> ascii s"
  by (metis append_take_drop_id list_all_append)

lemma int16_ascii:
  assumes "int16_ok s" "strip s = s"
  shows "ascii s"
proof -
  let ?u = "unsigned s"
  have "ascii ?u" if x: "lower (take 2 ?u) = ''0x''" and r: "ascii (drop 2 ?u)"
  proof (rule ascii_take_drop [OF _ r])
    have "ascii (lower (take 2 ?u))" by (simp only: x) (simp add: code_of_def)
    then show "ascii (take 2 ?u)" by (simp only: lower_ascii)
  qed
  moreover have "ascii (drop 2 ?u)" if "take 1 (drop 2 ?u) = ''_''" "hex_groups (drop 3 ?u)"
  proof (rule ascii_take_drop)
    show "ascii (take 1 (drop 2 ?u))" by (simp only: that(1)) (simp add: code_of_underscore)
    show "ascii (drop 1 (drop 2 ?u))" using hex_groups_ascii [OF that(2)] by (simp add: numeral_3_eq_3)
  qed
  ultimately have "ascii ?u"
    using assms hex_groups_ascii by (auto simp: int16_ok_def Let_def)
  then show ?thesis
    by (cases s) (auto simp: unsigned_def code_of_def split: if_splits)
qed

lemma is_hex_digest_ascii: "is_hex_digest (strip s) \<Longrightarrow> ascii (strip s)"
  by (simp add: is_hex_digest_def int16_ascii)

lemma hexdigest_ascii: "ascii (hexdigest bs)"
  by (simp add: list_all_iff hexdigest_lower_hex is_lower_hex_ascii)

lemma hmac_hex_ascii [simp]: "ascii (hmac_sha256_hex k bs)"
  by (simp add: hmac_sha256_hex_def hexdigest_ascii)

lemma is_hex_char_plain:
  assumes "is_hex_char c"
  shows "c \<noteq> CHR ''_''" "c \<notin> {CHR ''-'', CHR ''+''}" "\<not> is_space c"
  using assms
  by (auto simp: is_hex_char_def is_lower_hex_def lower_char_def Let_def code_of_def is_space_def split: if_splits)

lemma hex_text_digest:
  assumes "list_all is_hex_char s" "length s = 64"
  shows "is_hex_digest s" "strip s = s"
proof -
  have ne: "s \<noteq> []" using assms(2) by auto
  then have ends: "is_hex_char (hd s)" "is_hex_char (last s)"
    using assms(1) by (auto simp: list_all_iff)
  show st: "strip s = s" using ne ends is_hex_char_plain(3) by (blast intro: strip_id)
  have "CHR ''_'' \<notin> set s" using assms(1) is_hex_char_plain(1) by (auto simp: list_all_iff)
  then have "hex_groups s" using ne assms(1) by (simp add: hex_groups_def split_on_single)
  moreover have "unsigned s = s" using is_hex_char_plain(2) [OF ends(1)] by (simp add: unsigned_def)
  ultimately show "is_hex_digest s" using assms(2) st by (simp add: is_hex_digest_def int16_ok_def)
qed

lemma digest_accepted:
  assumes "lower s = hmac_sha256_hex k bs"
  shows "is_hex_digest s" "strip s = s"
proof -
  have "list_all is_hex_char s"
    using assms hexdigest_lower_hex
    by (auto simp: list_all_iff is_hex_char_def hmac_sha256_hex_def lower_def) (metis image_eqI list.set_map)
  moreover have "length s = 64" using assms by (metis length_case(1) length_hmac_sha256_hex)
  ultimately show "is_hex_digest s" "strip s = s" by (rule hex_text_digest)+
qed

end
