(* ===== verification/Partner_Hmac.thy ===== *)
theory Partner_Hmac
  imports Security_Hmac
begin

text \<open>
  Partner authentication with rotating secrets (\<open>backend/app/security/partner_hmac.py\<close>). A partner has
  several keys, each \<open>next\<close>, \<open>current\<close>, \<open>previous\<close> (valid until a given time), \<open>revoked\<close> or \<open>disabled\<close>. The
  verifier is a function of the request and of the current time.
\<close>

datatype secret_status = NEXT | CURRENT | PREVIOUS | REVOKED | DISABLED

fun secret_status_value :: "secret_status \<Rightarrow> string" where
  "secret_status_value NEXT = ''next''"
| "secret_status_value CURRENT = ''current''"
| "secret_status_value PREVIOUS = ''previous''"
| "secret_status_value REVOKED = ''revoked''"
| "secret_status_value DISABLED = ''disabled''"

definition secret_status_of :: "string \<Rightarrow> exn + secret_status" where
  "secret_status_of s = (case find (\<lambda>st. secret_status_value st = s) [NEXT, CURRENT, PREVIOUS, REVOKED, DISABLED] of
       Some st \<Rightarrow> Inr st | None \<Rightarrow> Inl (ValueError (repr_str s @ '' is not a valid SecretStatus'')))"

datatype hmac_decision = ACCEPT | REJECT

fun hmac_decision_value :: "hmac_decision \<Rightarrow> string" where
  "hmac_decision_value ACCEPT = ''ACCEPT''"
| "hmac_decision_value REJECT = ''REJECT''"

record partner_secret =
  ps_client_id :: string
  ps_key_id :: string
  ps_secret :: string
  ps_status :: secret_status
  ps_previous_valid_until :: "py_datetime option"
  ps_client_enabled :: bool

record partner_hmac_result =
  pr_accepted :: bool
  pr_decision :: hmac_decision
  pr_decision_reason :: string
  pr_client_token :: string
  pr_client_status :: string
  pr_key_id :: string
  pr_key_version :: string
  pr_secret_status :: string
  pr_request_case :: string
  pr_expected_result :: string
  pr_actual_result :: string
  pr_timestamp_skew_seconds :: "int option"
  pr_nonce_present :: bool
  pr_canonical_request_hash :: string
  pr_body_hash :: string
  pr_signature_present :: bool
  pr_signature_algorithm :: string
  pr_rotation_window_status :: string
  pr_raw_secret_included :: bool
  pr_raw_signature_included :: bool
  pr_raw_body_included :: bool

definition to_report_dict :: "partner_hmac_result \<Rightarrow> (string \<times> json) list" where
  "to_report_dict r =
     [(''client_token'', JStr (pr_client_token r)), (''client_status'', JStr (pr_client_status r)),
      (''key_id'', JStr (pr_key_id r)), (''key_version'', JStr (pr_key_version r)),
      (''secret_status'', JStr (pr_secret_status r)), (''request_case'', JStr (pr_request_case r)),
      (''expected_result'', JStr (pr_expected_result r)), (''actual_result'', JStr (pr_actual_result r)),
      (''decision'', JStr (hmac_decision_value (pr_decision r))),
      (''decision_reason'', JStr (pr_decision_reason r)),
      (''timestamp_skew_seconds'', (case pr_timestamp_skew_seconds r of None \<Rightarrow> JNull | Some n \<Rightarrow> JInt n)),
      (''nonce_present'', JBool (pr_nonce_present r)),
      (''canonical_request_hash'', JStr (pr_canonical_request_hash r)),
      (''body_hash'', JStr (pr_body_hash r)), (''signature_present'', JBool (pr_signature_present r)),
      (''signature_algorithm'', JStr (pr_signature_algorithm r)),
      (''rotation_window_status'', JStr (pr_rotation_window_status r)),
      (''raw_secret_included'', JBool (pr_raw_secret_included r)),
      (''raw_signature_included'', JBool (pr_raw_signature_included r)),
      (''raw_body_included'', JBool (pr_raw_body_included r))]"

subsection \<open>The registry\<close>

text \<open>A dictionary filled in order: the last entry of a key is the one that counts.\<close>

type_synonym registry = "((string \<times> string) \<times> partner_secret) list"

definition partner_secret_registry :: "partner_secret list \<Rightarrow> registry" where
  "partner_secret_registry secrets = rev (map (\<lambda>s. ((ps_client_id s, ps_key_id s), s)) secrets)"

definition get_partner_secret :: "registry \<Rightarrow> string \<Rightarrow> string \<Rightarrow> partner_secret option" where
  "get_partner_secret reg client_id key_id = map_of reg (client_id, key_id)"

text \<open>\<open>has_client\<close> looks at the values of the dictionary; every key has one, of the same client.\<close>

definition has_client :: "registry \<Rightarrow> string \<Rightarrow> bool" where
  "has_client reg client_id \<longleftrightarrow> list_ex (\<lambda>(k, s). map_of reg k = Some s \<and> ps_client_id s = client_id) reg"

definition is_empty :: "registry \<Rightarrow> bool" where
  "is_empty reg \<longleftrightarrow> reg = []"

text \<open>\<open>_parse_timestamp\<close>\<close>

definition partner_parse_timestamp :: "env \<Rightarrow> string \<Rightarrow> py_datetime option" where
  "partner_parse_timestamp E s = (case fromisoformat E (with_offset s) of
       None \<Rightarrow> None
     | Some d \<Rightarrow> if dt_offset d = None then None else Some d)"

definition split_config :: "string \<Rightarrow> string list" where
  "split_config raw = filter (\<lambda>i. i \<noteq> []) (map strip (split_on (CHR '','')
     (replace_char (CHR '';'') '','' (replace_char (CHR 0x0A) '','' raw))))"

definition split_config_item :: "string \<Rightarrow> string list" where
  "split_config_item item = (if CHR ''|'' \<in> set item then map strip (split_on (CHR ''|'') item)
     else map strip (split_max (CHR '':'') 3 item))"

text \<open>One entry of the configuration: skipped (\<open>None\<close>), a secret, or a status that is none.\<close>

definition config_entry :: "env \<Rightarrow> string \<Rightarrow> exn + partner_secret option" where
  "config_entry E item = (let parts = split_config_item item in
     if length parts < 4 then Inr None
     else let client_id = parts ! 0; key_id = parts ! 1; status_value = parts ! 2; secret_value = parts ! 3 in
     if client_id = [] \<or> key_id = [] \<or> secret_value = [] then Inr None
     else let has_window = (5 \<le> length parts \<and> parts ! 4 \<noteq> []);
       previous_valid_until = (if has_window then partner_parse_timestamp E (parts ! 4) else None) in
     if has_window \<and> previous_valid_until = None then Inr None
     else (case secret_status_of (lower status_value) of
         Inl e \<Rightarrow> Inl e
       | Inr st \<Rightarrow> Inr (Some
           \<lparr>ps_client_id = client_id, ps_key_id = key_id, ps_secret = secret_value, ps_status = st,
            ps_previous_valid_until = previous_valid_until,
            ps_client_enabled = (6 \<le> length parts \<longrightarrow>
               lower (parts ! 5) \<notin> {''0'', ''false'', ''disabled''})\<rparr>)))"

fun config_secrets :: "env \<Rightarrow> string list \<Rightarrow> exn + partner_secret list" where
  "config_secrets E [] = Inr []"
| "config_secrets E (item # items) = (case config_entry E item of
       Inl e \<Rightarrow> Inl e
     | Inr entry \<Rightarrow> (case config_secrets E items of
         Inl e \<Rightarrow> Inl e
       | Inr rest \<Rightarrow> Inr ((case entry of None \<Rightarrow> [] | Some s \<Rightarrow> [s]) @ rest)))"

definition from_config :: "env \<Rightarrow> string \<Rightarrow> exn + registry" where
  "from_config E raw = map_sum id partner_secret_registry (config_secrets E (split_config raw))"

subsection \<open>Verification\<close>

definition build_partner_canonical_request :: "string \<Rightarrow> string \<Rightarrow> string \<Rightarrow> string \<Rightarrow> bytes \<Rightarrow> string" where
  "build_partner_canonical_request meth path timestamp nonce raw_body =
     join newline [upper meth, path, timestamp, nonce, generate_body_hash raw_body]"

definition generate_partner_hmac_signature :: "string \<Rightarrow> string \<Rightarrow> string" where
  "generate_partner_hmac_signature secret canonical_request =
     hmac_sha256_hex (utf8 secret) (utf8 canonical_request)"

record common_result =
  cr_client_id :: string
  cr_key_id :: string
  cr_request_case :: string
  cr_expected_result :: string
  cr_body_hash :: string
  cr_canonical_request_hash :: string
  cr_signature_present :: bool
  cr_nonce_present :: bool

definition client_token :: "string \<Rightarrow> string" where
  "client_token client_id = ''client_'' @ take 12 (sha256_hex (utf8 client_id))"

definition client_status :: "partner_secret option \<Rightarrow> string" where
  "client_status secret = (case secret of None \<Rightarrow> ''unknown''
     | Some s \<Rightarrow> if \<not> ps_client_enabled s \<or> ps_status s = DISABLED then ''disabled'' else ''enabled'')"

definition partner_result :: "common_result \<Rightarrow> bool \<Rightarrow> string \<Rightarrow> int option \<Rightarrow> partner_secret option \<Rightarrow> string \<Rightarrow>
    partner_hmac_result" where
  "partner_result common accepted decision_reason skew secret rotation_window_status =
     \<lparr>pr_accepted = accepted, pr_decision = (if accepted then ACCEPT else REJECT),
      pr_decision_reason = decision_reason, pr_client_token = client_token (cr_client_id common),
      pr_client_status = client_status secret, pr_key_id = cr_key_id common, pr_key_version = cr_key_id common,
      pr_secret_status = (case secret of None \<Rightarrow> ''unknown'' | Some s \<Rightarrow> secret_status_value (ps_status s)),
      pr_request_case = cr_request_case common, pr_expected_result = cr_expected_result common,
      pr_actual_result = (if accepted then ''ACCEPT'' else ''REJECT''), pr_timestamp_skew_seconds = skew,
      pr_nonce_present = cr_nonce_present common,
      pr_canonical_request_hash = cr_canonical_request_hash common, pr_body_hash = cr_body_hash common,
      pr_signature_present = cr_signature_present common, pr_signature_algorithm = ''HMAC-SHA256'',
      pr_rotation_window_status = rotation_window_status, pr_raw_secret_included = False,
      pr_raw_signature_included = False, pr_raw_body_included = False\<rparr>"

definition previous_window_is_active :: "partner_secret \<Rightarrow> instant \<Rightarrow> bool" where
  "previous_window_is_active secret cur = (case ps_previous_valid_until secret of
       None \<Rightarrow> False | Some d \<Rightarrow> cur \<le> timestamp_of d)"

definition rotation_window_status :: "partner_secret option \<Rightarrow> instant \<Rightarrow> string" where
  "rotation_window_status secret cur = (case secret of
       None \<Rightarrow> ''not_applicable''
     | Some s \<Rightarrow> if ps_status s = PREVIOUS
         then (if previous_window_is_active s cur then ''active'' else ''expired'')
         else if ps_status s = NEXT then ''dry_run_only'' else ''not_applicable'')"

definition reject_request :: "common_result \<Rightarrow> string \<Rightarrow> int option \<Rightarrow> partner_hmac_result" where
  "reject_request common reason skew = partner_result common False reason skew None ''not_applicable''"

definition reject_with_secret :: "common_result \<Rightarrow> partner_secret \<Rightarrow> string \<Rightarrow> int option \<Rightarrow> string option \<Rightarrow> instant \<Rightarrow>
    partner_hmac_result" where
  "reject_with_secret common secret reason skew status cur =
     partner_result common False reason skew (Some secret)
       (case status of Some s \<Rightarrow> if s = [] then rotation_window_status (Some secret) cur else s
        | None \<Rightarrow> rotation_window_status (Some secret) cur)"

definition accept_reason :: "secret_status \<Rightarrow> string" where
  "accept_reason st = (case st of CURRENT \<Rightarrow> ''current_secret'' | PREVIOUS \<Rightarrow> ''previous_grace_window''
     | NEXT \<Rightarrow> ''next_dry_run'' | _ \<Rightarrow> ''accepted'')"

text \<open>
  The whole seconds between two instants, as \<open>abs(int(delta.total_seconds()))\<close> truncates them. The division is
  exact here; the float of the source has the same whole part for skews below 136 years.
\<close>

definition skew_seconds :: "instant \<Rightarrow> instant \<Rightarrow> int" where
  "skew_seconds t cur = \<bar>t - cur\<bar> div 1000000"

record partner_request =
  px_method :: string
  px_path :: string
  px_timestamp :: string
  px_nonce :: string
  px_raw_body :: bytes
  px_client_id :: string
  px_key_id :: string
  px_signature :: string

definition canonical_of :: "partner_request \<Rightarrow> string" where
  "canonical_of p = build_partner_canonical_request (px_method p) (px_path p) (px_timestamp p) (px_nonce p)
     (px_raw_body p)"

definition common_of :: "partner_request \<Rightarrow> string \<Rightarrow> string \<Rightarrow> common_result" where
  "common_of p request_case expected_result =
     \<lparr>cr_client_id = px_client_id p, cr_key_id = px_key_id p, cr_request_case = request_case,
      cr_expected_result = expected_result, cr_body_hash = generate_body_hash (px_raw_body p),
      cr_canonical_request_hash = sha256_hex (utf8 (canonical_of p)),
      cr_signature_present = (strip (px_signature p) \<noteq> []), cr_nonce_present = (strip (px_nonce p) \<noteq> [])\<rparr>"

definition verify_secret :: "partner_request \<Rightarrow> common_result \<Rightarrow> partner_secret \<Rightarrow> int \<Rightarrow> instant \<Rightarrow> bool \<Rightarrow>
    exn + partner_hmac_result" where
  "verify_secret p common secret skew cur allow_next_for_dry_run =
    (if \<not> ps_client_enabled secret \<or> ps_status secret = DISABLED
     then Inr (reject_with_secret common secret ''disabled_client'' (Some skew) None cur)
     else if ps_status secret = REVOKED
     then Inr (reject_with_secret common secret ''revoked_key'' (Some skew) None cur)
     else if ps_status secret = NEXT \<and> \<not> allow_next_for_dry_run
     then Inr (reject_with_secret common secret ''next_not_allowed'' (Some skew) None cur)
     else if ps_status secret = PREVIOUS \<and> \<not> previous_window_is_active secret cur
     then Inr (reject_with_secret common secret ''previous_expired'' (Some skew) (Some ''expired'') cur)
     else (case compare_digest (generate_partner_hmac_signature (ps_secret secret) (canonical_of p))
           (lower (strip (px_signature p))) of
         Inl e \<Rightarrow> Inl e
       | Inr False \<Rightarrow> Inr (reject_with_secret common secret ''invalid_signature'' (Some skew) None cur)
       | Inr True \<Rightarrow> Inr (partner_result common True (accept_reason (ps_status secret)) (Some skew) (Some secret)
           (rotation_window_status (Some secret) cur))))"

definition verify_partner_hmac_request :: "env \<Rightarrow> registry \<Rightarrow> partner_request \<Rightarrow> instant \<Rightarrow> int \<Rightarrow> bool \<Rightarrow>
    string \<Rightarrow> string \<Rightarrow> exn + partner_hmac_result" where
  "verify_partner_hmac_request E reg p cur allowed_skew_seconds allow_next_for_dry_run request_case expected_result =
    (let common = common_of p request_case expected_result in
     if \<not> cr_nonce_present common then Inr (reject_request common ''missing_nonce'' None)
     else if \<not> cr_signature_present common then Inr (reject_request common ''missing_signature'' None)
     else if \<not> is_hex_digest (strip (px_signature p))
     then Inr (reject_request common ''invalid_signature_format'' None)
     else (case partner_parse_timestamp E (px_timestamp p) of
         None \<Rightarrow> Inr (reject_request common ''invalid_timestamp'' None)
       | Some t \<Rightarrow> let skew = skew_seconds (timestamp_of t) cur in
           if skew > allowed_skew_seconds
           then Inr (reject_request common ''timestamp_skew_exceeded'' (Some skew))
           else (case get_partner_secret reg (px_client_id p) (px_key_id p) of
               None \<Rightarrow> Inr (reject_request common
                 (if has_client reg (px_client_id p) then ''unknown_key'' else ''unknown_client'') (Some skew))
             | Some secret \<Rightarrow> verify_secret p common secret skew cur allow_next_for_dry_run)))"

text \<open>\<open>_timestamp_skew_seconds\<close>\<close>

definition timestamp_skew_seconds :: "env \<Rightarrow> string \<Rightarrow> instant \<Rightarrow> int option" where
  "timestamp_skew_seconds E timestamp cur =
     map_option (\<lambda>t. skew_seconds (timestamp_of t) cur) (partner_parse_timestamp E timestamp)"

subsection \<open>What is accepted\<close>

text \<open>A secret that may authenticate a request at a given time.\<close>

definition usable_secret :: "partner_secret \<Rightarrow> instant \<Rightarrow> bool \<Rightarrow> bool" where
  "usable_secret s cur dry_run \<longleftrightarrow> ps_client_enabled s \<and> (case ps_status s of
       CURRENT \<Rightarrow> True
     | PREVIOUS \<Rightarrow> (case ps_previous_valid_until s of None \<Rightarrow> False | Some d \<Rightarrow> cur \<le> timestamp_of d)
     | NEXT \<Rightarrow> dry_run
     | _ \<Rightarrow> False)"

lemma partner_result_accepted [simp]:
  "pr_accepted (partner_result c a r k s st) = a"
  "pr_accepted (reject_request c r k) = False"
  "pr_accepted (reject_with_secret c sec r k ss cur) = False"
  by (simp_all add: partner_result_def reject_request_def reject_with_secret_def)

lemma compare_signature:
  assumes "is_hex_digest (strip s)"
  shows "compare_digest (generate_partner_hmac_signature k c) (lower (strip s)) =
     Inr (lower (strip s) = generate_partner_hmac_signature k c)"
  using is_hex_digest_ascii [OF assms]
  by (auto simp: compare_digest_def generate_partner_hmac_signature_def)

lemma verify_secret_outcome:
  assumes "is_hex_digest (strip (px_signature p))"
  shows "\<exists>r. verify_secret p common s skew cur dry = Inr r \<and>
     (pr_accepted r \<longleftrightarrow> usable_secret s cur dry \<and>
        lower (strip (px_signature p)) = generate_partner_hmac_signature (ps_secret s) (canonical_of p))"
  by (cases "ps_status s")
    (auto simp: verify_secret_def usable_secret_def previous_window_is_active_def compare_signature [OF assms]
      split: bool.split option.split)

lemma partner_signature_form:
  "lower (strip s) = generate_partner_hmac_signature k c \<Longrightarrow> is_hex_digest (strip s)"
  by (rule digest_accepted(1)) (simp add: generate_partner_hmac_signature_def)

end
