(* ===== verification/Write_Suspension.thy ===== *)
theory Write_Suspension
  imports World
begin

text \<open>
  \<open>WriteSuspensionService\<close> (\<open>backend/app/services/write_suspension_service.py\<close>) and its guard
  (\<open>backend/app/api/dependencies/write_suspension.py\<close>): a switch, kept in a file next to the process and in
  memory, that stops financial writes. The file is replaced as a whole; a file that cannot be read or parsed
  counts as an active suspension.
\<close>

record suspension_config =
  sc_retry_after_seconds :: int

definition inactive_state :: "suspension_config \<Rightarrow> write_suspend_state" where
  "inactive_state C = \<lparr>ws_active = False, ws_reason = ''none'', ws_activated_at = JNull,
     ws_activated_by = JNull, ws_retry_after_seconds = sc_retry_after_seconds C, ws_source = ''runtime'',
     ws_run_id = ''none'', ws_resumed_at = JNull, ws_resumed_by = JNull, ws_resume_reason = JNull\<rparr>"

text \<open>\<open>_utc_now()\<close>: the ISO text with \<open>Z\<close> for the offset.\<close>

definition replace_offset :: "string \<Rightarrow> string" where
  "replace_offset s = (let n = length s - 6 in
     if 6 \<le> length s \<and> drop n s = ''+00:00'' then take n s @ ''Z'' else s)"

definition utc_now_text :: "env \<Rightarrow> string app" where
  "utc_now_text E = bindM (utc_now E) (\<lambda>t. returnM (replace_offset (isoformat E t)))"

text \<open>\<open>asdict\<close> and its inverse, with the defaults the reader fills in.\<close>

definition state_document :: "write_suspend_state \<Rightarrow> json" where
  "state_document s = JObj
     [(''active'', JBool (ws_active s)), (''reason'', JStr (ws_reason s)),
      (''activated_at'', ws_activated_at s), (''activated_by'', ws_activated_by s),
      (''retry_after_seconds'', JInt (ws_retry_after_seconds s)), (''source'', JStr (ws_source s)),
      (''run_id'', JStr (ws_run_id s)), (''resumed_at'', ws_resumed_at s), (''resumed_by'', ws_resumed_by s),
      (''resume_reason'', ws_resume_reason s)]"

definition get_or_null :: "string \<Rightarrow> (string \<times> json) list \<Rightarrow> json" where
  "get_or_null k pay = (case json_get k pay of None \<Rightarrow> JNull | Some j \<Rightarrow> j)"

definition state_of_document :: "suspension_config \<Rightarrow> json \<Rightarrow> exn + write_suspend_state" where
  "state_of_document C j = (case j of
       JObj pay \<Rightarrow>
         (case (case json_get ''retry_after_seconds'' pay of
              None \<Rightarrow> Some (sc_retry_after_seconds C) | Some v \<Rightarrow> int_of_json v) of
            None \<Rightarrow> Inl (ValueError ''invalid literal for int()'')
          | Some n \<Rightarrow> Inr
              \<lparr>ws_active = (case json_get ''active'' pay of None \<Rightarrow> False | Some v \<Rightarrow> json_truthy v),
               ws_reason = str_or (json_get ''reason'' pay) ''unknown'',
               ws_activated_at = get_or_null ''activated_at'' pay,
               ws_activated_by = get_or_null ''activated_by'' pay, ws_retry_after_seconds = n,
               ws_source = str_or (json_get ''source'' pay) ''artifact'',
               ws_run_id = str_or (json_get ''run_id'' pay) ''unknown'',
               ws_resumed_at = get_or_null ''resumed_at'' pay,
               ws_resumed_by = get_or_null ''resumed_by'' pay,
               ws_resume_reason = get_or_null ''resume_reason'' pay\<rparr>)
     | _ \<Rightarrow> Inl (AttributeError ''get''))"

definition corrupt_state :: "suspension_config \<Rightarrow> string \<Rightarrow> write_suspend_state" where
  "corrupt_state C t = \<lparr>ws_active = True, ws_reason = ''unknown'', ws_activated_at = JStr t,
     ws_activated_by = JStr ''system'', ws_retry_after_seconds = sc_retry_after_seconds C,
     ws_source = ''artifact_corrupt'', ws_run_id = ''artifact-corrupt'', ws_resumed_at = JNull,
     ws_resumed_by = JNull, ws_resume_reason = JNull\<rparr>"

subsection \<open>The service\<close>

text \<open>
  \<open>get_write_suspension_service\<close> keeps one service per process; its memory is \<open>w_suspend_state\<close>, created
  inactive on first use.
\<close>

definition runtime_state :: "suspension_config \<Rightarrow> world \<Rightarrow> write_suspend_state" where
  "runtime_state C w = (case w_suspend_state w of None \<Rightarrow> inactive_state C | Some s \<Rightarrow> s)"

definition set_runtime :: "write_suspend_state \<Rightarrow> unit app" where
  "set_runtime s = modifyM (\<lambda>w. w\<lparr>w_suspend_state := Some s\<rparr>)"

definition read_artifact_state :: "env \<Rightarrow> suspension_config \<Rightarrow> write_suspend_state option app" where
  "read_artifact_state E C = bindM (getM w_suspend_file) (\<lambda>file. case file of
       None \<Rightarrow> returnM None
     | Some content \<Rightarrow> bindM (getM (\<lambda>w. file_fault E (w_tick w))) (\<lambda>os_error.
         thenM (modifyM tick)
         (if os_error \<or> content = Corrupt
          then bindM (utc_now_text E) (\<lambda>t. returnM (Some (corrupt_state C t)))
          else (case content of
              Document j \<Rightarrow> bindM (liftM (state_of_document C j)) (\<lambda>s. returnM (Some s))
            | Corrupt \<Rightarrow> returnM None))))"

definition ACTIVE_REASON_LABELS :: "string list" where
  "ACTIVE_REASON_LABELS = [''postgres_unavailable'', ''manual'', ''unknown'']"

definition record_state_metric :: "write_suspend_state \<Rightarrow> unit app" where
  "record_state_metric s = (let
     reason = (if ws_reason s \<in> set ACTIVE_REASON_LABELS then ws_reason s
       else if ws_active s then ''unknown'' else ''none'')
   in metric (record_write_suspend_state reason (ws_active s)))"

definition suspension_status :: "env \<Rightarrow> suspension_config \<Rightarrow> write_suspend_state app" where
  "suspension_status E C = bindM (read_artifact_state E C) (\<lambda>artifact_state.
     thenM (case artifact_state of None \<Rightarrow> returnM () | Some s \<Rightarrow> set_runtime s)
     (bindM (getM (runtime_state C)) (\<lambda>s. thenM (record_state_metric s) (returnM s))))"

text \<open>Writing replaces the file in one step, or fails before it did (\<open>OSError\<close>).\<close>

definition write_artifact :: "env \<Rightarrow> write_suspend_state \<Rightarrow> unit app" where
  "write_artifact E s = bindM (getM (\<lambda>w. file_fault E (w_tick w))) (\<lambda>os_error.
     thenM (modifyM tick)
     (if os_error then raiseM OSError
      else modifyM (\<lambda>w. w\<lparr>w_suspend_file := Some (Document (state_document s))\<rparr>)))"

definition enable :: "env \<Rightarrow> suspension_config \<Rightarrow> string \<Rightarrow> string \<Rightarrow> string \<Rightarrow> int option \<Rightarrow> string option \<Rightarrow>
    write_suspend_state app" where
  "enable E C reason activated_by source retry_after_seconds run_id =
     bindM (utc_now_text E) (\<lambda>t. bindM (getM (\<lambda>w. ''write-suspend-'' @ take 12 (uuid_hex E (w_tick w)))) (\<lambda>fresh.
     let state = \<lparr>ws_active = True, ws_reason = (if reason = [] then ''unknown'' else reason),
        ws_activated_at = JStr t, ws_activated_by = JStr activated_by,
        ws_retry_after_seconds = (case retry_after_seconds of
           None \<Rightarrow> sc_retry_after_seconds C | Some n \<Rightarrow> if n = 0 then sc_retry_after_seconds C else n),
        ws_source = source,
        ws_run_id = (case run_id of None \<Rightarrow> fresh | Some s \<Rightarrow> if s = [] then fresh else s),
        ws_resumed_at = JNull, ws_resumed_by = JNull, ws_resume_reason = JNull\<rparr> in
     thenM (set_runtime state)
     (thenM (write_artifact E state)
     (thenM (record_state_metric state) (returnM state)))))"

definition disable :: "env \<Rightarrow> suspension_config \<Rightarrow> string \<Rightarrow> string \<Rightarrow> write_suspend_state app" where
  "disable E C reason resumed_by =
     bindM (suspension_status E C) (\<lambda>previous. bindM (utc_now_text E) (\<lambda>t.
     let state = previous\<lparr>ws_active := False, ws_resumed_at := JStr t, ws_resumed_by := JStr resumed_by,
        ws_resume_reason := JStr (if reason = [] then ''operator_resume'' else reason)\<rparr> in
     thenM (set_runtime state)
     (thenM (write_artifact E state)
     (thenM (record_state_metric state) (returnM state)))))"

subsection \<open>The guard\<close>

definition is_sa_error :: "exn \<Rightarrow> bool" where
  "is_sa_error x = (case x of SAError _ \<Rightarrow> True | _ \<Rightarrow> False)"

definition record_suspended_write :: "write_suspend_state \<Rightarrow> unit app" where
  "record_suspended_write s = metric (record_write_suspended (ws_reason s) ''transaction_events'')"

definition rollback_probe_transaction :: "unit app" where
  "rollback_probe_transaction = catchM db_rollback (\<lambda>_. returnM ())"

definition guard_financial_write :: "env \<Rightarrow> suspension_config \<Rightarrow> unit app" where
  "guard_financial_write E C =
     bindM (suspension_status E C) (\<lambda>state.
       if ws_active state
       then thenM (record_suspended_write state) (raiseM (WriteSuspended state))
       else catchM (thenM (db_query E (\<lambda>_. ())) rollback_probe_transaction) (\<lambda>exc.
         if is_sa_error exc then
           thenM rollback_probe_transaction
           (bindM (enable E C ''postgres_unavailable'' ''api'' ''postgres_probe'' None None) (\<lambda>s.
           thenM (record_suspended_write s) (raiseM (WriteSuspended s))))
         else raiseM exc))"

subsection \<open>Properties of the parts\<close>

lemma state_document_roundtrip:
  assumes "ws_reason s \<noteq> []" "ws_source s \<noteq> []" "ws_run_id s \<noteq> []"
  shows "state_of_document C (state_document s) = Inr s"
  using assms by (cases s) (simp add: state_of_document_def state_document_def json_get_def str_or_def
      py_str_def get_or_null_def)

end
