(* ===== verification/Api_Dependencies.thy ===== *)
theory Api_Dependencies
  imports Partner_Hmac Write_Suspension Redis
begin

text \<open>
  The settings (\<open>backend/app/core/config.py\<close>), the parts of an HTTP request the code reads, and the checks
  that run before an endpoint (\<open>backend/app/api/dependencies\<close>): the idempotency key and the signature. The
  write guard is in \<open>Write_Suspension\<close>.
\<close>

subsection \<open>Settings\<close>

record settings =
  app_name :: string
  app_env :: string
  deployment_color :: string
  instance_id :: string
  redis_enabled :: bool
  redis_lock_enabled :: bool
  idempotency_cache_enabled :: bool
  redis_lock_ttl_ms :: int
  redis_idempotency_cache_ttl_seconds :: int
  hmac_enabled :: bool
  hmac_allowed_skew_seconds :: int
  external_client_secrets :: string
  enable_partner_hmac_auth :: bool
  partner_hmac_timestamp_skew_seconds :: int
  partner_hmac_secrets :: string
  write_suspend_retry_after_seconds :: int
  recovery_admin_api_enabled :: bool

text \<open>\<open>Settings.parse_boolish\<close>: the texts read as a boolean; any other value is left for Pydantic.\<close>

definition parse_boolish :: "json \<Rightarrow> json" where
  "parse_boolish v = (case v of
       JStr s \<Rightarrow> let n = lower (strip s) in
         if n \<in> {''1'', ''true'', ''yes'', ''on'', ''local'', ''development'', ''debug''} then JBool True
         else if n \<in> {''0'', ''false'', ''no'', ''off'', ''release'', ''production'', ''prod''} then JBool False
         else v
     | _ \<Rightarrow> v)"

definition suspension_config_of :: "settings \<Rightarrow> suspension_config" where
  "suspension_config_of S = \<lparr>sc_retry_after_seconds = write_suspend_retry_after_seconds S\<rparr>"

subsection \<open>Requests\<close>

record http_request =
  hq_method :: string
  hq_path :: string
  hq_query :: string
  hq_headers :: "(string \<times> string) list"
  hq_body :: bytes

text \<open>\<open>request.headers.get(name)\<close>: names are compared without case, the first match counts.\<close>

definition header :: "http_request \<Rightarrow> string \<Rightarrow> string option" where
  "header rq name = map_option snd (find (\<lambda>(k, _). lower k = lower name) (hq_headers rq))"

subsection \<open>The idempotency key\<close>

definition MAX_IDEMPOTENCY_KEY_LENGTH :: nat where
  "MAX_IDEMPOTENCY_KEY_LENGTH = 128"

definition key_mask :: "string \<Rightarrow> string" where
  "key_mask k = (let stripped = strip k in
     if length stripped \<le> 8 then ''***''
     else take 4 stripped @ ''...'' @ drop (length stripped - 4) stripped)"

definition get_idempotency_key :: "string option \<Rightarrow> exn + string" where
  "get_idempotency_key k = (case k of
       None \<Rightarrow> Inl MissingIdempotencyKey
     | Some s \<Rightarrow> let stripped = strip s in
         if stripped = [] then Inl MissingIdempotencyKey
         else if length stripped > MAX_IDEMPOTENCY_KEY_LENGTH
         then Inl (InvalidIdempotencyKey ''Idempotency-Key must be 128 characters or fewer'')
         else Inr stripped)"

subsection \<open>The signature\<close>

definition required_header :: "http_request \<Rightarrow> string \<Rightarrow> string app" where
  "required_header rq name = (case header rq name of
       None \<Rightarrow> thenM (metric (record_hmac_auth_failure ''missing_header'')) (raiseM (MissingSecurityHeader name))
     | Some v \<Rightarrow> if strip v = []
         then thenM (metric (record_hmac_auth_failure ''missing_header'')) (raiseM (MissingSecurityHeader name))
         else returnM (strip v))"

definition metric_reason :: "string \<Rightarrow> string" where
  "metric_reason r =
    (if r = ''unknown_client'' then ''unknown_client''
     else if r = ''disabled_client'' then ''disabled_client''
     else if r = ''invalid_timestamp'' then ''invalid_timestamp''
     else if r = ''timestamp_skew_exceeded'' then ''expired_timestamp''
     else if r \<in> {''invalid_signature'', ''invalid_signature_format'', ''missing_signature'', ''missing_nonce'',
       ''unknown_key'', ''revoked_key'', ''previous_expired'', ''next_not_allowed''}
     then ''invalid_signature'' else ''unknown'')"

definition get_partner_secret_registry :: "env \<Rightarrow> string \<Rightarrow> exn + registry" where
  "get_partner_secret_registry E raw = (case from_config E raw of
       Inl e \<Rightarrow> Inl e
     | Inr reg \<Rightarrow> if is_empty reg
         then Inl (RuntimeError (''PARTNER_HMAC_SECRETS must include at least one valid secret when '' @
           ''partner HMAC auth is enabled''))
         else Inr reg)"

definition exception_for_reason :: "string \<Rightarrow> exn" where
  "exception_for_reason r =
    (if r = ''unknown_client'' then UnknownClient
     else if r = ''disabled_client'' then DisabledClient
     else if r = ''invalid_timestamp'' then InvalidTimestamp
     else if r = ''timestamp_skew_exceeded'' then ExpiredTimestamp
     else InvalidSignature)"

definition verify_partner_request_signature :: "env \<Rightarrow> settings \<Rightarrow> http_request \<Rightarrow> unit app" where
  "verify_partner_request_signature E S rq =
    (if hq_query rq \<noteq> []
     then thenM (metric (record_hmac_auth_failure ''invalid_signature'')) (raiseM InvalidSignature)
     else
     bindM (required_header rq ''X-Client-Id'') (\<lambda>client_id.
     bindM (required_header rq ''X-Key-Id'') (\<lambda>key_id.
     bindM (required_header rq ''X-Timestamp'') (\<lambda>timestamp.
     bindM (required_header rq ''X-Nonce'') (\<lambda>nonce.
     bindM (required_header rq ''X-Signature'') (\<lambda>signature.
     bindM (liftM (get_partner_secret_registry E (partner_hmac_secrets S))) (\<lambda>reg.
     bindM (utc_now E) (\<lambda>cur.
     bindM (liftM (verify_partner_hmac_request E reg
       \<lparr>px_method = hq_method rq, px_path = hq_path rq, px_timestamp = timestamp, px_nonce = nonce,
        px_raw_body = hq_body rq, px_client_id = client_id, px_key_id = key_id, px_signature = signature\<rparr>
       cur (partner_hmac_timestamp_skew_seconds S) False ''partner_hmac_request'' ''ACCEPT'')) (\<lambda>result.
     if pr_accepted result then metric record_hmac_auth_success
     else thenM (metric (record_hmac_auth_failure (metric_reason (pr_decision_reason result))))
       (raiseM (exception_for_reason (pr_decision_reason result))))))))))))"

text \<open>The timestamp of a signed request: each failure is counted and raised again.\<close>

definition checked_timestamp :: "env \<Rightarrow> settings \<Rightarrow> string \<Rightarrow> unit app" where
  "checked_timestamp E S timestamp =
     catchM (bindM (liftM (parse_timestamp E timestamp)) (\<lambda>parsed. bindM (utc_now E) (\<lambda>cur.
       liftM (validate_timestamp_window parsed (utc cur) (hmac_allowed_skew_seconds S)))))
     (\<lambda>exc. case exc of
        InvalidTimestamp \<Rightarrow> thenM (metric (record_hmac_auth_failure ''invalid_timestamp'')) (raiseM exc)
      | ExpiredTimestamp \<Rightarrow> thenM (metric (record_hmac_auth_failure ''expired_timestamp'')) (raiseM exc)
      | _ \<Rightarrow> raiseM exc)"

definition verify_external_request_signature :: "env \<Rightarrow> settings \<Rightarrow> http_request \<Rightarrow> unit app" where
  "verify_external_request_signature E S rq =
    (if enable_partner_hmac_auth S then verify_partner_request_signature E S rq
     else if \<not> hmac_enabled S then
       (if lower (app_env S) \<in> {''prod'', ''production''}
        then raiseM (RuntimeError ''HMAC must be enabled in production'') else returnM ())
     else
     bindM (required_header rq ''X-Client-Id'') (\<lambda>client_id.
     bindM (required_header rq ''X-Timestamp'') (\<lambda>timestamp.
     bindM (required_header rq ''X-Signature'') (\<lambda>signature.
     case get_secret (parse_secrets (external_client_secrets S)) client_id of
       None \<Rightarrow> thenM (metric (record_hmac_auth_failure ''unknown_client'')) (raiseM UnknownClient)
     | Some secret \<Rightarrow> thenM (checked_timestamp E S timestamp)
         (bindM (liftM (verify_hmac_signature secret
            (build_signature_base_string (hq_method rq) (hq_path rq) timestamp (generate_body_hash (hq_body rq)))
            signature)) (\<lambda>valid.
         if \<not> valid then thenM (metric (record_hmac_auth_failure ''invalid_signature'')) (raiseM InvalidSignature)
         else metric record_hmac_auth_success))))))"

end
