(* ===== verification/Api.thy ===== *)
theory Api
  imports Api_Dependencies Transaction_Service
begin

text \<open>
  The HTTP surface (\<open>backend/app/api/v1\<close>, \<open>backend/app/core/exceptions.py\<close>,
  \<open>backend/app/observability/middleware.py\<close>): building the services of a request, the endpoints with their
  checks, the answer each exception is turned into, and the middleware around them. FastAPI matches the route,
  validates the body into a \<open>create_request\<close> and encodes the answer; a body it refuses never gets here.
\<close>

record http_response =
  hr_status :: int
  hr_body :: json
  hr_headers :: "(string \<times> string) list"

record request_context =
  ctx_request_id :: "string option"
  ctx_trace_id :: "string option"

definition json_opt :: "string option \<Rightarrow> json" where
  "json_opt s = (case s of None \<Rightarrow> JNull | Some t \<Rightarrow> JStr t)"

subsection \<open>Exception handlers\<close>

definition given_header :: "string \<Rightarrow> string option \<Rightarrow> (string \<times> string) list" where
  "given_header name v = (case v of None \<Rightarrow> [] | Some s \<Rightarrow> if s = [] then [] else [(name, s)])"

definition observability_headers :: "request_context \<Rightarrow> (string \<times> string) list" where
  "observability_headers ctx = given_header ''X-Request-ID'' (ctx_request_id ctx) @
     given_header ''X-Trace-ID'' (ctx_trace_id ctx)"

definition error_response :: "string \<Rightarrow> string \<Rightarrow> string option \<Rightarrow> json" where
  "error_response code message request_id = JObj [(''error'', JObj
     [(''code'', JStr code), (''message'', JStr message), (''request_id'', json_opt request_id)])]"

definition error_answer :: "request_context \<Rightarrow> int \<Rightarrow> string \<Rightarrow> string \<Rightarrow> http_response" where
  "error_answer ctx status code message = \<lparr>hr_status = status,
     hr_body = error_response code message (ctx_request_id ctx), hr_headers = observability_headers ctx\<rparr>"

definition http_exception_handler :: "request_context \<Rightarrow> int \<Rightarrow> string \<Rightarrow> http_response" where
  "http_exception_handler ctx status detail = error_answer ctx status
     (if status = 404 then ''NOT_FOUND'' else if status = 503 then ''SERVICE_UNAVAILABLE'' else ''HTTP_ERROR'')
     detail"

definition unhandled_exception_handler :: "request_context \<Rightarrow> http_response" where
  "unhandled_exception_handler ctx =
     error_answer ctx 500 ''INTERNAL_SERVER_ERROR'' ''Unexpected server error''"

definition domain_status :: "exn \<Rightarrow> int" where
  "domain_status exc = (case exc of
       MissingIdempotencyKey \<Rightarrow> 400 | InvalidIdempotencyKey _ \<Rightarrow> 400
     | AccountNotFound \<Rightarrow> 404 | OriginalTransactionNotFound \<Rightarrow> 404
     | RecoveryCaseNotFound \<Rightarrow> 404 | QuarantineRecordNotFound \<Rightarrow> 404
     | IdempotencyConflict _ \<Rightarrow> 409 | TargetQuarantined _ _ \<Rightarrow> 409
     | TransactionAlreadyCancelled \<Rightarrow> 409 | TransactionAlreadySettled \<Rightarrow> 409
     | _ \<Rightarrow> 422)"

definition domain_code :: "exn \<Rightarrow> string" where
  "domain_code exc = (case exc of
       MissingIdempotencyKey \<Rightarrow> ''MISSING_IDEMPOTENCY_KEY''
     | InvalidIdempotencyKey _ \<Rightarrow> ''INVALID_IDEMPOTENCY_KEY''
     | _ \<Rightarrow> exn_name exc)"

definition domain_exception_handler :: "request_context \<Rightarrow> exn \<Rightarrow> http_response" where
  "domain_exception_handler ctx exc = error_answer ctx (domain_status exc) (domain_code exc) (exn_str exc)"

definition security_exception_handler :: "request_context \<Rightarrow> exn \<Rightarrow> http_response" where
  "security_exception_handler ctx exc = (case exc of
       MissingSecurityHeader _ \<Rightarrow> error_answer ctx 400 ''MISSING_SECURITY_HEADER'' (exn_str exc)
     | UnknownClient \<Rightarrow> error_answer ctx 403 ''UNKNOWN_CLIENT'' (exn_str exc)
     | DisabledClient \<Rightarrow> error_answer ctx 403 ''DISABLED_CLIENT'' (exn_str exc)
     | InvalidTimestamp \<Rightarrow> error_answer ctx 401 ''INVALID_TIMESTAMP'' ''The request timestamp is invalid or expired.''
     | ExpiredTimestamp \<Rightarrow> error_answer ctx 401 ''EXPIRED_TIMESTAMP'' ''The request timestamp is invalid or expired.''
     | InvalidSignature \<Rightarrow> error_answer ctx 401 ''INVALID_SIGNATURE'' (exn_str exc)
     | _ \<Rightarrow> error_answer ctx 401 (exn_name exc) (exn_str exc))"

definition write_suspended_exception_handler :: "request_context \<Rightarrow> write_suspend_state \<Rightarrow> http_response" where
  "write_suspended_exception_handler ctx state =
     \<lparr>hr_status = 503,
      hr_body = JObj [(''error_code'', JStr ''WRITE_SUSPENDED''),
        (''message'', JStr ''Financial write traffic is temporarily suspended.''), (''retryable'', JBool True),
        (''request_id'', json_opt (ctx_request_id ctx)), (''trace_id'', json_opt (ctx_trace_id ctx))],
      hr_headers = (''Retry-After'', int_str (ws_retry_after_seconds state)) # observability_headers ctx\<rparr>"

definition database_exception_handler :: "env \<Rightarrow> settings \<Rightarrow> request_context \<Rightarrow> http_response app" where
  "database_exception_handler E S ctx =
     bindM (enable E (suspension_config_of S) ''postgres_unavailable'' ''api'' ''sqlalchemy_exception'' None None)
       (\<lambda>state. thenM (metric (record_write_suspended ''postgres_unavailable'' ''unknown''))
         (returnM (write_suspended_exception_handler ctx state)))"

text \<open>\<open>register_exception_handlers\<close>; an exception with no handler of its own goes on to the outermost one.\<close>

definition is_domain_exception :: "exn \<Rightarrow> bool" where
  "is_domain_exception exc = (case exc of
       AccountNotFound \<Rightarrow> True | IdempotencyConflict _ \<Rightarrow> True | InvalidRecoveryCaseTransition _ _ \<Rightarrow> True
     | InsufficientBalance \<Rightarrow> True | InvalidIdempotencyKey _ \<Rightarrow> True | InvalidIdempotencyState _ _ \<Rightarrow> True
     | InvalidStateTransition _ _ _ \<Rightarrow> True | InvalidTransactionEvent _ \<Rightarrow> True | MissingIdempotencyKey \<Rightarrow> True
     | OriginalTransactionNotFound \<Rightarrow> True | QuarantineRecordNotFound \<Rightarrow> True
     | RecoveryApprovalMissingActor \<Rightarrow> True | RecoveryApprovalRequired \<Rightarrow> True | RecoveryCaseNotFound \<Rightarrow> True
     | TargetQuarantined _ _ \<Rightarrow> True | TransactionAlreadyCancelled \<Rightarrow> True | TransactionAlreadySettled \<Rightarrow> True
     | UnsafeAnalyzerResult \<Rightarrow> True | UnsupportedAnalyzerClassification _ \<Rightarrow> True | _ \<Rightarrow> False)"

definition is_security_exception :: "exn \<Rightarrow> bool" where
  "is_security_exception exc = (case exc of
       DisabledClient \<Rightarrow> True | ExpiredTimestamp \<Rightarrow> True | InvalidSignature \<Rightarrow> True | InvalidTimestamp \<Rightarrow> True
     | MissingSecurityHeader _ \<Rightarrow> True | UnknownClient \<Rightarrow> True | _ \<Rightarrow> False)"

definition handle_exception :: "env \<Rightarrow> settings \<Rightarrow> request_context \<Rightarrow> exn \<Rightarrow> http_response app" where
  "handle_exception E S ctx exc =
    (if is_domain_exception exc then returnM (domain_exception_handler ctx exc)
     else if is_security_exception exc then returnM (security_exception_handler ctx exc)
     else (case exc of
         WriteSuspended state \<Rightarrow> returnM (write_suspended_exception_handler ctx state)
       | SAError (OperationalError _) \<Rightarrow> database_exception_handler E S ctx
       | HTTPException status detail \<Rightarrow> returnM (http_exception_handler ctx status detail)
       | _ \<Rightarrow> raiseM exc))"

subsection \<open>Services of a request\<close>

text \<open>\<open>get_redis_client()\<close>: it makes the client, which may fail like any Redis use.\<close>

definition get_redis_client :: "env \<Rightarrow> (redis_error + unit) app" where
  "get_redis_client E = redis_call E (\<lambda>_ st. ((), st))"

definition redis_client_fallback :: "string \<Rightarrow> redis_error \<Rightarrow> unit app" where
  "redis_client_fallback operation exc = (let reason = redis_failure_reason exc in
     thenM (metric (record_redis_operation_v2 operation ''failure'' reason))
     (metric (record_redis_fallback operation reason)))"

text \<open>The time-to-live of the response cache, when the service is cached.\<close>

definition build_idempotency_service :: "env \<Rightarrow> settings \<Rightarrow> int option app" where
  "build_idempotency_service E S =
    (if \<not> redis_enabled S \<or> \<not> idempotency_cache_enabled S then returnM None
     else bindM (get_redis_client E) (\<lambda>c. case c of
         Inl exc \<Rightarrow> thenM (redis_client_fallback ''cache_get'' exc) (returnM None)
       | Inr _ \<Rightarrow> returnM (Some (redis_idempotency_cache_ttl_seconds S))))"

definition build_redis_lock :: "env \<Rightarrow> settings \<Rightarrow> int option app" where
  "build_redis_lock E S =
    (if \<not> redis_enabled S \<or> \<not> redis_lock_enabled S then returnM None
     else bindM (get_redis_client E) (\<lambda>c. case c of
         Inl exc \<Rightarrow> thenM (redis_client_fallback ''lock_acquire'' exc) (returnM None)
       | Inr _ \<Rightarrow> returnM (Some (redis_lock_ttl_ms S))))"

definition default_idempotency_service :: idempotency_service where
  "default_idempotency_service = \<lparr>ttl_seconds = 86400, processing_lock_seconds = 30\<rparr>"

definition build_transaction_event_service :: "env \<Rightarrow> settings \<Rightarrow> transaction_service app" where
  "build_transaction_event_service E S =
     bindM (build_idempotency_service E S) (\<lambda>cache. bindM (build_redis_lock E S) (\<lambda>lock.
     returnM \<lparr>ts_idempotency = default_idempotency_service, ts_cache_ttl = cache, ts_lock_ttl_ms = lock,
       ts_quarantine = True\<rparr>))"

subsection \<open>Endpoints\<close>

text \<open>A session that the endpoint's \<open>get_db\<close> closes at the end: what was not committed is gone.\<close>

definition with_session :: "'a app \<Rightarrow> 'a app" where
  "with_session m = finallyM m db_rollback"

definition answer :: "int \<Rightarrow> json \<Rightarrow> http_response" where
  "answer status body = \<lparr>hr_status = status, hr_body = body, hr_headers = []\<rparr>"

text \<open>\<open>POST /transaction-events\<close>: the checks in the order they are declared, then the service.\<close>

definition create_transaction_event :: "env \<Rightarrow> settings \<Rightarrow> http_request \<Rightarrow> create_request \<Rightarrow> http_response app" where
  "create_transaction_event E S rq request =
     thenM (verify_external_request_signature E S rq)
     (with_session
       (thenM (guard_financial_write E (suspension_config_of S))
       (bindM (liftM (get_idempotency_key (header rq ''Idempotency-Key''))) (\<lambda>idempotency_key.
       bindM (build_transaction_event_service E S) (\<lambda>svc.
       bindM (process E svc idempotency_key request) (\<lambda>result.
       returnM (answer (res_status_code result) (JObj (res_body result)))))))))"

definition instant_json :: "env \<Rightarrow> instant \<Rightarrow> json" where
  "instant_json E t = JStr (datetime_json E (utc t))"

definition get_transaction_event :: "env \<Rightarrow> int \<Rightarrow> http_response app" where
  "get_transaction_event E event_id = with_session
     (bindM (event_get_by_id E event_id) (\<lambda>r. case r of
         None \<Rightarrow> raiseM (HTTPException 404 ''Transaction event not found'')
       | Some i \<Rightarrow> bindM (read_row event_by_id i) (\<lambda>e. returnM (answer 200 (JObj
           [(''event_id'', JStr (int_str (te_id e))), (''external_event_id'', JStr (te_external_event_id e)),
            (''event_type'', JStr (te_event_type e)), (''status'', JStr (te_status e)),
            (''amount'', JInt (te_amount e)), (''currency'', JStr (te_currency e)),
            (''occurred_at'', JStr (datetime_json E (te_occurred_at e))),
            (''created_at'', instant_json E (te_created_at e))])))))"

definition get_account_balance :: "env \<Rightarrow> string \<Rightarrow> http_response app" where
  "get_account_balance E account_no = with_session
     (bindM (account_get_by_account_no E account_no) (\<lambda>r. case r of
         None \<Rightarrow> raiseM AccountNotFound
       | Some i \<Rightarrow> bindM (read_row account_by_id i) (\<lambda>a. returnM (answer 200 (JObj
           [(''account_no'', JStr (schema_mask_account_no (acc_account_no a))), (''balance'', JInt (acc_balance a)),
            (''currency'', JStr ''KRW''), (''as_of'', instant_json E (acc_updated_at a))])))))"

text \<open>The read-only recovery endpoints and the fields they show.\<close>

definition instant_opt :: "env \<Rightarrow> instant option \<Rightarrow> json" where
  "instant_opt E t = (case t of None \<Rightarrow> JNull | Some x \<Rightarrow> instant_json E x)"

definition recovery_case_response :: "env \<Rightarrow> recovery_case \<Rightarrow> json" where
  "recovery_case_response E c = JObj
     [(''case_id'', JStr (rc_case_id c)), (''source_key'', JStr (rc_source_key c)),
      (''case_type'', JStr (rc_case_type c)), (''severity'', JStr (rc_severity c)),
      (''current_status'', JStr (rc_current_status c)), (''classification'', JStr (rc_classification c)),
      (''confidence_candidate'', (case rc_confidence_candidate c of None \<Rightarrow> JNull | Some j \<Rightarrow> j)),
      (''external_event_id'', json_opt (rc_external_event_id c)), (''client_id'', json_opt (rc_client_id c)),
      (''detected_by'', JStr (rc_detected_by c)), (''detected_at'', instant_json E (rc_detected_at c)),
      (''source_incident_id'', json_opt (rc_source_incident_id c)),
      (''proposed_action'', JStr (rc_proposed_action c)), (''approval_required'', JBool (rc_approval_required c)),
      (''approved_by'', json_opt (rc_approved_by c)), (''approved_at'', instant_opt E (rc_approved_at c)),
      (''action_attempt_id'', json_opt (rc_action_attempt_id c)), (''evidence_path'', json_opt (rc_evidence_path c)),
      (''created_at'', instant_json E (rc_created_at c)), (''updated_at'', instant_json E (rc_updated_at c))]"

definition quarantine_record_response :: "env \<Rightarrow> quarantine_record \<Rightarrow> json" where
  "quarantine_record_response E q = JObj
     [(''quarantine_id'', JStr (qr_quarantine_id q)), (''target_type'', JStr (qr_target_type q)),
      (''target_id'', JStr (qr_target_id q)), (''reason'', JStr (qr_reason q)),
      (''source_incident_id'', json_opt (qr_source_incident_id q)), (''active'', JBool (qr_active q)),
      (''activated_at'', instant_json E (qr_activated_at q)), (''activated_by'', JStr (qr_activated_by q)),
      (''released_at'', instant_opt E (qr_released_at q)), (''released_by'', json_opt (qr_released_by q)),
      (''release_reason'', json_opt (qr_release_reason q)), (''created_at'', instant_json E (qr_created_at q)),
      (''updated_at'', instant_json E (qr_updated_at q))]"

definition list_recovery_cases :: "env \<Rightarrow> nat \<Rightarrow> http_response app" where
  "list_recovery_cases E limit = with_session (bindM (case_list E limit) (\<lambda>cs.
     returnM (answer 200 (JList (map (recovery_case_response E) cs)))))"

definition get_recovery_case :: "env \<Rightarrow> string \<Rightarrow> http_response app" where
  "get_recovery_case E case_id = with_session (bindM (get_by_case_id E case_id) (\<lambda>r. case r of
       None \<Rightarrow> raiseM (HTTPException 404 ''Recovery case not found'')
     | Some i \<Rightarrow> bindM (read_row case_by_id i) (\<lambda>c. returnM (answer 200 (recovery_case_response E c)))))"

definition list_quarantine_records :: "env \<Rightarrow> bool option \<Rightarrow> nat \<Rightarrow> http_response app" where
  "list_quarantine_records E active limit = with_session (bindM (quarantine_list E active limit) (\<lambda>qs.
     returnM (answer 200 (JList (map (quarantine_record_response E) qs)))))"

definition get_quarantine :: "env \<Rightarrow> string \<Rightarrow> http_response app" where
  "get_quarantine E quarantine_id = with_session (bindM (get_by_quarantine_id E quarantine_id) (\<lambda>r. case r of
       None \<Rightarrow> raiseM (HTTPException 404 ''Quarantine record not found'')
     | Some i \<Rightarrow> bindM (read_row quar_by_id i) (\<lambda>q. returnM (answer 200 (quarantine_record_response E q)))))"

subsection \<open>Health\<close>

definition health_check :: "settings \<Rightarrow> http_response" where
  "health_check S = answer 200 (JObj [(''status'', JStr ''ok''), (''service'', JStr (app_name S)),
     (''environment'', JStr (app_env S)), (''deployment_color'', JStr (deployment_color S)),
     (''instance_id'', JStr (instance_id S))])"

text \<open>A connection of its own, outside the session.\<close>

definition check_database_connection :: "env \<Rightarrow> bool app" where
  "check_database_connection E = bindM (getM (\<lambda>w. query_fault E (w_tick w))) (\<lambda>fault.
     thenM (modifyM tick) (returnM (fault = None)))"

definition check_redis_connection :: "env \<Rightarrow> bool app" where
  "check_redis_connection E = bindM (get_redis_client E) (\<lambda>c. case c of
       Inl _ \<Rightarrow> returnM False
     | Inr _ \<Rightarrow> bindM (redis_call E (\<lambda>_ st. (True, st))) (\<lambda>r. returnM (r = Inr True)))"

definition readiness_check :: "env \<Rightarrow> http_response app" where
  "readiness_check E =
     bindM (check_database_connection E) (\<lambda>postgres_ok. bindM (check_redis_connection E) (\<lambda>redis_ok.
     thenM (metric (record_readiness_dependency_status ''postgres'' postgres_ok))
     (thenM (metric (record_readiness_dependency_status ''redis'' redis_ok))
     (returnM (answer (if postgres_ok then 200 else 503) (JObj
       [(''status'', JStr (if postgres_ok then ''ready'' else ''not_ready'')),
        (''mode'', JStr (if postgres_ok then (if redis_ok then ''normal'' else ''degraded'') else ''unavailable'')),
        (''checks'', JObj [(''postgres'', JStr (if postgres_ok then ''ok'' else ''failed'')),
           (''redis'', JStr (if redis_ok then ''ok'' else ''degraded''))])]))))))"

subsection \<open>Middleware\<close>

definition fresh_hex :: "env \<Rightarrow> string app" where
  "fresh_hex E = bindM (getM (\<lambda>w. uuid_hex E (w_tick w))) (\<lambda>u. thenM (modifyM tick) (returnM u))"

definition id_or_fresh :: "env \<Rightarrow> string \<Rightarrow> string option \<Rightarrow> string app" where
  "id_or_fresh E prefix v = (case v of
       Some s \<Rightarrow> if s = [] then bindM (fresh_hex E) (\<lambda>u. returnM (prefix @ u)) else returnM s
     | None \<Rightarrow> bindM (fresh_hex E) (\<lambda>u. returnM (prefix @ u)))"

text \<open>\<open>metrics_middleware\<close>: what escapes the application counts as a 500. The duration is a text here.\<close>

definition record_request :: "http_request \<Rightarrow> string \<Rightarrow> int \<Rightarrow> unit app" where
  "record_request rq route status =
     thenM (metric (inc ''http_requests_total'' [hq_method rq, route, int_str status]))
     (thenM (metric (inc ''http_request_duration_seconds'' [hq_method rq, route]))
     (metric (record_http_request (hq_method rq) route status)))"

definition metrics_middleware :: "http_request \<Rightarrow> string \<Rightarrow> string \<Rightarrow> http_response app \<Rightarrow> http_response app" where
  "metrics_middleware rq route duration call_next =
     bindM (catchM call_next (\<lambda>exc. thenM (record_request rq route 500) (raiseM exc))) (\<lambda>response.
     thenM (record_request rq route (hr_status response))
     (returnM (response\<lparr>hr_headers := hr_headers response @ [(''X-Process-Time'', duration)]\<rparr>)))"

text \<open>\<open>response.headers[name] = value\<close> replaces the header or appends it.\<close>

definition set_header :: "string \<Rightarrow> string \<Rightarrow> (string \<times> string) list \<Rightarrow> (string \<times> string) list" where
  "set_header name v hs = (if list_ex (\<lambda>(k, _). lower k = lower name) hs
     then map (\<lambda>(k, x). (k, if lower k = lower name then v else x)) hs else hs @ [(name, v)])"

definition request_context_middleware :: "env \<Rightarrow> http_request \<Rightarrow> string \<Rightarrow> string \<Rightarrow>
    (request_context \<Rightarrow> http_response app) \<Rightarrow> (request_context \<Rightarrow> exn \<Rightarrow> http_response app) \<Rightarrow> http_response app" where
  "request_context_middleware E rq route duration call_next outermost =
     bindM (id_or_fresh E ''req-'' (header rq ''X-Request-ID'')) (\<lambda>request_id.
     bindM (id_or_fresh E ''trace-'' (header rq ''X-Trace-ID'')) (\<lambda>trace_id.
     let ctx = \<lparr>ctx_request_id = Some request_id, ctx_trace_id = Some trace_id\<rparr> in
     catchM (bindM (metrics_middleware rq route duration (call_next ctx)) (\<lambda>response.
       returnM (response\<lparr>hr_headers := set_header ''X-Trace-ID'' trace_id
         (set_header ''X-Request-ID'' request_id (hr_headers response))\<rparr>)))
     (outermost ctx)))"

text \<open>A request through the whole application: the middleware, the handlers, and the outermost handler.\<close>

definition serve :: "env \<Rightarrow> settings \<Rightarrow> http_request \<Rightarrow> string \<Rightarrow> string \<Rightarrow> http_response app \<Rightarrow> http_response app" where
  "serve E S rq route duration endpoint =
     request_context_middleware E rq route duration
       (\<lambda>ctx. catchM endpoint (handle_exception E S ctx))
       (\<lambda>ctx _. returnM (unhandled_exception_handler ctx))"

definition post_transaction_event :: "env \<Rightarrow> settings \<Rightarrow> http_request \<Rightarrow> create_request \<Rightarrow> string \<Rightarrow>
    http_response app" where
  "post_transaction_event E S rq request duration =
     serve E S rq ''/api/v1/transaction-events'' duration (create_transaction_event E S rq request)"

end
