(* ===== verification/Api_Properties.thy ===== *)
theory Api_Properties
  imports Api Guarantees
begin

text \<open>
  What the HTTP surface promises: authentication, the write switch, and that a request - whatever it carries and
  whatever fails - gets an answer and leaves the books consistent.
\<close>

subsection \<open>Write suspension\<close>

lemma wp_utc_now_text: "wp (utc_now_text E) Q X w \<longleftrightarrow> Q (replace_offset (isoformat E (now E (w_tick w)))) w"
  by (simp add: utc_now_text_def wp_simps)

lemma wp_record_state_metric:
  "wp (record_state_metric s) Q X w \<longleftrightarrow> Q () (w\<lparr>w_metrics := w_metrics (snd (record_state_metric s w))\<rparr>)"
  by (simp add: wp_def record_state_metric_def metric_def modifyM_def Let_def)

text \<open>Neither the database session nor Redis is touched.\<close>

definition no_rows :: "world \<Rightarrow> world \<Rightarrow> bool" where
  "no_rows w w' \<longleftrightarrow> w_db w' = w_db w \<and> w_committed w' = w_committed w \<and> w_sess w' = w_sess w \<and> w_redis w' = w_redis w"

lemma no_rows_simps [simp]:
  "no_rows w w" "no_rows w (tick w') \<longleftrightarrow> no_rows w w'" "no_rows w (w'\<lparr>w_metrics := m\<rparr>) \<longleftrightarrow> no_rows w w'"
  "no_rows w (w'\<lparr>w_suspend_file := f\<rparr>) \<longleftrightarrow> no_rows w w'" "no_rows w (w'\<lparr>w_suspend_state := s\<rparr>) \<longleftrightarrow> no_rows w w'"
  by (simp_all add: no_rows_def)

lemma enable_spec:
  "wp (enable E C reason who source retry run_id)
    (\<lambda>s w'. no_rows w w' \<and> w_tick w' = Suc (w_tick w) \<and> ws_active s \<and> ws_reason s \<noteq> [] \<and> ws_source s = source \<and>
       ws_run_id s \<noteq> [] \<and> w_suspend_file w' = Some (Document (state_document s)))
    (\<lambda>x w'. no_rows w w' \<and> x = OSError \<and> file_fault E (w_tick w)) w"
  unfolding enable_def write_artifact_def set_runtime_def Let_def
  by (auto simp: wp_simps wp_utc_now_text wp_record_state_metric split: option.split)

lemma status_spec:
  "wp (suspension_status E C)
    (\<lambda>s w'. no_rows w w' \<and> w_suspend_file w' = w_suspend_file w \<and> (case w_suspend_file w of
         None \<Rightarrow> s = runtime_state C w
       | Some content \<Rightarrow> if file_fault E (w_tick w) \<or> content = Corrupt then ws_active s
           else \<exists>j. content = Document j \<and> state_of_document C j = Inr s))
    (\<lambda>x w'. no_rows w w' \<and> \<not> file_fault E (w_tick w) \<and>
       (\<exists>j. w_suspend_file w = Some (Document j) \<and> state_of_document C j = Inl x)) w"
  unfolding suspension_status_def read_artifact_state_def set_runtime_def
  by (auto simp: wp_simps wp_utc_now_text wp_record_state_metric corrupt_state_def runtime_state_def
      split: option.split suspend_file.split sum.split)

text \<open>
  C27: a suspension that was written is the one that is read: after \<open>enable\<close> returned, \<open>status\<close> reports an active
  suspension - the very state that was enabled when the file can be read, a fail-closed one when it cannot.
  The only way \<open>enable\<close> fails is that the file could not be written.
\<close>

theorem enable_then_status:
  assumes "source \<noteq> []"
  shows "wp (bindM (enable E C reason who source retry run_id) (\<lambda>s. bindM (suspension_status E C) (\<lambda>s'. returnM (s, s'))))
    (\<lambda>(s, s') w'. ws_active s \<and> ws_active s' \<and> (\<not> file_fault E (Suc (w_tick w)) \<longrightarrow> s' = s))
    (\<lambda>x w'. x = OSError \<and> file_fault E (w_tick w)) w"
proof (rule wp_bindI [OF enable_spec], goal_cases)
  case (1 s w1)
  then have doc: "state_of_document C (state_document s) = Inr s"
    using assms by (intro state_document_roundtrip) auto
  show ?case
    unfolding wp_bind by (rule wp_mono [OF status_spec]) (use 1 doc in \<open>auto simp: wp_return split: if_splits\<close>)
qed auto

theorem enable_then_status_witness:
  "wp (bindM (enable calm_env \<lparr>sc_retry_after_seconds = 30\<rparr> ''manual'' ''op'' ''cli'' None None)
      (\<lambda>s. bindM (suspension_status calm_env \<lparr>sc_retry_after_seconds = 30\<rparr>) (\<lambda>s'. returnM (s, s'))))
    (\<lambda>(s, s') w'. ws_active s \<and> s' = s) (\<lambda>x w'. False) sample_world"
  by (rule wp_mono [OF enable_then_status]) (auto simp: calm_env_def)



definition at_rest :: "world \<Rightarrow> bool" where
  "at_rest w \<longleftrightarrow> idle w \<and> consistent (w_committed w)"

lemma at_rest_no_rows: "at_rest w \<Longrightarrow> no_rows w w' \<Longrightarrow> at_rest w'"
  by (simp add: at_rest_def no_rows_def idle_def)

lemma at_rest_simps [simp]:
  "at_rest (tick w) \<longleftrightarrow> at_rest w" "at_rest (w\<lparr>w_metrics := m\<rparr>) \<longleftrightarrow> at_rest w"
  "at_rest (w\<lparr>w_redis := r\<rparr>) \<longleftrightarrow> at_rest w" "at_rest (w\<lparr>w_db := db\<rparr>) \<longleftrightarrow> at_rest w"
  by (simp_all add: at_rest_def idle_def)

lemma probe_at_rest:
  assumes "others_consistent E" "at_rest w"
  shows "wp (db_query E f) (\<lambda>_ w'. consistent (w_committed w')) (\<lambda>x w'. is_sa_error x \<and> consistent (w_committed w')) w"
  using assms
  by (auto simp: wp_def is_sa_error_def db_query_def at_rest_def idle_def autobegin_def start_tx_def others_consistent_def Let_def
      split: option.split)

lemma rollback_at_rest: "consistent (w_committed w) \<Longrightarrow> wp rollback_probe_transaction (\<lambda>_. at_rest) X w"
  by (simp add: rollback_probe_transaction_def db_rollback_def wp_simps at_rest_def idle_def)

lemma guard_at_rest:
  assumes "others_consistent E" "at_rest w"
  shows "wp (guard_financial_write E C) (\<lambda>_. at_rest) (\<lambda>_. at_rest) w"
proof -
  have stop: "wp (thenM rollback_probe_transaction (bindM (enable E C r who src None None) (\<lambda>s.
      thenM (record_suspended_write s) (raiseM (WriteSuspended s))))) (\<lambda>_. at_rest) (\<lambda>_. at_rest) w1"
    if "consistent (w_committed w1)" for w1 r who src
  proof (rule wp_thenI [OF rollback_at_rest [OF that]])
    fix u :: unit and w2 assume "at_rest w2"
    then show "wp (bindM (enable E C r who src None None) (\<lambda>s.
        thenM (record_suspended_write s) (raiseM (WriteSuspended s)))) (\<lambda>_. at_rest) (\<lambda>_. at_rest) w2"
      by - (rule wp_bindI [OF enable_spec]; auto simp: wp_simps record_suspended_write_def at_rest_no_rows)
  qed simp
  have probe: "wp (thenM (db_query E (\<lambda>_. ())) rollback_probe_transaction) (\<lambda>_. at_rest)
      (\<lambda>x w'. is_sa_error x \<and> consistent (w_committed w')) w1" if "at_rest w1" for w1
    by (rule wp_thenI [OF probe_at_rest [OF assms(1) that] rollback_at_rest]) auto
  show ?thesis
    unfolding guard_financial_write_def
  proof (rule wp_bindI [OF status_spec], goal_cases)
    case (1 s w1)
    then have "at_rest w1" using at_rest_no_rows [OF assms(2)] by blast
    moreover have "wp (thenM (record_suspended_write s) (raiseM (WriteSuspended s))) (\<lambda>_. at_rest) (\<lambda>_. at_rest) w1"
      using calculation by (simp add: record_suspended_write_def wp_simps)
    ultimately show ?case
      by (auto simp: wp_catch intro!: wp_mono [OF probe] stop)
  qed (use at_rest_no_rows [OF assms(2)] in blast)
qed

subsection \<open>Signatures\<close>

text \<open>Authentication touches the metrics only.\<close>

lemma required_header_spec:
  "wp (required_header rq h)
    (\<lambda>v w'. w' = w \<and> (\<exists>u. header rq h = Some u \<and> v = strip u \<and> v \<noteq> []))
    (\<lambda>x w'. no_rows w w' \<and> x = MissingSecurityHeader h \<and>
       (case header rq h of None \<Rightarrow> True | Some u \<Rightarrow> strip u = [])) w"
  by (auto simp: required_header_def wp_simps split: option.split)

definition present :: "http_request \<Rightarrow> string \<Rightarrow> bool" where
  "present rq h \<longleftrightarrow> (case header rq h of None \<Rightarrow> False | Some u \<Rightarrow> strip u \<noteq> [])"

definition field :: "http_request \<Rightarrow> string \<Rightarrow> string" where
  "field rq h = (case header rq h of None \<Rightarrow> [] | Some u \<Rightarrow> strip u)"

lemma wp_required_header:
  "wp (required_header rq h) Q X w \<longleftrightarrow>
    (if present rq h then Q (field rq h) w
     else X (MissingSecurityHeader h) (w\<lparr>w_metrics := record_hmac_auth_failure ''missing_header'' (w_metrics w)\<rparr>))"
  by (auto simp: required_header_def wp_simps present_def field_def split: option.split)

text \<open>The conditions a signed request has to meet at time \<open>t\<close>.\<close>

definition timely :: "env \<Rightarrow> settings \<Rightarrow> instant \<Rightarrow> string \<Rightarrow> bool" where
  "timely E S t s \<longleftrightarrow> (\<exists>d. fromisoformat E (with_offset s) = Some d \<and> dt_offset d \<noteq> None \<and>
     \<bar>timestamp_of d - t\<bar> \<le> seconds (hmac_allowed_skew_seconds S))"

definition signed_request :: "settings \<Rightarrow> http_request \<Rightarrow> bool" where
  "signed_request S rq \<longleftrightarrow> (\<exists>secret.
     get_secret (parse_secrets (external_client_secrets S)) (field rq ''X-Client-Id'') = Some secret \<and>
     lower (field rq ''X-Signature'') = generate_hmac_signature secret
       (build_signature_base_string (hq_method rq) (hq_path rq) (field rq ''X-Timestamp'')
         (generate_body_hash (hq_body rq))))"

lemma checked_timestamp_spec:
  "wp (checked_timestamp E S s)
    (\<lambda>_ w'. w' = w \<and> timely E S (now E (w_tick w)) s)
    (\<lambda>x w'. no_rows w w' \<and> \<not> timely E S (now E (w_tick w)) s \<and> x \<in> {InvalidTimestamp, ExpiredTimestamp}) w"
  by (auto simp: checked_timestamp_def wp_simps parse_timestamp_def validate_timestamp_window_def timely_def utc_def
      timestamp_of_def Let_def split: option.split if_splits)

lemma field_strip: "strip (field rq h) = field rq h"
  by (simp add: field_def split: option.split) (simp add: strip_def)

lemma get_secret_nonempty: "get_secret cs c = Some s \<Longrightarrow> s \<noteq> []"
  by (auto simp: get_secret_def split: option.splits if_splits)

lemma verify_hmac_signature_iff:
  assumes "secret \<noteq> []" "strip s = s"
  shows "verify_hmac_signature secret b s = Inr (lower s = generate_hmac_signature secret b)"
proof (cases "is_hex_digest s")
  case True
  then have "ascii s" "s \<noteq> []" using is_hex_digest_ascii [of s] assms(2) by (auto simp: is_hex_digest_def)
  with True assms(1) show ?thesis
    by (auto simp: verify_hmac_signature_def compare_digest_def generate_hmac_signature_def)
next
  case False
  then have "lower s \<noteq> generate_hmac_signature secret b"
    using digest_accepted(1) by (auto simp: generate_hmac_signature_def)
  with False show ?thesis by (simp add: verify_hmac_signature_def)
qed

lemma signature_outcome:
  assumes "hmac_enabled S" "\<not> enable_partner_hmac_auth S"
  shows "let ok = present rq ''X-Client-Id'' \<and> present rq ''X-Timestamp'' \<and> present rq ''X-Signature'' \<and>
      timely E S (now E (w_tick w)) (field rq ''X-Timestamp'') \<and> signed_request S rq in
    wp (verify_external_request_signature E S rq)
      (\<lambda>_ w'. ok \<and> no_rows w w')
      (\<lambda>x w'. \<not> ok \<and> is_security_exception x \<and> no_rows w w') w"
proof -
  let ?c = "field rq ''X-Client-Id''" and ?t = "field rq ''X-Timestamp''" and ?s = "field rq ''X-Signature''"
  let ?ok = "present rq ''X-Client-Id'' \<and> present rq ''X-Timestamp'' \<and> present rq ''X-Signature'' \<and>
      timely E S (now E (w_tick w)) ?t \<and> signed_request S rq"
  have sec: "is_security_exception x" if "x \<in> {InvalidTimestamp, ExpiredTimestamp, InvalidSignature, UnknownClient, MissingSecurityHeader h}" for x h
    using that by (auto simp: is_security_exception_def)
  show ?thesis
  proof (cases "get_secret (parse_secrets (external_client_secrets S)) ?c")
    case None
    then show ?thesis
      using assms sec
      by (auto simp: verify_external_request_signature_def wp_simps wp_required_header signed_request_def Let_def)
  next
    case (Some secret)
    note valid = verify_hmac_signature_iff [OF get_secret_nonempty [OF Some] field_strip [of rq "''X-Signature''"]]
    have "wp (checked_timestamp E S ?t) (\<lambda>_. wp (bindM (liftM (verify_hmac_signature secret
            (build_signature_base_string (hq_method rq) (hq_path rq) ?t (generate_body_hash (hq_body rq))) ?s)) (\<lambda>valid.
         if \<not> valid then thenM (metric (record_hmac_auth_failure ''invalid_signature'')) (raiseM InvalidSignature)
         else metric record_hmac_auth_success)) (\<lambda>_ w'. (timely E S (now E (w_tick w)) ?t \<and> signed_request S rq) \<and> no_rows w w')
        (\<lambda>x w'. \<not> (timely E S (now E (w_tick w)) ?t \<and> signed_request S rq) \<and> is_security_exception x \<and> no_rows w w'))
      (\<lambda>x w'. \<not> (timely E S (now E (w_tick w)) ?t \<and> signed_request S rq) \<and> is_security_exception x \<and> no_rows w w') w"
      by (rule wp_mono [OF checked_timestamp_spec])
        (use sec Some in \<open>auto simp: wp_simps valid signed_request_def\<close>)
    then show ?thesis
      using assms sec Some
      by (auto simp: verify_external_request_signature_def wp_required_header wp_then [of "checked_timestamp E S ?t"]
          wp_bind [of "required_header rq h" for h] wp_then [of "metric f" for f] wp_metric wp_raise Let_def)
  qed
qed

definition sample_settings :: settings where
  "sample_settings = \<lparr>app_name = ''financial-event-api'', app_env = ''production'', deployment_color = ''blue'',
     instance_id = ''1'', redis_enabled = True, redis_lock_enabled = True, idempotency_cache_enabled = True,
     redis_lock_ttl_ms = 3000, redis_idempotency_cache_ttl_seconds = 86400, hmac_enabled = True,
     hmac_allowed_skew_seconds = 300, external_client_secrets = ''bank:s3cret'', enable_partner_hmac_auth = False,
     partner_hmac_timestamp_skew_seconds = 300, partner_hmac_secrets = [], write_suspend_retry_after_seconds = 30,
     recovery_admin_api_enabled = False\<rparr>"

definition sample_http :: http_request where
  "sample_http = \<lparr>hq_method = ''POST'', hq_path = ''/api/v1/transaction-events'', hq_query = [],
     hq_headers = [(''x-client-id'', ''bank''), (''idempotency-key'', ''key-2'')], hq_body = ''{}''\<rparr>"

text \<open>
  C13: with HMAC authentication switched on, exactly the properly signed requests pass: the three headers are there,
  the client is configured, the timestamp parses with an offset and lies within the allowed skew of the current
  time, and the signature is the HMAC-SHA256 of method, path, timestamp and body hash under the client's secret.
  Any other request is refused with one of the security exceptions; either way only metrics change.
\<close>

theorem signature_accepts_iff:
  assumes "hmac_enabled S" "\<not> enable_partner_hmac_auth S"
  shows "let ok = present rq ''X-Client-Id'' \<and> present rq ''X-Timestamp'' \<and> present rq ''X-Signature'' \<and>
      timely E S (now E (w_tick w)) (field rq ''X-Timestamp'') \<and> signed_request S rq in
    wp (verify_external_request_signature E S rq)
      (\<lambda>_ w'. ok \<and> no_rows w w')
      (\<lambda>x w'. \<not> ok \<and> is_security_exception x \<and> no_rows w w') w"
  by (rule signature_outcome [OF assms])

theorem signature_accepts_iff_witness:
  "\<not> present sample_http ''X-Signature'' \<and>
    wp (verify_external_request_signature calm_env sample_settings sample_http) (\<lambda>_ w'. False)
      (\<lambda>x w'. is_security_exception x \<and> no_rows sample_world w') sample_world"
proof -
  have "\<not> present sample_http ''X-Signature''" by code_simp
  then show ?thesis
    using signature_accepts_iff [of sample_settings sample_http calm_env sample_world] by (simp add: sample_settings_def)
qed

subsection \<open>A request through the application\<close>

lemma rollback_rest: "consistent (w_committed w) \<Longrightarrow> wp db_rollback (\<lambda>_. at_rest) X w"
  by (simp add: db_rollback_def wp_simps at_rest_def idle_def)

lemma with_session_at_rest:
  "wp m (\<lambda>_. at_rest) (\<lambda>_. at_rest) w \<Longrightarrow> wp (with_session m) (\<lambda>_. at_rest) (\<lambda>_. at_rest) w"
  unfolding with_session_def wp_finally by (erule wp_mono) (auto simp: at_rest_def intro: rollback_rest)

lemma signature_no_rows:
  "wp (verify_external_request_signature E S rq) (\<lambda>_. no_rows w) (\<lambda>_. no_rows w) w"
  by (auto simp: verify_external_request_signature_def verify_partner_request_signature_def wp_simps wp_required_header
      intro!: wp_mono [OF checked_timestamp_spec] split: option.split sum.split)

lemma build_service_at_rest:
  "at_rest w \<Longrightarrow> wp (build_transaction_event_service E S) (\<lambda>_. at_rest) (\<lambda>_. at_rest) w"
  by (auto simp: build_transaction_event_service_def build_idempotency_service_def build_redis_lock_def
      get_redis_client_def redis_client_fallback_def wp_simps Let_def split: option.split sum.split prod.split)

lemma create_at_rest:
  assumes "others_consistent E" "at_rest w"
  shows "wp (create_transaction_event E S rq request) (\<lambda>_. at_rest) (\<lambda>_. at_rest) w"
  unfolding create_transaction_event_def
proof (rule wp_thenI [OF signature_no_rows], goal_cases)
  case (1 u w1)
  then have w1: "at_rest w1" using at_rest_no_rows [OF assms(2)] by blast
  show ?case
  proof (rule with_session_at_rest, rule wp_thenI [OF guard_at_rest [OF assms(1) w1]])
    fix u :: unit and w2 assume w2: "at_rest w2"
    have "wp (bindM (build_transaction_event_service E S) (\<lambda>svc. bindM (process E svc key request) (\<lambda>result.
        returnM (answer (res_status_code result) (JObj (res_body result)))))) (\<lambda>_. at_rest) (\<lambda>_. at_rest) w2" for key
      by (rule wp_bindI [OF build_service_at_rest [OF w2]])
        (auto simp: at_rest_def wp_bind wp_return intro!: wp_mono [OF process_consistent [OF assms(1)]])
    then show "wp (bindM (liftM (get_idempotency_key (header rq ''Idempotency-Key''))) (\<lambda>key.
        bindM (build_transaction_event_service E S) (\<lambda>svc. bindM (process E svc key request) (\<lambda>result.
        returnM (answer (res_status_code result) (JObj (res_body result))))))) (\<lambda>_. at_rest) (\<lambda>_. at_rest) w2"
      by (simp add: wp_bind [of "liftM r" for r] wp_lift w2 split: sum.split)
  qed auto
qed (use at_rest_no_rows [OF assms(2)] in auto)

lemma handle_at_rest:
  assumes "at_rest w"
  shows "wp (handle_exception E S ctx exc) (\<lambda>_. at_rest) (\<lambda>_. at_rest) w"
proof -
  have "wp (database_exception_handler E S ctx) (\<lambda>_. at_rest) (\<lambda>_. at_rest) w"
    unfolding database_exception_handler_def
    by (rule wp_bindI [OF enable_spec]) (auto simp: wp_simps at_rest_no_rows [OF assms])
  then show ?thesis
    using assms by (auto simp: handle_exception_def wp_simps split: exn.split sa_error.split)
qed

lemma serve_at_rest:
  assumes "\<And>w. at_rest w \<Longrightarrow> wp endpoint (\<lambda>_. at_rest) (\<lambda>_. at_rest) w" "at_rest w"
  shows "wp (serve E S rq route d endpoint) (\<lambda>_. at_rest) (\<lambda>_ _. False) w"
proof -
  have app: "wp (catchM endpoint (handle_exception E S ctx)) (\<lambda>_. at_rest) (\<lambda>_. at_rest) w1" if "at_rest w1" for ctx w1
    unfolding wp_catch by (rule wp_mono [OF assms(1) [OF that]]) (auto intro: handle_at_rest)
  have id: "wp (id_or_fresh E p v) (\<lambda>_. at_rest) (\<lambda>_ _. False) w1" if "at_rest w1" for p v w1
    using that by (auto simp: id_or_fresh_def fresh_hex_def wp_simps split: option.split)
  have met: "wp (metrics_middleware rq route d (catchM endpoint (handle_exception E S ctx))) (\<lambda>_. at_rest) (\<lambda>_. at_rest) w1"
    if "at_rest w1" for ctx w1
    unfolding metrics_middleware_def wp_bind [of "catchM (catchM endpoint (handle_exception E S ctx)) h" for h]
      wp_catch [of "catchM endpoint (handle_exception E S ctx)"]
    by (rule wp_mono [OF app [OF that]]) (simp_all add: wp_simps record_request_def)
  show ?thesis
    unfolding serve_def request_context_middleware_def
    by (rule wp_bindI [OF id [OF assms(2)]], rule wp_bindI [OF id], assumption)
      (auto simp: wp_catch wp_bind wp_return Let_def intro!: wp_mono [OF met])
qed



lemma security_handler_status: "hr_status (security_exception_handler ctx exc) \<in> {400, 401, 403}"
  by (auto simp: security_exception_handler_def error_answer_def split: exn.split)

lemma handle_security:
  "is_security_exception x \<Longrightarrow> handle_exception E S ctx x = returnM (security_exception_handler ctx x)"
  by (auto simp: handle_exception_def is_security_exception_def is_domain_exception_def split: exn.splits)

lemma serve_refused:
  assumes "\<And>w. wp endpoint (\<lambda>_ _. False) (\<lambda>x w'. is_security_exception x \<and> no_rows w w') w"
  shows "wp (serve E S rq route d endpoint) (\<lambda>r w'. hr_status r \<in> {400, 401, 403} \<and> no_rows w w') (\<lambda>_ _. False) w"
proof -
  have id: "wp (id_or_fresh E p v) (\<lambda>_. no_rows w) (\<lambda>_ _. False) w1" if "no_rows w w1" for p v w1
    using that by (auto simp: id_or_fresh_def fresh_hex_def wp_simps split: option.split)
  have app: "wp (catchM endpoint (handle_exception E S ctx)) (\<lambda>r w'. hr_status r \<in> {400, 401, 403} \<and> no_rows w w')
      (\<lambda>_ _. False) w1" if "no_rows w w1" for ctx w1
    unfolding wp_catch
    by (rule wp_mono [OF assms])
      (use that security_handler_status in \<open>auto simp: handle_security wp_return no_rows_def\<close>)
  have met: "wp (metrics_middleware rq route d (catchM endpoint (handle_exception E S ctx)))
      (\<lambda>r w'. hr_status r \<in> {400, 401, 403} \<and> no_rows w w') (\<lambda>_ _. False) w1" if "no_rows w w1" for ctx w1
    unfolding metrics_middleware_def wp_bind [of "catchM (catchM endpoint (handle_exception E S ctx)) h" for h]
      wp_catch [of "catchM endpoint (handle_exception E S ctx)"]
    by (rule wp_mono [OF app [OF that]]) (simp_all add: wp_simps record_request_def)
  show ?thesis
    unfolding serve_def request_context_middleware_def
    by (rule wp_bindI [OF id [OF no_rows_simps(1)]], rule wp_bindI [OF id], assumption)
      (auto simp: wp_catch wp_bind wp_return Let_def intro!: wp_mono [OF met])
qed

text \<open>
  C12: an unsigned or wrongly signed request reaches nothing: with HMAC authentication switched on, a request
  without a valid signature is answered with 400, 401 or 403, and neither a row, the session nor Redis has been touched.
\<close>

theorem unsigned_request_refused:
  assumes "hmac_enabled S" "\<not> enable_partner_hmac_auth S" "\<not> (present rq ''X-Signature'' \<and> signed_request S rq)"
  shows "\<exists>response w'. post_transaction_event E S rq request d w = (Inr response, w') \<and>
    hr_status response \<in> {400, 401, 403} \<and> no_rows w w'"
proof -
  have "wp (create_transaction_event E S rq request) (\<lambda>_ _. False) (\<lambda>x w'. is_security_exception x \<and> no_rows w1 w') w1" for w1
    unfolding create_transaction_event_def wp_then
    by (rule wp_mono [OF signature_outcome [OF assms(1,2), unfolded Let_def]]) (use assms(3) in auto)
  then have "wp (post_transaction_event E S rq request d)
      (\<lambda>r w'. hr_status r \<in> {400, 401, 403} \<and> no_rows w w') (\<lambda>_ _. False) w"
    unfolding post_transaction_event_def by (rule serve_refused)
  then show ?thesis by (auto simp: wp_def split: prod.splits sum.splits)
qed

theorem unsigned_request_refused_witness:
  "\<exists>response w'. post_transaction_event calm_env sample_settings sample_http sample_request ''0.1'' sample_world =
      (Inr response, w') \<and> hr_status response \<in> {400, 401, 403} \<and> no_rows sample_world w'"
proof (rule unsigned_request_refused)
  have "\<not> present sample_http ''X-Signature''" by code_simp
  then show "\<not> (present sample_http ''X-Signature'' \<and> signed_request sample_settings sample_http)" by simp
qed (simp_all add: sample_settings_def)

subsection \<open>Partner keys\<close>

lemma partner_signature_nonempty [simp]: "generate_partner_hmac_signature k c \<noteq> []" "lower [] = []"
  by (simp_all add: generate_partner_hmac_signature_def lower_def flip: length_0_conv)

definition reported :: "common_result \<Rightarrow> partner_hmac_result \<Rightarrow> bool" where
  "reported common r \<longleftrightarrow> (\<exists>a reason k s st. r = partner_result common a reason k s st)"

lemma reported_results [simp]:
  "reported c (partner_result c a reason k s st)" "reported c (reject_request c reason k)"
  "reported c (reject_with_secret c sec reason k stat cur)"
  unfolding reported_def reject_request_def reject_with_secret_def by blast+

lemma verify_partner_reported:
  "verify_partner_hmac_request E reg p cur skew dry rc er = Inr r \<Longrightarrow> reported (common_of p rc er) r"
  by (auto simp: verify_partner_hmac_request_def verify_secret_def Let_def
      split: if_splits option.splits sum.splits bool.splits)

text \<open>
  C14: a partner request is accepted exactly when it carries a nonce, its timestamp parses and is within the allowed
  whole seconds of now, its key is registered, the client is enabled, the key is current, or previous and still
  inside its window, or next in a dry run - never revoked or disabled - and its signature is the HMAC of the
  canonical request under that key's secret. Verification never raises.
\<close>

theorem partner_accepts_iff:
  "\<exists>r. verify_partner_hmac_request E reg p cur skew dry request_case expected_result = Inr r \<and>
    (pr_accepted r \<longleftrightarrow>
       strip (px_nonce p) \<noteq> [] \<and>
       (\<exists>t s. partner_parse_timestamp E (px_timestamp p) = Some t \<and> skew_seconds (timestamp_of t) cur \<le> skew \<and>
          get_partner_secret reg (px_client_id p) (px_key_id p) = Some s \<and> usable_secret s cur dry \<and>
          lower (strip (px_signature p)) = generate_partner_hmac_signature (ps_secret s) (canonical_of p)))"
proof (cases "strip (px_nonce p) \<noteq> [] \<and> is_hex_digest (strip (px_signature p))")
  case False
  then show ?thesis
    by (auto simp: verify_partner_hmac_request_def common_of_def Let_def partner_signature_nonempty(1) [symmetric]
        dest: partner_signature_form)
next
  case True
  then have sig: "strip (px_signature p) \<noteq> []" by (auto simp: is_hex_digest_def)
  show ?thesis
  proof (cases "partner_parse_timestamp E (px_timestamp p)")
    case None
    with True sig show ?thesis by (simp add: verify_partner_hmac_request_def common_of_def Let_def)
  next
    case (Some t)
    show ?thesis
    proof (cases "get_partner_secret reg (px_client_id p) (px_key_id p)")
      case None
      with True sig Some show ?thesis by (simp add: verify_partner_hmac_request_def common_of_def Let_def)
    next
      case secret: (Some s)
      let ?k = "skew_seconds (timestamp_of t) cur" and ?c = "common_of p request_case expected_result"
      obtain r where "verify_secret p ?c s ?k cur dry = Inr r"
        "pr_accepted r \<longleftrightarrow> usable_secret s cur dry \<and>
          lower (strip (px_signature p)) = generate_partner_hmac_signature (ps_secret s) (canonical_of p)"
        using verify_secret_outcome True by blast
      moreover have "verify_partner_hmac_request E reg p cur skew dry request_case expected_result =
          (if ?k > skew then Inr (reject_request ?c ''timestamp_skew_exceeded'' (Some ?k))
           else verify_secret p ?c s ?k cur dry)"
        using True sig Some secret by (simp add: verify_partner_hmac_request_def common_of_def Let_def)
      ultimately show ?thesis using True Some secret by (auto simp: not_less)
    qed
  qed
qed

text \<open>
  The report of a partner decision is one shape on every branch: whatever the request and the key, the flags for
  raw secret, signature and body are off, the client is shown by the token derived from its hash and the body by its
  hash, and decision, outcome text and acceptance agree.
\<close>

theorem partner_report_agrees:
  assumes "verify_partner_hmac_request E reg p cur skew dry request_case expected_result = Inr r"
  shows "json_get ''raw_secret_included'' (to_report_dict r) = Some (JBool False) \<and>
    json_get ''raw_signature_included'' (to_report_dict r) = Some (JBool False) \<and>
    json_get ''raw_body_included'' (to_report_dict r) = Some (JBool False) \<and>
    json_get ''client_token'' (to_report_dict r) = Some (JStr (client_token (px_client_id p))) \<and>
    json_get ''body_hash'' (to_report_dict r) = Some (JStr (sha256_hex (px_raw_body p))) \<and>
    json_get ''decision'' (to_report_dict r) = Some (JStr (if pr_accepted r then ''ACCEPT'' else ''REJECT'')) \<and>
    json_get ''actual_result'' (to_report_dict r) = json_get ''decision'' (to_report_dict r)"
  using verify_partner_reported [OF assms]
  by (auto simp: reported_def partner_result_def to_report_dict_def json_get_def common_of_def generate_body_hash_def)

theorem partner_report_agrees_witness:
  "\<exists>r. verify_partner_hmac_request calm_env [] \<lparr>px_method = ''POST'', px_path = ''/'', px_timestamp = ''0'', px_nonce = [],
        px_raw_body = [], px_client_id = ''c'', px_key_id = ''k'', px_signature = []\<rparr> 0 300 False ''a'' ''ACCEPT'' = Inr r \<and>
    json_get ''raw_secret_included'' (to_report_dict r) = Some (JBool False)"
proof -
  let ?p = "\<lparr>px_method = ''POST'', px_path = ''/'', px_timestamp = ''0'', px_nonce = [], px_raw_body = [],
    px_client_id = ''c'', px_key_id = ''k'', px_signature = []\<rparr>"
  let ?r = "reject_request (common_of ?p ''a'' ''ACCEPT'') ''missing_nonce'' None"
  have "strip [] = []" by (simp add: strip_def)
  then have r: "verify_partner_hmac_request calm_env [] ?p 0 300 False ''a'' ''ACCEPT'' = Inr ?r"
    by (simp add: verify_partner_hmac_request_def common_of_def Let_def)
  with partner_report_agrees [OF r] show ?thesis by simp
qed

subsection \<open>Keys, masks and labels\<close>

text \<open>
  The idempotency key that reaches the service has between 1 and 128 characters and no blank at its ends; a
  missing or blank header is refused as missing, a longer one as invalid.
\<close>

theorem idempotency_key_checked:
  "(get_idempotency_key h = Inr k) = (1 \<le> length k \<and> length k \<le> 128 \<and> (\<exists>s. h = Some s \<and> strip s = k)) \<and>
   (get_idempotency_key h = Inl MissingIdempotencyKey) = (h = None \<or> (\<exists>s. h = Some s \<and> strip s = []))"
  by (auto simp: get_idempotency_key_def MAX_IDEMPOTENCY_KEY_LENGTH_def Let_def Suc_le_eq split: option.splits if_splits)

text \<open>
  A masked account number tells its length and at most its last four characters: two account numbers of one
  length that agree there, or have no more than four characters, are shown alike, and every other character shown
  is a star.
\<close>

theorem mask_hides:
  assumes "length a = length b" "length a \<le> 4 \<or> drop (length a - 4) a = drop (length b - 4) b"
  shows "schema_mask_account_no a = schema_mask_account_no b \<and> length (schema_mask_account_no a) = length a \<and>
    (\<forall>c\<in>set (take (length a - 4) (schema_mask_account_no a)). c = CHR ''*'')"
  using assms by (auto simp: schema_mask_account_no_def dest: in_set_takeD)

theorem mask_hides_witness:
  "schema_mask_account_no ''110-222-3333'' = schema_mask_account_no ''999-888-3333'' \<and>
    length (schema_mask_account_no ''110-222-3333'') = length ''110-222-3333''"
proof -
  have "length ''110-222-3333'' = length ''999-888-3333''"
    "drop (length ''110-222-3333'' - 4) ''110-222-3333'' = drop (length ''999-888-3333'' - 4) ''999-888-3333''"
    by simp_all
  with mask_hides show ?thesis by blast
qed

lemma json_get_pop: "json_get k (pop k' kvs) = (if k = k' then None else json_get k kvs)"
  by (induction kvs) (auto simp: json_get_def pop_def)

lemma json_get_put: "json_get k (put k' v kvs) = (if k = k' then Some v else json_get k kvs)"
proof -
  have "map_of (map (\<lambda>(k'', x). (k'', if k'' = k' then v else x)) kvs) k =
      (if k = k' \<and> k' \<in> fst ` set kvs then Some v else map_of kvs k)"
  proof (induction kvs)
    case (Cons p kvs)
    then show ?case by (cases p; cases "k = k'") (simp_all split: if_splits)
  qed simp
  then show ?thesis
    using map_of_eq_None_iff [of kvs k] by (cases "k' \<in> fst ` set kvs") (auto simp: json_get_def put_def map_add_def
      split: option.split)
qed

lemma json_get_masked:
  "k \<noteq> a \<Longrightarrow> k \<noteq> b \<Longrightarrow> json_get k (masked_field a b f kvs) = json_get k kvs"
  "a \<noteq> b \<Longrightarrow> json_get a (masked_field a b f kvs) = None"
  by (auto simp: masked_field_def json_get_pop json_get_put split: option.split)

lemma json_get_redacted:
  "json_get k (redacted_field a kvs) =
    (if k = a \<and> json_get k kvs \<noteq> None then Some (JStr ''<redacted>'') else json_get k kvs)"
  by (auto simp: redacted_field_def json_get_put redact_secret_def split: option.split)

text \<open>
  What is logged names no secret: the sanitised extra fields of a log record have no account number, idempotency
  key, signature or raw body under their own names, and a secret or expected signature only as \<open><redacted>\<close>.
\<close>

theorem log_extra_sanitized:
  "list_all (\<lambda>k. json_get k (sanitize_log_extra extra) = None)
      [''account_no'', ''idempotency_key'', ''signature'', ''raw_body''] \<and>
    json_get ''secret'' (sanitize_log_extra extra) \<in> {None, Some (JStr ''<redacted>'')} \<and>
    json_get ''expected_signature'' (sanitize_log_extra extra) \<in> {None, Some (JStr ''<redacted>'')}"
  by (simp add: sanitize_log_extra_def json_get_pop json_get_redacted json_get_masked)

definition known_labels :: "string set" where
  "known_labels = set (EVENT_TYPES @ TRANSACTION_STATUSES @ TRANSACTION_RESULTS @ IDEMPOTENCY_DECISIONS @
     IDEMPOTENCY_SOURCES @ REDIS_RESULTS @ REDIS_OPERATIONS @ DEPENDENCIES @ DEPENDENCY_RESULTS @ FAILURE_REASONS @
     HMAC_FAILURE_REASONS @ ENDPOINTS @ STATE_RESULTS @ WRITE_SUSPEND_REASONS @ ROUTE_GROUPS)"

lemma normalize_known:
  "set allowed \<subseteq> known_labels \<Longrightarrow> normalize_label v allowed \<in> known_labels"
  by (auto simp: normalize_label_def known_labels_def EVENT_TYPES_def)

definition known_change :: "metrics \<Rightarrow> metrics \<Rightarrow> bool" where
  "known_change m' m \<longleftrightarrow> (\<forall>x. m' x \<noteq> m x \<longrightarrow> set (snd x) \<subseteq> known_labels)"

lemma known_change_refl: "known_change m m"
  by (simp add: known_change_def)

lemma known_change_inc: "known_change m' m \<Longrightarrow> set ls \<subseteq> known_labels \<Longrightarrow> known_change (inc n ls m') m"
  by (simp add: known_change_def inc_def)

lemma known_change_if: "known_change a m \<Longrightarrow> known_change b m \<Longrightarrow> known_change (if c then a else b) m"
  by simp

lemma allowed_known:
  "set EVENT_TYPES \<subseteq> known_labels" "set TRANSACTION_STATUSES \<subseteq> known_labels" "set TRANSACTION_RESULTS \<subseteq> known_labels"
  "set REDIS_OPERATIONS \<subseteq> known_labels" "set DEPENDENCY_RESULTS \<subseteq> known_labels" "set FAILURE_REASONS \<subseteq> known_labels"
  "set HMAC_FAILURE_REASONS \<subseteq> known_labels" "set ENDPOINTS \<subseteq> known_labels" "set WRITE_SUSPEND_REASONS \<subseteq> known_labels"
  "set ROUTE_GROUPS \<subseteq> known_labels"
  by (auto simp: known_labels_def)

text \<open>
  Metric labels stay in a fixed finite set, whatever text reaches the recording helpers - an unknown event type,
  status, reason or route is counted as \<open>unknown\<close> - so no request can create new label values.
\<close>

theorem labels_bounded:
  "known_change (record_transaction_processed a b c m) m \<and> known_change (record_redis_operation_v2 a b c m) m \<and>
   known_change (record_redis_fallback a b m) m \<and> known_change (record_hmac_auth_failure a m) m \<and>
   known_change (record_write_suspended a b m) m \<and> finite known_labels"
proof -
  note known = normalize_known [OF allowed_known(1)] normalize_known [OF allowed_known(2)]
    normalize_known [OF allowed_known(3)] normalize_known [OF allowed_known(4)] normalize_known [OF allowed_known(5)]
    normalize_known [OF allowed_known(6)] normalize_known [OF allowed_known(7)] normalize_known [OF allowed_known(8)]
    normalize_known [OF allowed_known(9)] normalize_known [OF allowed_known(10)]
  note step = known_change_inc known_change_if known_change_refl
  have "known_change (record_transaction_processed a b c m) m"
    unfolding record_transaction_processed_def Let_def by (intro step) (simp_all add: known)
  moreover have "known_change (record_redis_operation_v2 a b c m) m"
    unfolding record_redis_operation_v2_def Let_def by (intro step) (simp_all add: known)
  moreover have "known_change (record_redis_fallback a b m) m"
    unfolding record_redis_fallback_def by (intro step) (simp_all add: known)
  moreover have "known_change (record_hmac_auth_failure a m) m"
    unfolding record_hmac_auth_failure_def by (intro step) (simp_all add: known)
  moreover have "known_change (record_write_suspended a b m) m"
    unfolding record_write_suspended_def by (intro step) (simp_all add: known)
  moreover have "finite known_labels" unfolding known_labels_def by (rule finite_set)
  ultimately show ?thesis by blast
qed

subsection \<open>Answers\<close>

text \<open>
  A business failure is answered alike whether it is recorded and replayed or raised: for every exception the
  service records as a failed answer, the recorded status code is the one the exception handler gives it.
\<close>

theorem failure_status_agrees:
  assumes "is_domain_failure exc"
  shows "is_domain_exception exc \<and> status_code_for_exception exc = domain_status exc \<and>
    hr_status (domain_exception_handler ctx exc) = res_status_code (failed_result exc)"
  using assms
  by (cases exc) (simp_all add: is_domain_failure_def is_domain_exception_def status_code_for_exception_def
      domain_status_def domain_exception_handler_def error_answer_def failed_result_def)

theorem failure_status_agrees_witness:
  "is_domain_exception InsufficientBalance \<and>
    status_code_for_exception InsufficientBalance = domain_status InsufficientBalance \<and>
    hr_status (domain_exception_handler \<lparr>ctx_request_id = None, ctx_trace_id = None\<rparr> InsufficientBalance) =
      res_status_code (failed_result InsufficientBalance)"
  by (rule failure_status_agrees) (simp add: is_domain_failure_def)

text \<open>
  Readiness depends on the database alone: the probe answers 200 exactly when the database answered and 503
  otherwise; Redis being down only turns the mode to \<open>degraded\<close>. It never raises.
\<close>

theorem readiness_follows_database:
  "wp (readiness_check E)
    (\<lambda>r w'. hr_status r = (if query_fault E (w_tick w) = None then 200 else 503) \<and>
       w_db w' = w_db w \<and> w_committed w' = w_committed w \<and> w_sess w' = w_sess w)
    (\<lambda>_ _. False) w"
  by (auto simp: readiness_check_def check_database_connection_def check_redis_connection_def get_redis_client_def
      answer_def wp_simps Let_def split: option.split prod.split)

end
