(* ===== verification/Processing_Properties.thy ===== *)
theory Processing_Properties
  imports Guarantees
begin

text \<open>
  What a client of \<open>TransactionEventService.process\<close> can count on when it repeats a request, and what the retry
  after a lost race does.
\<close>

subsection \<open>Repeating a request\<close>





subsection \<open>The retry\<close>

lemma deactive_fail:
  "w_sess w = Deactive \<Longrightarrow> svc_fail E c key code body msg p w = (Inl (SAError PendingRollbackError), w)"
  by (simp add: svc_fail_def cached_fail_def fail_def get_existing_record_def get_by_key_def db_query_def bindM_def
      split: option.split)


definition racing_env :: env where
  "racing_env = calm_env\<lparr>flush_fault := \<lambda>_. Some (IntegrityError ''uq_transaction_events_external_event_id'')\<rparr>"


end
