(* ===== verification/Liveness.thy ===== *)
theory Liveness
  imports Guarantees
begin

text \<open>
  That a valid deposit or withdrawal gets through: in an environment without faults, with room left in the
  columns, every step of \<open>process\<close> succeeds. Each operation is shown to return - not only to be right when it
  returns - by checking the constraints of the rows it writes.
\<close>

subsection \<open>Operations that cannot fail\<close>

text \<open>No faults, no other transactions, and no sequence value lost to them.\<close>

definition orderly :: "env \<Rightarrow> bool" where
  "orderly E \<longleftrightarrow> calm E \<and> (\<forall>n. seq_gap E n = 0)"

lemma orderly_facts:
  assumes "orderly E"
  shows "calm E" "alone E" "seq_gap E n = 0" "query_fault E n = None" "flush_fault E n = None"
  using assms by (simp_all add: orderly_def calm_def)

lemma write_flush_calm:
  assumes "orderly E" "w_sess w = InTx" "db_ok (f (w_db w))"
  shows "wp (thenM (assign f) (thenM (db_flush E) (returnM r)))
    (\<lambda>x w'. x = r \<and> runs w (f (w_db w)) w') (\<lambda>_ _. False) w"
  using assms by (simp add: wp_simps orderly_facts db_ok_def)

lemma unique_query_calm:
  assumes "orderly E" "w_sess w = InTx" "distinct (map k (tbl (w_db w)))"
  shows "wp (bindM (db_query E (\<lambda>db. filter (\<lambda>r. k r = v) (tbl db))) (\<lambda>rs.
      bindM (one_or_none rs) (\<lambda>r. returnM (get_id pk r))))
    (\<lambda>i w'. runs w (w_db w) w' \<and> i = map_option pk (List.find (\<lambda>r. k r = v) (tbl (w_db w))))
    (\<lambda>_ _. False) w"
proof -
  consider "filter (\<lambda>r. k r = v) (tbl (w_db w)) = []" | r where "filter (\<lambda>r. k r = v) (tbl (w_db w)) = [r]"
    by (rule filter_key_cases [OF assms(3)])
  then show ?thesis
    using assms(1,2) by cases (auto simp: wp_simps find_filter get_id_def runs_refl orderly_facts)
qed

lemma create_processing_calm:
  assumes "orderly E" "w_sess w = InTx" "\<And>t. db_ok (add_idem (new_idem 0 t (w_db w) k h ex l) (w_db w))"
  shows "wp (create_processing E k h ex l)
    (\<lambda>i w'. \<exists>t. let r = new_idem 0 t (w_db w) k h ex l in i = idem_id r \<and> runs w (add_idem r (w_db w)) w')
    (\<lambda>_ _. False) w"
  unfolding create_processing_def wp_bind wp_get orderly_facts(3) [OF assms(1)]
  by (rule wp_mono [OF write_flush_calm [OF assms(1,2)]]) (use assms(3) in \<open>auto simp: Let_def simp del: new_row_keys\<close>)

lemma create_received_calm:
  assumes "orderly E" "w_sess w = InTx" "\<And>t. db_ok (add_event (new_event 0 t (w_db w) x k a ty n cur d) (w_db w))"
  shows "wp (create_received E x k a ty n cur d)
    (\<lambda>i w'. \<exists>t. let e = new_event 0 t (w_db w) x k a ty n cur d in i = te_id e \<and> runs w (add_event e (w_db w)) w')
    (\<lambda>_ _. False) w"
  unfolding create_received_def wp_bind wp_get orderly_facts(3) [OF assms(1)]
  by (rule wp_mono [OF write_flush_calm [OF assms(1,2)]]) (use assms(3) in \<open>auto simp: Let_def simp del: new_row_keys\<close>)

lemma ledger_create_calm:
  assumes "orderly E" "w_sess w = InTx" "\<And>t. db_ok (add_ledger (new_ledger 0 t (w_db w) ev acc ty n b) (w_db w))"
  shows "wp (ledger_create E ev acc ty n b)
    (\<lambda>i w'. \<exists>t. let l = new_ledger 0 t (w_db w) ev acc ty n b in i = le_id l \<and> runs w (add_ledger l (w_db w)) w')
    (\<lambda>_ _. False) w"
  unfolding ledger_create_def wp_bind wp_get orderly_facts(3) [OF assms(1)]
  by (rule wp_mono [OF write_flush_calm [OF assms(1,2)]]) (use assms(3) in \<open>auto simp: Let_def simp del: new_row_keys\<close>)

lemma change_status_calm:
  assumes "orderly E" "w_sess w = InTx" "event_by_id (w_db w) i = Some e" "te_status e = status_value a"
    "b \<in> set (allowed_transitions a)" "\<And>t. db_ok (push_status 0 t i a b reason (w_db w))"
  shows "wp (change_status E i (Inl b) reason)
    (\<lambda>_ w'. \<exists>t. runs w (push_status 0 t i a b reason (w_db w)) w') (\<lambda>_ _. False) w"
  using assms
  by (auto simp: change_status_def wp_simps enum_or_raise_def validate_transition_members history_add_def
      orderly_facts push_status_def db_ok_def)

subsection \<open>Room in the columns\<close>

text \<open>Sequences that have not run out: one more event and ledger entry, three more histories; one more record.\<close>

definition room :: "tables \<Rightarrow> bool" where
  "room db \<longleftrightarrow> int64 (next_id 0 (map te_id (t_events db))) \<and> int64 (next_id 0 (map le_id (t_ledger db))) \<and>
     int64 (next_id 0 (map esh_id (t_hist db)) + 2)"

definition record_room :: "tables \<Rightarrow> bool" where
  "record_room db \<longleftrightarrow> int64 (next_id 0 (map idem_id (t_idem db)))"

lemma next_id_snoc: "next_id 0 (ids @ [next_id 0 ids]) = next_id 0 ids + 1"
proof -
  have "foldr max ids m = max (foldr max ids 0) m" if "0 \<le> m" for m :: int
    using that by (induction ids) (auto simp: max_def)
  moreover have "0 \<le> foldr max ids (0 :: int)" by (induction ids) (auto simp: max_def)
  ultimately show ?thesis by (simp add: next_id_def max_def)
qed

lemma next_id_positive: "0 < next_id gap ids"
proof -
  have "0 \<le> foldr max ids (0 :: int)" by (induction ids) (auto simp: max_def)
  then show ?thesis by (simp add: next_id_def)
qed

lemma next_history_push:
  "next_id 0 (map esh_id (t_hist (push_status 0 t i a b reason db))) = next_id 0 (map esh_id (t_hist db)) + 1"
  by (simp add: push_status_hist next_id_snoc)

subsection \<open>Running the event\<close>

text \<open>An event with status \<open>st\<close> whose money can be posted, in valid rows with room for \<open>n\<close> more histories.\<close>

definition ready :: "tables \<Rightarrow> int \<Rightarrow> transaction_status \<Rightarrow> event_type \<Rightarrow> int \<Rightarrow> account \<Rightarrow> int \<Rightarrow> bool" where
  "ready db i st ty k a n \<longleftrightarrow> db_ok db \<and> \<not> has_ledger db i \<and> account_by_id db (acc_id a) = Some a \<and>
     (\<exists>e. event_by_id db i = Some e \<and> te_status e = status_value st \<and> te_event_type e = event_type_value ty \<and>
        0 < te_amount e \<and> signed_amount ty None (te_amount e) = Some k) \<and>
     int64 i \<and> int64 k \<and> 0 \<le> acc_balance a + k \<and> int64 (acc_balance a + k) \<and>
     int64 (next_id 0 (map le_id (t_ledger db))) \<and>
     int64 (next_id 0 (map esh_id (t_hist db)) + n) \<and> 0 \<le> n"

lemma next_history_room:
  "int64 (next_id 0 ids + n) \<Longrightarrow> 0 \<le> n \<Longrightarrow> int64 (next_id 0 ids)"
  using next_id_positive [of 0 ids] by (simp add: int64_def)

lemma push_ready_ok:
  assumes "db_ok db" "event_by_id db i = Some e" "int64 i" "int64 (next_id 0 (map esh_id (t_hist db)) + n)" "0 \<le> n"
    "fits 255 reason"
  shows "db_ok (push_status 0 t i a b (Some reason) db)"
  using assms event_by_id_Some [OF assms(2)]
  by (intro db_ok_push_status) (auto simp: opt_all_def intro: next_history_room)

lemma ready_push:
  assumes "ready db i a ty k acc n" "0 < n" "fits 255 reason"
  shows "ready (push_status 0 t i a b (Some reason) db) i b ty k acc (n - 1)"
proof -
  let ?db = "push_status 0 t i a b (Some reason) db"
  from assms(1) obtain e where e: "event_by_id db i = Some e" "te_event_type e = event_type_value ty" "0 < te_amount e"
      "signed_amount ty None (te_amount e) = Some k" and ok: "db_ok db" "int64 i"
      "int64 (next_id 0 (map esh_id (t_hist db)) + n)" "0 \<le> n" by (auto simp: ready_def)
  have "db_ok ?db" by (rule push_ready_ok [OF ok(1) e(1) ok(2-4) assms(3)])
  moreover have "int64 (next_id 0 (map esh_id (t_hist ?db)) + (n - 1))" using ok(3) by (simp add: next_history_push)
  moreover have "event_by_id ?db i = Some (e\<lparr>te_status := status_value b, te_updated_at := t\<rparr>)"
    using e(1) by (simp add: event_by_id_push)
  moreover have "has_ledger ?db i = has_ledger db i" "account_by_id ?db = account_by_id db"
    by (simp_all add: has_ledger_def account_by_id_def fun_eq_iff)
  ultimately show ?thesis using assms(1,2) e unfolding ready_def by simp
qed

lemma change_ready:
  assumes "orderly E" "w_sess w = InTx" "ready (w_db w) i a ty k acc n" "0 < n" "b \<in> set (allowed_transitions a)"
    "fits 255 reason"
  shows "wp (change_status E i (Inl b) (Some reason))
    (\<lambda>_ w'. ready (w_db w') i b ty k acc (n - 1) \<and> t_idem (w_db w') = t_idem (w_db w) \<and> runs w (w_db w') w')
    (\<lambda>_ _. False) w"
proof -
  from assms(3) obtain e where e: "event_by_id (w_db w) i = Some e" "te_status e = status_value a"
    and ok: "db_ok (w_db w)" "int64 i" "int64 (next_id 0 (map esh_id (t_hist (w_db w))) + n)" "0 \<le> n"
    by (auto simp: ready_def)
  show ?thesis
    by (rule wp_mono [OF change_status_calm [OF assms(1,2) e assms(5) push_ready_ok [OF ok(1) e(1) ok(2-4) assms(6)]]])
      (use ready_push [OF assms(3,4,6)] in \<open>auto simp: runs_def\<close>)
qed

lemma update_balance_calm:
  assumes "orderly E" "w_sess w = InTx" "\<And>t. db_ok (set_balance i b t (w_db w))"
  shows "wp (update_balance E i b) (\<lambda>_ w'. \<exists>t. runs w (set_balance i b t (w_db w)) w') (\<lambda>_ _. False) w"
  unfolding update_balance_def wp_bind wp_utc_now
  by (rule wp_mono [OF write_flush_calm [OF assms(1,2)]]) (use assms(3) in auto)

text \<open>What the last step finds: the money is posted and one more history fits.\<close>

definition booked :: "tables \<Rightarrow> int \<Rightarrow> int \<Rightarrow> bool" where
  "booked db i l \<longleftrightarrow> db_ok db \<and> ledger_by_id db l \<noteq> None \<and> int64 i \<and> int64 (next_id 0 (map esh_id (t_hist db))) \<and>
     (\<exists>e. event_by_id db i = Some e \<and> te_status e = status_value PROCESSING)"

lemma booked_post:
  assumes "db_ok (add_ledger row db)" "le_id row \<notin> le_id ` set (t_ledger db)" "int64 bal" "int64 i"
    "int64 (next_id 0 (map esh_id (t_hist db)))" "event_by_id db i = Some e" "te_status e = status_value PROCESSING"
  shows "booked (set_balance acc bal u (add_ledger row db)) i (le_id row)"
proof -
  have "List.find (\<lambda>x. le_id x = le_id row) (t_ledger db) = None" using assms(2) by (metis (mono_tags, lifting) find_None_iff image_iff)
  then have "ledger_by_id (set_balance acc bal u (add_ledger row db)) (le_id row) = Some row"
    by (simp add: ledger_by_id_def set_balance_def upd_account_def add_ledger_def find_append)
  moreover have "event_by_id (set_balance acc bal u (add_ledger row db)) i = Some e"
    using assms(6) by (simp add: event_by_id_def set_balance_def upd_account_def add_ledger_def)
  moreover have "t_hist (set_balance acc bal u (add_ledger row db)) = t_hist db"
    by (simp add: set_balance_def upd_account_def add_ledger_def)
  ultimately show ?thesis
    using assms db_ok_set_balance [OF assms(1,3)] by (simp add: booked_def)
qed

lemma apply_ready:
  assumes "orderly E" "w_sess w = InTx" "ready (w_db w) i PROCESSING ty k a 0" "ty \<noteq> CANCEL"
  shows "wp (apply_event E (acc_id a) i None)
    (\<lambda>l w'. booked (w_db w') i l \<and> t_idem (w_db w') = t_idem (w_db w) \<and> runs w (w_db w') w') (\<lambda>_ _. False) w"
proof -
  from assms(3) obtain e where e: "event_by_id (w_db w) i = Some e" "te_event_type e = event_type_value ty"
      "te_status e = status_value PROCESSING" and n: "0 < te_amount e" "signed_amount ty None (te_amount e) = Some k"
    and ok: "db_ok (w_db w)" "\<not> has_ledger (w_db w) i" "account_by_id (w_db w) (acc_id a) = Some a" "int64 i"
      "int64 k" "0 \<le> acc_balance a + k" "int64 (acc_balance a + k)" "int64 (next_id 0 (map le_id (t_ledger (w_db w))))"
      "int64 (next_id 0 (map esh_id (t_hist (w_db w))))"
    by (auto simp: ready_def)
  have amount: "calculate_ledger_amount (Inl ty) (te_amount e) None = Inr k"
    using calculate_ledger_amount_signed [of ty "te_amount e" None k] n by simp
  have acc: "acc_id a \<in> acc_id ` set (t_accounts (w_db w))" "int64 (acc_id a)"
    using account_by_id_Some [OF ok(3)] db_ok_fits(1) [OF ok(1)] by (auto simp: list_all_iff account_fits_def)
  let ?ty = "if 0 < k then ''CREDIT'' else ''DEBIT''" and ?b = "acc_balance a + k"
  have added: "db_ok (add_ledger (new_ledger 0 t (w_db w) i (acc_id a) ?ty k ?b) (w_db w))" for t
    using ok acc event_by_id_Some [OF e(1)] next_id_fresh [of 0 "map le_id (t_ledger (w_db w))"]
    by (intro db_ok_add_ledger) (auto simp: new_ledger_def ledger_fits_def fits_def has_ledger_def)
  have "wp (bindM (ledger_create E i (acc_id a) ?ty k ?b) (\<lambda>l. thenM (update_balance E (acc_id a) ?b) (returnM l)))
    (\<lambda>l w'. booked (w_db w') i l \<and> t_idem (w_db w') = t_idem (w_db w) \<and> runs w (w_db w') w') (\<lambda>_ _. False) w"
  proof (rule wp_bindI [OF ledger_create_calm [OF assms(1,2) added]], goal_cases)
    case (1 l w1)
    then obtain t where l: "l = le_id (new_ledger 0 t (w_db w) i (acc_id a) ?ty k ?b)"
      and r1: "runs w (add_ledger (new_ledger 0 t (w_db w) i (acc_id a) ?ty k ?b) (w_db w)) w1"
      by (auto simp: Let_def simp del: new_row_keys)
    let ?db = "add_ledger (new_ledger 0 t (w_db w) i (acc_id a) ?ty k ?b) (w_db w)"
    from r1 have w1: "w_sess w1 = InTx" "w_db w1 = ?db" by (auto simp: runs_def)
    have fresh: "l \<notin> le_id ` set (t_ledger (w_db w))"
      using next_id_fresh [of 0 "map le_id (t_ledger (w_db w))"] by (simp add: l)
    note b = booked_post [OF added fresh [unfolded l] ok(7,4,9) e(1,3), folded l]
    show ?case
      unfolding wp_then
      by (rule wp_mono [OF update_balance_calm [OF assms(1) w1(1)]])
        (use w1 r1 b db_ok_set_balance [OF added ok(7)] in
          \<open>auto simp: wp_return runs_def, simp_all add: set_balance_def upd_account_def add_ledger_def\<close>)
  qed
  then show ?thesis
    using assms(2,4) e ok amount
    by (simp add: apply_event_def wp_simps enum_or_raise_def original_type_for_def Let_def not_less)
qed

lemma finish_booked:
  assumes "orderly E" "w_sess w = InTx" "booked (w_db w) i l"
  shows "wp (thenM (change_status E i (Inl COMPLETED) (Some ''ledger processing completed''))
      (success_result i l True False))
    (\<lambda>res w'. res_processed res \<and> res_status_code res = 200 \<and> db_ok (w_db w') \<and> t_idem (w_db w') = t_idem (w_db w) \<and>
       runs w (w_db w') w') (\<lambda>_ _. False) w"
proof -
  from assms(3) obtain e where e: "event_by_id (w_db w) i = Some e" "te_status e = status_value PROCESSING"
    and ok: "db_ok (w_db w)" "int64 i" "int64 (next_id 0 (map esh_id (t_hist (w_db w))) + 0)"
    and l: "ledger_by_id (w_db w) l \<noteq> None" by (auto simp: booked_def)
  have push: "db_ok (push_status 0 t i PROCESSING COMPLETED (Some ''ledger processing completed'') (w_db w))" for t
    by (rule push_ready_ok [OF ok(1) e(1) ok(2,3)]) (simp_all add: fits_def)
  show ?thesis
    by (rule wp_thenI [OF change_status_calm [OF assms(1,2) e _ push]])
      (use e l push in \<open>auto simp: success_result_def wp_simps runs_def event_by_id_push ledger_by_id_def\<close>)
qed

lemma run_event_calm:
  assumes "orderly E" "w_sess w = InTx" "ready (w_db w) i RECEIVED ty k a 2" "ty \<noteq> CANCEL"
  shows "wp (run_event E request (acc_id a) i None)
    (\<lambda>res w'. res_processed res \<and> res_status_code res = 200 \<and> db_ok (w_db w') \<and> t_idem (w_db w') = t_idem (w_db w) \<and>
       runs w (w_db w') w') (\<lambda>_ _. False) w"
  unfolding run_event_def
proof (rule wp_thenI [OF change_ready [OF assms(1-3)]], goal_cases)
  case (4 u w1)
  then have r1: "w_sess w1 = InTx" "ready (w_db w1) i VALIDATED ty k a 1"
    and first: "runs w (w_db w1) w1" "t_idem (w_db w1) = t_idem (w_db w)" by (auto simp: runs_def)
  show ?case
  proof (rule wp_thenI [OF change_ready [OF assms(1) r1]], goal_cases)
    case (4 u w2)
    then have r2: "w_sess w2 = InTx" "ready (w_db w2) i PROCESSING ty k a 0" by (auto simp: runs_def)
    show ?case
    proof (rule wp_bindI [OF apply_ready [OF assms(1) r2 assms(4)]], goal_cases)
      case (1 l w3)
      then have "w_sess w3 = InTx" "booked (w_db w3) i l" by (auto simp: runs_def)
      note end_of = finish_booked [OF assms(1) this]
      show ?case
        unfolding option.case wp_then [of "returnM ()"] wp_return
        by (rule wp_mono [OF end_of]) (use 1 4 first in \<open>auto simp: runs_def\<close>)
    qed
  qed (auto simp: fits_def)
qed (auto simp: fits_def)

subsection \<open>The request\<close>

text \<open>A deposit or withdrawal that no rule refuses: a known account, not quarantined, a new event, enough money.\<close>

definition acceptable :: "tables \<Rightarrow> string \<Rightarrow> create_request \<Rightarrow> account \<Rightarrow> int \<Rightarrow> bool" where
  "acceptable db key request a k \<longleftrightarrow> valid_request request \<and> rq_event_type request \<noteq> CANCEL \<and> length key \<le> 128 \<and>
     account_of db (rq_account_no request) = Some a \<and> \<not> quarantined db ACCOUNT (int_str (acc_id a)) \<and>
     event_of db (rq_external_event_id request) = None \<and> int64 (rq_amount request) \<and>
     signed_amount (rq_event_type request) None (rq_amount request) = Some k \<and>
     0 \<le> acc_balance a + k \<and> int64 (acc_balance a + k)"

lemma event_type_fits: "fits 20 (event_type_value ty)"
  by (cases ty) (simp_all add: fits_def enum_values)

lemma add_event_ready:
  assumes db: "db_ok db" "room db" and ok: "acceptable db key request a k"
    and e: "e = new_event 0 t db (rq_external_event_id request) key (acc_id a)
      (event_type_value (rq_event_type request)) (rq_amount request) (rq_currency request) (rq_occurred_at request)"
  shows "db_ok (add_event e db)" "ready (add_event e db) (te_id e) RECEIVED (rq_event_type request) k a 2"
proof -
  have acc: "account_by_id db (acc_id a) = Some a"
    using account_by_id_of [OF db(1)] ok by (auto simp: acceptable_def)
  note row = conjunct1 [OF account_by_id_Some [OF acc]]
  then have "int64 (acc_id a)" using db_ok_fits(1) [OF db(1)] by (auto simp: list_all_iff account_fits_def)
  moreover have i: "te_id e = next_id 0 (map te_id (t_events db))" by (simp add: e)
  moreover have fresh: "te_id e \<notin> te_id ` set (t_events db)"
    using next_id_fresh [of 0 "map te_id (t_events db)"] by (simp add: i)
  moreover have "rq_external_event_id request \<notin> te_external_event_id ` set (t_events db)"
    using ok by (auto simp: acceptable_def event_of_def find_None_iff)
  moreover have "length (rq_external_event_id request) \<le> 128" "length (rq_currency request) \<le> 10" "length key \<le> 128"
    using ok by (auto simp: acceptable_def valid_request_def valid_fields_def)
  ultimately show added: "db_ok (add_event e db)"
    using db ok row event_type_fits
    by (intro db_ok_add_event) (auto simp: e new_event_def event_fits_def room_def acceptable_def fits_def [of 128] fits_def [of 10])
  have k: "int64 k" using ok
    by (cases "rq_event_type request")
      (auto simp: acceptable_def int64_def valid_request_def valid_fields_def)
  have none: "\<not> has_ledger (add_event e db) (te_id e)"
    using db_ok_fk(2) [OF db(1)] fresh by (auto simp: has_ledger_def add_event_def)
  have found: "event_by_id (add_event e db) (te_id e) = Some e"
    using db_ok_unique(3) [OF added] unfolding event_by_id_def by (rule find_key_distinct) (simp add: add_event_def)
  have "account_by_id (add_event e db) (acc_id a) = Some a" using acc by (simp add: account_by_id_def add_event_def)
  with added none found k show "ready (add_event e db) (te_id e) RECEIVED (rq_event_type request) k a 2"
    using ok db(2) unfolding ready_def
    by (auto simp: acceptable_def room_def valid_request_def valid_fields_def i)
      (simp_all add: e new_event_def add_event_def)
qed

lemma guard_calm:
  assumes "orderly E" "w_sess w = InTx" "db_ok (w_db w)" "\<not> quarantined (w_db w) ty i"
  shows "wp (whenM q (assert_not_quarantined E ty i)) (\<lambda>_. runs w (w_db w)) (\<lambda>_ _. False) w"
proof -
  have "active_rows (target_type_value ty) i (w_db w) = []" using assms(4) by (simp add: active_rows_quarantined)
  then show ?thesis
    using assms by (simp add: wp_when runs_refl assert_not_quarantined_def get_active_def wp_simps orderly_facts get_id_def first_def)
qed

lemma account_query_calm:
  assumes "orderly E" "w_sess w = InTx" "db_ok (w_db w)"
  shows "wp (get_by_account_no_for_update E no)
    (\<lambda>i w'. runs w (w_db w) w' \<and> i = map_option acc_id (account_of (w_db w) no)) (\<lambda>_ _. False) w"
  unfolding get_by_account_no_for_update_def account_of_def
  using assms by (intro unique_query_calm) (simp_all add: db_ok_unique)

lemma event_query_calm:
  assumes "orderly E" "w_sess w = InTx" "db_ok (w_db w)"
  shows "wp (get_by_external_event_id E x)
    (\<lambda>i w'. runs w (w_db w) w' \<and> i = map_option te_id (event_of (w_db w) x)) (\<lambda>_ _. False) w"
  unfolding get_by_external_event_id_def event_of_def
  using assms by (intro unique_query_calm) (simp_all add: db_ok_unique)

lemma apply_started_request_calm:
  assumes E: "orderly E" and inx: "w_sess w = InTx" and db: "db_ok (w_db w)" "room (w_db w)"
    and ok: "acceptable (w_db w) key request a k"
  shows "wp (apply_started_request E svc key request)
    (\<lambda>res w'. res_processed res \<and> res_status_code res = 200 \<and> db_ok (w_db w') \<and> t_idem (w_db w') = t_idem (w_db w) \<and>
       w_sess w' = InTx \<and> w_committed w' = w_committed w) (\<lambda>_ _. False) w"
proof -
  have acc: "account_of (w_db w) (rq_account_no request) = Some a"
    and new: "event_of (w_db w) (rq_external_event_id request) = None" using ok by (auto simp: acceptable_def)
  have run: "wp (bindM (create_received E (rq_external_event_id request) key (acc_id a)
        (event_type_value (rq_event_type request)) (rq_amount request) (rq_currency request)
        (rq_occurred_at request)) (\<lambda>event.
      thenM (set_active (Some event)) (run_event E request (acc_id a) event None)))
    (\<lambda>res w'. res_processed res \<and> res_status_code res = 200 \<and> db_ok (w_db w') \<and> t_idem (w_db w') = t_idem (w_db w) \<and>
       w_sess w' = InTx \<and> w_committed w' = w_committed w) (\<lambda>_ _. False) w1" if r: "runs w (w_db w) w1" for w1
  proof -
    from r have w1: "w_sess w1 = InTx" "w_db w1 = w_db w" by (auto simp: runs_def)
    show ?thesis
    proof (rule wp_bindI [OF create_received_calm [OF E w1(1)]], goal_cases)
      case (2 i w2)
      then obtain t where i: "i = te_id (new_event 0 t (w_db w) (rq_external_event_id request) key (acc_id a)
          (event_type_value (rq_event_type request)) (rq_amount request) (rq_currency request) (rq_occurred_at request))"
        and r2: "runs w1 (add_event (new_event 0 t (w_db w) (rq_external_event_id request) key (acc_id a)
          (event_type_value (rq_event_type request)) (rq_amount request) (rq_currency request)
          (rq_occurred_at request)) (w_db w)) w2"
        by (auto simp: Let_def w1(2) simp del: new_row_keys)
      let ?w = "w2\<lparr>w_active_event := Some i\<rparr>"
      have "w_sess ?w = InTx" "ready (w_db ?w) i RECEIVED (rq_event_type request) k a 2"
        using r2 add_event_ready(2) [OF db ok refl, of t] i by (simp_all add: runs_def)
      note go = run_event_calm [OF E this]
      show ?case
        unfolding wp_then set_active_def wp_modify
        by (rule wp_mono [OF go]) (use r r2 ok in \<open>auto simp: runs_def acceptable_def add_event_def\<close>)
    qed (use add_event_ready(1) [OF db ok refl] in \<open>simp_all add: w1(2)\<close>)
  qed
  show ?thesis
    unfolding apply_started_request_def
  proof (rule wp_bindI [OF account_query_calm [OF E inx db(1)]], goal_cases)
    case (1 found w1)
    then have w1: "w_sess w1 = InTx" "db_ok (w_db w1)" "\<not> quarantined (w_db w1) ACCOUNT (int_str (acc_id a))"
      "found = Some (acc_id a)" "runs w (w_db w) w1" "w_db w1 = w_db w"
      using db acc ok by (auto simp: runs_def acceptable_def)
    show ?case
      unfolding w1(4) option.case
    proof (rule wp_thenI [OF guard_calm [OF E w1(1-3)]], goal_cases)
      case (1 u w2)
      then have r2: "runs w (w_db w) w2" and w2: "w_sess w2 = InTx" "db_ok (w_db w2)" "w_db w2 = w_db w"
        using w1(5,6) db by (auto simp: runs_def)
      show ?case
      proof (rule wp_bindI [OF event_query_calm [OF E w2(1,2)]], goal_cases)
        case (1 found w3)
        then have "found = None" "runs w (w_db w) w3" using new r2 w2 by (auto simp: runs_def)
        with run [of w3] ok show ?case
          by (simp add: get_original_event_for_cancel_def acceptable_def wp_bind [of "returnM x" for x] wp_return)
      qed
    qed
  qed
qed

subsection \<open>The record of the request\<close>

lemma complete_calm:
  assumes "orderly E" "w_sess w = InTx" "db_ok (w_db w)" "opened (w_db w) k p r" "int32 code"
  shows "wp (complete E k code body (Some p) None t)
    (\<lambda>_ w'. db_ok (w_db w') \<and> runs w (w_db w') w') (\<lambda>_ _. False) w"
  unfolding complete_def get_existing_record_def wp_bind [of "bindM (get_by_key E k) f" for f] wp_bind [of "get_by_key E k"]
proof (rule wp_mono [OF get_by_key_calm [OF orderly_facts(1) [OF assms(1)] assms(2,3)]], goal_cases)
  case (1 found w1)
  have r: "idem_of (w_db w) k = Some r" "idem_request_hash r = generate_request_hash p"
    "idem_status r = idempotency_status_value IS_PROCESSING" using assms(4) by (auto simp: opened_def)
  from 1 r have w1: "w_sess w1 = InTx" "w_db w1 = w_db w" "found = Some (idem_id r)" "runs w (w_db w) w1"
    by (auto simp: runs_def)
  have ok: "db_ok (upd_idem (idem_id r) (completed_row code body u) (w_db w1))" for u
    using assms(3,5) db_ok_fits(4) [OF assms(3)] unfolding w1(2)
    by (intro db_ok_upd_idem) (auto simp: completed_row_def idem_fits_def list_all_iff opt_all_def fits_def enum_values)
  have "wp (mark_completed E (idem_id r) code body u) (\<lambda>_ w'. db_ok (w_db w') \<and> runs w (w_db w') w') (\<lambda>_ _. False) w1" for u
    unfolding mark_completed_def
    by (rule wp_mono [OF write_flush_calm [OF assms(1) w1(1), where f = "upd_idem (idem_id r) (completed_row code body u)"]])
      (use ok w1 in \<open>auto simp: runs_def\<close>)
  then show ?case
    using w1 r idem_by_id_of [OF assms(3) r(1)]
    by (simp add: wp_simps ensure_completion_matches_request_def ensure_same_request_hash_def is_terminal_noop_def
        ensure_can_close_processing_def record_status_def enum_or_raise_def wp_now_or)
qed

lemma check_or_start_calm:
  assumes "orderly E" "w_sess w = InTx" "db_ok (w_db w)" "record_room (w_db w)" "idem_of (w_db w) k = None" "length k \<le> 128"
  shows "wp (check_or_start E svc k p t)
    (\<lambda>c w'. chk_decision c = STARTED \<and> (\<exists>r. runs w (add_idem r (w_db w)) w' \<and> db_ok (w_db w') \<and> opened (w_db w') k p r))
    (\<lambda>_ _. False) w"
  unfolding check_or_start_def Let_def wp_bind [of "now_or E t"]
proof (rule wp_now_or, rule wp_bindI [OF get_by_key_calm [OF orderly_facts(1) [OF assms(1)] assms(2,3)]], goal_cases)
  case (1 checked_at found w1)
  then have w1: "w_sess w1 = InTx" "w_db w1 = w_db w" "found = None" "runs w (w_db w) w1"
    using assms(5) by (auto simp: runs_def)
  let ?h = "generate_request_hash p"
  have hash: "length ?h = 64" by (simp add: generate_request_hash_def)
  have ok: "db_ok (add_idem (new_idem 0 u (w_db w1) k ?h ex l) (w_db w1))" for u ex l
    using assms hash next_id_fresh [of 0 "map idem_id (t_idem (w_db w))"] unfolding w1(2)
    by (intro db_ok_add_idem) (auto simp: new_idem_def idem_fits_def opt_all_def fits_def record_room_def enum_values)
  have opened: "opened (add_idem (new_idem 0 u (w_db w) k ?h ex l) (w_db w)) k p (new_idem 0 u (w_db w) k ?h ex l)" for u ex l
    using assms(5) by (simp add: opened_def idem_of_def add_idem_def find_append new_idem_def)
  show ?case
    unfolding w1(3) option.case
    by (rule wp_bindI [OF create_processing_calm [OF assms(1) w1(1) ok]])
      (use w1 ok opened in \<open>auto simp: wp_simps check_result_def Let_def runs_def simp del: new_row_keys\<close>)
qed simp

lemma started_calm:
  assumes "orderly E" "w_sess w = InTx" "db_ok (w_db w)" "room (w_db w)" "acceptable (w_db w) key request a k"
    "opened (w_db w) key p r" "ts_cache_ttl svc = None"
  shows "wp (process_started E svc key request p)
    (\<lambda>res w'. w_sess w' = InTx \<and> db_ok (w_db w') \<and> res_processed res) (\<lambda>_ _. False) w"
proof -
  let ?w = "w\<lparr>w_active_event := None\<rparr>"
  have pre: "w_sess ?w = InTx" "db_ok (w_db ?w)" "room (w_db ?w)" "acceptable (w_db ?w) key request a k"
    using assms by simp_all
  have body: "wp (bindM (apply_started_request E svc key request) (\<lambda>result.
      thenM (svc_complete E (ts_cache_ttl svc) key (res_status_code result) (Some (JObj (res_body result))) p)
      (returnM result)))
    (\<lambda>res w'. w_sess w' = InTx \<and> db_ok (w_db w') \<and> res_processed res) (\<lambda>_ _. False) ?w"
  proof (rule wp_bindI [OF apply_started_request_calm [OF assms(1) pre]], goal_cases)
    case (1 res w1)
    then have "w_sess w1 = InTx" "db_ok (w_db w1)" "opened (w_db w1) key p r" "int32 (res_status_code res)"
      using assms(6) by (auto simp: opened_def idem_of_def int32_def)
    note close = complete_calm [OF assms(1) this]
    show ?case
      unfolding svc_complete_def assms(7) option.case
      by (rule wp_thenI [OF close]) (use 1 in \<open>auto simp: wp_return runs_def\<close>)
  qed
  have "wp (thenM (set_active None) (bindM (apply_started_request E svc key request) (\<lambda>result.
      thenM (svc_complete E (ts_cache_ttl svc) key (res_status_code result) (Some (JObj (res_body result))) p)
      (returnM result))))
    (\<lambda>res w'. w_sess w' = InTx \<and> db_ok (w_db w') \<and> res_processed res) (\<lambda>_ _. False) w"
    using body by (simp add: wp_then set_active_def wp_modify)
  from wp_mono [OF this] show ?thesis
    unfolding process_started_def wp_finally wp_catch
    by (auto simp: set_active_def wp_modify intro!: wp_mono [OF \<open>wp (thenM (set_active None) _) _ _ w\<close>])
qed

lemma body_calm:
  assumes "orderly E" "w_sess w = InTx" "db_ok (w_db w)" "room (w_db w)" "acceptable (w_db w) key request a k"
    "idem_of (w_db w) key = None" "ts_cache_ttl svc = None" "record_room (w_db w)"
  shows "wp (process_body E svc key request p)
    (\<lambda>res w'. w_sess w' = InTx \<and> db_ok (w_db w') \<and> res_processed res) (\<lambda>_ _. False) w"
proof -
  have "length key \<le> 128" using assms(5) by (simp add: acceptable_def)
  note check = check_or_start_calm [OF assms(1-3,8,6) this]
  show ?thesis
    unfolding process_body_def svc_check_or_start_def assms(7) option.case
  proof (rule wp_bindI [OF check], goal_cases)
    case (1 c w1)
    then obtain r where r: "runs w (add_idem r (w_db w)) w1" "db_ok (w_db w1)" "opened (w_db w1) key p r"
      and c: "chk_decision c = STARTED" by auto
    have "w_sess w1 = InTx" "room (w_db w1)" "acceptable (w_db w1) key request a k"
      using r assms(4,5)
      by (auto simp: runs_def room_def acceptable_def add_idem_def account_of_def event_of_def quarantined_def)
    note started_calm [OF assms(1) this(1) r(2) this(2,3) r(3) assms(7)]
    with c show ?case by simp
  qed
qed

subsection \<open>Success\<close>

text \<open>
  C4: a valid request gets through: without faults, with room in the columns and no other holder of its lock, a deposit
  or withdrawal for a known, unquarantined account with enough money under a new key and event id is processed - \<open>process\<close>
  returns, the answer says so, and the committed rows are those of the recorded answer with the money moved.
\<close>

theorem process_succeeds:
  assumes "orderly E" "idle w" "consistent (w_committed w)" "room (w_committed w)" "record_room (w_committed w)"
    "acceptable (w_committed w) key request a k" "idem_of (w_committed w) key = None" "ts_cache_ttl svc = None"
    "redis_live (w_redis w) (now E (w_tick w)) (idempotency_lock_key key) = None"
  shows "\<exists>res w'. process E svc key request w = (Inr res, w') \<and> res_processed res \<and> idle w' \<and>
    answer_ok request key (request_payload E request) (w_committed w) res (w_committed w') \<and>
    money_moved request (w_committed w) (w_committed w') res"
proof -
  let ?p = "request_payload E request"
  let ?P = "\<lambda>res c. res_processed res \<and> answer_ok request key ?p (w_committed w) res c"
  have "wp (process E svc key request) (\<lambda>res w'. idle w' \<and> ?P res (w_committed w')) (\<lambda>_ w'. idle w' \<and> False) w"
  proof (rule process_lift)
    fix w1 :: world
    assume "redis_only w w1"
    then have w1: "idle w1" "w_committed w1 = w_committed w" using assms(2) by (auto simp: redis_only_def idle_def)
    with assms(3) have con: "consistent (w_committed w1)" by simp
    have live: "wp (process_attempts E svc key request ?p (Suc 1))
      (\<lambda>res w2. idle w2 \<and> res_processed res) (\<lambda>e w2. idle w2 \<and> False \<and> w_committed w2 = w_committed w1) w1"
      by (rule attempts_calm [OF orderly_facts(1) [OF assms(1)] w1(1) con], rule wp_mono [OF body_calm [OF assms(1)]])
        (use assms w1 in \<open>auto simp: consistent_def\<close>)
    have once: "wp (process_attempts E svc key request ?p (Suc 1))
      (\<lambda>res w'. idle w' \<and> (w_committed w' = w_committed w1 \<and> \<not> res_processed res \<or> idem_of (w_committed w1) key = None \<and>
         (\<exists>res'. answer_ok request key ?p (w_committed w1) res' (w_committed w') \<and> (res_processed res \<longrightarrow> res = res'))))
      (\<lambda>e w'. idle w' \<and> (w_committed w' = w_committed w1 \<or> idem_of (w_committed w1) key = None \<and>
         (\<exists>res'. answer_ok request key ?p (w_committed w1) res' (w_committed w')))) w1"
      by (rule attempts_at_most_once [OF orderly_facts(2) [OF assms(1)] w1(1) con])
    show "wp (process_with_db_fallback E svc key request) (\<lambda>res w'. idle w' \<and> ?P res (w_committed w'))
        (\<lambda>_ w'. idle w' \<and> False) w1"
      unfolding process_with_db_fallback_def numeral_2_eq_2 One_nat_def [symmetric]
      by (rule wp_mono [OF iffD2 [OF wp_conj conjI [OF live once]]]) (use w1 in auto)
  qed (use assms in auto)
  then show ?thesis by (auto simp: wp_def answer_ok_def split: prod.splits sum.splits)
qed

theorem process_succeeds_witness:
  "\<exists>res w'. process calm_env sample_service ''key-2'' sample_request sample_world = (Inr res, w') \<and> res_processed res \<and>
    money_moved sample_request sample_db (w_committed w') res"
proof -
  have E: "orderly calm_env" by (simp add: orderly_def calm_calm_env) (simp add: calm_env_def)
  have db: "room sample_db" "record_room sample_db" "acceptable sample_db ''key-2'' sample_request sample_account 100"
    by code_simp+
  have "redis_live (w_redis sample_world) t l = None" "ts_cache_ttl sample_service = None" for t l
    by (simp_all add: sample_world_def idle_world_def redis_live_def sample_service_def)
  with process_succeeds [of calm_env sample_world "''key-2''" sample_request sample_account 100 sample_service] E db
  show ?thesis by auto
qed

end
