(* ===== verification/Bank_Refinement.thy ===== *)
theory Bank_Refinement
  imports Guarantees
begin

text \<open>
  What the service promises, without tables, sessions or faults: a bank of balances, a journal of movements and the
  answers given so far, in which a request does nothing, is answered, or is answered and moves money - each in one
  indivisible step. \<open>TransactionEventService.process\<close> is shown to implement it, for one request and for any
  sequence of requests, whatever fails in between.
\<close>

subsection \<open>Simulations\<close>

text \<open>
  The interface between an implementation and its specification: operations run on concrete states that keep an
  invariant, and their abstraction makes a step of the specification.
\<close>

inductive spec_run :: "('op \<Rightarrow> 'a \<Rightarrow> 'a \<Rightarrow> bool) \<Rightarrow> 'op list \<Rightarrow> 'a \<Rightarrow> 'a \<Rightarrow> bool" for spec where
  spec_nil: "spec_run spec [] a a"
| spec_cons: "spec op a b \<Longrightarrow> spec_run spec ops b c \<Longrightarrow> spec_run spec (op # ops) a c"

inductive_simps spec_run_nil_iff: "spec_run spec [] a b"

inductive_simps spec_run_cons_iff: "spec_run spec (op # ops) a b"

locale simulation =
  fixes inv :: "'c \<Rightarrow> bool" and abs :: "'c \<Rightarrow> 'a" and run :: "'op \<Rightarrow> 'c \<Rightarrow> 'c"
    and spec :: "'op \<Rightarrow> 'a \<Rightarrow> 'a \<Rightarrow> bool" and admitted :: "'op \<Rightarrow> bool"
  assumes run_inv: "admitted op \<Longrightarrow> inv c \<Longrightarrow> inv (run op c)"
    and run_spec: "admitted op \<Longrightarrow> inv c \<Longrightarrow> spec op (abs c) (abs (run op c))"
begin

lemma run_all:
  "list_all admitted ops \<Longrightarrow> inv c \<Longrightarrow> inv (fold run ops c) \<and> spec_run spec ops (abs c) (abs (fold run ops c))"
proof (induction ops arbitrary: c)
  case (Cons op ops)
  then have "inv (run op c)" "spec op (abs c) (abs (run op c))" by (auto intro: run_inv run_spec)
  with Cons show ?case by (auto intro: spec_cons)
qed (simp add: spec_nil)

text \<open>What every step of the specification keeps, every run of the implementation keeps.\<close>

lemma run_keeps:
  assumes step: "\<And>op a b. spec op a b \<Longrightarrow> R a b" and R: "\<And>a. R a a" "\<And>a b c. R a b \<Longrightarrow> R b c \<Longrightarrow> R a c"
    and "list_all admitted ops" "inv c"
  shows "R (abs c) (abs (fold run ops c))"
proof -
  have "spec_run spec ops a b \<Longrightarrow> R a b" for a b
    by (induction rule: spec_run.induct) (auto intro: R step)
  with run_all [OF assms(4,5)] show ?thesis by blast
qed

end

subsection \<open>The bank\<close>

type_synonym recorded = "string \<times> int option \<times> json option"

record bank =
  bk_balance :: "string \<rightharpoonup> int"
  bk_journal :: "(string \<times> int) list"
  bk_answers :: "string \<rightharpoonup> recorded"

text \<open>A request as the bank sees it: its key, the hash of its payload, the request.\<close>

type_synonym order = "string \<times> string \<times> create_request"

inductive bank_step :: "order \<Rightarrow> bank \<Rightarrow> bank \<Rightarrow> bool" where
  stay: "bank_step ord b b"
| answer: "bk_answers b key = None \<Longrightarrow>
    bank_step (key, h, request) b (b\<lparr>bk_answers := (bk_answers b)(key \<mapsto> (h, code, body))\<rparr>)"
| post: "bk_answers b key = None \<Longrightarrow> bk_balance b (rq_account_no request) = Some m \<Longrightarrow>
    signed_amount (rq_event_type request) ot (rq_amount request) = Some k \<Longrightarrow> 0 < rq_amount request \<Longrightarrow> 0 \<le> m + k \<Longrightarrow>
    bank_step (key, h, request) b
      \<lparr>bk_balance = (bk_balance b)(rq_account_no request \<mapsto> m + k),
       bk_journal = bk_journal b @ [(rq_account_no request, k)],
       bk_answers = (bk_answers b)(key \<mapsto> (h, Some 200, body))\<rparr>"

inductive_cases bank_stepE: "bank_step ord b b'"

text \<open>The books balance: every balance is the sum of its movements and is not negative.\<close>

definition journal_sum :: "(string \<times> int) list \<Rightarrow> string \<Rightarrow> int" where
  "journal_sum js no = sum_list (map snd (filter (\<lambda>j. fst j = no) js))"

definition bank_ok :: "bank \<Rightarrow> bool" where
  "bank_ok b \<longleftrightarrow> (\<forall>no m. bk_balance b no = Some m \<longrightarrow> m = journal_sum (bk_journal b) no \<and> 0 \<le> m)"

text \<open>Movements are only ever appended and an answer, once given, stays.\<close>

definition bank_grows :: "bank \<Rightarrow> bank \<Rightarrow> bool" where
  "bank_grows b b' \<longleftrightarrow> (\<exists>js. bk_journal b' = bk_journal b @ js) \<and> bk_answers b \<subseteq>\<^sub>m bk_answers b' \<and>
     dom (bk_balance b') = dom (bk_balance b) \<and> (bank_ok b \<longrightarrow> bank_ok b')"

lemma journal_sum_snoc: "journal_sum (js @ [(no, k)]) no' = journal_sum js no' + (if no' = no then k else 0)"
  by (simp add: journal_sum_def)

lemma bank_step_grows: "bank_step ord b b' \<Longrightarrow> bank_grows b b'"
  by (induction rule: bank_step.induct)
    (auto simp: bank_grows_def bank_ok_def map_le_def journal_sum_snoc)

lemma bank_grows_refl: "bank_grows b b"
  by (simp add: bank_grows_def)

lemma bank_grows_trans: "bank_grows a b \<Longrightarrow> bank_grows b c \<Longrightarrow> bank_grows a c"
  by (auto simp: bank_grows_def intro: map_le_trans)

subsection \<open>The bank in the tables\<close>

definition recorded_of :: "idempotency_record \<Rightarrow> recorded" where
  "recorded_of r = (idem_request_hash r, idem_response_code r, idem_response_body r)"

definition owner_of :: "account list \<Rightarrow> int \<Rightarrow> string" where
  "owner_of as i = (case List.find (\<lambda>a. acc_id a = i) as of None \<Rightarrow> [] | Some a \<Rightarrow> acc_account_no a)"

definition bank_of :: "tables \<Rightarrow> bank" where
  "bank_of db = \<lparr>bk_balance = (\<lambda>no. map_option acc_balance (account_of db no)),
     bk_journal = map (\<lambda>l. (owner_of (t_accounts db) (le_account_id l), le_amount l)) (t_ledger db),
     bk_answers = (\<lambda>key. map_option recorded_of (idem_of db key))\<rparr>"

lemma find_update:
  "(\<And>x. k (f x) = k x) \<Longrightarrow>
     List.find (\<lambda>x. k x = v) (update_rows q f rs) = map_option (\<lambda>x. if q x then f x else x) (List.find (\<lambda>x. k x = v) rs)"
  by (induction rs) (auto simp: update_rows_simps)

lemma answers_after:
  assumes "answered db' key p res" "others_kept key db db'"
  shows "bk_answers (bank_of db') = (bk_answers (bank_of db))(key \<mapsto>
    (generate_request_hash p, Some (res_status_code res), Some (JObj (res_body res))))"
  using assms by (auto simp: bank_of_def answered_def others_kept_def recorded_of_def fun_eq_iff)

lemma bank_of_kept:
  assumes "money_kept db db'"
  shows "bk_balance (bank_of db') = bk_balance (bank_of db)" "bk_journal (bank_of db') = bk_journal (bank_of db)"
  using assms by (simp_all add: bank_of_def money_kept_def account_of_def)

lemma bank_of_moved:
  assumes "db_ok db" "event_applied db db' a i original k" "account_of db no = Some a"
  shows "bk_balance (bank_of db') = (bk_balance (bank_of db))(no \<mapsto> acc_balance a + k)"
    "bk_journal (bank_of db') = bk_journal (bank_of db) @ [(no, k)]"
proof -
  let ?q = "\<lambda>x. acc_id x = acc_id a" and ?f = "\<lambda>t x. x\<lparr>acc_balance := acc_balance a + k, acc_updated_at := t\<rparr>"
  from assms(2) obtain t l where t: "t_accounts db' = update_rows ?q (?f t) (t_accounts db)"
    and l: "t_ledger db' = t_ledger db @ [l]" "le_account_id l = acc_id a" "le_amount l = k"
    by (auto simp: event_applied_def)
  have a: "a \<in> set (t_accounts db)" "acc_account_no a = no"
    using assms(3) by (auto simp: account_of_def dest: find_in)
  have same: "x = a" if "x \<in> set (t_accounts db)" "acc_id x = acc_id a" for x
    using that a(1) distinct_key_unique [OF db_ok_unique(1) [OF assms(1)]] by blast
  have acc: "account_of db' no' = map_option (\<lambda>x. if ?q x then ?f t x else x) (account_of db no')" for no'
    unfolding account_of_def t by (rule find_update) simp
  have "map_option acc_balance (account_of db' no') = (if no' = no then Some (acc_balance a + k)
      else map_option acc_balance (account_of db no'))" for no'
  proof (cases "account_of db no'")
    case (Some x)
    then have x: "x \<in> set (t_accounts db)" "acc_account_no x = no'" by (auto simp: account_of_def dest: find_in)
    show ?thesis
    proof (cases "no' = no")
      case True
      with Some assms(3) have "x = a" by simp
      with Some True show ?thesis by (simp add: acc)
    next
      case False
      with x a(2) same [OF x(1)] have "acc_id x \<noteq> acc_id a" by blast
      with Some False show ?thesis by (simp add: acc)
    qed
  next
    case None
    with assms(3) have "no' \<noteq> no" by auto
    with None show ?thesis by (simp add: acc)
  qed
  then show "bk_balance (bank_of db') = (bk_balance (bank_of db))(no \<mapsto> acc_balance a + k)"
    by (simp add: bank_of_def fun_eq_iff)
  have owner: "owner_of (t_accounts db') = owner_of (t_accounts db)"
    unfolding owner_of_def t by (rule ext) (simp add: find_update [where k = acc_id] option.case_eq_if option.map_sel)
  have "owner_of (t_accounts db) (acc_id a) = no"
    using find_key_distinct [OF db_ok_unique(1) [OF assms(1)] a(1)] a(2) by (simp add: owner_of_def)
  with l owner show "bk_journal (bank_of db') = bk_journal (bank_of db) @ [(no, k)]" by (simp add: bank_of_def)
qed

lemma answer_is_step:
  assumes "db_ok db" "idem_of db key = None" "answer_ok request key p db res db'"
  shows "bank_step (key, generate_request_hash p, request) (bank_of db) (bank_of db')"
proof -
  let ?h = "generate_request_hash p" and ?body = "Some (JObj (res_body res))"
  have new: "bk_answers (bank_of db) key = None" using assms(2) by (simp add: bank_of_def)
  have ans: "bk_answers (bank_of db') = (bk_answers (bank_of db))(key \<mapsto> (?h, Some (res_status_code res), ?body))"
    using assms(3) by (intro answers_after) (auto simp: answer_ok_def)
  show ?thesis
  proof (cases "res_processed res")
    case False
    then have "money_kept db db'" using assms(3) by (simp add: answer_ok_def)
    from bank_of_kept [OF this] ans
    have "bank_of db' = (bank_of db)\<lparr>bk_answers := (bk_answers (bank_of db))(key \<mapsto> (?h, Some (res_status_code res), ?body))\<rparr>"
      by simp
    with answer [OF new] show ?thesis by metis
  next
    case True
    then have "money_moved request db db' res" using assms(3) by (simp add: answer_ok_def)
    then obtain a i original k ot where a: "account_of db (rq_account_no request) = Some a"
      and k: "signed_amount (rq_event_type request) ot (rq_amount request) = Some k" "0 < rq_amount request"
        "0 \<le> acc_balance a + k" and res: "success_of db' i (acc_balance a + k) res"
      and moved: "event_applied db db' a i original k" by (auto simp: money_moved_def)
    have "bank_of db' = \<lparr>bk_balance = (bk_balance (bank_of db))(rq_account_no request \<mapsto> acc_balance a + k),
        bk_journal = bk_journal (bank_of db) @ [(rq_account_no request, k)],
        bk_answers = (bk_answers (bank_of db))(key \<mapsto> (?h, Some 200, ?body))\<rparr>"
      using bank_of_moved [OF assms(1) moved a] ans res by (auto simp: success_of_def)
    moreover have "bk_balance (bank_of db) (rq_account_no request) = Some (acc_balance a)" using a by (simp add: bank_of_def)
    ultimately show ?thesis using post [OF new _ k] by metis
  qed
qed

subsection \<open>The service implements the bank\<close>

text \<open>One call of \<open>process\<close>, with the environment it meets and the service it is made on.\<close>

record call =
  cl_env :: env
  cl_service :: transaction_service
  cl_key :: string
  cl_request :: create_request

definition call_step :: "call \<Rightarrow> world \<Rightarrow> world" where
  "call_step c w = snd (process (cl_env c) (cl_service c) (cl_key c) (cl_request c) w)"

definition order_of :: "call \<Rightarrow> order" where
  "order_of c = (cl_key c, generate_request_hash (request_payload (cl_env c) (cl_request c)), cl_request c)"

definition settled :: "world \<Rightarrow> bool" where
  "settled w \<longleftrightarrow> idle w \<and> consistent (w_committed w)"

lemma call_step_refines:
  assumes "alone (cl_env c)" "settled w"
  shows "settled (call_step c w)" "bank_step (order_of c) (bank_of (w_committed w)) (bank_of (w_committed (call_step c w)))"
proof -
  have w: "idle w" "consistent (w_committed w)" using assms(2) by (simp_all add: settled_def)
  let ?c = "w_committed (call_step c w)"
  have ch: "idle (call_step c w)" "?c = w_committed w \<or> idem_of (w_committed w) (cl_key c) = None \<and>
      (\<exists>res. answer_ok (cl_request c) (cl_key c) (request_payload (cl_env c) (cl_request c)) (w_committed w) res ?c)"
    using process_changes [OF assms(1) w, of "cl_service c" "cl_key c" "cl_request c"]
    by (auto simp: wp_def call_step_def split: prod.splits sum.splits)
  then show "settled (call_step c w)" using w by (auto simp: settled_def answer_ok_def)
  show "bank_step (order_of c) (bank_of (w_committed w)) (bank_of ?c)"
    using ch(2) w(2) stay answer_is_step by (auto simp: order_of_def consistent_def)
qed

interpretation bank: simulation settled "\<lambda>w. bank_of (w_committed w)" call_step "\<lambda>c. bank_step (order_of c)"
    "\<lambda>c. alone (cl_env c)"
  by unfold_locales (simp_all add: call_step_refines)

subsection \<open>Properties\<close>

text \<open>
  C3: the service implements the bank: any sequence of requests - repeated, refused, retried, each with its own
  failing statements, commits of unknown outcome and Redis faults - takes the committed rows, read as a bank, through
  one step of the specification per request.
\<close>

theorem requests_refine_bank:
  assumes "list_all (\<lambda>c. alone (cl_env c)) calls" "idle w" "consistent (w_committed w)"
  shows "spec_run (\<lambda>c. bank_step (order_of c)) calls (bank_of (w_committed w))
    (bank_of (w_committed (fold call_step calls w)))"
  using bank.run_all [OF assms(1), of w] assms(2,3) by (simp add: settled_def)

definition sample_calls :: "call list" where
  "sample_calls = [\<lparr>cl_env = calm_env, cl_service = sample_service, cl_key = ''key-2'', cl_request = sample_request\<rparr>,
     \<lparr>cl_env = calm_env\<lparr>commit_fault := \<lambda>_. Some (OperationalError ''lost'', True)\<rparr>, cl_service = sample_service, cl_key = ''key-2'',
      cl_request = sample_request\<rparr>]"

lemma sample_calls_alone: "list_all (\<lambda>c. alone (cl_env c)) sample_calls"
  by (simp add: sample_calls_def alone_def calm_env_def)

theorem requests_refine_bank_witness:
  "spec_run (\<lambda>c. bank_step (order_of c)) sample_calls (bank_of sample_db)
    (bank_of (w_committed (fold call_step sample_calls sample_world)))"
  using requests_refine_bank [of sample_calls sample_world] sample_calls_alone by simp

text \<open>
  C18: over any sequence of requests the journal only grows, an answer that was given is never changed or lost, no
  account appears or disappears, and every balance remains the sum of its movements and not negative.
\<close>

theorem requests_grow_bank:
  assumes "list_all (\<lambda>c. alone (cl_env c)) calls" "idle w" "consistent (w_committed w)"
  shows "bank_grows (bank_of (w_committed w)) (bank_of (w_committed (fold call_step calls w)))"
proof -
  have "settled w" using assms(2,3) by (simp add: settled_def)
  with bank_step_grows bank_grows_refl bank_grows_trans assms(1) show ?thesis by (rule bank.run_keeps)
qed

theorem requests_grow_bank_witness:
  "bank_grows (bank_of sample_db) (bank_of (w_committed (fold call_step sample_calls sample_world)))"
  using requests_grow_bank [of sample_calls sample_world] sample_calls_alone by simp

end
