(* ===== verification/Py_Regex.thy ===== *)
theory Py_Regex
  imports Py_Convert
begin

text \<open>
  The parts of Python's \<open>re\<close> and \<open>json.loads\<close> that decide about a text: whether a pattern occurs in it
  (\<open>search\<close>), whether it is all of it (\<open>fullmatch\<close>), and whether the text is JSON. Patterns are built from
  character classes, sequence, choice, repetition of a class and the word boundary; only whether there is a match is
  asked, so the order in which the engine tries alternatives does not matter. Characters are code points
  below 256, as everywhere in the model; the interpreter's limits on nesting and on the digits of an integer are
  not modelled.
\<close>

subsection \<open>Patterns\<close>

datatype rx =
    Empty
  | Cls "char \<Rightarrow> bool"
  | Many "char \<Rightarrow> bool"
  | Edge
  | Seq rx rx
  | Alt rx rx

text \<open>\<open>\w\<close>: letters, digits, numeric signs and the underscore of Latin-1.\<close>

definition is_word :: "char \<Rightarrow> bool" where
  "is_word c = (let n = code_of c in
     (48 \<le> n \<and> n \<le> 57) \<or> (65 \<le> n \<and> n \<le> 90) \<or> (97 \<le> n \<and> n \<le> 122) \<or> n = 95 \<or>
     n \<in> {170, 178, 179, 181, 185, 186, 188, 189, 190} \<or> (192 \<le> n \<and> n \<noteq> 215 \<and> n \<noteq> 247))"

definition edge_at :: "char option \<Rightarrow> string \<Rightarrow> bool" where
  "edge_at prev s \<longleftrightarrow>
     (case prev of None \<Rightarrow> False | Some c \<Rightarrow> is_word c) \<noteq> (case s of [] \<Rightarrow> False | c # _ \<Rightarrow> is_word c)"

text \<open>Where a match may end: the character before, and the text that is left.\<close>

fun many_ends :: "(char \<Rightarrow> bool) \<Rightarrow> char option \<Rightarrow> string \<Rightarrow> (char option \<times> string) list" where
  "many_ends p prev [] = [(prev, [])]"
| "many_ends p prev (c # s) = (prev, c # s) # (if p c then many_ends p (Some c) s else [])"

fun ends :: "rx \<Rightarrow> char option \<Rightarrow> string \<Rightarrow> (char option \<times> string) list" where
  "ends Empty prev s = [(prev, s)]"
| "ends (Cls p) prev s = (case s of [] \<Rightarrow> [] | c # s' \<Rightarrow> if p c then [(Some c, s')] else [])"
| "ends (Many p) prev s = many_ends p prev s"
| "ends Edge prev s = (if edge_at prev s then [(prev, s)] else [])"
| "ends (Seq a b) prev s = concat (map (\<lambda>(prev', s'). ends b prev' s') (ends a prev s))"
| "ends (Alt a b) prev s = ends a prev s @ ends b prev s"

fun search_from :: "rx \<Rightarrow> char option \<Rightarrow> string \<Rightarrow> bool" where
  "search_from r prev s = (ends r prev s \<noteq> [] \<or> (case s of [] \<Rightarrow> False | c # s' \<Rightarrow> search_from r (Some c) s'))"

declare search_from.simps [simp del]

definition rx_search :: "rx \<Rightarrow> string \<Rightarrow> bool" where
  "rx_search r s = search_from r None s"

definition rx_fullmatch :: "rx \<Rightarrow> string \<Rightarrow> bool" where
  "rx_fullmatch r s = list_ex (\<lambda>(_, s'). s' = []) (ends r None s)"

text \<open>A literal under \<open>re.IGNORECASE\<close>, and the usual abbreviations.\<close>

fun lit_i :: "string \<Rightarrow> rx" where
  "lit_i [] = Empty"
| "lit_i (c # s) = Seq (Cls (\<lambda>x. lower_char x = lower_char c)) (lit_i s)"

fun seq :: "rx list \<Rightarrow> rx" where
  "seq [] = Empty"
| "seq (r # rs) = Seq r (seq rs)"

fun any_of :: "rx list \<Rightarrow> rx" where
  "any_of [] = Cls (\<lambda>_. False)"
| "any_of (r # rs) = Alt r (any_of rs)"

definition optional :: "rx \<Rightarrow> rx" where
  "optional r = Alt r Empty"

definition some_of :: "(char \<Rightarrow> bool) \<Rightarrow> rx" where
  "some_of p = Seq (Cls p) (Many p)"

fun at_least :: "nat \<Rightarrow> (char \<Rightarrow> bool) \<Rightarrow> rx" where
  "at_least 0 p = Many p"
| "at_least (Suc n) p = Seq (Cls p) (at_least n p)"

text \<open>\<open>part in text\<close>\<close>

fun occurs_in :: "string \<Rightarrow> string \<Rightarrow> bool" where
  "occurs_in part s = (take (length part) s = part \<or> (case s of [] \<Rightarrow> False | _ # s' \<Rightarrow> occurs_in part s'))"

declare occurs_in.simps [simp del]

subsection \<open>Evaluation\<close>

text \<open>Code equations for evaluating patterns on concrete texts: lower case bit by bit, occurrence by comparing characters.\<close>

lemma lower_char_exec [code]:
  "lower_char (Char b0 b1 b2 b3 b4 b5 b6 b7) =
    (if b6 \<and> \<not> b5 \<and> (if b7 then \<not> (b0 \<and> b1 \<and> b2 \<and> b4 \<and> \<not> b3) \<and> \<not> (b0 \<and> b1 \<and> b2 \<and> b3 \<and> b4)
        else (b0 \<or> b1 \<or> b2 \<or> b3 \<or> b4) \<and> \<not> (b4 \<and> b3 \<and> (b2 \<or> b0 \<and> b1)))
     then Char b0 b1 b2 b3 b4 True b6 b7 else Char b0 b1 b2 b3 b4 b5 b6 b7)"
  by (cases b0; cases b1; cases b2; cases b3; cases b4; cases b5; cases b6; cases b7)
    (simp_all add: lower_char_def code_of_def char_of_eq_iff take_bit_eq_mod)

fun starts :: "string \<Rightarrow> string \<Rightarrow> bool" where
  "starts [] s = True"
| "starts (p # ps) s = (case s of [] \<Rightarrow> False | c # s' \<Rightarrow> p = c \<and> starts ps s')"

lemma starts_take: "starts p s \<longleftrightarrow> take (length p) s = p"
  by (induction p arbitrary: s) (auto split: list.split)

lemma occurs_in_exec [code]:
  "occurs_in part s = (starts part s \<or> (case s of [] \<Rightarrow> False | _ # s' \<Rightarrow> occurs_in part s'))"
  by (subst occurs_in.simps) (simp add: starts_take)

subsection \<open>Patterns that begin with a literal\<close>

lemma occurs_in_Cons: "occurs_in part (c # s) \<longleftrightarrow> take (length part) (c # s) = part \<or> occurs_in part s"
  by (subst occurs_in.simps) simp

lemma search_from_Cons: "search_from r prev (c # s) \<longleftrightarrow> ends r prev (c # s) \<noteq> [] \<or> search_from r (Some c) s"
  by (subst search_from.simps) simp

lemma search_from_Nil: "search_from r prev [] \<longleftrightarrow> ends r prev [] \<noteq> []"
  by (subst search_from.simps) simp

lemma search_from_Alt: "search_from (Alt a b) prev s \<longleftrightarrow> search_from a prev s \<or> search_from b prev s"
  by (induction s arbitrary: prev) (auto simp: search_from_Cons search_from_Nil)

lemma search_any_of: "rx_search (any_of rs) s \<longleftrightarrow> list_ex (\<lambda>r. rx_search r s) rs"
proof -
  have "\<not> search_from (Cls (\<lambda>_. False)) prev s" for prev
    by (induction s arbitrary: prev) (auto simp: search_from_Cons search_from_Nil)
  then show ?thesis by (induction rs) (simp_all add: rx_search_def search_from_Alt)
qed

lemma ends_lit: "ends (lit_i w) prev s \<noteq> [] \<Longrightarrow> take (length w) (lower s) = lower w"
  by (induction w arbitrary: prev s) (auto simp: lower_def split: list.splits if_splits)

lemma ends_lit_seq: "ends (Seq (lit_i w) r) prev s \<noteq> [] \<Longrightarrow> take (length w) (lower s) = lower w"
  by (rule ends_lit [of w prev]) auto

text \<open>A pattern whose matches all begin with a literal is not found where the literal does not occur.\<close>

lemma search_needs:
  assumes "\<And>prev s. ends r prev s \<noteq> [] \<Longrightarrow> take (length w) (lower s) = lower w" "search_from r prev s"
  shows "occurs_in (lower w) (lower s)"
  using assms(2)
proof (induction s arbitrary: prev)
  case Nil
  with assms(1) [of prev "[]"] have "take (length w) (lower []) = lower w" by (simp add: search_from_Nil)
  then show ?case by (subst occurs_in.simps) (simp add: lower_def)
next
  case (Cons c s)
  then show ?case
    using assms(1) [of prev "c # s"] by (auto simp: search_from_Cons lower_def occurs_in_Cons)
qed

lemma literal_absent:
  assumes "\<not> occurs_in (lower w) (lower s)"
  shows "\<not> rx_search (lit_i w) s" "\<not> rx_search (Seq (lit_i w) r) s"
proof -
  have "search_from (lit_i w) None s \<Longrightarrow> occurs_in (lower w) (lower s)" by (rule search_needs) (rule ends_lit)
  moreover have "search_from (Seq (lit_i w) r) None s \<Longrightarrow> occurs_in (lower w) (lower s)"
    by (rule search_needs) (rule ends_lit_seq)
  ultimately show "\<not> rx_search (lit_i w) s" "\<not> rx_search (Seq (lit_i w) r) s" using assms by (auto simp: rx_search_def)
qed

subsection \<open>JSON texts\<close>

definition skip_ws :: "string \<Rightarrow> string" where
  "skip_ws s = dropWhile (\<lambda>c. code_of c \<in> {32, 9, 10, 13}) s"

definition is_hex :: "char \<Rightarrow> bool" where
  "is_hex c = (let n = code_of c in (48 \<le> n \<and> n \<le> 57) \<or> (65 \<le> n \<and> n \<le> 70) \<or> (97 \<le> n \<and> n \<le> 102))"

text \<open>What is left after a value, if the text begins with one.\<close>

fun string_rest :: "string \<Rightarrow> string option" where
  "string_rest [] = None"
| "string_rest (c # s) =
    (if c = dquote then Some s
     else if c = backslash then (case s of
         [] \<Rightarrow> None
       | e # s1 \<Rightarrow>
           if e = CHR ''u'' then (case s1 of
               h1 # h2 # h3 # h4 # s2 \<Rightarrow> if list_all is_hex [h1, h2, h3, h4] then string_rest s2 else None
             | _ \<Rightarrow> None)
           else if e \<in> {dquote, backslash, CHR ''/'', CHR ''b'', CHR ''f'', CHR ''n'', CHR ''r'', CHR ''t''}
           then string_rest s1 else None)
     else if code_of c < 32 then None
     else string_rest s)"

definition fraction_rest :: "string \<Rightarrow> string" where
  "fraction_rest s = (case s of
       d # c # s' \<Rightarrow> if d = CHR ''.'' \<and> is_digit c then dropWhile is_digit s' else s
     | _ \<Rightarrow> s)"

definition exponent_rest :: "string \<Rightarrow> string" where
  "exponent_rest s = (case s of
       e # s' \<Rightarrow>
         if e \<in> {CHR ''e'', CHR ''E''} then (let u = unsigned s' in
           if u \<noteq> [] \<and> is_digit (hd u) then dropWhile is_digit u else s)
         else s
     | [] \<Rightarrow> s)"

definition number_rest :: "string \<Rightarrow> string option" where
  "number_rest s = (let u = (if s \<noteq> [] \<and> hd s = CHR ''-'' then tl s else s) in
     case u of
       [] \<Rightarrow> None
     | c # s' \<Rightarrow> if c = CHR ''0'' then Some (exponent_rest (fraction_rest s'))
         else if is_digit c then Some (exponent_rest (fraction_rest (dropWhile is_digit s')))
         else None)"

fun word_rest :: "string list \<Rightarrow> string \<Rightarrow> string option" where
  "word_rest [] s = None"
| "word_rest (k # ks) s = (if take (length k) s = k then Some (drop (length k) s) else word_rest ks s)"

text \<open>
  Objects and arrays recurse on what the inner value left, which is shorter; the test on the length is
  always true and only shows that the recursion ends.
\<close>

function value_rest :: "string \<Rightarrow> string option" and elements_rest :: "string \<Rightarrow> string option"
  and members_rest :: "string \<Rightarrow> string option" where
  "value_rest s = (case s of
       [] \<Rightarrow> None
     | c # s' \<Rightarrow>
         if c = dquote then string_rest s'
         else if c = CHR ''{'' then (let t = skip_ws s' in
           if t \<noteq> [] \<and> hd t = CHR ''}'' then Some (tl t) else if length t \<le> length s' then members_rest t else None)
         else if c = CHR ''['' then (let t = skip_ws s' in
           if t \<noteq> [] \<and> hd t = CHR '']'' then Some (tl t) else if length t \<le> length s' then elements_rest t else None)
         else (case word_rest [''null'', ''true'', ''false'', ''NaN'', ''Infinity'', ''-Infinity''] s of
             Some r \<Rightarrow> Some r
           | None \<Rightarrow> number_rest s))"
| "elements_rest s = (case value_rest s of
       None \<Rightarrow> None
     | Some r \<Rightarrow> (case skip_ws r of
           [] \<Rightarrow> None
         | c # r' \<Rightarrow>
             if c = CHR '']'' then Some r'
             else if c = CHR '','' \<and> length (skip_ws r') < length s then elements_rest (skip_ws r')
             else None))"
| "members_rest s = (case s of
       [] \<Rightarrow> None
     | q # k \<Rightarrow> if q \<noteq> dquote then None else (case string_rest k of
           None \<Rightarrow> None
         | Some r \<Rightarrow> (case skip_ws r of
               [] \<Rightarrow> None
             | c # v \<Rightarrow>
                 if c \<noteq> CHR '':'' \<or> length s \<le> length (skip_ws v) then None
                 else (case value_rest (skip_ws v) of
                     None \<Rightarrow> None
                   | Some r \<Rightarrow> (case skip_ws r of
                         [] \<Rightarrow> None
                       | c # r' \<Rightarrow>
                           if c = CHR ''}'' then Some r'
                           else if c = CHR '','' \<and> length (skip_ws r') < length s then members_rest (skip_ws r')
                           else None)))))"
  by pat_completeness auto
termination
  by (relation "measure (\<lambda>x. case x of Inl s \<Rightarrow> 2 * length s | Inr (Inl s) \<Rightarrow> 2 * length s + 1 | Inr (Inr s) \<Rightarrow> 2 * length s + 1)")
    auto

declare value_rest.simps [simp del] elements_rest.simps [simp del] members_rest.simps [simp del]

definition json_text :: "string \<Rightarrow> bool" where
  "json_text s = (case value_rest (skip_ws s) of None \<Rightarrow> False | Some r \<Rightarrow> skip_ws r = [])"

end
