(* ===== verification/Ai_Context.thy ===== *)
theory Ai_Context
  imports Py_Regex
begin

text \<open>
  The sanitiser for documents that leave the system as context for an AI assistant
  (\<open>backend/app/security/ai_context_sanitizer.py\<close>): only allowlisted fields, no value that looks like a
  credential, an account number or a raw body; a list of what was removed; and the validator that is run on the result.
\<close>

subsection \<open>Keys and patterns\<close>

definition ALLOWED_KEYS :: "string list" where
  "ALLOWED_KEYS = [
    ''account_balance_mismatch_count'', ''account_token'', ''approval_required'', ''case_id'', ''case_type'',
    ''classification'', ''confidence'', ''confidence_candidate'', ''consistency_counts'', ''created_at'',
    ''duplicate_external_event_count'', ''duplicate_ledger_count'', ''event_token'', ''evidence_paths'',
    ''generated_at'', ''idempotency_key_hash'', ''incident_id'', ''ledger_without_transaction_event_count'',
    ''manual_action_candidates'', ''manual_actions_required'', ''manual_review_required'', ''masked_account_no'',
    ''masked_client_id'', ''masked_idempotency_key'', ''masked_target_id'', ''metric_summary'',
    ''primary_signals'', ''proposed_action'', ''recovery_case_link_count'', ''request_hash'', ''run_id'',
    ''runbook_reference'', ''severity'', ''severity_candidate'', ''source'', ''stale_processing_count'',
    ''status'', ''target_type'', ''transaction_event_without_ledger_count'']"

definition FORBIDDEN_KEYS :: "string list" where
  "FORBIDDEN_KEYS = [
    ''account_no'', ''api_key'', ''authorization'', ''client_secret'', ''connection_string'', ''cookie'',
    ''database_url'', ''db_url'', ''hmac_signature'', ''idempotency_key'', ''password'', ''raw_account_no'',
    ''raw_idempotency_key'', ''raw_request_body'', ''refresh_token'', ''request_body'', ''response_body'',
    ''secret'', ''set_cookie'', ''signature'', ''token'', ''access_token'']"

definition HASH_OR_TOKEN_KEYS :: "string list" where
  "HASH_OR_TOKEN_KEYS = [
    ''account_token'', ''event_token'', ''idempotency_key_hash'', ''request_hash'']"

definition dash :: rx where
  "dash = optional (Cls (\<lambda>c. c = CHR ''-'' \<or> c = CHR ''_''))"

definition two_words :: "string \<Rightarrow> string \<Rightarrow> rx" where
  "two_words a b = seq [lit_i a, dash, lit_i b]"

definition SENSITIVE_KEY_RE :: rx where
  "SENSITIVE_KEY_RE = any_of [lit_i ''authorization'', lit_i ''cookie'', two_words ''database'' ''url'',
     two_words ''db'' ''url'', lit_i ''password'', lit_i ''secret'', lit_i ''signature'',
     two_words ''idempotency'' ''key'', two_words ''account'' ''no'', two_words ''account'' ''number'',
     two_words ''access'' ''token'', two_words ''refresh'' ''token'', two_words ''api'' ''key'',
     two_words ''connection'' ''string'', two_words ''raw'' ''body'', two_words ''request'' ''body'',
     two_words ''response'' ''body'']"

abbreviation spaces :: rx where
  "spaces \<equiv> Many is_space"

abbreviation text_run :: rx where
  "text_run \<equiv> some_of (\<lambda>c. \<not> is_space c)"

text \<open>\<open>name\s*[:=]\s*\S+\<close> and \<open>scheme\s+\S+\<close>\<close>

definition assigned :: "string \<Rightarrow> rx" where
  "assigned name = seq [lit_i name, spaces, Cls (\<lambda>c. c = CHR '':'' \<or> c = CHR ''=''), spaces, text_run]"

definition credential :: "string \<Rightarrow> rx" where
  "credential scheme = seq [lit_i scheme, some_of is_space, text_run]"

definition SENSITIVE_VALUE_RE :: rx where
  "SENSITIVE_VALUE_RE = any_of [assigned ''Authorization'', credential ''Bearer'', credential ''Basic'', credential ''HMAC'',
     assigned ''X-Signature'', assigned ''idempotency_key'', assigned ''Idempotency-Key'', assigned ''account_no'',
     assigned ''account_number'', assigned ''client_secret'', seq [lit_i ''DATABASE_URL'', spaces, Cls (\<lambda>c. c = CHR ''='')],
     Seq (lit_i ''postgresql://'') (some_of (\<lambda>c. \<not> is_space c \<and> c \<noteq> CHR '')'')),
     seq [Edge, lit_i ''ACC-'', at_least 3 is_digit, Edge],
     lit_i ''synthetic-authorization-token'', lit_i ''synthetic-signature-value'', lit_i ''synthetic-account-number'',
     lit_i ''synthetic-idempotency-key'']"

definition is_token_char :: "char \<Rightarrow> bool" where
  "is_token_char c = (let n = code_of c in (48 \<le> n \<and> n \<le> 57) \<or> (65 \<le> n \<and> n \<le> 90) \<or> (97 \<le> n \<and> n \<le> 122) \<or>
     c \<in> {CHR ''+'', CHR ''/'', CHR ''='', CHR ''_'', CHR ''-''})"

definition LONG_SECRET_RE :: rx where
  "LONG_SECRET_RE = at_least 40 is_token_char"

subsection \<open>Decisions\<close>

definition removal_reason_for_key :: "string \<Rightarrow> string option" where
  "removal_reason_for_key key = (let normalized = replace_char (CHR ''-'') ''_'' (lower key) in
     if key \<in> set ALLOWED_KEYS then None
     else if normalized \<in> set FORBIDDEN_KEYS \<or> rx_search SENSITIVE_KEY_RE key then Some ''sensitive_field_name''
     else None)"

definition looks_like_raw_json_body :: "string \<Rightarrow> bool" where
  "looks_like_raw_json_body s =
    (if \<not> (s \<noteq> [] \<and> (hd s = CHR ''{'' \<and> last s = CHR ''}'' \<or> hd s = CHR ''['' \<and> last s = CHR '']'')) then False
     else json_text s)"

definition sensitive_text :: "string \<Rightarrow> string option \<Rightarrow> bool" where
  "sensitive_text s key = (let stripped = strip s in
     rx_search SENSITIVE_VALUE_RE stripped \<or> looks_like_raw_json_body stripped \<or>
     (case key of None \<Rightarrow> True | Some k \<Rightarrow> k \<notin> set HASH_OR_TOKEN_KEYS) \<and> rx_fullmatch LONG_SECRET_RE stripped)"

fun contains_sensitive_value :: "json \<Rightarrow> string option \<Rightarrow> bool" where
  "contains_sensitive_value (JStr s) key = sensitive_text s key"
| "contains_sensitive_value (JObj kvs) key =
     list_ex (\<lambda>(k, v). removal_reason_for_key k \<noteq> None \<or> contains_sensitive_value v (Some k)) kvs"
| "contains_sensitive_value (JList xs) key = list_ex (\<lambda>x. contains_sensitive_value x key) xs"
| "contains_sensitive_value _ key = False"

subsection \<open>Sanitising\<close>

record removed_field =
  rf_path :: string
  rf_reason :: string

definition removed_to_dict :: "removed_field \<Rightarrow> json" where
  "removed_to_dict f = JObj [(''path'', JStr (rf_path f)), (''reason'', JStr (rf_reason f))]"

definition is_container :: "json \<Rightarrow> bool" where
  "is_container j = (case j of JObj _ \<Rightarrow> True | JList _ \<Rightarrow> True | _ \<Rightarrow> False)"

text \<open>\<open>f"{path}.{key}" if path != "$" else f"$.{key}"\<close>\<close>

definition child_path :: "string \<Rightarrow> string \<Rightarrow> string" where
  "child_path path key = (if path \<noteq> ''$'' then path @ ''.'' @ key else ''$.'' @ key)"

definition item_path :: "string \<Rightarrow> nat \<Rightarrow> string" where
  "item_path path i = path @ ''['' @ nat_str i @ '']''"

fun sanitize_value :: "json \<Rightarrow> string \<Rightarrow> string option \<Rightarrow> json \<times> removed_field list"
  and sanitize_fields :: "(string \<times> json) list \<Rightarrow> string \<Rightarrow> (string \<times> json) list \<times> removed_field list"
  and sanitize_items :: "json list \<Rightarrow> nat \<Rightarrow> string \<Rightarrow> string option \<Rightarrow> json list \<times> removed_field list" where
  "sanitize_value (JObj kvs) path parent_key = (let (kept, removed) = sanitize_fields kvs path in (JObj kept, removed))"
| "sanitize_value (JList xs) path parent_key = (let (kept, removed) = sanitize_items xs 0 path parent_key in (JList kept, removed))"
| "sanitize_value j path parent_key =
    (if contains_sensitive_value j parent_key
     then (JNull, [\<lparr>rf_path = path, rf_reason = ''sensitive_value_pattern''\<rparr>]) else (j, []))"
| "sanitize_fields [] path = ([], [])"
| "sanitize_fields ((k, v) # kvs) path =
    (let child = child_path path k;
       (kept, removed) = sanitize_fields kvs path
     in case removal_reason_for_key k of
         Some reason \<Rightarrow> (kept, \<lparr>rf_path = child, rf_reason = reason\<rparr> # removed)
       | None \<Rightarrow>
           if k \<notin> set ALLOWED_KEYS then (kept, \<lparr>rf_path = child, rf_reason = ''not_in_allowlist''\<rparr> # removed)
           else if \<not> is_container v \<and> contains_sensitive_value v (Some k)
           then (kept, \<lparr>rf_path = child, rf_reason = ''sensitive_value_pattern''\<rparr> # removed)
           else let (v', inner) = sanitize_value v child (Some k) in ((k, v') # kept, inner @ removed))"
| "sanitize_items [] i path parent_key = ([], [])"
| "sanitize_items (x # xs) i path parent_key =
    (let (x', inner) = sanitize_value x (item_path path i) parent_key;
       (kept, removed) = sanitize_items xs (Suc i) path parent_key
     in (x' # kept, inner @ removed))"

record sanitized_context_result =
  sanitized_context :: json
  removed_fields :: "removed_field list"

definition sanitize_context :: "json \<Rightarrow> sanitized_context_result" where
  "sanitize_context payload = (let (v, removed) = sanitize_value payload ''$'' None
   in \<lparr>sanitized_context = v, removed_fields = removed\<rparr>)"

definition context_to_dict :: "sanitized_context_result \<Rightarrow> (string \<times> json) list" where
  "context_to_dict r =
     [(''sanitized_context'', sanitized_context r),
      (''redaction_summary'', JObj [(''removed_field_count'', JInt (int (length (removed_fields r)))),
         (''removed_fields'', JList (map removed_to_dict (removed_fields r)))]),
      (''sensitive_data_included'', JBool False)]"

subsection \<open>Validating\<close>

definition ENVELOPE_KEYS :: "string list" where
  "ENVELOPE_KEYS = [''sanitized_context'', ''redaction_summary'', ''removed_field_count'', ''removed_fields'', ''path'',
     ''reason'', ''sensitive_data_included'']"

definition key_errors :: "string \<Rightarrow> json \<Rightarrow> string \<Rightarrow> string list" where
  "key_errors k v child =
     (if removal_reason_for_key k \<noteq> None then [''sensitive key found at '' @ child] else []) @
     (if k \<notin> set ALLOWED_KEYS \<and> k \<notin> set ENVELOPE_KEYS then [''non-allowlisted key found at '' @ child] else []) @
     (if contains_sensitive_value v (Some k) then [''sensitive value pattern found at '' @ child] else [])"

fun validate_payload :: "json \<Rightarrow> string \<Rightarrow> string list"
  and validate_fields :: "(string \<times> json) list \<Rightarrow> string \<Rightarrow> string list"
  and validate_items :: "json list \<Rightarrow> nat \<Rightarrow> string \<Rightarrow> string list" where
  "validate_payload (JObj kvs) path = validate_fields kvs path"
| "validate_payload (JList xs) path = validate_items xs 0 path"
| "validate_payload j path =
    (if contains_sensitive_value j None then [''sensitive value pattern found at '' @ path] else [])"
| "validate_fields [] path = []"
| "validate_fields ((k, v) # kvs) path =
    key_errors k v (child_path path k) @
    (if is_container v then validate_payload v (child_path path k) else []) @ validate_fields kvs path"
| "validate_items [] i path = []"
| "validate_items (x # xs) i path = validate_payload x (item_path path i) @ validate_items xs (Suc i) path"

definition validate_sanitized_context :: "json \<Rightarrow> string list" where
  "validate_sanitized_context payload = validate_payload payload ''$''"

subsection \<open>The report\<close>

definition get_or :: "json \<Rightarrow> string \<Rightarrow> json \<Rightarrow> json" where
  "get_or context key d = (case context of
       JObj kvs \<Rightarrow> (case json_get key kvs of Some v \<Rightarrow> v | None \<Rightarrow> d)
     | _ \<Rightarrow> JStr ''not_collected'')"

definition render_markdown_report :: "sanitized_context_result \<Rightarrow> string" where
  "render_markdown_report r = (let
     context = sanitized_context r;
     missing = JStr ''not_collected'';
     incident_id = get_or context ''incident_id'' missing;
     run_id = get_or context ''run_id'' missing;
     classification = get_or context ''classification'' missing;
     severity = get_or context ''severity'' (get_or context ''severity_candidate'' missing)
   in join [CHR 0x0A] [
     ''# PH6 AI-safe Context Report'',
     [],
     ''## Summary'',
     [],
     ''- Incident ID: '' @ py_str incident_id,
     ''- Run ID: '' @ py_str run_id,
     ''- Classification: '' @ py_str classification,
     ''- Severity: '' @ py_str severity,
     ''- Removed Field Count: '' @ nat_str (length (removed_fields r)),
     ''- Sensitive Data Included: false'',
     [],
     ''## Boundaries'',
     [],
     ''- AI context is generated from allowlisted fields only.'',
     ''- Raw account numbers, raw idempotency keys, request bodies, signatures,'',
     ''  authorization headers, and secrets are excluded.'',
     ''- PH6 does not call external AI APIs or execute recovery actions.'',
     []])"

end
