(* ===== verification/Py_Json_Text.thy ===== *)
theory Py_Json_Text
  imports Py_Regex
begin

text \<open>
  The recogniser of JSON texts reads what the printer writes: \<open>json_text (dumps v)\<close> for every value without floats
  (the text of a float is a parameter of the value and not known to be one).
\<close>

definition delimited :: "string \<Rightarrow> bool" where
  "delimited s \<longleftrightarrow> s = [] \<or> hd s \<in> {CHR '','', CHR '']'', CHR ''}''}"

text \<open>A text that is read as one value, whatever delimiter follows.\<close>

definition reads :: "string \<Rightarrow> bool" where
  "reads t \<longleftrightarrow> (\<forall>rest. skip_ws (t @ rest) = t @ rest) \<and> (\<forall>rest. delimited rest \<longrightarrow> value_rest (t @ rest) = Some rest)"

subsection \<open>Strings\<close>

lemma is_hex_digit: "n < 16 \<Longrightarrow> is_hex (hex_digit n)"
  by (auto simp: is_hex_def hex_digit_def code_of_char_of Let_def)

lemma hex2_shape: "n < 32 \<Longrightarrow> \<exists>a b. hex2 n = [a, b] \<and> is_hex a \<and> is_hex b"
  by (auto simp: hex2_def intro!: is_hex_digit)

lemma code_char: "code_of c = n \<Longrightarrow> c = char_of n"
  by (auto simp: code_of_def)

lemma string_rest_esc: "string_rest (esc_char c @ s) = string_rest s"
proof (cases "code_of c < 32 \<and> code_of c \<notin> {10, 13, 9, 12, 8}")
  case True
  then obtain a b where "hex2 (code_of c) = [a, b]" "is_hex a" "is_hex b" using hex2_shape by blast
  moreover have "is_hex (CHR ''0'')" by code_simp
  ultimately show ?thesis using True by (auto simp: esc_char_def Let_def)
next
  case False
  then show ?thesis by (auto simp: esc_char_def Let_def dest!: code_char) (simp_all add: code_of_def)
qed

lemma string_rest_dumps: "string_rest (concat (map esc_char s) @ dquote # rest) = Some rest"
  by (induction s) (simp_all add: string_rest_esc)

subsection \<open>Numbers\<close>

lemma nat_str_zero: "nat_str 0 = [CHR ''0'']"
  by code_simp

lemma hd_nat_str: "0 < n \<Longrightarrow> hd (nat_str n) \<noteq> CHR ''0''"
proof (induction n rule: nat_str.induct)
  case (1 n)
  show ?case
  proof (cases "n < 10")
    case True
    have "code_of (digit_char n) \<noteq> code_of (CHR ''0'')"
      using True 1(2) unfolding code_of_digit_char [OF True] by (simp add: code_of_def)
    with True show ?thesis by (auto simp: nat_str.simps [of n])
  next
    case False
    with 1 show ?thesis by (simp add: nat_str.simps [of n] nat_str_nonempty)
  qed
qed

lemma delimited_no_digit: "delimited rest \<Longrightarrow> dropWhile is_digit rest = rest"
  by (cases rest) (auto simp: delimited_def is_digit_def code_of_def)

lemma delimited_tail: "delimited rest \<Longrightarrow> exponent_rest (fraction_rest rest) = rest"
  by (auto simp: delimited_def fraction_rest_def exponent_rest_def split: list.splits)

lemma drop_digits: "delimited rest \<Longrightarrow> list_all is_digit ds \<Longrightarrow> dropWhile is_digit (ds @ rest) = rest"
  by (induction ds) (simp_all add: delimited_no_digit)

lemma number_nat:
  assumes "delimited rest"
  shows "\<exists>c s. nat_str n @ rest = c # s \<and> is_digit c \<and>
    (if c = CHR ''0'' then Some (exponent_rest (fraction_rest s))
     else Some (exponent_rest (fraction_rest (dropWhile is_digit s)))) = Some rest"
proof (cases "n = 0")
  case True
  then show ?thesis using delimited_tail [OF assms] by (simp add: nat_str_zero is_digit_def code_of_def)
next
  case False
  obtain c ds where c: "nat_str n = c # ds" using nat_str_nonempty by (metis list.exhaust)
  then have "c \<noteq> CHR ''0''" using hd_nat_str [of n] False by simp
  moreover have "is_digit c" "list_all is_digit ds" using nat_str_digits [of _ n] c by (auto simp: list_all_iff)
  ultimately show ?thesis using c drop_digits [OF assms] delimited_tail [OF assms] by simp
qed

lemma digit_distinct:
  assumes "is_digit c"
  shows "c \<noteq> dquote" "c \<noteq> CHR ''{''" "c \<noteq> CHR ''[''" "c \<noteq> CHR ''n''" "c \<noteq> CHR ''t''" "c \<noteq> CHR ''f''"
    "c \<noteq> CHR ''N''" "c \<noteq> CHR ''I''" "c \<noteq> CHR ''-''" "code_of c \<notin> {32, 9, 10, 13}"
  using assms by (auto simp: is_digit_def code_of_def)

lemma reads_int: "reads (int_str i)"
  unfolding reads_def
proof (intro conjI allI impI)
  fix rest :: string
  show "skip_ws (int_str i @ rest) = int_str i @ rest"
  proof (cases "int_str i")
    case (Cons c s)
    then have "is_digit c \<or> c = CHR ''-''" using int_str_chars [of c i] by simp
    with Cons show ?thesis using digit_distinct(10) [of c] by (auto simp: skip_ws_def code_of_def)
  qed (simp add: int_str_def nat_str_nonempty split: if_splits)
  assume d: "delimited rest"
  obtain c s where c: "nat_str (nat \<bar>i\<bar>) @ rest = c # s" "is_digit c"
    "(if c = CHR ''0'' then Some (exponent_rest (fraction_rest s))
      else Some (exponent_rest (fraction_rest (dropWhile is_digit s)))) = Some rest"
    using number_nat [OF d] by blast
  show "value_rest (int_str i @ rest) = Some rest"
  proof (cases "i < 0")
    case True
    then have "int_str i @ rest = CHR ''-'' # c # s" using c by (simp add: int_str_def)
    with c show ?thesis using digit_distinct [OF c(2)]
      by (simp add: value_rest.simps number_rest_def Let_def split: if_splits)
  next
    case False
    then have "int_str i @ rest = c # s" using c by (simp add: int_str_def)
    with c show ?thesis using digit_distinct [OF c(2)]
      by (simp add: value_rest.simps number_rest_def Let_def split: if_splits)
  qed
qed

subsection \<open>Values\<close>

lemma skip_ws_plain: "code_of c \<notin> {32, 9, 10, 13} \<Longrightarrow> skip_ws (c # s) = c # s"
  by (simp add: skip_ws_def)

lemma plain_chars:
  "code_of dquote \<notin> {32, 9, 10, 13}" "code_of (CHR ''['') \<notin> {32, 9, 10, 13}" "code_of (CHR ''{'') \<notin> {32, 9, 10, 13}"
  "code_of (CHR '']'') \<notin> {32, 9, 10, 13}" "code_of (CHR ''}'') \<notin> {32, 9, 10, 13}" "code_of (CHR '','') \<notin> {32, 9, 10, 13}"
  "code_of (CHR '':'') \<notin> {32, 9, 10, 13}" "code_of (CHR ''n'') \<notin> {32, 9, 10, 13}" "code_of (CHR ''t'') \<notin> {32, 9, 10, 13}"
  "code_of (CHR ''f'') \<notin> {32, 9, 10, 13}"
  by (simp_all add: code_of_def)

lemmas skip_plain = plain_chars [THEN skip_ws_plain]

lemma reads_words: "reads ''null''" "reads ''true''" "reads ''false''"
  by (simp_all add: reads_def skip_plain value_rest.simps)

lemma reads_str: "reads (dumps_str s)"
  by (simp add: reads_def dumps_str_def skip_plain value_rest.simps string_rest_dumps)

lemma elements_read:
  "ts \<noteq> [] \<Longrightarrow> list_all reads ts \<Longrightarrow> elements_rest (join '','' ts @ CHR '']'' # rest) = Some rest"
proof (induction ts)
  case (Cons t ts)
  show ?case
  proof (cases ts)
    case Nil
    with Cons show ?thesis by (simp add: elements_rest.simps reads_def delimited_def skip_plain)
  next
    case (Cons u us)
    then have more: "join '','' (t # ts) = t @ CHR '','' # join '','' ts" by simp
    have "skip_ws (join '','' ts @ CHR '']'' # rest) = join '','' ts @ CHR '']'' # rest"
      using Cons Cons.prems by (cases us) (auto simp: reads_def)
    with Cons.prems Cons.IH Cons more show ?thesis
      by (simp add: elements_rest.simps [of "t @ _"] reads_def delimited_def skip_plain)
  qed
qed simp

lemma members_read:
  "ps \<noteq> [] \<Longrightarrow> list_all (\<lambda>(k, t). reads t) ps \<Longrightarrow>
     members_rest (join '','' (map (\<lambda>(k, t). dumps_str k @ '':'' @ t) ps) @ CHR ''}'' # rest) = Some rest"
proof (induction ps)
  case (Cons p ps)
  obtain k t where p: "p = (k, t)" by (cases p)
  let ?more = "join '','' (map (\<lambda>(k, t). dumps_str k @ '':'' @ t) ps)"
  show ?case
  proof (cases ps)
    case Nil
    with Cons p show ?thesis
      by (simp add: members_rest.simps dumps_str_def string_rest_dumps reads_def delimited_def skip_plain)
  next
    case (Cons q qs)
    have "skip_ws (?more @ CHR ''}'' # rest) = ?more @ CHR ''}'' # rest"
      using Cons by (cases qs) (auto simp: dumps_str_def skip_plain split: prod.split)
    with Cons.prems Cons.IH Cons p show ?thesis
      by (simp add: members_rest.simps [of "dquote # _"] dumps_str_def [of k] string_rest_dumps reads_def delimited_def
          skip_plain)
  qed
qed simp

fun no_floats :: "json \<Rightarrow> bool" where
  "no_floats (JFloat f) = False"
| "no_floats (JList xs) = list_all no_floats xs"
| "no_floats (JObj kvs) = list_all (\<lambda>(k, v). no_floats v) kvs"
| "no_floats _ = True"

lemma reads_begin:
  assumes "reads t"
  shows "t \<noteq> []" "hd t \<noteq> CHR '']''"
proof -
  have v: "value_rest (t @ []) = Some []" using assms unfolding reads_def delimited_def by blast
  then show "t \<noteq> []" by (auto simp: value_rest.simps)
  have "value_rest (CHR '']'' # s) = None" for s
    by (simp add: value_rest.simps number_rest_def is_digit_def code_of_def)
  with v \<open>t \<noteq> []\<close> show "hd t \<noteq> CHR '']''" by (cases t) auto
qed

lemma reads_list:
  assumes "list_all reads ts"
  shows "reads (''['' @ join '','' ts @ '']'')"
proof (cases ts)
  case Nil
  then show ?thesis by (simp add: reads_def skip_plain value_rest.simps)
next
  case (Cons t us)
  then have t: "reads t" using assms by simp
  have "join '','' ts @ CHR '']'' # rest \<noteq> []" "hd (join '','' ts @ CHR '']'' # rest) \<noteq> CHR '']''"
    "skip_ws (join '','' ts @ CHR '']'' # rest) = join '','' ts @ CHR '']'' # rest" for rest
    using t reads_begin [OF t] Cons by (cases us; simp add: reads_def)+
  with elements_read [of ts] assms Cons show ?thesis
    by (simp add: reads_def skip_plain value_rest.simps [of "CHR ''['' # _"])
qed

lemma reads_object:
  assumes "list_all (\<lambda>(k, t). reads t) ps"
  shows "reads (''{'' @ join '','' (map (\<lambda>(k, t). dumps_str k @ '':'' @ t) ps) @ ''}'')"
proof (cases ps)
  case Nil
  then show ?thesis by (simp add: reads_def skip_plain value_rest.simps)
next
  case (Cons p qs)
  let ?t = "join '','' (map (\<lambda>(k, t). dumps_str k @ '':'' @ t) ps)"
  obtain m where m: "?t = dquote # m" using Cons by (cases p; cases qs) (auto simp: dumps_str_def)
  with members_read [of ps] assms Cons show ?thesis
    by (simp add: reads_def skip_plain value_rest.simps [of "CHR ''{'' # _"])
qed

lemma reads_dumps: "no_floats j \<Longrightarrow> reads (dumps j)"
proof (induction j)
  case (JList xs)
  then show ?case using reads_list [of "map dumps xs"] by (auto simp: list_all_iff)
next
  case (JObj kvs)
  have "reads (dumps v)" if "(k, v) \<in> set kvs" for k v
    using that JObj by (fastforce simp: list_all_iff snds.simps)
  then have "list_all (\<lambda>(k, t). reads t) (sort_key fst (map (\<lambda>(k, v). (k, dumps v)) kvs))"
    by (auto simp: list_all_iff)
  from reads_object [OF this] show ?case by simp
qed (auto simp: reads_int reads_words reads_str)

lemma json_text_dumps: "no_floats j \<Longrightarrow> json_text (dumps j)"
proof -
  assume "no_floats j"
  then have "skip_ws (dumps j @ []) = dumps j @ []" "value_rest (dumps j @ []) = Some []"
    using reads_dumps unfolding reads_def by (blast, simp add: delimited_def)
  then show ?thesis by (simp add: json_text_def skip_ws_def)
qed

end
