(* ===== verification/Ai_Context_Properties.thy ===== *)
theory Ai_Context_Properties
  imports Ai_Context Py_Json_Text
begin

text \<open>
  What leaves the sanitiser: allowlisted keys only, no value its own patterns recognise, nothing left for a second
  run, and - but for lists of digests - nothing the validator complains about.
\<close>

subsection \<open>What is kept\<close>

lemma json_cases_induct:
  assumes "\<And>j. \<not> is_container j \<Longrightarrow> P j" "\<And>kvs. Q kvs \<Longrightarrow> P (JObj kvs)" "\<And>xs. R xs \<Longrightarrow> P (JList xs)"
    "Q []" "\<And>k v kvs. P v \<Longrightarrow> Q kvs \<Longrightarrow> Q ((k, v) # kvs)" "R []" "\<And>x xs. P x \<Longrightarrow> R xs \<Longrightarrow> R (x # xs)"
  shows "P j" "Q kvs" "R xs"
proof -
  have Q: "(\<And>k v. (k, v) \<in> set kvs \<Longrightarrow> P v) \<Longrightarrow> Q kvs" for kvs
    by (induction kvs) (auto intro: assms)
  have R: "(\<And>x. x \<in> set xs \<Longrightarrow> P x) \<Longrightarrow> R xs" for xs
    by (induction xs) (auto intro: assms)
  show P: "P j" for j
  proof (induction j)
    case (JList xs)
    then show ?case by (auto intro: assms R)
  next
    case (JObj kvs)
    then have "P v" if "(k, v) \<in> set kvs" for k v using that by (metis snds.intros snd_conv)
    then show ?case by (auto intro: assms Q)
  qed (auto intro: assms simp: is_container_def)
  show "Q kvs" "R xs" using P by (auto intro: Q R)
qed

lemma allowed_no_reason [simp]: "k \<in> set ALLOWED_KEYS \<Longrightarrow> removal_reason_for_key k = None"
  by (simp add: removal_reason_for_key_def Let_def)

lemma sanitize_value_scalar:
  "\<not> is_container j \<Longrightarrow> sanitize_value j path pk = (if contains_sensitive_value j pk
     then (JNull, [\<lparr>rf_path = path, rf_reason = ''sensitive_value_pattern''\<rparr>]) else (j, []))"
  by (cases j) (auto simp: is_container_def)

definition kept_field :: "string \<Rightarrow> json \<Rightarrow> bool" where
  "kept_field k v \<longleftrightarrow> k \<in> set ALLOWED_KEYS \<and> (is_container v \<or> \<not> contains_sensitive_value v (Some k))"

lemma sanitize_value_fst [simp]:
  "fst (sanitize_value (JObj kvs) path pk) = JObj (fst (sanitize_fields kvs path))"
  "fst (sanitize_value (JList xs) path pk) = JList (fst (sanitize_items xs 0 path pk))"
  "snd (sanitize_value (JObj kvs) path pk) = snd (sanitize_fields kvs path)"
  "snd (sanitize_value (JList xs) path pk) = snd (sanitize_items xs 0 path pk)"
  by (simp_all split: prod.split)

lemma sanitize_fields_fst [simp]:
  "fst (sanitize_fields ((k, v) # kvs) path) = (if kept_field k v
     then (k, fst (sanitize_value v (child_path path k) (Some k))) # fst (sanitize_fields kvs path)
     else fst (sanitize_fields kvs path))"
  "kept_field k v \<Longrightarrow> snd (sanitize_fields ((k, v) # kvs) path) =
     snd (sanitize_value v (child_path path k) (Some k)) @ snd (sanitize_fields kvs path)"
  by (auto simp: kept_field_def Let_def split: prod.split option.split)

lemma sanitize_items_fst [simp]:
  "fst (sanitize_items (x # xs) i path pk) = fst (sanitize_value x (item_path path i) pk) # fst (sanitize_items xs (Suc i) path pk)"
  "snd (sanitize_items (x # xs) i path pk) = snd (sanitize_value x (item_path path i) pk) @ snd (sanitize_items xs (Suc i) path pk)"
  by (simp_all split: prod.split)

declare sanitize_value.simps [simp del] sanitize_fields.simps(2) [simp del] sanitize_items.simps(2) [simp del]

text \<open>The keys of a document, at every depth.\<close>

fun all_keys :: "json \<Rightarrow> string list" where
  "all_keys (JObj kvs) = concat (map (\<lambda>(k, v). k # all_keys v) kvs)"
| "all_keys (JList xs) = concat (map all_keys xs)"
| "all_keys _ = []"

lemma scalar_keys: "\<not> is_container j \<Longrightarrow> all_keys j = []"
  by (cases j) (simp_all add: is_container_def)

lemma sanitize_keys:
  "set (all_keys (fst (sanitize_value j path pk))) \<subseteq> set ALLOWED_KEYS"
  "set (all_keys (JObj (fst (sanitize_fields kvs path)))) \<subseteq> set ALLOWED_KEYS"
  "set (all_keys (JList (fst (sanitize_items xs i path pk)))) \<subseteq> set ALLOWED_KEYS"
  by (induction j and kvs and xs arbitrary: path pk and path and i path pk rule: json_cases_induct)
    (auto simp: sanitize_value_scalar scalar_keys kept_field_def)

lemma sanitize_clean:
  "\<not> contains_sensitive_value (fst (sanitize_value j path pk)) pk"
  "\<not> contains_sensitive_value (JObj (fst (sanitize_fields kvs path))) pk'"
  "\<not> contains_sensitive_value (JList (fst (sanitize_items xs i path pk))) pk"
  by (induction j and kvs and xs arbitrary: path pk and path and i path pk rule: json_cases_induct)
    (auto simp: sanitize_value_scalar kept_field_def)

lemma sanitize_kept:
  "kept_field k v \<Longrightarrow> kept_field k (fst (sanitize_value v path (Some k)))"
  using sanitize_clean(1) [of v path "Some k"] by (auto simp: kept_field_def)

lemma sanitize_again:
  "sanitize_value (fst (sanitize_value j path pk)) path' pk = (fst (sanitize_value j path pk), [])"
  "sanitize_fields (fst (sanitize_fields kvs path)) path' = (fst (sanitize_fields kvs path), [])"
  "sanitize_items (fst (sanitize_items xs i path pk)) i' path' pk = (fst (sanitize_items xs i path pk), [])"
proof (induction j and kvs and xs arbitrary: path path' pk and path path' and i i' path path' pk rule: json_cases_induct)
  case (1 j)
  then show ?case by (auto simp: sanitize_value_scalar is_container_def)
qed (auto simp: prod_eq_iff sanitize_kept)

text \<open>
  C19: nothing but allowlisted fields leaves the sanitiser, at any depth, and no value that its own patterns recognise
  as sensitive; sanitising the result again removes nothing and changes nothing.
\<close>

theorem sanitizer_safe:
  "let out = sanitized_context (sanitize_context j) in
    set (all_keys out) \<subseteq> set ALLOWED_KEYS \<and> \<not> contains_sensitive_value out None \<and>
    sanitize_context out = \<lparr>sanitized_context = out, removed_fields = []\<rparr>"
proof -
  have "sanitized_context (sanitize_context j) = fst (sanitize_value j ''$'' None)"
    by (simp add: sanitize_context_def split: prod.split)
  then show ?thesis
    using sanitize_keys(1) sanitize_clean(1) sanitize_again(1) by (simp add: sanitize_context_def)
qed

subsection \<open>What the validator says\<close>

text \<open>No list stands directly under one of the digest keys.\<close>

definition is_list :: "json \<Rightarrow> bool" where
  "is_list j = (case j of JList _ \<Rightarrow> True | _ \<Rightarrow> False)"

fun no_digest_lists :: "json \<Rightarrow> bool" where
  "no_digest_lists (JObj kvs) = list_all (\<lambda>(k, v). (k \<in> set HASH_OR_TOKEN_KEYS \<longrightarrow> \<not> is_list v) \<and> no_digest_lists v) kvs"
| "no_digest_lists (JList xs) = list_all no_digest_lists xs"
| "no_digest_lists _ = True"

definition digest_key :: "string option \<Rightarrow> bool" where
  "digest_key pk = (case pk of None \<Rightarrow> False | Some k \<Rightarrow> k \<in> set HASH_OR_TOKEN_KEYS)"

lemma scalar_key:
  "\<not> is_container j \<Longrightarrow> \<not> digest_key pk \<Longrightarrow> contains_sensitive_value j pk = contains_sensitive_value j None"
  by (cases j) (auto simp: is_container_def sensitive_text_def digest_key_def Let_def split: option.splits)

lemma validate_scalar:
  "\<not> is_container j \<Longrightarrow> validate_payload j path =
     (if contains_sensitive_value j None then [''sensitive value pattern found at '' @ path] else [])"
  by (cases j) (auto simp: is_container_def)

lemma validate_sanitized:
  "no_digest_lists j \<Longrightarrow> \<not> digest_key pk \<or> is_container j \<and> \<not> is_list j \<Longrightarrow>
     validate_payload (fst (sanitize_value j path pk)) p = []"
  "no_digest_lists (JObj kvs) \<Longrightarrow> validate_fields (fst (sanitize_fields kvs path)) p = []"
  "no_digest_lists (JList xs) \<Longrightarrow> \<not> digest_key pk \<Longrightarrow> validate_items (fst (sanitize_items xs i path pk)) i' p = []"
proof (induction j and kvs and xs arbitrary: path p pk and path p and i i' path p pk rule: json_cases_induct)
  case (1 j)
  then show ?case by (auto simp: sanitize_value_scalar validate_scalar scalar_key)
next
  case (3 xs)
  then show ?case by (simp add: is_list_def)
next
  case (5 k v kvs)
  have clean: "\<not> contains_sensitive_value (fst (sanitize_value v path' (Some k))) (Some k)" for path'
    by (rule sanitize_clean)
  have inner: "validate_payload (fst (sanitize_value v path' (Some k))) p' = []"
    if "is_container (fst (sanitize_value v path' (Some k)))" for path' p'
  proof (rule "5.IH"(1))
    show "no_digest_lists v" using "5.prems" by simp
    have "is_container v"
      using that by (cases "is_container v") (auto simp: sanitize_value_scalar is_container_def split: if_splits)
    with "5.prems" show "\<not> digest_key (Some k) \<or> is_container v \<and> \<not> is_list v" by (auto simp: digest_key_def)
  qed
  show ?case
    using 5 clean inner by (auto simp: kept_field_def key_errors_def)
qed auto

text \<open>
  The validator accepts what the sanitiser produced, for every document in which no list stands directly under one
  of the digest keys.
\<close>

theorem sanitized_validates:
  assumes "no_digest_lists j"
  shows "validate_sanitized_context (sanitized_context (sanitize_context j)) = []"
proof -
  have "sanitized_context (sanitize_context j) = fst (sanitize_value j ''$'' None)"
    by (simp add: sanitize_context_def split: prod.split)
  with validate_sanitized(1) [OF assms] show ?thesis by (simp add: validate_sanitized_context_def digest_key_def)
qed

theorem sanitized_validates_witness:
  "validate_sanitized_context (sanitized_context (sanitize_context
     (JObj [(''run_id'', JStr ''ph6''), (''account_no'', JStr ''ACC-001''), (''request_hash'', JStr ''Bearer x'')]))) = []"
  by (rule sanitized_validates) (simp add: is_list_def)

text \<open>A digest: the patterns for credentials do not occur in it, the one for long tokens does.\<close>

lemma search_from_none:
  assumes "\<And>prev n. ends r prev (replicate n c) = []"
  shows "\<not> search_from r prev (replicate n c)"
proof (induction n arbitrary: prev)
  case 0
  then show ?case using assms [of prev 0] by (simp add: search_from.simps)
next
  case (Suc n)
  then show ?case using assms [of prev "Suc n"] by (simp add: search_from.simps)
qed

lemma lower_letters:
  "lower_char (CHR ''a'') = CHR ''a''" "lower_char (CHR ''A'') = CHR ''a''" "lower_char (CHR ''B'') = CHR ''b''"
  "lower_char (CHR ''c'') = CHR ''c''" "lower_char (CHR ''C'') = CHR ''c''" "lower_char (CHR ''D'') = CHR ''d''"
  "lower_char (CHR ''H'') = CHR ''h''" "lower_char (CHR ''i'') = CHR ''i''" "lower_char (CHR ''I'') = CHR ''i''"
  "lower_char (CHR ''p'') = CHR ''p''" "lower_char (CHR ''s'') = CHR ''s''" "lower_char (CHR ''u'') = CHR ''u''"
  "lower_char (CHR ''X'') = CHR ''x''"
  by code_simp+

lemma digest_no_credential: "\<not> rx_search SENSITIVE_VALUE_RE (replicate n (CHR ''a''))"
proof -
  have "ends SENSITIVE_VALUE_RE prev (replicate n (CHR ''a'')) = []" for prev n
  proof (cases n)
    case 0
    then show ?thesis
      by (simp add: SENSITIVE_VALUE_RE_def assigned_def credential_def some_of_def edge_at_def split: option.split)
  next
    case (Suc m)
    then show ?thesis
      by (cases m) (simp_all add: SENSITIVE_VALUE_RE_def assigned_def credential_def some_of_def lower_letters)
  qed
  then show ?thesis unfolding rx_search_def by (rule search_from_none)
qed

lemma many_ends_all: "list_ex (\<lambda>(_, t). t = []) (many_ends p prev s) = list_all p s"
  by (induction s arbitrary: prev) auto

lemma at_least_all: "list_ex (\<lambda>(_, t). t = []) (ends (at_least n p) prev s) = (n \<le> length s \<and> list_all p s)"
proof (induction n arbitrary: prev s)
  case 0
  then show ?case by (simp add: many_ends_all)
next
  case (Suc n)
  then show ?case by (cases s) auto
qed

lemma digest_long: "40 \<le> n \<Longrightarrow> rx_fullmatch LONG_SECRET_RE (replicate n (CHR ''a''))"
  by (simp add: rx_fullmatch_def LONG_SECRET_RE_def at_least_all list_all_iff is_token_char_def code_of_def)

lemma digest_sensitive:
  "sensitive_text (replicate 64 (CHR ''a'')) key = (\<not> digest_key key)"
proof -
  have "strip (replicate 64 (CHR ''a'')) = replicate 64 (CHR ''a'')" by code_simp
  moreover have "\<not> looks_like_raw_json_body (replicate 64 (CHR ''a''))" by (simp add: looks_like_raw_json_body_def)
  ultimately show ?thesis
    by (simp add: sensitive_text_def Let_def digest_no_credential digest_long digest_key_def split: option.split)
qed

text \<open>
  Without that condition it does not: a 64-digit digest in a list under \<open>request_hash\<close> is kept by the sanitiser,
  which looks at the key, and refused by the validator, which looks at list items without their key.
\<close>

theorem digest_list_refused:
  "let j = JObj [(''request_hash'', JList [JStr (replicate 64 (CHR ''a''))])] in
    sanitized_context (sanitize_context j) = j \<and> removed_fields (sanitize_context j) = [] \<and>
    validate_sanitized_context j = [''sensitive value pattern found at $.request_hash[0]'']"
proof -
  let ?d = "JStr (replicate 64 (CHR ''a''))"
  have keys: "''request_hash'' \<in> set ALLOWED_KEYS" "digest_key (Some ''request_hash'')" "\<not> digest_key None"
    "nat_str 0 = ''0''" by code_simp+
  then have "sanitize_value (JObj [(''request_hash'', JList [?d])]) ''$'' None = (JObj [(''request_hash'', JList [?d])], [])"
    by (simp add: prod_eq_iff kept_field_def is_container_def sanitize_value_scalar digest_sensitive)
  then show ?thesis
    using keys by (simp add: sanitize_context_def validate_sanitized_context_def key_errors_def is_container_def
        digest_sensitive child_path_def item_path_def)
qed

subsection \<open>Raw bodies\<close>

lemma dumps_ends:
  "is_container j \<Longrightarrow> dumps j \<noteq> [] \<and> (hd (dumps j) = CHR ''{'' \<and> last (dumps j) = CHR ''}'' \<or>
     hd (dumps j) = CHR ''['' \<and> last (dumps j) = CHR '']'')"
  by (cases j) (simp_all add: is_container_def)

lemma dumps_strip: "is_container j \<Longrightarrow> strip (dumps j) = dumps j"
proof -
  assume "is_container j"
  note e = dumps_ends [OF this]
  have "\<not> is_space (CHR ''{'')" "\<not> is_space (CHR ''}'')" "\<not> is_space (CHR ''['')" "\<not> is_space (CHR '']'')"
    by (simp_all add: is_space_def code_of_def)
  with e show ?thesis by (intro strip_id) metis+
qed

text \<open>
  A request or response body never leaves inside a text: a string that holds a JSON object or list, as the program
  prints one, is sensitive under every key, so the field that carries it is removed.
\<close>

theorem raw_body_removed:
  assumes "is_container body" "no_floats body" "k \<in> set ALLOWED_KEYS"
  shows "contains_sensitive_value (JStr (dumps body)) key \<and>
    sanitize_context (JObj [(k, JStr (dumps body))]) =
      \<lparr>sanitized_context = JObj [],
       removed_fields = [\<lparr>rf_path = ''$.'' @ k, rf_reason = ''sensitive_value_pattern''\<rparr>]\<rparr>"
proof -
  have sens: "sensitive_text (dumps body) key" for key
    using json_text_dumps [OF assms(2)] dumps_ends [OF assms(1)] dumps_strip [OF assms(1)]
    by (auto simp: sensitive_text_def looks_like_raw_json_body_def Let_def)
  then show ?thesis
    using assms(3) by (simp add: sanitize_context_def sanitize_value.simps sanitize_fields.simps is_container_def child_path_def)
qed

theorem raw_body_removed_witness:
  "sanitize_context (JObj [(''status'', JStr (dumps (JObj [(''amount'', JInt 1000)])))]) =
    \<lparr>sanitized_context = JObj [],
     removed_fields = [\<lparr>rf_path = ''$.'' @ ''status'', rf_reason = ''sensitive_value_pattern''\<rparr>]\<rparr>"
proof -
  have "is_container (JObj [(''amount'', JInt 1000)])" "no_floats (JObj [(''amount'', JInt 1000)])"
    "''status'' \<in> set ALLOWED_KEYS" by code_simp+
  from raw_body_removed [OF this] show ?thesis by blast
qed

end
