(* ===== verification/Incident_Artifact.thy ===== *)
theory Incident_Artifact
  imports Ai_Context Recovery Security_Hmac
begin

text \<open>
  Incident artifacts (\<open>scripts/ph2_incident_artifact.py\<close>): a directory of evidence collected outside the database,
  sanitised on the way in, and the validator that is run on it. A directory is its path and its files; a file is its
  text together with what \<open>json.loads\<close> makes of it. The clock, the output of \<open>docker compose ps\<close> and the names
  that exist already are inputs.
\<close>

subsection \<open>Files\<close>

record artifact_file =
  af_text :: string
  af_json :: "string + json"  \<comment> \<open>the message of \<open>JSONDecodeError\<close>, or the value\<close>

record incident_dir =
  id_path :: string
  id_files :: "(string \<times> artifact_file) list"

definition incident_name :: "incident_dir \<Rightarrow> string" where
  "incident_name d = path_name (id_path d)"

definition file_of :: "incident_dir \<Rightarrow> string \<Rightarrow> artifact_file option" where
  "file_of d name = map_of (id_files d) name"

text \<open>
  \<open>json.dumps(v, indent=2, sort_keys=True)\<close>, for a printer of texts: the default escapes everything but printable ASCII,
  \<open>ensure_ascii=False\<close> only what JSON requires.
\<close>

definition ascii_esc :: "char \<Rightarrow> string" where
  "ascii_esc c = (let n = code_of c in
     if 127 \<le> n then [backslash, CHR ''u'', CHR ''0'', CHR ''0''] @ hex2 n else esc_char c)"

definition ascii_str :: "string \<Rightarrow> string" where
  "ascii_str s = dquote # concat (map ascii_esc s) @ [dquote]"

definition newline :: "nat \<Rightarrow> string" where
  "newline n = CHR 0x0A # replicate (2 * n) (CHR '' '')"

fun pretty_with :: "(string \<Rightarrow> string) \<Rightarrow> nat \<Rightarrow> json \<Rightarrow> string" where
  "pretty_with str n (JStr s) = str s"
| "pretty_with str n (JList []) = ''[]''"
| "pretty_with str n (JList (x # xs)) = ''['' @ newline (Suc n) @
     join ('','' @ newline (Suc n)) (map (pretty_with str (Suc n)) (x # xs)) @ newline n @ '']''"
| "pretty_with str n (JObj []) = ''{}''"
| "pretty_with str n (JObj (kv # kvs)) = ''{'' @ newline (Suc n) @
     join ('','' @ newline (Suc n)) (map (\<lambda>(k, t). str k @ '': '' @ t)
       (sort_key fst (map (\<lambda>(k, v). (k, pretty_with str (Suc n) v)) (kv # kvs)))) @ newline n @ ''}''"
| "pretty_with str n j = dumps j"

definition pretty :: "json \<Rightarrow> string" where
  "pretty j = pretty_with ascii_str 0 j"

definition pretty_unicode :: "json \<Rightarrow> string" where
  "pretty_unicode j = pretty_with dumps_str 0 j"

definition json_file :: "json \<Rightarrow> artifact_file" where
  "json_file j = \<lparr>af_text = pretty j @ [CHR 0x0A], af_json = Inr j\<rparr>"

definition text_file :: "string \<Rightarrow> artifact_file" where
  "text_file s = \<lparr>af_text = s, af_json = Inl ''Expecting value''\<rparr>"

subsection \<open>Sanitising\<close>

definition PH2_ALLOWED_KEYS :: "string list" where
  "PH2_ALLOWED_KEYS = [
    ''active'', ''activated_at'', ''activated_by'', ''command_name'', ''confidence_candidate'', ''container_name'',
    ''count'', ''created_at'', ''created_by'', ''dependency'', ''duration_ms'', ''error_code'', ''evidence_files'',
    ''exit_code'', ''finished_at'', ''health_status'', ''http_status'', ''incident_id'', ''manual_required'',
    ''manual_review_required'', ''ready_status'', ''reason'', ''result'', ''resume_reason'', ''resumed_at'',
    ''resumed_by'', ''retry_after_seconds'', ''retryable'', ''route_group'', ''run_id'', ''sanitized'',
    ''scenario'', ''sensitive_data_included'', ''service_name'', ''severity_candidate'', ''source'',
    ''started_at'', ''state'', ''write_suspended'']"

definition PH2_SENSITIVE_KEY_RE :: rx where
  "PH2_SENSITIVE_KEY_RE = any_of [lit_i ''authorization'', lit_i ''cookie'', lit_i ''database_url'', lit_i ''db_password'',
     lit_i ''password'', lit_i ''secret'', lit_i ''signature'', two_words ''idempotency'' ''key'',
     two_words ''account'' ''no'', two_words ''account'' ''number'', two_words ''access'' ''token'',
     two_words ''refresh'' ''token'', two_words ''private'' ''key'', two_words ''connection'' ''string'',
     two_words ''raw'' ''body'', two_words ''request'' ''body'', two_words ''response'' ''body'']"

definition equated :: "string \<Rightarrow> rx" where
  "equated name = seq [lit_i name, spaces, Cls (\<lambda>c. c = CHR ''=''), spaces, text_run]"

text \<open>
  The class after \<open>postgresql://\<close> is written \<open>[^\\s)]\<close> in a raw string: neither a backslash nor an \<open>s\<close> (nor, ignoring
  case, an \<open>S\<close>) nor a closing parenthesis.
\<close>

definition postgres_url :: rx where
  "postgres_url = Seq (lit_i ''postgresql://'')
     (some_of (\<lambda>c. c \<noteq> backslash \<and> c \<noteq> CHR ''s'' \<and> c \<noteq> CHR ''S'' \<and> c \<noteq> CHR '')''))"

definition PH2_SENSITIVE_TEXT_RE :: rx where
  "PH2_SENSITIVE_TEXT_RE = any_of [assigned ''Authorization'', assigned ''X-Signature'', equated ''x_signature'',
     assigned ''Idempotency-Key'', equated ''idempotency_key'', equated ''account_no'', equated ''account_number'',
     seq [lit_i ''DATABASE_URL'', spaces, Cls (\<lambda>c. c = CHR ''='')], credential ''Bearer'', credential ''Basic'',
     postgres_url,
     lit_i ''synthetic-authorization-token'', lit_i ''synthetic-signature-value'', lit_i ''synthetic-account-number-1234'',
     lit_i ''synthetic-idempotency-key'']"

fun sanitize_payload :: "json \<Rightarrow> json" where
  "sanitize_payload (JObj kvs) = JObj (map (\<lambda>(k, v). (k, sanitize_payload v))
     (filter (\<lambda>(k, v). \<not> rx_search PH2_SENSITIVE_KEY_RE k \<and> k \<in> set PH2_ALLOWED_KEYS) kvs))"
| "sanitize_payload (JList xs) = JList (map sanitize_payload xs)"
| "sanitize_payload (JStr s) = (if rx_search PH2_SENSITIVE_TEXT_RE s then JStr ''[REDACTED]'' else JStr s)"
| "sanitize_payload j = j"

subsection \<open>Creating\<close>

definition MANUAL_REQUIRED :: "string list" where
  "MANUAL_REQUIRED = [''confirm DB recovery'', ''approve write resume'', ''review consistency result'']"

definition EVIDENCE_FILES :: "string list" where
  "EVIDENCE_FILES = [
    ''write-suspend-state.json'', ''health-ready-summary.json'', ''docker-compose-status.txt'',
    ''consistency-summary.json'', ''command-results.json'', ''sanitized-report.md'']"

definition severity_for :: "string \<Rightarrow> string" where
  "severity_for scenario = (if scenario \<in> {''POSTGRES_DOWN'', ''CONSISTENCY_VIOLATION''} then ''SEV1'' else ''SEV2'')"

definition incident_id_for :: "string \<Rightarrow> string \<Rightarrow> string" where
  "incident_id_for stamp scenario =
     ''inc-'' @ stamp @ ''-'' @ replace_char (CHR ''_'') ''-'' (lower scenario)"

text \<open>\<open>f"-{index:03d}"\<close>\<close>

definition suffix_text :: "nat \<Rightarrow> string" where
  "suffix_text n = CHR ''-'' # replicate (3 - length (nat_str n)) (CHR ''0'') @ nat_str n"

text \<open>
  \<open>mkdir\<close> of one name after the other. \<open>existing\<close> are the directories below the output root; a name that is taken is
  skipped, and a name below a directory that does not exist fails.
\<close>

definition parent_exists :: "string list \<Rightarrow> string \<Rightarrow> bool" where
  "parent_exists existing name = (let parts = split_on (CHR ''/'') name in
     length parts \<le> 1 \<or> join ''/'' (butlast parts) \<in> set existing)"

fun first_free :: "string list \<Rightarrow> string list \<Rightarrow> exn + string" where
  "first_free existing [] = Inl OSError"
| "first_free existing (name # names) =
     (if name \<in> set existing then first_free existing names
      else if parent_exists existing name then Inr name else Inl OSError)"

definition create_unique_incident_dir :: "string list \<Rightarrow> string \<Rightarrow> exn + string" where
  "create_unique_incident_dir existing incident_id =
     first_free existing (map (\<lambda>suffix. incident_id @ suffix) ([] # map suffix_text [1..<1000]))"

definition strs :: "string list \<Rightarrow> json" where
  "strs xs = JList (map JStr xs)"

definition load_sanitized_write_suspend_state :: "artifact_file option \<Rightarrow> json" where
  "load_sanitized_write_suspend_state state_file = (case state_file of
       None \<Rightarrow> JObj [(''active'', JBool False), (''reason'', JStr ''not_collected''),
         (''retry_after_seconds'', JStr ''not_collected''), (''source'', JStr ''not_collected''),
         (''run_id'', JStr ''not_collected''), (''sensitive_data_included'', JBool False)]
     | Some f \<Rightarrow> (case af_json f of
           Inl _ \<Rightarrow> JObj [(''active'', JBool True), (''reason'', JStr ''state_file_invalid''),
             (''source'', JStr ''artifact_parse_failed''), (''result'', JStr ''invalid_state_json''),
             (''sensitive_data_included'', JBool False)]
         | Inr payload \<Rightarrow> (case sanitize_payload payload of
               JObj kvs \<Rightarrow> JObj (put ''sensitive_data_included'' (JBool False) kvs)
             | _ \<Rightarrow> JObj [(''result'', JStr ''invalid_state_payload''), (''sensitive_data_included'', JBool False)])))"

text \<open>\<open>re.search(rf"- {key}: ([0-9]+)", text)\<close> and the number it captured.\<close>

fun find_count :: "string \<Rightarrow> string \<Rightarrow> int option" where
  "find_count prefix s = (let rest = drop (length prefix) s in
     if take (length prefix) s = prefix \<and> rest \<noteq> [] \<and> is_digit (hd rest)
     then Some (int (digits_val (takeWhile is_digit rest)))
     else (case s of [] \<Rightarrow> None | _ # s' \<Rightarrow> find_count prefix s'))"

declare find_count.simps [simp del]

definition COUNT_KEYS :: "string list" where
  "COUNT_KEYS = [''duplicate_event_count'', ''duplicate_ledger_count'', ''blocked_event_record_count_after_replay'',
     ''blocked_ledger_count_after_replay'']"

definition add_counts :: "string \<Rightarrow> (string \<times> json) list \<Rightarrow> (string \<times> json) list" where
  "add_counts text summary = fold (\<lambda>key s. case find_count (''- '' @ key @ '': '') text of
     None \<Rightarrow> s | Some n \<Rightarrow> put key (JInt n) s) COUNT_KEYS summary"

text \<open>The PH1 report: no directory given, no report in it, or its text.\<close>

definition consistency_summary :: "string option option \<Rightarrow> json" where
  "consistency_summary report = (let
     summary = [(''result'', JStr ''not_collected''), (''retry_after_present'', JStr ''unknown''),
       (''count'', JStr ''not_collected''), (''sensitive_data_included'', JBool False)]
   in case report of
       None \<Rightarrow> JObj summary
     | Some None \<Rightarrow> JObj (put ''result'' (JStr ''ph1_report_not_found'') summary)
     | Some (Some text) \<Rightarrow>
         sanitize_payload (JObj (put ''result'' (JStr ''captured'')
           (put ''retry_after_present'' (JStr (if occurs_in ''retry_after_header_present: yes'' text then ''yes'' else ''unknown''))
             (add_counts text summary)))))"

definition manifest_of :: "string \<Rightarrow> string \<Rightarrow> string \<Rightarrow> string option \<Rightarrow> string \<Rightarrow> (string \<times> json) list" where
  "manifest_of incident_id scenario created_at run_id source =
     [(''incident_id'', JStr incident_id), (''scenario'', JStr scenario),
      (''severity_candidate'', JStr (severity_for scenario)),
      (''confidence_candidate'', JFloat (if scenario = ''POSTGRES_DOWN'' then ''0.8'' else ''0.6'')),
      (''created_at'', JStr created_at), (''created_by'', JStr ''ph2_incident_artifact''), (''source'', JStr source),
      (''run_id'', JStr (case run_id of None \<Rightarrow> ''not_collected'' | Some s \<Rightarrow> if s = [] then ''not_collected'' else s)),
      (''sanitized'', JBool True), (''sensitive_data_included'', JBool False), (''manual_review_required'', JBool True),
      (''evidence_files'', strs EVIDENCE_FILES), (''manual_required'', strs MANUAL_REQUIRED)]"

definition text_of_key :: "string \<Rightarrow> (string \<times> json) list \<Rightarrow> string" where
  "text_of_key k kvs = py_str (get_or (JObj kvs) k JNull)"

definition render_report :: "(string \<times> json) list \<Rightarrow> json \<Rightarrow> string" where
  "render_report manifest consistency = join [CHR 0x0A] [
     ''# Incident Report Draft'',
     [],
     ''## Incident Metadata'',
     [],
     ''- Incident ID: '' @ text_of_key ''incident_id'' manifest,
     ''- Scenario: '' @ text_of_key ''scenario'' manifest,
     ''- Severity Candidate: '' @ text_of_key ''severity_candidate'' manifest,
     ''- Confidence Candidate: '' @ text_of_key ''confidence_candidate'' manifest,
     ''- Source: '' @ text_of_key ''source'' manifest,
     ''- Run ID: '' @ text_of_key ''run_id'' manifest,
     ''- Created At: '' @ text_of_key ''created_at'' manifest,
     ''- Manual Review Required: '' @ lower (text_of_key ''manual_review_required'' manifest),
     ''- Sensitive Data Included: false'',
     [],
     ''## Summary'',
     [],
     ''PostgreSQL write path was unavailable or write traffic was suspended.'',
     ''Financial write requests were expected to fail closed with 503 + Retry-After.'',
     [],
     ''## Primary Signals'',
     [],
     ''- readiness: not_collected'',
     ''- write_suspended: captured_if_state_file_exists'',
     ''- retry_after_present: '' @ py_str (get_or consistency ''retry_after_present'' (JStr ''unknown'')),
     ''- consistency_check: '' @ py_str (get_or consistency ''result'' (JStr ''not_collected'')),
     [],
     ''## Auto Actions Captured'',
     [],
     ''- write suspend state captured'',
     ''- count-only consistency summary captured'',
     ''- command result summary captured'',
     [],
     ''## Manual Actions Required'',
     [],
     ''- confirm DB recovery'',
     ''- review consistency gate'',
     ''- approve write resume'',
     ''- review whether recovery case creation is required in PH3'',
     [],
     ''## Evidence Files'',
     [],
     ''- manifest.json'',
     ''- write-suspend-state.json'',
     ''- health-ready-summary.json'',
     ''- consistency-summary.json'',
     ''- docker-compose-status.txt'',
     ''- command-results.json'',
     [],
     ''## Sanitization'',
     [],
     ''- raw account number: not included'',
     ''- raw idempotency key: not included'',
     ''- HMAC signature: not included'',
     ''- Authorization header: not included'',
     ''- raw request body: not included'',
     ''- sensitive_data_included: false'',
     [],
     ''## Follow-up'',
     [],
     ''- PH3 Incident Analyzer MVP'',
     ''- PH4 Recovery Case / Quarantine'',
     []]"

text \<open>\<open>docker compose ps\<close>: it could not be run, or its exit code and output.\<close>

definition docker_compose_status :: "(int \<times> string) option \<Rightarrow> string" where
  "docker_compose_status r = (let none = ''docker_compose_status: not_collected'' @ [CHR 0x0A] in
     case r of None \<Rightarrow> none | Some (code, out) \<Rightarrow> if code \<noteq> 0 then none else if out = [] then none else out)"

record create_inputs =
  ci_scenario :: string
  ci_run_id :: "string option"
  ci_source :: string
  ci_output_root :: string
  ci_existing :: "string list"
  ci_stamp :: string
  ci_created_at :: string
  ci_suspend_state :: "artifact_file option"
  ci_ph1_report :: "string option option"
  ci_docker :: "(int \<times> string) option"

definition create_artifact :: "create_inputs \<Rightarrow> exn + incident_dir" where
  "create_artifact i =
     bindE (create_unique_incident_dir (ci_existing i) (incident_id_for (ci_stamp i) (ci_scenario i))) (\<lambda>name.
     let path = path_join (ci_output_root i) name;
         incident_id = path_name path;
         manifest = manifest_of incident_id (ci_scenario i) (ci_created_at i) (ci_run_id i) (ci_source i);
         consistency = consistency_summary (ci_ph1_report i)
     in Inr \<lparr>id_path = path,
       id_files =
         [(''raw/README.md'', text_file (''# Raw Evidence'' @ newline 0 @ newline 0 @
             ''Raw logs are not collected by PH2 by default.'' @ newline 0)),
          (''manifest.json'', json_file (JObj manifest)),
          (''write-suspend-state.json'', json_file (load_sanitized_write_suspend_state (ci_suspend_state i))),
          (''health-ready-summary.json'', json_file (JObj [(''service_name'', JStr ''financial-event-api''),
             (''health_status'', JStr ''not_collected''), (''ready_status'', JStr ''not_collected''),
             (''http_status'', JStr ''not_collected''), (''dependency'', JStr ''postgres'')])),
          (''consistency-summary.json'', json_file consistency),
          (''command-results.json'', json_file (JObj [(''command_name'', JStr ''ph2_incident_artifact_create''),
             (''exit_code'', JInt 0), (''result'', JStr ''created''), (''sensitive_data_included'', JBool False)])),
          (''docker-compose-status.txt'', text_file (docker_compose_status (ci_docker i))),
          (''sanitized-report.md'', text_file (render_report manifest consistency))]\<rparr>)"

subsection \<open>Validating\<close>

definition MANIFEST_REQUIRED :: "string list" where
  "MANIFEST_REQUIRED = [
    ''incident_id'', ''scenario'', ''severity_candidate'', ''confidence_candidate'', ''created_at'',
    ''created_by'', ''source'', ''run_id'', ''sanitized'', ''sensitive_data_included'', ''manual_review_required'',
    ''evidence_files'', ''manual_required'']"

fun validate_json_keys :: "json \<Rightarrow> string \<Rightarrow> string list" where
  "validate_json_keys (JObj kvs) label = concat (map (\<lambda>(k, v).
     (if rx_search PH2_SENSITIVE_KEY_RE k then [''sensitive key found in '' @ label @ '': '' @ k] else []) @
     validate_json_keys v label) kvs)"
| "validate_json_keys (JList xs) label = concat (map (\<lambda>x. validate_json_keys x label) xs)"
| "validate_json_keys _ label = []"

definition suffix_of :: "string \<Rightarrow> string" where
  "suffix_of path = (let parts = split_on (CHR ''.'') (path_name path) in
     if length parts \<le> 1 \<or> hd parts = [] \<and> length parts = 2 then [] else ''.'' @ last parts)"

definition file_errors :: "string \<Rightarrow> artifact_file \<Rightarrow> string list" where
  "file_errors name f =
     (if rx_search PH2_SENSITIVE_TEXT_RE (af_text f) then [''sensitive value pattern found: '' @ name] else []) @
     (if suffix_of name = ''.json'' then (case af_json f of
         Inl msg \<Rightarrow> [''invalid JSON '' @ name @ '': '' @ msg]
       | Inr j \<Rightarrow> validate_json_keys j name)
      else [])"

definition manifest_errors :: "string \<Rightarrow> (string \<times> json) list \<Rightarrow> string list" where
  "manifest_errors name manifest = (let
     missing = sort (filter (\<lambda>k. k \<notin> fst ` set manifest) MANIFEST_REQUIRED)
   in (if missing \<noteq> [] then [''manifest missing fields: '' @ join '', '' missing] else []) @
      (if json_get ''incident_id'' manifest \<noteq> Some (JStr name) then [''manifest incident_id does not match incident directory''] else []) @
      (if json_get ''sanitized'' manifest \<noteq> Some (JBool True) then [''manifest sanitized must be true''] else []) @
      (if json_get ''sensitive_data_included'' manifest \<noteq> Some (JBool False)
       then [''manifest sensitive_data_included must be false''] else []))"

definition report_errors :: "(string \<times> json) list \<Rightarrow> artifact_file \<Rightarrow> string list" where
  "report_errors manifest f =
     (if \<not> occurs_in (''- Incident ID: '' @ text_of_key ''incident_id'' manifest) (af_text f)
      then [''report incident_id does not match manifest''] else []) @
     (if \<not> occurs_in ''Sensitive Data Included: false'' (af_text f)
      then [''report must declare Sensitive Data Included: false''] else [])"

text \<open>
  \<open>set(v)\<close> and then \<open>v.get\<close> on a decoded document: only a dictionary survives both. A scalar is not iterable, a list or
  dictionary inside a list is not hashable, and a list or text of hashable items has no \<open>get\<close>.
\<close>

definition required_mapping :: "json \<Rightarrow> exn + (string \<times> json) list" where
  "required_mapping j = (case j of
       JObj kvs \<Rightarrow> Inr kvs
     | JStr _ \<Rightarrow> Inl (AttributeError ''get'')
     | JList xs \<Rightarrow> if list_ex is_container xs then Inl (TypeError ''unhashable'') else Inl (AttributeError ''get'')
     | _ \<Rightarrow> Inl (TypeError ''not iterable''))"

definition validate_artifact :: "incident_dir \<Rightarrow> exn + string list" where
  "validate_artifact d = (case file_of d ''manifest.json'' of
       None \<Rightarrow> Inr [''missing '' @ path_join (id_path d) ''manifest.json'']
     | Some f \<Rightarrow> (case af_json f of
           Inl msg \<Rightarrow> Inr [''manifest is invalid JSON: '' @ msg]
         | Inr j \<Rightarrow> bindE (required_mapping j) (\<lambda>manifest. Inr (
             manifest_errors (incident_name d) manifest @
             concat (map (\<lambda>name. if file_of d name = None then [''missing evidence file: '' @ name] else []) EVIDENCE_FILES) @
             concat (map (\<lambda>(name, f). file_errors name f) (id_files d)) @
             (case file_of d ''sanitized-report.md'' of None \<Rightarrow> [] | Some r \<Rightarrow> report_errors manifest r)))))"

text \<open>The greatest name; names are unique below one directory.\<close>

definition later :: "incident_dir \<Rightarrow> incident_dir option \<Rightarrow> incident_dir option" where
  "later d best = (case best of None \<Rightarrow> Some d
     | Some b \<Rightarrow> if incident_name b < incident_name d then Some d else Some b)"

definition latest_incident_dir :: "incident_dir list \<Rightarrow> exn + incident_dir" where
  "latest_incident_dir dirs =
     (case fold later (filter (\<lambda>d. take 4 (incident_name d) = ''inc-'') dirs) None of
        None \<Rightarrow> Inl OSError
      | Some d \<Rightarrow> Inr d)"

subsection \<open>The command\<close>

text \<open>
  The parsed arguments of the three subcommands, with what the paths among them name; and what a run prints, writes
  and exits with.
\<close>

datatype artifact_command =
    Create_command create_inputs
  | Sanitize_command artifact_file
  | Validate_command bool "incident_dir option" "incident_dir list"

record outcome =
  oc_exit :: int
  oc_out :: "string list"
  oc_err :: "string list"
  oc_dir :: "incident_dir option"
  oc_document :: "json option"

definition exited :: "int \<Rightarrow> string list \<Rightarrow> string list \<Rightarrow> outcome" where
  "exited code out err = \<lparr>oc_exit = code, oc_out = out, oc_err = err, oc_dir = None, oc_document = None\<rparr>"

definition validation_outcome :: "incident_dir \<Rightarrow> string list \<Rightarrow> outcome" where
  "validation_outcome d errors =
     (if errors \<noteq> [] then exited 1 [] errors else exited 0 [''validated: '' @ id_path d] [])"

definition artifact_main :: "artifact_command \<Rightarrow> exn + outcome" where
  "artifact_main cmd = (case cmd of
       Create_command i \<Rightarrow> bindE (create_artifact i) (\<lambda>d. Inr (exited 0 [id_path d] []\<lparr>oc_dir := Some d\<rparr>))
     | Sanitize_command f \<Rightarrow> (case af_json f of
           Inl msg \<Rightarrow> Inl (ValueError msg)
         | Inr j \<Rightarrow> Inr (exited 0 [] []\<lparr>oc_document := Some (sanitize_payload j)\<rparr>))
     | Validate_command latest given dirs \<Rightarrow>
         if latest then bindE (latest_incident_dir dirs) (\<lambda>d. bindE (validate_artifact d) (\<lambda>es. Inr (validation_outcome d es)))
         else (case given of
             Some d \<Rightarrow> bindE (validate_artifact d) (\<lambda>es. Inr (validation_outcome d es))
           | None \<Rightarrow> Inr (exited 2 [] [''--incident-dir or --latest is required''])))"

end
