(* ===== verification/Artifact_Properties.thy ===== *)
theory Artifact_Properties
  imports Incident_Artifact Ai_Context_Properties
begin

text \<open>
  What the artifact writer lets through: clean payloads, but for connection strings its pattern misses.
\<close>

subsection \<open>Texts without the literals of the patterns\<close>

definition PH2_LITERALS :: "string list" where
  "PH2_LITERALS = [''authorization'', ''x-signature'', ''x_signature'', ''idempotency-key'', ''idempotency_key'',
     ''account_no'', ''account_number'', ''database_url'', ''bearer'', ''basic'', ''postgresql://'',
     ''synthetic-authorization-token'', ''synthetic-signature-value'', ''synthetic-account-number-1234'',
     ''synthetic-idempotency-key'']"

definition no_ph2_literal :: "string \<Rightarrow> bool" where
  "no_ph2_literal s = (let s' = lower s in list_all (\<lambda>w. \<not> occurs_in w s') PH2_LITERALS)"

lemma lower_literals:
  "lower ''Authorization'' = ''authorization''" "lower ''X-Signature'' = ''x-signature''" "lower ''x_signature'' = ''x_signature''"
  "lower ''Idempotency-Key'' = ''idempotency-key''" "lower ''idempotency_key'' = ''idempotency_key''"
  "lower ''account_no'' = ''account_no''" "lower ''account_number'' = ''account_number''"
  "lower ''DATABASE_URL'' = ''database_url''" "lower ''Bearer'' = ''bearer''" "lower ''Basic'' = ''basic''"
  "lower ''postgresql://'' = ''postgresql://''"
  "lower ''synthetic-authorization-token'' = ''synthetic-authorization-token''"
  "lower ''synthetic-signature-value'' = ''synthetic-signature-value''"
  "lower ''synthetic-account-number-1234'' = ''synthetic-account-number-1234''"
  "lower ''synthetic-idempotency-key'' = ''synthetic-idempotency-key''"
  by code_simp+

lemma other_literals_no_match:
  assumes "list_all (\<lambda>w. w = ''postgresql://'' \<or> \<not> occurs_in w (lower s)) PH2_LITERALS" "\<not> rx_search postgres_url s"
  shows "\<not> rx_search PH2_SENSITIVE_TEXT_RE s"
  using assms by (simp add: PH2_LITERALS_def PH2_SENSITIVE_TEXT_RE_def search_any_of assigned_def equated_def
      credential_def literal_absent lower_literals del: lit_i.simps any_of.simps)

lemma no_literal_no_match: "no_ph2_literal s \<Longrightarrow> \<not> rx_search PH2_SENSITIVE_TEXT_RE s"
  by (rule other_literals_no_match) (auto simp: no_ph2_literal_def Let_def list_all_iff PH2_LITERALS_def postgres_url_def
      literal_absent lower_literals simp del: lit_i.simps)

definition PH2_KEY_LITERALS :: "string list" where
  "PH2_KEY_LITERALS = [''authorization'', ''cookie'', ''database_url'', ''db_password'', ''password'', ''secret'', ''signature'',
     ''idempotency'', ''account'', ''access'', ''refresh'', ''private'', ''connection'', ''raw'', ''request'', ''response'']"

lemma lower_key_literals: "list_all (\<lambda>w. lower w = w) PH2_KEY_LITERALS"
  by code_simp

lemma no_key_literal_no_match:
  assumes "list_all (\<lambda>w. \<not> occurs_in w (lower k)) PH2_KEY_LITERALS"
  shows "\<not> rx_search PH2_SENSITIVE_KEY_RE k"
  using assms lower_key_literals by (simp add: PH2_KEY_LITERALS_def PH2_SENSITIVE_KEY_RE_def search_any_of two_words_def
      literal_absent del: lit_i.simps any_of.simps)

subsection \<open>Sanitised payloads\<close>

fun ph2_clean :: "json \<Rightarrow> bool" where
  "ph2_clean (JObj kvs) = (\<forall>(k, v) \<in> set kvs. k \<in> set PH2_ALLOWED_KEYS \<and> \<not> rx_search PH2_SENSITIVE_KEY_RE k \<and> ph2_clean v)"
| "ph2_clean (JList xs) = (\<forall>x \<in> set xs. ph2_clean x)"
| "ph2_clean (JStr s) = (\<not> rx_search PH2_SENSITIVE_TEXT_RE s)"
| "ph2_clean _ = True"

lemma redacted_clean: "\<not> rx_search PH2_SENSITIVE_TEXT_RE ''[REDACTED]''"
  by (rule no_literal_no_match) code_simp

lemma sanitize_payload_clean: "ph2_clean (sanitize_payload j)"
  by (induction j rule: sanitize_payload.induct) (auto simp: redacted_clean)

lemma clean_kept: "ph2_clean j \<Longrightarrow> sanitize_payload j = j"
proof (induction j rule: sanitize_payload.induct)
  case (1 kvs)
  then have "filter (\<lambda>(k, v). \<not> rx_search PH2_SENSITIVE_KEY_RE k \<and> k \<in> set PH2_ALLOWED_KEYS) kvs = kvs"
    by (auto intro: filter_True)
  moreover have "map (\<lambda>(k, v). (k, sanitize_payload v)) kvs = kvs"
    using 1 by (intro map_idI) auto
  ultimately show ?case by simp
qed (auto intro: map_idI)

lemma clean_no_keys: "ph2_clean j \<Longrightarrow> validate_json_keys j label = []"
  by (induction j label rule: validate_json_keys.induct) auto

text \<open>
  Whatever document the artifact writer sanitises, the result has only allowlisted keys none of which looks
  sensitive and no text its patterns recognise, at any depth; sanitising it again changes nothing, and the key check of
  the validator has nothing to report on it.
\<close>

theorem artifact_payload_clean:
  "ph2_clean (sanitize_payload j) \<and> sanitize_payload (sanitize_payload j) = sanitize_payload j \<and>
   validate_json_keys (sanitize_payload j) label = []"
  using sanitize_payload_clean clean_kept clean_no_keys by blast


end
