(* ===== verification/Incident_Analyzer.thy ===== *)
theory Incident_Analyzer
  imports Incident_Artifact "HOL-Library.AList"
begin

text \<open>
  The deterministic incident analyzer (\<open>scripts/ph3_incident_analyzer.py\<close>): it reads the files of an incident
  directory, picks the first rule that applies, and writes its result and a report beside the evidence. The clock is an
  input; a directory is what the artifact writer left.
\<close>

definition ANALYZER_VERSION :: string where
  "ANALYZER_VERSION = ''ph3-mvp-v1''"

definition RESULT_FILE :: string where
  "RESULT_FILE = ''analyzer-result.json''"

definition REPORT_FILE :: string where
  "REPORT_FILE = ''incident-analysis.md''"

definition MANUAL_POSTGRES_DOWN :: "string list" where
  "MANUAL_POSTGRES_DOWN = [''confirm PostgreSQL recovery'', ''review consistency gate'', ''approve write resume'',
     ''decide whether recovery case creation is required in PH4'']"

definition MANUAL_SANITIZATION_RISK :: "string list" where
  "MANUAL_SANITIZATION_RISK = [''do not share artifact with AI or external documents'', ''rerun PH2 validation'',
     ''remove or regenerate unsafe artifact'']"

definition MANUAL_CONSISTENCY :: "string list" where
  "MANUAL_CONSISTENCY = [''keep write suspended'', ''create recovery case in PH4'', ''review affected account/event scope'']"

definition MANUAL_UNKNOWN_DEPENDENCY :: "string list" where
  "MANUAL_UNKNOWN_DEPENDENCY = [''identify dependency failure source'', ''review ready/health evidence'',
     ''do not resume write until consistency gate is reviewed'']"

definition MANUAL_INSUFFICIENT :: "string list" where
  "MANUAL_INSUFFICIENT = [''rerun artifact collection'', ''check PH2 create/validate logs'',
     ''do not make recovery decision from this report alone'']"

definition DEFAULT_LIMITS :: "string list" where
  "DEFAULT_LIMITS = [''PH3 does not execute recovery actions'', ''PH3 does not approve write resume'',
     ''PH3 does not query live Prometheus metrics'', ''PH3 does not call AI APIs'']"

subsection \<open>The evidence\<close>

type_synonym document = "(string \<times> json) list"

record analysis_context =
  cx_incident_id :: string
  cx_manifest :: document
  cx_write_state :: document
  cx_health_ready :: document
  cx_consistency :: document
  cx_command_results :: document
  cx_validation_errors :: "string list"
  cx_missing_evidence_count :: nat

definition read_json_or_empty :: "artifact_file option \<Rightarrow> document" where
  "read_json_or_empty f = (case f of
       Some file \<Rightarrow> (case af_json file of Inr (JObj kvs) \<Rightarrow> kvs | _ \<Rightarrow> [])
     | None \<Rightarrow> [])"

definition missing_evidence_count :: "incident_dir \<Rightarrow> string list \<Rightarrow> nat" where
  "missing_evidence_count d files = length (filter (\<lambda>name. file_of d name = None) files)"

text \<open>
  \<open>int(value) > 0\<close>, false when the conversion raises \<open>TypeError\<close> or \<open>ValueError\<close>. A float counts when its integral part
  is positive, which its \<open>repr\<close> shows by a first digit that is not zero and no negative exponent; the conversion of an
  infinity raises \<open>OverflowError\<close>, which is not caught.
\<close>

definition float_at_least_one :: "string \<Rightarrow> bool" where
  "float_at_least_one r \<longleftrightarrow> r \<noteq> [] \<and> is_digit (hd r) \<and> hd r \<noteq> CHR ''0'' \<and> \<not> occurs_in ''e-'' r"

definition positive_int :: "json \<Rightarrow> exn + bool" where
  "positive_int v = (case v of
       JFloat r \<Rightarrow> if r \<in> {''inf'', ''-inf''} then Inl (OverflowError ''cannot convert float infinity to integer'')
                  else Inr (float_at_least_one r)
     | _ \<Rightarrow> Inr (case int_of_json v of Some i \<Rightarrow> i > 0 | None \<Rightarrow> False))"

subsection \<open>The rules\<close>

definition lookup_or :: "document \<Rightarrow> string \<Rightarrow> json \<Rightarrow> json" where
  "lookup_or kvs k d = (case json_get k kvs of Some v \<Rightarrow> v | None \<Rightarrow> d)"

definition sanitization_error :: "string \<Rightarrow> bool" where
  "sanitization_error e = (occurs_in ''sensitive'' (lower e) \<or> occurs_in ''sanitized must be true'' (lower e))"

definition has_sanitization_risk :: "analysis_context \<Rightarrow> bool" where
  "has_sanitization_risk c =
     (if cx_manifest c = [] then False
      else if json_get ''sensitive_data_included'' (cx_manifest c) \<noteq> Some (JBool False) then True
      else list_ex sanitization_error (cx_validation_errors c))"

definition ISSUE_KEYS :: "string list" where
  "ISSUE_KEYS = [''duplicate_ledger_count'', ''duplicate_external_event_count'', ''duplicate_event_count'',
     ''reconciliation_failure_count'']"

fun any_positive :: "document \<Rightarrow> string list \<Rightarrow> exn + bool" where
  "any_positive consistency [] = Inr False"
| "any_positive consistency (k # ks) = bindE (positive_int (lookup_or consistency k JNull))
     (\<lambda>p. if p then Inr True else any_positive consistency ks)"

definition has_consistency_issue :: "analysis_context \<Rightarrow> exn + bool" where
  "has_consistency_issue c = any_positive (cx_consistency c) ISSUE_KEYS"

definition is_postgres_down_write_suspended :: "analysis_context \<Rightarrow> bool" where
  "is_postgres_down_write_suspended c =
     (if json_get ''scenario'' (cx_manifest c) = Some (JStr ''POSTGRES_DOWN'') then True
      else if json_get ''reason'' (cx_write_state c) = Some (JStr ''postgres_unavailable'') then True
      else json_get ''active'' (cx_write_state c) = Some (JBool True) \<and>
        json_get ''source'' (cx_write_state c) = Some (JStr ''postgres_probe''))"

text \<open>\<open>scenario in {None, "", "unknown", "not_collected"}\<close> hashes the scenario first.\<close>

definition is_write_suspended_unknown :: "analysis_context \<Rightarrow> exn + bool" where
  "is_write_suspended_unknown c = (let scenario = lookup_or (cx_manifest c) ''scenario'' JNull in
     if json_get ''active'' (cx_write_state c) \<noteq> Some (JBool True) then Inr False
     else if is_container scenario then Inl (TypeError ''unhashable'')
     else Inr (scenario \<in> {JNull, JStr [], JStr ''unknown'', JStr ''not_collected''}))"

definition has_insufficient_evidence :: "analysis_context \<Rightarrow> bool" where
  "has_insufficient_evidence c =
     (if cx_manifest c = [] then True else if cx_missing_evidence_count c \<ge> 3 then True else False)"

record analysis_rule =
  ru_classification :: string
  ru_severity_candidate :: string
  ru_confidence_candidate :: json
  ru_manual_actions_required :: "string list"
  ru_recommended_runbooks :: "string list"
  ru_why_this_classification :: string

definition rule :: "string \<Rightarrow> string \<Rightarrow> string \<Rightarrow> string list \<Rightarrow> string list \<Rightarrow> string \<Rightarrow> analysis_rule" where
  "rule classification severity confidence manual_actions runbooks why =
     \<lparr>ru_classification = classification, ru_severity_candidate = severity,
      ru_confidence_candidate = JFloat confidence, ru_manual_actions_required = manual_actions,
      ru_recommended_runbooks = runbooks, ru_why_this_classification = why\<rparr>"

definition select_rule :: "analysis_context \<Rightarrow> exn + analysis_rule" where
  "select_rule c =
    (if has_sanitization_risk c then Inr (rule ''ARTIFACT_SANITIZATION_RISK'' ''SEV2'' ''0.8'' MANUAL_SANITIZATION_RISK
       [''docs/39-sensitive-data-ai-governance-and-encryption-tradeoff.md'']
       ''PH2 validation or manifest safety metadata indicates the artifact should not be shared before regeneration.'')
     else bindE (has_consistency_issue c) (\<lambda>issue.
       if issue then Inr (rule ''CONSISTENCY_ISSUE_CANDIDATE'' ''SEV1'' ''0.85'' MANUAL_CONSISTENCY
         [''docs/runbooks/write-suspend-resume.md'']
         ''Count-only consistency summary contains a non-zero duplicate or reconciliation failure count.'')
       else if is_postgres_down_write_suspended c then Inr (rule ''POSTGRES_DOWN_WRITE_SUSPENDED'' ''SEV1'' ''0.9''
         MANUAL_POSTGRES_DOWN [''docs/runbooks/postgres-down.md'', ''docs/runbooks/write-suspend-resume.md'']
         ''Scenario and write-suspend evidence point to PostgreSQL write path unavailability.'')
       else bindE (is_write_suspended_unknown c) (\<lambda>unknown.
         if unknown then Inr (rule ''WRITE_SUSPENDED_UNKNOWN_DEPENDENCY'' ''SEV2'' ''0.65'' MANUAL_UNKNOWN_DEPENDENCY
           [''docs/runbooks/write-suspend-resume.md'']
           ''Write traffic is suspended, but the artifact does not identify PostgreSQL as the dependency.'')
         else if has_insufficient_evidence c then Inr (rule ''INSUFFICIENT_EVIDENCE'' ''SEV2'' ''0.4'' MANUAL_INSUFFICIENT
           [''docs/44-ph2-incident-artifact-sanitized-report.md'']
           ''Required PH2 evidence is missing or too sparse for a reliable classification.'')
         else Inr (rule ''UNKNOWN_INCIDENT'' ''SEV3'' ''0.3'' MANUAL_INSUFFICIENT
           [''docs/37-incident-diagnosis-automation-design.md'']
           ''No PH3 MVP rule matched the available sanitized artifact evidence.''))))"

subsection \<open>The result\<close>

definition primary_signals :: "analysis_context \<Rightarrow> string \<Rightarrow> string list" where
  "primary_signals c classification =
     [''classification='' @ classification,
      ''scenario='' @ py_str (lookup_or (cx_manifest c) ''scenario'' (JStr ''unknown'')),
      ''write_suspend_state.active='' @ py_str (lookup_or (cx_write_state c) ''active'' (JStr ''not_collected'')),
      ''write_suspend_state.reason='' @ py_str (lookup_or (cx_write_state c) ''reason'' (JStr ''not_collected'')),
      ''ready_status='' @ py_str (lookup_or (cx_health_ready c) ''ready_status'' (JStr ''not_collected'')),
      ''consistency_result='' @ py_str (lookup_or (cx_consistency c) ''result'' (JStr ''not_collected'')),
      ''sensitive_data_included=false''] @
     concat (map (\<lambda>key. case json_get key (cx_consistency c) of
       Some v \<Rightarrow> [key @ ''='' @ py_str v] | None \<Rightarrow> []) ISSUE_KEYS)"

definition auto_actions_observed :: "analysis_context \<Rightarrow> string list" where
  "auto_actions_observed c = [''sanitized_artifact_created'', ''ph2_validation_checked''] @
     (if cx_write_state c \<noteq> [] then [''write_suspend_state_captured''] else []) @
     (if cx_consistency c \<noteq> [] then [''count_only_consistency_summary_captured''] else []) @
     (if cx_command_results c \<noteq> [] then [''command_result_summary_captured''] else [])"

record analysis_result =
  an_incident_id :: string
  an_analyzer_version :: string
  an_analyzed_at :: string
  an_rule :: analysis_rule
  an_primary_signals :: "string list"
  an_auto_actions_observed :: "string list"
  an_limits :: "string list"

abbreviation an_classification :: "analysis_result \<Rightarrow> string" where
  "an_classification r \<equiv> ru_classification (an_rule r)"

definition classify :: "string \<Rightarrow> analysis_context \<Rightarrow> exn + analysis_result" where
  "classify analyzed_at c = bindE (select_rule c) (\<lambda>rl. Inr
     \<lparr>an_incident_id = cx_incident_id c, an_analyzer_version = ANALYZER_VERSION, an_analyzed_at = analyzed_at,
      an_rule = rl, an_primary_signals = primary_signals c (ru_classification rl),
      an_auto_actions_observed = auto_actions_observed c, an_limits = DEFAULT_LIMITS\<rparr>)"

definition analysis_document :: "analysis_result \<Rightarrow> document" where
  "analysis_document r = (let rl = an_rule r in
     [(''incident_id'', JStr (an_incident_id r)), (''analyzer_version'', JStr (an_analyzer_version r)),
      (''analyzed_at'', JStr (an_analyzed_at r)), (''classification'', JStr (ru_classification rl)),
      (''severity_candidate'', JStr (ru_severity_candidate rl)),
      (''confidence_candidate'', ru_confidence_candidate rl), (''primary_signals'', strs (an_primary_signals r)),
      (''auto_actions_observed'', strs (an_auto_actions_observed r)),
      (''manual_actions_required'', strs (ru_manual_actions_required rl)),
      (''recommended_runbooks'', strs (ru_recommended_runbooks rl)), (''limits'', strs (an_limits r)),
      (''manual_review_required'', JBool True), (''sensitive_data_included'', JBool False),
      (''why_this_classification'', JStr (ru_why_this_classification rl))])"

definition markdown_list :: "string list \<Rightarrow> string" where
  "markdown_list items = (if items = [] then ''- not_collected'' else join [CHR 0x0A] (map (\<lambda>item. ''- '' @ item) items))"

definition render_analysis :: "analysis_result \<Rightarrow> string" where
  "render_analysis r = (let rl = an_rule r in join [CHR 0x0A] [
     ''# Incident Analysis Draft'',
     [],
     ''## Summary'',
     [],
     ''- Classification: '' @ ru_classification rl,
     ''- Severity Candidate: '' @ ru_severity_candidate rl,
     ''- Confidence Candidate: '' @ py_str (ru_confidence_candidate rl),
     ''- Manual Review Required: true'',
     ''- Sensitive Data Included: false'',
     [],
     ''## Primary Signals'',
     [],
     markdown_list (an_primary_signals r),
     [],
     ''## Why This Classification'',
     [],
     ru_why_this_classification rl,
     [],
     ''## Observed Auto Actions'',
     [],
     markdown_list (an_auto_actions_observed r),
     [],
     ''## Manual Actions Required'',
     [],
     markdown_list (ru_manual_actions_required rl),
     [],
     ''## Recommended Runbooks'',
     [],
     markdown_list (ru_recommended_runbooks rl),
     [],
     ''## Limits'',
     [],
     markdown_list (an_limits r),
     [],
     ''## Follow-up'',
     [],
     ''- PH4 Recovery Case / Quarantine'',
     []])"

definition write_file :: "string \<Rightarrow> artifact_file \<Rightarrow> incident_dir \<Rightarrow> incident_dir" where
  "write_file name f d = d\<lparr>id_files := AList.update name f (id_files d)\<rparr>"

definition analysis_context_of :: "incident_dir \<Rightarrow> exn + analysis_context" where
  "analysis_context_of d = (let manifest = read_json_or_empty (file_of d ''manifest.json'') in
     bindE (validate_artifact d) (\<lambda>validation_errors. Inr
       \<lparr>cx_incident_id = str_or (json_get ''incident_id'' manifest) (incident_name d),
        cx_manifest = manifest,
        cx_write_state = read_json_or_empty (file_of d ''write-suspend-state.json''),
        cx_health_ready = read_json_or_empty (file_of d ''health-ready-summary.json''),
        cx_consistency = read_json_or_empty (file_of d ''consistency-summary.json''),
        cx_command_results = read_json_or_empty (file_of d ''command-results.json''),
        cx_validation_errors = validation_errors,
        cx_missing_evidence_count = missing_evidence_count d [''manifest.json'', ''write-suspend-state.json'',
          ''health-ready-summary.json'', ''consistency-summary.json'', ''command-results.json'', ''sanitized-report.md'']\<rparr>))"

definition analyze_incident :: "string \<Rightarrow> incident_dir \<Rightarrow> exn + (analysis_result \<times> incident_dir)" where
  "analyze_incident analyzed_at d =
     bindE (analysis_context_of d) (\<lambda>c.
     bindE (classify analyzed_at c) (\<lambda>r.
     Inr (r, write_file REPORT_FILE (text_file (render_analysis r))
              (write_file RESULT_FILE (json_file (JObj (analysis_document r))) d))))"

subsection \<open>Validating an analysis\<close>

definition ANALYSIS_REQUIRED :: "string list" where
  "ANALYSIS_REQUIRED = [
    ''incident_id'', ''analyzer_version'', ''analyzed_at'', ''classification'', ''severity_candidate'',
    ''confidence_candidate'', ''primary_signals'', ''auto_actions_observed'', ''manual_actions_required'',
    ''recommended_runbooks'', ''limits'', ''manual_review_required'', ''sensitive_data_included'']"

definition result_errors :: "string \<Rightarrow> document \<Rightarrow> string list" where
  "result_errors name res = (let missing = sort (filter (\<lambda>k. k \<notin> fst ` set res) ANALYSIS_REQUIRED) in
     (if missing \<noteq> [] then [RESULT_FILE @ '' missing fields: '' @ join '', '' missing] else []) @
     (if json_get ''incident_id'' res \<noteq> Some (JStr name)
      then [''analyzer result incident_id does not match incident directory''] else []) @
     (if json_get ''analyzer_version'' res \<noteq> Some (JStr ANALYZER_VERSION) then [''unexpected analyzer_version''] else []) @
     (if json_get ''manual_review_required'' res \<noteq> Some (JBool True)
      then [''manual_review_required must be true''] else []) @
     (if json_get ''sensitive_data_included'' res \<noteq> Some (JBool False)
      then [''sensitive_data_included must be false''] else []))"

definition text_errors :: "incident_dir \<Rightarrow> string \<Rightarrow> string list" where
  "text_errors d name = (case file_of d name of
       Some f \<Rightarrow> if rx_search PH2_SENSITIVE_TEXT_RE (af_text f) then [''sensitive value pattern found: '' @ name] else []
     | None \<Rightarrow> [])"

definition validate_analysis :: "incident_dir \<Rightarrow> exn + string list" where
  "validate_analysis d = (case file_of d RESULT_FILE of
       None \<Rightarrow> Inr [''missing '' @ RESULT_FILE]
     | Some f \<Rightarrow> (case af_json f of
           Inl msg \<Rightarrow> Inr [RESULT_FILE @ '' is invalid JSON: '' @ msg]
         | Inr j \<Rightarrow> bindE (required_mapping j) (\<lambda>res. Inr (
             (if file_of d REPORT_FILE = None then [''missing '' @ REPORT_FILE] else []) @
             result_errors (incident_name d) res @
             text_errors d RESULT_FILE @ text_errors d REPORT_FILE))))"

subsection \<open>The command\<close>

datatype analyzer_command =
    Analyze_command bool "incident_dir option" "incident_dir list"
  | Validate_analysis_command bool "incident_dir option" "incident_dir list"

text \<open>No directory chosen is \<open>SystemExit\<close> with a message: it is printed and the exit code is 1.\<close>

definition select_incident_dir :: "bool \<Rightarrow> incident_dir option \<Rightarrow> incident_dir list \<Rightarrow> exn + incident_dir option" where
  "select_incident_dir latest given dirs =
     (if latest then bindE (latest_incident_dir dirs) (\<lambda>d. Inr (Some d)) else Inr given)"

definition on_incident_dir :: "incident_dir option \<Rightarrow> (incident_dir \<Rightarrow> exn + outcome) \<Rightarrow> exn + outcome" where
  "on_incident_dir selected f =
     (case selected of Some d \<Rightarrow> f d | None \<Rightarrow> Inr (exited 1 [] [''--incident-dir or --latest is required'']))"

definition analyzer_main :: "string \<Rightarrow> analyzer_command \<Rightarrow> exn + outcome" where
  "analyzer_main analyzed_at cmd = (case cmd of
       Analyze_command latest given dirs \<Rightarrow>
         bindE (select_incident_dir latest given dirs) (\<lambda>selected. on_incident_dir selected (\<lambda>d.
         bindE (analyze_incident analyzed_at d) (\<lambda>(r, d').
         Inr (exited 0 [path_join (id_path d) RESULT_FILE @ '': '' @ an_classification r] []\<lparr>oc_dir := Some d'\<rparr>))))
     | Validate_analysis_command latest given dirs \<Rightarrow>
         bindE (select_incident_dir latest given dirs) (\<lambda>selected. on_incident_dir selected (\<lambda>d.
         bindE (validate_analysis d) (\<lambda>es. Inr (validation_outcome d es)))))"

end
