(* ===== verification/Incident_Properties.thy ===== *)
theory Incident_Properties
  imports Artifact_Properties Incident_Analyzer Write_Suspension
begin

text \<open>
  What the incident pipeline guarantees from the collected evidence to the recovery case: the analysis of a collected
  artifact, and the case an analysis opens.
\<close>

subsection \<open>What is collected\<close>

lemma issue_keys_not_allowed: "k \<in> set ISSUE_KEYS \<Longrightarrow> k \<notin> set PH2_ALLOWED_KEYS"
  unfolding ISSUE_KEYS_def PH2_ALLOWED_KEYS_def by auto

text \<open>The collected summary is a document without any of the counts the analyzer looks for.\<close>

lemma summary_without_counts:
  "\<exists>kvs. consistency_summary r = JObj kvs \<and> (\<forall>k \<in> set ISSUE_KEYS. json_get k kvs = None)"
proof (cases r)
  case None
  then show ?thesis by (auto simp: consistency_summary_def json_get_def ISSUE_KEYS_def)
next
  case (Some r')
  show ?thesis
  proof (cases r')
    case None
    with Some show ?thesis by (auto simp: consistency_summary_def json_get_def ISSUE_KEYS_def put_def)
  next
    case (Some report)
    with \<open>r = Some r'\<close> obtain kvs where "consistency_summary r = sanitize_payload (JObj kvs)"
      by (simp add: consistency_summary_def Let_def)
    moreover have "map_of (map (\<lambda>(k, v). (k, sanitize_payload v))
        (filter (\<lambda>(k, v). \<not> rx_search PH2_SENSITIVE_KEY_RE k \<and> k \<in> set PH2_ALLOWED_KEYS) kvs)) k = None"
      if "k \<in> set ISSUE_KEYS" for k
      using issue_keys_not_allowed [OF that] by (auto simp: map_of_eq_None_iff)
    ultimately show ?thesis by (simp add: json_get_def)
  qed
qed

lemma no_counts_no_issue:
  "\<forall>k \<in> set ks. json_get k kvs = None \<Longrightarrow> any_positive kvs ks = Inr False"
  by (induction ks) (simp_all add: lookup_or_def positive_int_def)

lemma write_state_document: "\<exists>kvs. load_sanitized_write_suspend_state f = JObj kvs"
  by (auto simp: load_sanitized_write_suspend_state_def split: option.splits sum.splits json.splits)

definition artifact_context :: "create_inputs \<Rightarrow> incident_dir \<Rightarrow> string list \<Rightarrow> analysis_context" where
  "artifact_context i d errs =
     \<lparr>cx_incident_id = incident_name d,
      cx_manifest = manifest_of (incident_name d) (ci_scenario i) (ci_created_at i) (ci_run_id i) (ci_source i),
      cx_write_state = (case load_sanitized_write_suspend_state (ci_suspend_state i) of JObj kvs \<Rightarrow> kvs | _ \<Rightarrow> []),
      cx_health_ready = [(''service_name'', JStr ''financial-event-api''), (''health_status'', JStr ''not_collected''),
        (''ready_status'', JStr ''not_collected''), (''http_status'', JStr ''not_collected''), (''dependency'', JStr ''postgres'')],
      cx_consistency = (case consistency_summary (ci_ph1_report i) of JObj kvs \<Rightarrow> kvs | _ \<Rightarrow> []),
      cx_command_results = [(''command_name'', JStr ''ph2_incident_artifact_create''),
        (''exit_code'', JInt 0), (''result'', JStr ''created''), (''sensitive_data_included'', JBool False)],
      cx_validation_errors = errs, cx_missing_evidence_count = 0\<rparr>"

lemma created_context:
  assumes "create_artifact i = Inr d"
  shows "\<exists>errs. validate_artifact d = Inr errs \<and> analysis_context_of d = Inr (artifact_context i d errs)"
proof -
  from assms obtain name where d: "id_path d = path_join (ci_output_root i) name"
    and files: "file_of d ''manifest.json'' =
        Some (json_file (JObj (manifest_of (incident_name d) (ci_scenario i) (ci_created_at i) (ci_run_id i) (ci_source i))))"
      "file_of d ''write-suspend-state.json'' = Some (json_file (load_sanitized_write_suspend_state (ci_suspend_state i)))"
      "file_of d ''health-ready-summary.json'' = Some (json_file (JObj (cx_health_ready (artifact_context i d []))))"
      "file_of d ''consistency-summary.json'' = Some (json_file (consistency_summary (ci_ph1_report i)))"
      "file_of d ''command-results.json'' = Some (json_file (JObj (cx_command_results (artifact_context i d []))))"
      "file_of d ''sanitized-report.md'' \<noteq> None"
    by (auto simp: create_artifact_def bindE_eq_Inr file_of_def incident_name_def artifact_context_def Let_def)
  then obtain errs where "validate_artifact d = Inr errs"
    by (auto simp: validate_artifact_def json_file_def required_mapping_def)
  moreover have "str_or (json_get ''incident_id'' (manifest_of (incident_name d) (ci_scenario i) (ci_created_at i)
      (ci_run_id i) (ci_source i))) (incident_name d) = incident_name d"
    by (simp add: manifest_of_def json_get_def str_or_def py_str_def)
  ultimately show ?thesis
    using files by (auto simp: analysis_context_of_def read_json_or_empty_def json_file_def artifact_context_def
        missing_evidence_count_def Let_def)
qed

text \<open>The rule a collected artifact is given.\<close>

definition expected_classification :: "create_inputs \<Rightarrow> analysis_context \<Rightarrow> string" where
  "expected_classification i c =
     (if list_ex sanitization_error (cx_validation_errors c) then ''ARTIFACT_SANITIZATION_RISK''
      else if is_postgres_down_write_suspended c then ''POSTGRES_DOWN_WRITE_SUSPENDED''
      else if json_get ''active'' (cx_write_state c) = Some (JBool True) \<and>
        ci_scenario i \<in> {[], ''unknown'', ''not_collected''} then ''WRITE_SUSPENDED_UNKNOWN_DEPENDENCY''
      else ''UNKNOWN_INCIDENT'')"

lemma manifest_get:
  "json_get ''sensitive_data_included'' (manifest_of name sc at run src) = Some (JBool False)"
  "json_get ''scenario'' (manifest_of name sc at run src) = Some (JStr sc)"
  "manifest_of name sc at run src \<noteq> []"
  by (simp_all add: manifest_of_def json_get_def)

lemma created_rule:
  "\<exists>rl. select_rule (artifact_context i d errs) = Inr rl \<and>
     ru_classification rl = expected_classification i (artifact_context i d errs)"
proof -
  let ?c = "artifact_context i d errs"
  obtain kvs where "consistency_summary (ci_ph1_report i) = JObj kvs" "\<forall>k \<in> set ISSUE_KEYS. json_get k kvs = None"
    using summary_without_counts by blast
  then have "has_consistency_issue ?c = Inr False"
    by (simp add: has_consistency_issue_def artifact_context_def no_counts_no_issue)
  moreover have "has_sanitization_risk ?c = list_ex sanitization_error (cx_validation_errors ?c)"
    "\<not> has_insufficient_evidence ?c"
    by (simp_all add: has_sanitization_risk_def has_insufficient_evidence_def artifact_context_def manifest_get)
  moreover have "is_write_suspended_unknown ?c = Inr (json_get ''active'' (cx_write_state ?c) = Some (JBool True) \<and>
      ci_scenario i \<in> {[], ''unknown'', ''not_collected''})"
    by (simp add: is_write_suspended_unknown_def artifact_context_def manifest_get lookup_or_def is_container_def Let_def)
  ultimately show ?thesis
    by (auto simp: select_rule_def expected_classification_def rule_def)
qed

subsection \<open>What the analysis says\<close>

lemma analysis_document_get:
  "json_get ''incident_id'' (analysis_document r) = Some (JStr (an_incident_id r))"
  "json_get ''analyzer_version'' (analysis_document r) = Some (JStr (an_analyzer_version r))"
  "json_get ''classification'' (analysis_document r) = Some (JStr (an_classification r))"
  "json_get ''severity_candidate'' (analysis_document r) = Some (JStr (ru_severity_candidate (an_rule r)))"
  "json_get ''confidence_candidate'' (analysis_document r) = Some (ru_confidence_candidate (an_rule r))"
  "json_get ''manual_review_required'' (analysis_document r) = Some (JBool True)"
  "json_get ''sensitive_data_included'' (analysis_document r) = Some (JBool False)"
  by (simp_all add: analysis_document_def json_get_def Let_def)

lemma analysis_document_complete: "\<forall>k \<in> set ANALYSIS_REQUIRED. k \<in> fst ` set (analysis_document r)"
  by (simp add: ANALYSIS_REQUIRED_def analysis_document_def Let_def)

lemma file_of_write_file: "file_of (write_file n f d) name = (if name = n then Some f else file_of d name)"
  by (simp add: file_of_def write_file_def update_conv)

lemma write_file_name [simp]: "incident_name (write_file n f d) = incident_name d"
  by (simp add: incident_name_def write_file_def)

lemma analysis_written:
  assumes "analyze_incident at d = Inr (r, d')"
  shows "file_of d' RESULT_FILE = Some (json_file (JObj (analysis_document r)))"
    "file_of d' REPORT_FILE = Some (text_file (render_analysis r))" "incident_name d' = incident_name d"
  using assms by (auto simp: analyze_incident_def bindE_eq_Inr file_of_write_file RESULT_FILE_def REPORT_FILE_def)

lemma written_analysis_validates:
  assumes "analyze_incident at d = Inr (r, d')" "an_incident_id r = incident_name d"
  shows "validate_analysis d' = Inr (text_errors d' RESULT_FILE @ text_errors d' REPORT_FILE)"
proof -
  have "an_analyzer_version r = ANALYZER_VERSION"
    using assms(1) by (auto simp: analyze_incident_def classify_def bindE_eq_Inr)
  then have "result_errors (incident_name d) (analysis_document r) = []"
    using analysis_document_complete [of r] assms(2)
    by (simp add: result_errors_def analysis_document_get filter_empty_conv Let_def)
  then show ?thesis
    using analysis_written [OF assms(1)] by (simp add: validate_analysis_def json_file_def required_mapping_def)
qed

lemma created_analysis:
  assumes "create_artifact i = Inr d"
  shows "\<exists>errs r d'. validate_artifact d = Inr errs \<and> analyze_incident at d = Inr (r, d') \<and>
    an_incident_id r = incident_name d \<and> an_classification r = expected_classification i (artifact_context i d errs)"
proof -
  obtain errs where e: "validate_artifact d = Inr errs" "analysis_context_of d = Inr (artifact_context i d errs)"
    using created_context [OF assms] by blast
  obtain rl where rl: "select_rule (artifact_context i d errs) = Inr rl"
    "ru_classification rl = expected_classification i (artifact_context i d errs)"
    using created_rule by blast
  obtain r d' where "analyze_incident at d = Inr (r, d')" "an_rule r = rl"
    "an_incident_id r = cx_incident_id (artifact_context i d errs)"
    using e(2) rl(1) by (simp add: analyze_incident_def classify_def)
  with e rl show ?thesis by (auto simp: artifact_context_def)
qed

definition sample_evidence :: create_inputs where
  "sample_evidence = \<lparr>ci_scenario = ''POSTGRES_DOWN'', ci_run_id = None, ci_source = ''manual'',
     ci_output_root = ''reports/incidents'', ci_existing = [''inc-20260101-000000-postgres-down''],
     ci_stamp = ''20260101-000000'', ci_created_at = ''2026-01-01T00:00:00+09:00'', ci_suspend_state = None,
     ci_ph1_report = Some (Some ''- duplicate_ledger_count: 7''), ci_docker = None\<rparr>"

lemma sample_evidence_created: "\<exists>d. create_artifact sample_evidence = Inr d \<and> incident_name d = ''inc-20260101-000000-postgres-down-001''"
proof -
  have ff: "first_free (ci_existing sample_evidence) (map (\<lambda>suffix. incident_id_for (ci_stamp sample_evidence)
      (ci_scenario sample_evidence) @ suffix) [[], suffix_text 1]) = Inr ''inc-20260101-000000-postgres-down-001''"
    by code_simp
  have app: "first_free e (xs @ ys) = Inr n" if "first_free e xs = Inr n" for e xs ys n
    using that by (induction xs) (auto split: if_splits)
  have names: "[] # map suffix_text [1..<1000] = [[], suffix_text 1] @ map suffix_text [Suc 1..<1000]"
    by (subst upt_conv_Cons) (simp, simp only: list.map append.simps)
  have "create_unique_incident_dir (ci_existing sample_evidence) (incident_id_for (ci_stamp sample_evidence)
      (ci_scenario sample_evidence)) = Inr ''inc-20260101-000000-postgres-down-001''"
    unfolding create_unique_incident_dir_def names map_append by (rule app [OF ff])
  moreover have "path_name (path_join (ci_output_root sample_evidence) ''inc-20260101-000000-postgres-down-001'') =
      ''inc-20260101-000000-postgres-down-001''" by code_simp
  ultimately show ?thesis by (simp add: create_artifact_def incident_name_def Let_def)
qed

text \<open>
  C22: the analyzer accepts every artifact the collector creates and writes a result for it: the analysis carries the
  name of its directory, its classification is decided by the collected scenario, the suspension state and the
  validator's complaints, and validating it finds at most sensitive texts in the two files it wrote.
\<close>

theorem collected_artifact_analyzed:
  assumes "create_artifact i = Inr d"
  shows "\<exists>errs r d'. validate_artifact d = Inr errs \<and> analyze_incident at d = Inr (r, d') \<and>
    an_incident_id r = incident_name d \<and> an_classification r = expected_classification i (artifact_context i d errs) \<and>
    validate_analysis d' = Inr (text_errors d' RESULT_FILE @ text_errors d' REPORT_FILE)"
  using created_analysis [OF assms, of at] written_analysis_validates by metis

theorem collected_artifact_analyzed_witness:
  "\<exists>d errs r d'. create_artifact sample_evidence = Inr d \<and> analyze_incident ''now'' d = Inr (r, d') \<and>
    an_incident_id r = ''inc-20260101-000000-postgres-down-001'' \<and>
    an_classification r = expected_classification sample_evidence (artifact_context sample_evidence d errs)"
proof -
  obtain d where "create_artifact sample_evidence = Inr d" "incident_name d = ''inc-20260101-000000-postgres-down-001''"
    using sample_evidence_created by blast
  with collected_artifact_analyzed [of sample_evidence d "''now''"] show ?thesis by metis
qed

text \<open>
  C30: the counts a drill reports never reach the analyzer: the collector reads them and then sanitises the summary with an
  allowlist that has none of their keys. Whatever the report says, a collected artifact is never classified as a
  consistency issue, although that is the rule the analyzer documents for a positive count.
\<close>

theorem collected_counts_lost:
  assumes "create_artifact i = Inr d" "analyze_incident at d = Inr (r, d')"
  shows "an_classification r \<noteq> ''CONSISTENCY_ISSUE_CANDIDATE''"
  using created_analysis [OF assms(1), of at] assms(2) by (auto simp: expected_classification_def split: if_splits)

theorem collected_counts_lost_witness:
  "\<exists>d r d'. create_artifact sample_evidence = Inr d \<and> ci_ph1_report sample_evidence = Some (Some ''- duplicate_ledger_count: 7'') \<and>
    analyze_incident ''now'' d = Inr (r, d') \<and> an_classification r \<noteq> ''CONSISTENCY_ISSUE_CANDIDATE''"
proof -
  obtain d where d: "create_artifact sample_evidence = Inr d" using sample_evidence_created by blast
  then obtain r d' where "analyze_incident ''now'' d = Inr (r, d')" using created_analysis by blast
  with d collected_counts_lost [OF d] show ?thesis by (auto simp: sample_evidence_def)
qed

subsection \<open>The case an analysis opens\<close>

definition ACTIONABLE :: "recovery_case_type list" where
  "ACTIONABLE = [CONSISTENCY_ISSUE_CANDIDATE, POSTGRES_DOWN_WRITE_SUSPENDED, WRITE_SUSPENDED_UNKNOWN_DEPENDENCY]"

definition REVIEW_ONLY :: "string list" where
  "REVIEW_ONLY = [''ARTIFACT_SANITIZATION_RISK'', ''INSUFFICIENT_EVIDENCE'', ''UNKNOWN_INCIDENT'']"

lemma rule_fields [simp]:
  "ru_classification (rule cl sev conf acts books why) = cl" "ru_severity_candidate (rule cl sev conf acts books why) = sev"
  by (simp_all add: rule_def)

definition known_rule :: "analysis_rule \<Rightarrow> bool" where
  "known_rule rl = (ru_severity_candidate rl \<noteq> [] \<and> ru_classification rl \<noteq> [] \<and>
     (ru_classification rl \<in> set REVIEW_ONLY \<or> ru_classification rl \<in> set (map case_type_value ACTIONABLE)))"

lemma known_rules:
  "known_rule (rule ''ARTIFACT_SANITIZATION_RISK'' ''SEV2'' conf acts books why)"
  "known_rule (rule ''CONSISTENCY_ISSUE_CANDIDATE'' ''SEV1'' conf acts books why)"
  "known_rule (rule ''POSTGRES_DOWN_WRITE_SUSPENDED'' ''SEV1'' conf acts books why)"
  "known_rule (rule ''WRITE_SUSPENDED_UNKNOWN_DEPENDENCY'' ''SEV2'' conf acts books why)"
  "known_rule (rule ''INSUFFICIENT_EVIDENCE'' ''SEV2'' conf acts books why)"
  "known_rule (rule ''UNKNOWN_INCIDENT'' ''SEV3'' conf acts books why)"
  by (simp_all add: known_rule_def REVIEW_ONLY_def ACTIONABLE_def enum_values)

lemma select_rule_known: "case select_rule c of Inr rl \<Rightarrow> known_rule rl | Inl _ \<Rightarrow> True"
  unfolding select_rule_def bindE_def by (simp add: known_rules split: sum.split)

lemma case_types:
  "list_all (\<lambda>s. case_type_from_classification s = Inl (UnsupportedAnalyzerClassification s)) REVIEW_ONLY"
  "list_all (\<lambda>t. case_type_from_classification (case_type_value t) = Inr t) ACTIONABLE"
  by code_simp+



subsection \<open>From the probe to the analysis\<close>

lemma put_get: "json_get k (put k' v kvs) = (if k = k' then Some v else json_get k kvs)"
proof -
  have "map_of (map (\<lambda>(x, u). (x, if x = k' then v else u)) kvs) k =
      (if k = k' then map_option (\<lambda>_. v) (map_of kvs k) else map_of kvs k)"
    by (induction kvs) auto
  moreover have "map_of (kvs @ [(k', v)]) k = (if k = k' then Some v else map_of kvs k)" if "map_of kvs k' = None"
    using that by (simp add: map_add_def split: option.splits)
  moreover have "k' \<in> fst ` set kvs \<longleftrightarrow> (\<exists>u. map_of kvs k' = Some u)" by (simp add: not_None_eq [symmetric] map_of_eq_None_iff)
  ultimately show ?thesis by (auto simp: put_def json_get_def)
qed

lemma sanitize_get:
  assumes "\<not> rx_search PH2_SENSITIVE_KEY_RE k" "k \<in> set PH2_ALLOWED_KEYS" "sanitize_payload (JObj kvs) = JObj kvs'"
  shows "json_get k kvs' = map_option sanitize_payload (json_get k kvs)"
proof -
  have "kvs' = map (\<lambda>(k, v). (k, sanitize_payload v))
      (filter (\<lambda>(k, v). \<not> rx_search PH2_SENSITIVE_KEY_RE k \<and> k \<in> set PH2_ALLOWED_KEYS) kvs)"
    using assms(3) by simp
  then show ?thesis using assms(1,2) by (induction kvs arbitrary: kvs') (auto simp: json_get_def)
qed


definition probe_state :: write_suspend_state where
  "probe_state = \<lparr>ws_active = True, ws_reason = ''postgres_unavailable'', ws_activated_at = JStr ''2026-01-01T00:00:00Z'',
     ws_activated_by = JStr ''api'', ws_retry_after_seconds = 30, ws_source = ''postgres_probe'',
     ws_run_id = ''write-suspend-0'', ws_resumed_at = JNull, ws_resumed_by = JNull, ws_resume_reason = JNull\<rparr>"

definition probe_evidence :: create_inputs where
  "probe_evidence = sample_evidence\<lparr>ci_scenario := ''unknown'', ci_existing := [],
     ci_suspend_state := Some (json_file (state_document probe_state))\<rparr>"

lemma probe_evidence_created: "\<exists>d. create_artifact probe_evidence = Inr d"
proof -
  have "parent_exists [] (incident_id_for (ci_stamp probe_evidence) ''unknown'')" by code_simp
  moreover have "ci_existing probe_evidence = []" "ci_scenario probe_evidence = ''unknown''" by (simp_all add: probe_evidence_def)
  ultimately have "create_unique_incident_dir (ci_existing probe_evidence) (incident_id_for (ci_stamp probe_evidence)
      (ci_scenario probe_evidence)) = Inr (incident_id_for (ci_stamp probe_evidence) ''unknown'')"
    by (simp add: create_unique_incident_dir_def del: upt_Suc)
  then show ?thesis by (simp add: create_artifact_def Let_def)
qed


end
