(* ===== verification/Suspend_Cli.thy ===== *)
theory Suspend_Cli
  imports Api_Properties
begin

text \<open>
  The operator's switch (\<open>scripts/write_suspend_state.py\<close>): it reads and writes the file the service's write guard looks
  at, without the service. The environment variables, the clock and a fresh run id are inputs; what it prints is the
  document.
\<close>

datatype suspend_command =
    Cli_enable string string string "int option" "string option"  \<comment> \<open>reason, activated by, source, retry after, run id\<close>
  | Cli_disable string string  \<comment> \<open>reason, resumed by\<close>
  | Cli_status

definition cli_default_state :: "int \<Rightarrow> (string \<times> json) list" where
  "cli_default_state retry_after_seconds =
     [(''active'', JBool False), (''reason'', JStr ''none''), (''activated_at'', JNull), (''activated_by'', JNull),
      (''retry_after_seconds'', JInt retry_after_seconds), (''source'', JStr ''cli''), (''run_id'', JStr ''none''),
      (''resumed_at'', JNull), (''resumed_by'', JNull), (''resume_reason'', JNull)]"

definition cli_read_state :: "suspend_file option \<Rightarrow> int \<Rightarrow> exn + json" where
  "cli_read_state state_file retry_after_seconds = (case state_file of
       None \<Rightarrow> Inr (JObj (cli_default_state retry_after_seconds))
     | Some Corrupt \<Rightarrow> Inl (ValueError ''JSONDecodeError'')
     | Some (Document j) \<Rightarrow> Inr j)"

definition cli_enabled :: "string \<Rightarrow> string \<Rightarrow> int \<Rightarrow> string \<Rightarrow> string \<Rightarrow> string \<Rightarrow> int option \<Rightarrow> string option \<Rightarrow> json" where
  "cli_enabled at fresh retry_after_seconds reason activated_by source retry run_id = JObj
     [(''active'', JBool True), (''reason'', JStr reason), (''activated_at'', JStr at), (''activated_by'', JStr activated_by),
      (''retry_after_seconds'', JInt (case retry of None \<Rightarrow> retry_after_seconds
         | Some n \<Rightarrow> if n = 0 then retry_after_seconds else n)),
      (''source'', JStr source),
      (''run_id'', JStr (case run_id of None \<Rightarrow> ''write-suspend-'' @ take 12 fresh
         | Some s \<Rightarrow> if s = [] then ''write-suspend-'' @ take 12 fresh else s)),
      (''resumed_at'', JNull), (''resumed_by'', JNull), (''resume_reason'', JNull)]"

text \<open>\<open>{**previous, ...}\<close> overwrites in place or appends, and needs a dictionary.\<close>

definition cli_disabled :: "string \<Rightarrow> string \<Rightarrow> string \<Rightarrow> json \<Rightarrow> exn + json" where
  "cli_disabled at reason resumed_by previous = (case previous of
       JObj kvs \<Rightarrow> Inr (JObj (put ''resume_reason'' (JStr reason) (put ''resumed_by'' (JStr resumed_by)
         (put ''resumed_at'' (JStr at) (put ''active'' (JBool False) kvs)))))
     | _ \<Rightarrow> Inl (TypeError ''not a mapping''))"

text \<open>
  \<open>main\<close>: the document that is printed and the file afterwards. \<open>retry\<close> is \<open>WRITE_SUSPEND_RETRY_AFTER_SECONDS\<close>, default 30, and
  \<open>int\<close> of it raises when it is no number.
\<close>

definition cli_main :: "string \<Rightarrow> string \<Rightarrow> string option \<Rightarrow> suspend_command \<Rightarrow> suspend_file option \<Rightarrow>
    exn + (json \<times> suspend_file option)" where
  "cli_main at fresh retry cmd state_file =
     (case int_of_str (case retry of None \<Rightarrow> ''30'' | Some s \<Rightarrow> s) of
        None \<Rightarrow> Inl (ValueError ''invalid literal for int()'')
      | Some retry_after_seconds \<Rightarrow> (case cmd of
            Cli_enable reason activated_by source ra run_id \<Rightarrow>
              let state = cli_enabled at fresh retry_after_seconds reason activated_by source ra run_id
              in Inr (state, Some (Document state))
          | Cli_disable reason resumed_by \<Rightarrow>
              bindE (cli_read_state state_file retry_after_seconds) (\<lambda>previous.
              bindE (cli_disabled at reason resumed_by previous) (\<lambda>state. Inr (state, Some (Document state))))
          | Cli_status \<Rightarrow> bindE (cli_read_state state_file retry_after_seconds) (\<lambda>state. Inr (state, state_file))))"

subsection \<open>The switch and the guard\<close>

lemma cli_enabled_read:
  "\<exists>s. state_of_document C (cli_enabled at fresh n reason who source ra run_id) = Inr s \<and> ws_active s"
  by (simp add: state_of_document_def cli_enabled_def json_get_def)

text \<open>The document after \<open>enable\<close> and \<open>disable\<close>.\<close>

lemma cli_disabled_read:
  assumes "cli_disabled at' reason' who' (cli_enabled at fresh n reason who source ra run_id) = Inr j"
  shows "\<exists>s. state_of_document C j = Inr s \<and> \<not> ws_active s \<and> ws_resumed_by s = JStr who' \<and> ws_resume_reason s = JStr reason'"
  using assms by (auto simp: cli_disabled_def cli_enabled_def state_of_document_def json_get_def put_def get_or_null_def)

lemma guard_on_active_document:
  assumes "w_suspend_file w = Some (Document j)" "state_of_document C j = Inr s" "ws_active s"
  shows "wp (guard_financial_write E C) (\<lambda>_ _. False)
    (\<lambda>x w'. (\<exists>s. x = WriteSuspended s \<and> ws_active s) \<and> no_rows w w') w"
  unfolding guard_financial_write_def
  by (rule wp_bindI [OF status_spec])
    (use assms in \<open>auto simp: wp_simps record_suspended_write_def split: if_splits\<close>)

text \<open>
  C24: the operator's switch works on the running service: after \<open>enable\<close> on the command line every financial write is refused
  with \<open>WriteSuspended\<close> before it touches a row, even when the file cannot be read; after a following \<open>disable\<close> the
  service reads an inactive state that names who resumed and why.
\<close>

theorem cli_switches_guard:
  assumes "cli_main at fresh retry (Cli_enable reason who source ra run_id) f = Inr (st, f1)"
    "cli_main at' fresh' retry' (Cli_disable reason' who') f1 = Inr (st', f2)" "\<not> file_fault E (w_tick w)"
  shows "wp (guard_financial_write E' C) (\<lambda>_ _. False)
      (\<lambda>x w'. (\<exists>s. x = WriteSuspended s \<and> ws_active s) \<and> no_rows (w\<lparr>w_suspend_file := f1\<rparr>) w') (w\<lparr>w_suspend_file := f1\<rparr>) \<and>
    wp (suspension_status E C)
      (\<lambda>s w'. \<not> ws_active s \<and> ws_resumed_by s = JStr who' \<and> ws_resume_reason s = JStr reason') (\<lambda>_ _. False)
      (w\<lparr>w_suspend_file := f2\<rparr>)"
proof -
  obtain n where f1: "f1 = Some (Document (cli_enabled at fresh n reason who source ra run_id))"
    using assms(1) by (auto simp: cli_main_def Let_def split: option.splits)
  obtain j where j: "cli_disabled at' reason' who' (cli_enabled at fresh n reason who source ra run_id) = Inr j"
    "f2 = Some (Document j)"
    using assms(2) by (auto simp: cli_main_def f1 cli_read_state_def bindE_eq_Inr split: option.splits)
  show ?thesis
  proof
    show "wp (guard_financial_write E' C) (\<lambda>_ _. False)
      (\<lambda>x w'. (\<exists>s. x = WriteSuspended s \<and> ws_active s) \<and> no_rows (w\<lparr>w_suspend_file := f1\<rparr>) w') (w\<lparr>w_suspend_file := f1\<rparr>)"
      using cli_enabled_read [of C at fresh n reason who source ra run_id]
      by (auto intro!: guard_on_active_document simp: f1)
    show "wp (suspension_status E C)
      (\<lambda>s w'. \<not> ws_active s \<and> ws_resumed_by s = JStr who' \<and> ws_resume_reason s = JStr reason') (\<lambda>_ _. False)
      (w\<lparr>w_suspend_file := f2\<rparr>)"
      by (rule wp_mono [OF status_spec]) (use cli_disabled_read [OF j(1), of C] assms(3) in \<open>auto simp: j(2)\<close>)
  qed
qed

theorem cli_switches_guard_witness:
  "\<exists>f1 f2. wp (guard_financial_write calm_env \<lparr>sc_retry_after_seconds = 30\<rparr>) (\<lambda>_ _. False)
      (\<lambda>x w'. (\<exists>s. x = WriteSuspended s \<and> ws_active s) \<and> no_rows (sample_world\<lparr>w_suspend_file := f1\<rparr>) w')
      (sample_world\<lparr>w_suspend_file := f1\<rparr>) \<and>
    wp (suspension_status calm_env \<lparr>sc_retry_after_seconds = 30\<rparr>)
      (\<lambda>s w'. \<not> ws_active s \<and> ws_resumed_by s = JStr ''op'' \<and> ws_resume_reason s = JStr ''done'') (\<lambda>_ _. False)
      (sample_world\<lparr>w_suspend_file := f2\<rparr>)"
proof -
  have n: "int_of_str ''30'' = Some 30" by code_simp
  obtain st f1 where 1: "cli_main ''t0'' ''0123456789abcdef'' None (Cli_enable ''manual'' ''op'' ''cli'' None None) None = Inr (st, f1)"
    "\<exists>j. f1 = Some (Document (JObj j))"
    by (auto simp: cli_main_def n cli_enabled_def Let_def)
  then obtain st' f2 where 2: "cli_main ''t1'' [] None (Cli_disable ''done'' ''op'') f1 = Inr (st', f2)"
    by (auto simp: cli_main_def n cli_read_state_def cli_disabled_def)
  from cli_switches_guard [OF 1(1) 2, of calm_env sample_world calm_env "\<lparr>sc_retry_after_seconds = 30\<rparr>"]
  show ?thesis by (auto simp: calm_env_def)
qed

end
