(* ===== verification/Books_Frame.thy ===== *)
theory Books_Frame
  imports Guarantees Reconciliation
begin

text \<open>
  The books are the rows that hold money and answers: accounts, events, ledger entries, histories and idempotency
  records. Recovery, quarantine and reconciliation read them and write only their own two tables; this theory proves that
  frame for every operation they have, so that the commands built on them inherit it.
\<close>

type_synonym book_rows = "account list \<times> transaction_event list \<times> ledger_entry list \<times> event_state_history list \<times>
  idempotency_record list"

definition books :: "tables \<Rightarrow> book_rows" where
  "books db = (t_accounts db, t_events db, t_ledger db, t_hist db, t_idem db)"

definition books_kept :: "book_rows \<Rightarrow> world \<Rightarrow> bool" where
  "books_kept b w \<longleftrightarrow> books (w_committed w) = b \<and> (w_sess w \<noteq> NoTx \<longrightarrow> books (w_db w) = b)"

lemma books_simps [simp]:
  "books (db\<lparr>t_cases := cs\<rparr>) = books db" "books (db\<lparr>t_quar := qs\<rparr>) = books db"
  "books (upd_case i f db) = books db" "books (upd_quar i g db) = books db"
  by (simp_all add: books_def upd_case_def upd_quar_def)

subsection \<open>Statements\<close>

lemma books_autobegin: "alone E \<Longrightarrow> books_kept b w \<Longrightarrow> books_kept b (autobegin E w)"
  by (auto simp: books_kept_def autobegin_def start_tx_def alone_def Let_def)

lemma books_tick [simp]: "books_kept b (tick w) = books_kept b w"
  by (simp add: books_kept_def)

lemma books_deactive: "books_kept b w \<Longrightarrow> w_sess w \<noteq> NoTx \<Longrightarrow> books_kept b (w\<lparr>w_sess := s\<rparr>)"
  by (simp add: books_kept_def)

lemma autobegin_open: "w_sess (autobegin E w) \<noteq> NoTx"
  by (simp add: autobegin_def start_tx_def Let_def)

lemma books_query [keeps_intros]: "alone E \<Longrightarrow> keeps (books_kept b) (db_query E f)"
  by (auto simp: keeps_def db_query_def Let_def books_autobegin autobegin_open intro!: books_deactive split: option.split)

lemma books_flush [keeps_intros]: "alone E \<Longrightarrow> keeps (books_kept b) (db_flush E)"
  by (auto simp: keeps_def db_flush_def Let_def books_autobegin autobegin_open intro!: books_deactive split: option.split)

lemma books_read_row [keeps_intros]: "keeps (books_kept b) (read_row get i)"
  by (auto simp: keeps_def read_row_def split: option.split)

lemma books_assign: "(\<And>db. books (f db) = books db) \<Longrightarrow> keeps (books_kept b) (assign f)"
  by (auto simp: assign_def books_kept_def intro!: keeps_modify)

lemma books_utc_now [keeps_intros]: "keeps (books_kept b) (utc_now E)"
  by (simp add: utc_now_def keeps_basic)

lemma books_one_or_none [keeps_intros]: "keeps (books_kept b) (one_or_none rs)"
  by (auto simp: one_or_none_def intro!: keeps_basic split: list.split)

lemma books_rollback [keeps_intros]: "keeps (books_kept b) db_rollback"
  by (auto simp: db_rollback_def books_kept_def intro!: keeps_modify)

lemma books_commit [keeps_intros]: "alone E \<Longrightarrow> keeps (books_kept b) (db_commit E)"
proof -
  assume E: "alone E"
  have point: "books_kept b (snd (commit_point E w))" if "books_kept b w" "w_sess w \<noteq> NoTx" for w
    using that by (auto simp: commit_point_def books_kept_def split: option.split)
  have flush: "w_sess (snd (db_flush E w)) \<noteq> NoTx" if "w_sess w \<noteq> NoTx" for w
    using that by (auto simp: db_flush_def autobegin_def Let_def split: option.split)
  show ?thesis
    using keepsD [OF books_flush [OF E]] flush point
    by (fastforce simp: keeps_def db_commit_def prog_defs split: prod.split sum.split)
qed

subsection \<open>Operations\<close>

lemma books_repositories [keeps_intros]:
  assumes "alone E"
  shows "keeps (books_kept b) (case_create E c)" "keeps (books_kept b) (get_by_case_id E s)"
    "keeps (books_kept b) (get_by_source_key E s)" "keeps (books_kept b) (case_list E n)"
    "keeps (books_kept b) (case_save E i)" "keeps (books_kept b) (quarantine_create E q)"
    "keeps (books_kept b) (get_by_quarantine_id E s)" "keeps (books_kept b) (get_active E s s')"
    "keeps (books_kept b) (quarantine_list E act n)" "keeps (books_kept b) (quarantine_save E i)"
  unfolding case_create_def get_by_case_id_def get_by_source_key_def case_list_def case_save_def quarantine_create_def
    get_by_quarantine_id_def get_active_def quarantine_list_def quarantine_save_def
  by (intro keeps_intros books_assign assms; simp)+

lemma books_assign_case [keeps_intros]: "keeps (books_kept b) (assign_case E i f)"
  unfolding assign_case_def by (intro keeps_intros books_assign) simp

lemma books_quarantine [keeps_intros]:
  assumes "alone E"
  shows "keeps (books_kept b) (create_quarantine E ty i r who src inci)" "keeps (books_kept b) (release_quarantine E q who r)"
    "keeps (books_kept b) (list_quarantines E act n)"
  unfolding create_quarantine_def release_quarantine_def list_quarantines_def
  by (intro keeps_intros books_assign assms; simp)+

lemma books_recovery [keeps_intros]:
  assumes "alone E"
  shows "keeps (books_kept b) (create_case E a)" "keeps (books_kept b) (create_from_analyzer_result E q d l)"
    "keeps (books_kept b) (approve E s s' r)" "keeps (books_kept b) (reject E s r)" "keeps (books_kept b) (list_cases E n)"
  unfolding create_case_def create_from_analyzer_result_def approve_def reject_def list_cases_def case_get_def transition_def
  by (intro keeps_intros assms; simp)+

lemma books_reconciliation [keeps_intros]:
  assumes "alone E"
  shows "keeps (books_kept b) (detect_stale_processing E n flag)" "keeps (books_kept b) (reconcile E q n flag)"
  unfolding stale_candidate_def detect_stale_processing_def count_stale_processing_def reconcile_counts_def
    create_reconciliation_cases_def create_count_case_def reconcile_def matching_event_def
    ledger_exists_for_event_def create_stale_recovery_case_def Let_def
  by (intro keeps_intros assms; simp)+

end
