(* ===== verification/Recovery_Cli.thy ===== *)
theory Recovery_Cli
  imports Books_Frame Incident_Analyzer Api
begin

text \<open>
  The operator's command for recovery cases and quarantines (\<open>scripts/ph4_recovery_case.py\<close>): one service call inside
  one session, committed at the end, and the document it prints. An incident directory is given or is the latest
  below the incidents directory.
\<close>

datatype recovery_command =
    Create_from_analysis "incident_dir option" bool
  | List_cases
  | Approve_case string string "string option"
  | Reject_case string "string option"
  | Quarantine_target string string string string
  | Release_quarantine string string string
  | List_quarantines

definition case_to_dict :: "recovery_case \<Rightarrow> json" where
  "case_to_dict c = JObj
     [(''case_id'', JStr (rc_case_id c)), (''source_key'', JStr (rc_source_key c)), (''case_type'', JStr (rc_case_type c)),
      (''severity'', JStr (rc_severity c)), (''current_status'', JStr (rc_current_status c)),
      (''classification'', JStr (rc_classification c)), (''source_incident_id'', opt_str (rc_source_incident_id c)),
      (''proposed_action'', JStr (rc_proposed_action c)), (''approval_required'', JBool (rc_approval_required c)),
      (''approved_by'', opt_str (rc_approved_by c)), (''action_attempt_id'', opt_str (rc_action_attempt_id c))]"

definition quarantine_to_dict :: "quarantine_record \<Rightarrow> json" where
  "quarantine_to_dict q = JObj
     [(''quarantine_id'', JStr (qr_quarantine_id q)), (''target_type'', JStr (qr_target_type q)),
      (''target_id'', JStr (qr_target_id q)), (''active'', JBool (qr_active q)),
      (''source_incident_id'', opt_str (qr_source_incident_id q))]"

text \<open>What the service reads from an incident directory: \<open>json.loads\<close> of \<open>analyzer-result.json\<close>.\<close>

definition analyzer_result_of :: "incident_dir \<Rightarrow> exn + json" where
  "analyzer_result_of d = (case file_of d RESULT_FILE of
       None \<Rightarrow> Inl OSError
     | Some f \<Rightarrow> (case af_json f of Inl msg \<Rightarrow> Inl (ValueError msg) | Inr j \<Rightarrow> Inr j))"

definition QuarantineTargetType :: "string \<Rightarrow> quarantine_target_type option" where
  "QuarantineTargetType = parse_enum target_type_value [ACCOUNT, CLIENT, EVENT, GLOBAL_WRITE]"

definition read_case :: "int \<Rightarrow> json app" where
  "read_case i = bindM (read_row case_by_id i) (\<lambda>c. returnM (case_to_dict c))"

definition read_quarantine :: "int \<Rightarrow> json app" where
  "read_quarantine i = bindM (read_row quar_by_id i) (\<lambda>q. returnM (quarantine_to_dict q))"

text \<open>\<open>SystemExit\<close> with a message is \<open>Inl\<close>.\<close>

definition chosen_incident_dir :: "incident_dir list \<Rightarrow> incident_dir option \<Rightarrow> bool \<Rightarrow> string + incident_dir" where
  "chosen_incident_dir dirs given latest =
     (case (if latest then fold later (filter (\<lambda>d. take 4 (incident_name d) = ''inc-'') dirs) None else given) of
        Some d \<Rightarrow> Inr d
      | None \<Rightarrow> Inl (if latest then ''no incident directories found'' else ''--incident-dir or --latest is required''))"

definition recovery_handle :: "env \<Rightarrow> incident_dir list \<Rightarrow> recovery_command \<Rightarrow> (string + json) app" where
  "recovery_handle E dirs cmd = (case cmd of
       Create_from_analysis given latest \<Rightarrow> (case chosen_incident_dir dirs given latest of
           Inl msg \<Rightarrow> returnM (Inl msg)
         | Inr d \<Rightarrow> bindM (create_from_analyzer_result E True (id_path d) (analyzer_result_of d)) (\<lambda>i.
             bindM (read_case i) (\<lambda>j. returnM (Inr j))))
     | List_cases \<Rightarrow> bindM (list_cases E 100) (\<lambda>cs. returnM (Inr (JList (map case_to_dict cs))))
     | Approve_case case_id approved_by reason \<Rightarrow>
         bindM (approve E case_id approved_by reason) (\<lambda>i. bindM (read_case i) (\<lambda>j. returnM (Inr j)))
     | Reject_case case_id reason \<Rightarrow> bindM (reject E case_id reason) (\<lambda>i. bindM (read_case i) (\<lambda>j. returnM (Inr j)))
     | Quarantine_target target_type target_id reason activated_by \<Rightarrow>
         bindM (liftM (enum_or_raise ''QuarantineTargetType'' QuarantineTargetType target_type)) (\<lambda>ty.
         bindM (create_quarantine E ty target_id reason activated_by None None) (\<lambda>i.
         bindM (read_quarantine i) (\<lambda>j. returnM (Inr j))))
     | Release_quarantine quarantine_id released_by reason \<Rightarrow>
         bindM (release_quarantine E quarantine_id released_by reason) (\<lambda>i.
         bindM (read_quarantine i) (\<lambda>j. returnM (Inr j)))
     | List_quarantines \<Rightarrow>
         bindM (list_quarantines E None 100) (\<lambda>qs. returnM (Inr (JList (map quarantine_to_dict qs)))))"

definition recovery_main :: "env \<Rightarrow> incident_dir list \<Rightarrow> recovery_command \<Rightarrow> outcome app" where
  "recovery_main E dirs cmd = with_session (bindM (recovery_handle E dirs cmd) (\<lambda>r. case r of
       Inl msg \<Rightarrow> returnM (exited 1 [] [msg])
     | Inr j \<Rightarrow> thenM (db_commit E) (returnM (exited 0 [pretty_unicode j] []\<lparr>oc_document := Some j\<rparr>))))"

end
