(* ===== verification/Reconciliation_Cli.thy ===== *)
theory Reconciliation_Cli
  imports Recovery_Cli
begin

text \<open>
  The reconciliation command (\<open>scripts/ph5_reconciliation.py\<close>): it detects stale records and counts inconsistencies in one
  session, writes a run directory of count-only documents with a report, and validates what it wrote. The stamp of
  the directory's name and the directories that exist are inputs.
\<close>

definition REQUIRED_FILES :: "string list" where
  "REQUIRED_FILES = [''consistency-counts.json'', ''ph5-report.md'', ''reconciliation-summary.json'',
     ''recovery-case-links.json'', ''stale-processing-summary.json'']"

definition ALLOWED_SENSITIVE_SHAPED_KEYS :: "string list" where
  "ALLOWED_SENSITIVE_SHAPED_KEYS = [''idempotency_key_hash'']"

definition PH5_FORBIDDEN_KEYS :: "string list" where
  "PH5_FORBIDDEN_KEYS = [''authorization'', ''idempotency_key'', ''raw_idempotency_key'', ''account_no'', ''account_number'',
     ''request_body'', ''response_body'', ''signature'', ''x_signature'']"

subsection \<open>The run directory\<close>

text \<open>\<open>while run_dir.exists(): run_dir = f"{base}-{suffix:03d}"; suffix += 1\<close>\<close>

partial_function (option) free_suffix :: "string list \<Rightarrow> string \<Rightarrow> nat \<Rightarrow> string option" where
  "free_suffix existing base suffix =
     (if base @ suffix_text suffix \<in> set existing then free_suffix existing base (Suc suffix)
      else Some (base @ suffix_text suffix))"

definition run_dir_name :: "string list \<Rightarrow> string \<Rightarrow> string option" where
  "run_dir_name existing stamp = (let base = ''run-'' @ stamp in
     if base \<in> set existing then free_suffix existing base 1 else Some base)"

definition markdown_counts :: "(string \<times> json) list \<Rightarrow> string" where
  "markdown_counts counts = join [CHR 0x0A] (map (\<lambda>(k, v). ''- '' @ k @ '': '' @ py_str v) (sort_key fst counts))"

definition stale_payload :: "int \<Rightarrow> stale_processing_candidate list \<Rightarrow> json" where
  "stale_payload threshold_minutes candidates = JObj
     [(''threshold_minutes'', JInt threshold_minutes), (''stale_processing_count'', JInt (int (length candidates))),
      (''candidates'', JList (map (\<lambda>c. JObj (stale_to_dict c)) candidates)), (''sensitive_data_included'', JBool False)]"

definition link_payload :: "recovery_case_link list \<Rightarrow> json" where
  "link_payload links = JObj [(''links'', JList (map (\<lambda>l. JObj (link_to_dict l)) links)), (''sensitive_data_included'', JBool False)]"

definition run_summary :: "string \<Rightarrow> string \<Rightarrow> int \<Rightarrow> stale_processing_candidate list \<Rightarrow> reconciliation_counts \<Rightarrow>
    recovery_case_link list \<Rightarrow> (string \<times> json) list" where
  "run_summary run_id generated_at threshold_minutes candidates counts links =
     [(''run_id'', JStr run_id), (''generated_at'', JStr generated_at), (''threshold_minutes'', JInt threshold_minutes),
      (''stale_processing_count'', JInt (int (length candidates))), (''consistency_counts'', JObj (counts_to_dict counts)),
      (''recovery_case_link_count'', JInt (int (length links))), (''sensitive_data_included'', JBool False)]"

definition render_run_report :: "string \<Rightarrow> string \<Rightarrow> int \<Rightarrow> stale_processing_candidate list \<Rightarrow> reconciliation_counts \<Rightarrow>
    recovery_case_link list \<Rightarrow> string" where
  "render_run_report run_id generated_at threshold_minutes candidates counts links = join [CHR 0x0A] [
     ''# PH5 Reconciliation Report'',
     [],
     ''## Summary'',
     [],
     ''- Run ID: '' @ run_id,
     ''- Generated At: '' @ generated_at,
     ''- Threshold Minutes: '' @ int_str threshold_minutes,
     ''- Stale PROCESSING Count: '' @ nat_str (length candidates),
     ''- Recovery Case Link Count: '' @ nat_str (length links),
     ''- Sensitive Data Included: false'',
     [],
     ''## Consistency Counts'',
     [],
     markdown_counts (counts_to_dict counts),
     [],
     ''## Stale PROCESSING Candidates'',
     [],
     ''- Candidate Count: '' @ nat_str (length candidates),
     [],
     ''## Recovery Case Links'',
     [],
     ''- Link Count: '' @ nat_str (length links),
     [],
     ''## PH5 Limits'',
     [],
     ''- PH5 does not mark stale PROCESSING records completed or failed.'',
     ''- PH5 does not update account balances.'',
     ''- PH5 does not create compensation ledger entries.'',
     ''- PH5 does not execute recovery actions.'',
     []]"

definition unicode_file :: "json \<Rightarrow> artifact_file" where
  "unicode_file j = \<lparr>af_text = pretty_unicode j, af_json = Inr j\<rparr>"

definition run_dir_of :: "string \<Rightarrow> string \<Rightarrow> int \<Rightarrow> stale_processing_candidate list \<Rightarrow> reconciliation_counts \<Rightarrow>
    recovery_case_link list \<Rightarrow> incident_dir" where
  "run_dir_of path generated_at threshold_minutes candidates counts links =
     \<lparr>id_path = path, id_files =
       [(''stale-processing-summary.json'', unicode_file (stale_payload threshold_minutes candidates)),
        (''consistency-counts.json'', unicode_file (JObj (counts_to_dict counts))),
        (''recovery-case-links.json'', unicode_file (link_payload links)),
        (''reconciliation-summary.json'',
           unicode_file (JObj (run_summary (path_name path) generated_at threshold_minutes candidates counts links))),
        (''ph5-report.md'',
           text_file (render_run_report (path_name path) generated_at threshold_minutes candidates counts links))]\<rparr>"

subsection \<open>Validating\<close>

definition ph5_sensitive_key :: "string \<Rightarrow> bool" where
  "ph5_sensitive_key key = (let normalized = replace_char (CHR ''-'') ''_'' (lower key) in
     normalized \<notin> set ALLOWED_SENSITIVE_SHAPED_KEYS \<and>
     (normalized \<in> set PH5_FORBIDDEN_KEYS \<or> rx_search PH2_SENSITIVE_KEY_RE key))"

fun ph5_validate_json_keys :: "json \<Rightarrow> string \<Rightarrow> string list" where
  "ph5_validate_json_keys (JObj kvs) label = concat (map (\<lambda>(k, v).
     (if ph5_sensitive_key k then [''sensitive key found in '' @ label @ '': '' @ k] else []) @
     ph5_validate_json_keys v label) kvs)"
| "ph5_validate_json_keys (JList xs) label = concat (map (\<lambda>x. ph5_validate_json_keys x label) xs)"
| "ph5_validate_json_keys _ label = []"

definition json_file_errors :: "incident_dir \<Rightarrow> string \<Rightarrow> exn + string list" where
  "json_file_errors d name = (case file_of d name of
       None \<Rightarrow> Inr []
     | Some f \<Rightarrow> (case af_json f of
           Inl msg \<Rightarrow> Inr [name @ '' invalid JSON: '' @ msg]
         | Inr payload \<Rightarrow> (let keys = ph5_validate_json_keys payload name in
             if name = ''consistency-counts.json'' then Inr keys
             else (case payload of
                 JObj kvs \<Rightarrow> Inr (keys @ (if json_get ''sensitive_data_included'' kvs \<noteq> Some (JBool False)
                   then [name @ '' sensitive_data_included must be false''] else []))
               | _ \<Rightarrow> Inl (AttributeError ''get'')))))"

fun collect_errors :: "('a \<Rightarrow> exn + string list) \<Rightarrow> 'a list \<Rightarrow> exn + string list" where
  "collect_errors f [] = Inr []"
| "collect_errors f (x # xs) = bindE (f x) (\<lambda>es. bindE (collect_errors f xs) (\<lambda>es'. Inr (es @ es')))"

definition sensitive_files :: "incident_dir \<Rightarrow> string list" where
  "sensitive_files d = concat (map (\<lambda>(name, f).
     if rx_search PH2_SENSITIVE_TEXT_RE (af_text f) then [''sensitive value pattern found: '' @ name] else []) (id_files d))"

definition validate_run :: "incident_dir \<Rightarrow> exn + string list" where
  "validate_run d =
     bindE (collect_errors (json_file_errors d) [''reconciliation-summary.json'', ''stale-processing-summary.json'',
       ''recovery-case-links.json'', ''consistency-counts.json'']) (\<lambda>errs.
     Inr (concat (map (\<lambda>name. if file_of d name = None then [''missing '' @ name] else []) REQUIRED_FILES) @
       errs @ sensitive_files d))"

subsection \<open>The command\<close>

datatype reconciliation_mode = Detect_stale | Reconcile_only | Full_run

datatype reconciliation_command =
    Run_command reconciliation_mode int
  | Report_command "incident_dir option" bool
  | Validate_run_command "incident_dir option" bool

definition run_services :: "env \<Rightarrow> reconciliation_mode \<Rightarrow> int \<Rightarrow>
    (stale_processing_candidate list \<times> reconciliation_counts \<times> recovery_case_link list) app" where
  "run_services E mode threshold_minutes = (case mode of
       Detect_stale \<Rightarrow>
         bindM (detect_stale_processing E threshold_minutes True) (\<lambda>candidates.
         bindM (reconcile E True threshold_minutes False) (\<lambda>(counts, _). returnM (candidates, counts, [])))
     | Reconcile_only \<Rightarrow>
         bindM (detect_stale_processing E threshold_minutes False) (\<lambda>candidates.
         bindM (reconcile E True threshold_minutes True) (\<lambda>(counts, links). returnM (candidates, counts, links)))
     | Full_run \<Rightarrow>
         bindM (detect_stale_processing E threshold_minutes True) (\<lambda>candidates.
         bindM (reconcile E True threshold_minutes True) (\<lambda>(counts, links). returnM (candidates, counts, links))))"

definition latest_run_dir :: "incident_dir list \<Rightarrow> incident_dir option" where
  "latest_run_dir dirs = fold later (filter (\<lambda>d. take 4 (incident_name d) = ''run-'') dirs) None"

definition chosen_run_dir :: "incident_dir list \<Rightarrow> incident_dir option \<Rightarrow> bool \<Rightarrow> string + incident_dir" where
  "chosen_run_dir dirs given latest = (case (if latest then latest_run_dir dirs else given) of
       Some d \<Rightarrow> Inr d
     | None \<Rightarrow> Inl (if latest then ''no reconciliation run directories found'' else ''--run-dir or --latest is required''))"

definition document_outcome :: "int \<Rightarrow> json \<Rightarrow> outcome" where
  "document_outcome code j = exited code (if code = 0 then [pretty_unicode j] else []) []\<lparr>oc_document := Some j\<rparr>"

definition strings :: "string list \<Rightarrow> json" where
  "strings xs = JList (map JStr xs)"

definition reconciliation_handle :: "env \<Rightarrow> string \<Rightarrow> incident_dir list \<Rightarrow> string \<Rightarrow> reconciliation_command \<Rightarrow> outcome app" where
  "reconciliation_handle E root dirs stamp cmd = (case cmd of
       Run_command mode threshold_minutes \<Rightarrow>
         (case run_dir_name (map incident_name dirs) stamp of
            None \<Rightarrow> raiseM OSError
          | Some name \<Rightarrow>
              bindM (with_session (bindM (run_services E mode threshold_minutes) (\<lambda>r. thenM (db_commit E) (returnM r))))
                (\<lambda>(candidates, counts, links).
              bindM (getM (\<lambda>w. isoformat E (now E (w_tick w)))) (\<lambda>generated_at.
              let d = run_dir_of (path_join root name) generated_at threshold_minutes candidates counts links;
                  summary = (''run_dir'', JStr (id_path d)) #
                    run_summary (path_name (id_path d)) generated_at threshold_minutes candidates counts links
              in bindM (liftM (validate_run d)) (\<lambda>errs.
                 returnM ((document_outcome (if errs = [] then 0 else 1)
                   (JObj (summary @ [(''validation_errors'', strings errs)])))\<lparr>oc_dir := Some d\<rparr>)))))
     | Report_command given latest \<Rightarrow> (case chosen_run_dir dirs given latest of
           Inl msg \<Rightarrow> returnM (exited 1 [] [msg])
         | Inr d \<Rightarrow> (case file_of d ''ph5-report.md'' of
               None \<Rightarrow> raiseM OSError
             | Some f \<Rightarrow> returnM (document_outcome 0 (JObj [(''run_dir'', JStr (id_path d)), (''report'', JStr (af_text f))]))))
     | Validate_run_command given latest \<Rightarrow> (case chosen_run_dir dirs given latest of
           Inl msg \<Rightarrow> returnM (exited 1 [] [msg])
         | Inr d \<Rightarrow> bindM (liftM (validate_run d)) (\<lambda>errs.
             returnM (document_outcome 0 (JObj [(''run_dir'', JStr (id_path d)), (''validation_errors'', strings errs)])))))"

definition reconciliation_main :: "env \<Rightarrow> string \<Rightarrow> incident_dir list \<Rightarrow> string \<Rightarrow> reconciliation_command \<Rightarrow> outcome app" where
  "reconciliation_main E root dirs stamp cmd = catchM (reconciliation_handle E root dirs stamp cmd) (\<lambda>exc.
     if is_sa_error exc then returnM (exited 2 []
       [''PH5 requires a recovered PostgreSQL connection. If the database is unavailable, use PH1 write suspend and PH2/PH3 '' @
        ''incident artifact/analyzer flow first. error='' @ exn_name exc])
     else if exc = OSError then returnM (exited 2 [] [''PH5 report filesystem error''])
     else raiseM exc)"

end
