(* ===== verification/Operator_Properties.thy ===== *)
theory Operator_Properties
  imports Reconciliation_Cli Artifact_Properties
begin

text \<open>
  What the operator's commands guarantee: they leave the books alone, the reconciliation command finds a directory
  for its run, and what it writes passes its own validation up to sensitive texts in the rows it reports.
\<close>

subsection \<open>The books\<close>

lemma with_session_idle: "w_sess (snd (with_session m w)) = NoTx"
  by (simp add: with_session_def finallyM_def db_rollback_def modifyM_def split: prod.split)

lemma books_with_session [keeps_intros]: "keeps (books_kept b) m \<Longrightarrow> keeps (books_kept b) (with_session m)"
  unfolding with_session_def by (intro keeps_intros)

lemma books_recovery_handle:
  assumes "alone E"
  shows "keeps (books_kept b) (recovery_handle E dirs cmd)"
  unfolding recovery_handle_def read_case_def read_quarantine_def
  by (cases cmd) (simp_all, (intro keeps_intros assms)+)

lemma books_recovery_main: "alone E \<Longrightarrow> keeps (books_kept b) (recovery_main E dirs cmd)"
  unfolding recovery_main_def by (intro keeps_intros books_recovery_handle)

lemma books_run_services: "alone E \<Longrightarrow> keeps (books_kept b) (run_services E mode n)"
  unfolding run_services_def by (cases mode) (simp_all, (intro keeps_intros; assumption)+)

lemma books_reconciliation_main: "alone E \<Longrightarrow> keeps (books_kept b) (reconciliation_main E root dirs stamp cmd)"
  unfolding reconciliation_main_def reconciliation_handle_def Let_def
  by (cases cmd) (simp_all, (intro keeps_intros books_run_services; assumption)+)

text \<open>
  C20: whatever a recovery or reconciliation command does - and whatever statement or commit fails on the way - no account,
  event, ledger entry, history or idempotency record changes, and no transaction is left open. Reconciliation reports
  promise exactly that.
\<close>

theorem operators_keep_books:
  assumes "alone E" "idle w"
  shows "books (w_committed (snd (recovery_main E dirs cmd w))) = books (w_committed w) \<and>
    idle (snd (recovery_main E dirs cmd w)) \<and>
    books (w_committed (snd (reconciliation_main E root dirs stamp cmd' w))) = books (w_committed w) \<and>
    idle (snd (reconciliation_main E root dirs stamp cmd' w))"
proof -
  have kept: "books_kept (books (w_committed w)) w" using assms(2) by (simp add: books_kept_def idle_def)
  have "idle (snd (recovery_main E dirs cmd w))" by (simp add: recovery_main_def idle_def with_session_idle)
  moreover have "idle (snd (reconciliation_main E root dirs stamp cmd' w))"
  proof (rule keepsD)
    show "keeps idle (reconciliation_main E root dirs stamp cmd')"
      unfolding reconciliation_main_def reconciliation_handle_def Let_def
      by (cases cmd') (simp_all, (intro keeps_intros keepsI [of idle "with_session _"]; simp add: idle_def with_session_idle)+)
  qed (rule assms)
  ultimately show ?thesis
    using keepsD [OF books_recovery_main [OF assms(1)] kept] keepsD [OF books_reconciliation_main [OF assms(1)] kept]
    by (simp add: books_kept_def)
qed

theorem operators_keep_books_witness:
  "books (w_committed (snd (recovery_main calm_env [] (Quarantine_target ''ACCOUNT'' ''ACC-1'' ''drill'' ''op'') sample_world))) =
     books sample_db \<and>
   books (w_committed (snd (reconciliation_main calm_env ''reports'' [] ''20260101-000000'' (Run_command Full_run 5) sample_world))) =
     books sample_db"
proof -
  have "alone calm_env" by (simp add: alone_def calm_env_def)
  from operators_keep_books [OF this, of sample_world] show ?thesis by simp
qed

subsection \<open>A directory for the run\<close>

lemma digits_val_zeros: "digits_val (replicate k (CHR ''0'') @ s) = digits_val s"
proof -
  have "foldl (\<lambda>a c. 10 * a + (code_of c - 48)) 0 (replicate k (CHR ''0'')) = (0::nat)"
    by (induction k) (simp_all add: code_of_def)
  then show ?thesis by (simp add: digits_val_def)
qed

lemma suffix_text_inject: "suffix_text m = suffix_text n \<Longrightarrow> m = n"
  by (metis suffix_text_def list.inject digits_val_zeros digits_val_nat_str)

lemma free_suffix_found:
  assumes "finite F" "F = {n. k \<le> n \<and> base @ suffix_text n \<in> set existing}"
  shows "\<exists>name. free_suffix existing base k = Some name \<and> name \<notin> set existing"
  using assms
proof (induction "card F" arbitrary: F k)
  case 0
  then have "base @ suffix_text k \<notin> set existing" by auto
  then show ?case by (subst free_suffix.simps) simp
next
  case (Suc m)
  show ?case
  proof (cases "base @ suffix_text k \<in> set existing")
    case True
    have "{n. Suc k \<le> n \<and> base @ suffix_text n \<in> set existing} = F - {k}" using Suc.prems by auto
    with True Suc have "\<exists>name. free_suffix existing base (Suc k) = Some name \<and> name \<notin> set existing"
      by (intro Suc.hyps(1) [of "F - {k}"]) (auto simp: card_Diff_singleton)
    with True show ?thesis by (subst free_suffix.simps) simp
  next
    case False
    then show ?thesis by (subst free_suffix.simps) simp
  qed
qed

text \<open>
  C25: the search for a free run directory ends: among any existing directories, after at most one more attempt than there
  are directories, it returns a name that does not exist yet.
\<close>

theorem run_dir_found: "\<exists>name. run_dir_name existing stamp = Some name \<and> name \<notin> set existing"
proof -
  let ?base = "''run-'' @ stamp"
  have "inj (\<lambda>n. ?base @ suffix_text n)" by (auto intro!: injI dest: suffix_text_inject)
  then have "finite ((\<lambda>n. ?base @ suffix_text n) -` set existing)" by (rule finite_vimageI [rotated]) simp
  then have "finite {n. 1 \<le> n \<and> ?base @ suffix_text n \<in> set existing}" by (rule rev_finite_subset) auto
  from free_suffix_found [OF this refl] show ?thesis by (auto simp: run_dir_name_def Let_def)
qed

subsection \<open>What is written validates\<close>

lemma ph5_ok_keyI: "list_all (\<lambda>w. \<not> occurs_in w (lower k)) PH2_KEY_LITERALS \<Longrightarrow>
    replace_char (CHR ''-'') ''_'' (lower k) \<notin> set PH5_FORBIDDEN_KEYS \<Longrightarrow> \<not> ph5_sensitive_key k"
  by (simp add: ph5_sensitive_key_def no_key_literal_no_match Let_def)

definition RUN_KEYS :: "string list" where
  "RUN_KEYS = [''threshold_minutes'', ''stale_processing_count'', ''candidates'', ''sensitive_data_included'', ''links'', ''run_id'',
     ''generated_at'', ''consistency_counts'', ''recovery_case_link_count'', ''status'', ''locked_until'', ''expires_at'',
     ''created_at'', ''updated_at'', ''matching_transaction_event_exists'', ''matching_ledger_entry_exists'', ''proposed_action'',
     ''recovery_case_id'', ''recovery_case_source_key'', ''duplicate_ledger_count'', ''duplicate_external_event_count'',
     ''transaction_event_without_ledger_count'', ''ledger_without_transaction_event_count'', ''issue_type'', ''case_type'',
     ''source_key'', ''case_id'', ''quarantine_id'']"

lemma run_keys_ok: "list_all (\<lambda>k. list_all (\<lambda>w. \<not> occurs_in w (lower k)) PH2_KEY_LITERALS \<and>
    replace_char (CHR ''-'') ''_'' (lower k) \<notin> set PH5_FORBIDDEN_KEYS) RUN_KEYS"
  by code_simp

lemma run_key_clean:
  "\<not> ph5_sensitive_key ''idempotency_record_id''" "\<not> ph5_sensitive_key ''idempotency_key_hash''"
  "\<not> ph5_sensitive_key ''completed_idempotency_without_transaction_event_count''"
  "\<not> ph5_sensitive_key ''account_balance_check''" "\<not> ph5_sensitive_key ''account_balance_mismatch_count''"
  by code_simp+

lemma run_keys_clean: "list_all (\<lambda>k. \<not> ph5_sensitive_key k) RUN_KEYS"
  using run_keys_ok ph5_ok_keyI by (auto simp: list_all_iff)

lemmas run_keys_clean_each = run_keys_clean [unfolded RUN_KEYS_def, simplified] run_key_clean

lemma run_documents_clean:
  "ph5_validate_json_keys (stale_payload n cs) label = []" "ph5_validate_json_keys (link_payload ls) label = []"
  "ph5_validate_json_keys (JObj (counts_to_dict counts)) label = []"
  "ph5_validate_json_keys (JObj (run_summary i at n cs counts ls)) label = []"
  by (simp_all add: stale_payload_def link_payload_def run_summary_def counts_to_dict_def stale_to_dict_def link_to_dict_def
      opt_str_def run_keys_clean_each split: option.split)

text \<open>
  What a run writes is complete and count-only: for any rows found, its five files are there, its documents have no
  forbidden key and declare that no sensitive data is included, so that the validator reports at most files with a
  sensitive text.
\<close>

theorem written_run_validates:
  "validate_run (run_dir_of path at n candidates counts links) =
     Inr (sensitive_files (run_dir_of path at n candidates counts links))"
proof -
  let ?d = "run_dir_of path at n candidates counts links"
  have "file_of ?d ''reconciliation-summary.json'' =
      Some (unicode_file (JObj (run_summary (path_name path) at n candidates counts links)))"
    "file_of ?d ''stale-processing-summary.json'' = Some (unicode_file (stale_payload n candidates))"
    "file_of ?d ''recovery-case-links.json'' = Some (unicode_file (link_payload links))"
    "file_of ?d ''consistency-counts.json'' = Some (unicode_file (JObj (counts_to_dict counts)))"
    "file_of ?d ''ph5-report.md'' \<noteq> None"
    by (simp_all add: run_dir_of_def file_of_def)
  moreover have "\<exists>kvs. stale_payload n candidates = JObj kvs \<and> json_get ''sensitive_data_included'' kvs = Some (JBool False)"
    "\<exists>kvs. link_payload links = JObj kvs \<and> json_get ''sensitive_data_included'' kvs = Some (JBool False)"
    "json_get ''sensitive_data_included'' (run_summary (path_name path) at n candidates counts links) = Some (JBool False)"
    by (simp_all add: stale_payload_def link_payload_def run_summary_def json_get_def)
  ultimately show ?thesis
    using run_documents_clean(1) [of n candidates] run_documents_clean(2) [of links]
    by (auto simp: validate_run_def REQUIRED_FILES_def json_file_errors_def unicode_file_def run_documents_clean Let_def
        simp del: ph5_validate_json_keys.simps)
qed

text \<open>
  Validating a directory on the command line exits with 0 whatever it found: the errors are only printed.
\<close>

theorem validate_run_exits_zero:
  assumes "validate_run d = Inr errs"
  shows "\<exists>oc. reconciliation_main E root dirs stamp (Validate_run_command (Some d) False) w = (Inr oc, w) \<and> oc_exit oc = 0 \<and>
    oc_document oc = Some (JObj [(''run_dir'', JStr (id_path d)), (''validation_errors'', strings errs)])"
  using assms by (simp add: reconciliation_main_def reconciliation_handle_def chosen_run_dir_def prog_defs document_outcome_def
      exited_def)

end
