(* ===== verification/Ai_Context_Cli.thy ===== *)
theory Ai_Context_Cli
  imports Ai_Context_Properties Reconciliation_Cli
begin

text \<open>
  The command that prepares context for an AI assistant (\<open>scripts/ph6_ai_context.py\<close>): it loads a document or merges the
  documents of an artifact directory, sanitises it, writes it with a report, and validates the file it wrote. The
  repository root, the stamp of a run directory and the directories that exist are inputs.
\<close>

datatype context_input =
    Dir_input incident_dir
  | File_input string artifact_file

text \<open>\<open>item.relative_to(ROOT_DIR)\<close>\<close>

definition relative_to :: "string \<Rightarrow> string \<Rightarrow> exn + string" where
  "relative_to root path = (if take (length root + 1) path = root @ ''/'' then Inr (drop (length root + 1) path)
     else Inl (ValueError ''path is not in the subpath''))"

fun mapE :: "('a \<Rightarrow> 'e + 'b) \<Rightarrow> 'a list \<Rightarrow> 'e + 'b list" where
  "mapE f [] = Inr []"
| "mapE f (x # xs) = bindE (f x) (\<lambda>y. bindE (mapE f xs) (\<lambda>ys. Inr (y # ys)))"

definition own_files :: "incident_dir \<Rightarrow> (string \<times> artifact_file) list" where
  "own_files d = filter (\<lambda>(name, _). CHR ''/'' \<notin> set name) (id_files d)"

definition evidence_paths :: "string \<Rightarrow> incident_dir \<Rightarrow> exn + string list" where
  "evidence_paths root d = bindE (mapE (\<lambda>name. relative_to root (path_join (id_path d) name))
     (filter (\<lambda>name. suffix_of name \<in> {''.json'', ''.md'', ''.txt''}) (map fst (own_files d)))) (\<lambda>paths. Inr (sort paths))"

text \<open>\<open>json_file.stem.replace("-", "_")\<close>: the name without its last suffix.\<close>

definition stem_key :: "string \<Rightarrow> string" where
  "stem_key name = replace_char (CHR ''-'') ''_'' (take (length name - length (suffix_of name)) name)"

fun merge_documents :: "(string \<times> artifact_file) list \<Rightarrow> (string \<times> json) list \<Rightarrow> exn + (string \<times> json) list" where
  "merge_documents [] payload = Inr payload"
| "merge_documents ((name, f) # fs) payload = (case af_json f of
       Inl msg \<Rightarrow> Inl (ValueError msg)
     | Inr (JObj kvs) \<Rightarrow> merge_documents fs (fold (\<lambda>(k, v) p. put k v p) kvs payload)
     | Inr j \<Rightarrow> merge_documents fs (put (stem_key name) j payload))"

definition load_input :: "string \<Rightarrow> context_input \<Rightarrow> exn + json" where
  "load_input root i = (case i of
       File_input _ f \<Rightarrow> (case af_json f of Inl msg \<Rightarrow> Inl (ValueError msg) | Inr j \<Rightarrow> Inr j)
     | Dir_input d \<Rightarrow> bindE (evidence_paths root d) (\<lambda>paths.
         bindE (merge_documents (sort_key fst (filter (\<lambda>(name, _). suffix_of name = ''.json'') (own_files d)))
           [(''source'', JStr (incident_name d)), (''evidence_paths'', strings paths)]) (\<lambda>kvs. Inr (JObj kvs))))"

definition sorted_set :: "string list \<Rightarrow> string list" where
  "sorted_set xs = sort (remdups xs)"

definition validate_context_document :: "json \<Rightarrow> exn + string list" where
  "validate_context_document payload = (let errors = validate_sanitized_context payload in case payload of
       JObj kvs \<Rightarrow> Inr (sorted_set (errors @
         (if json_get ''sensitive_data_included'' kvs \<noteq> Some (JBool False) then [''sensitive_data_included must be false''] else []) @
         (if json_get ''sanitized_context'' kvs = None then [''missing sanitized_context''] else []) @
         (if json_get ''redaction_summary'' kvs = None then [''missing redaction_summary''] else [])))
     | _ \<Rightarrow> Inl (AttributeError ''get''))"

record context_files =
  cf_output :: string
  cf_report :: string
  cf_document :: json
  cf_markdown :: string

text \<open>\<open>output_path.with_suffix(".md")\<close>\<close>

definition with_md :: "string \<Rightarrow> string" where
  "with_md path = take (length path - length (suffix_of path)) path @ ''.md''"

definition write_sanitized_context :: "json \<Rightarrow> string \<Rightarrow> exn + ((string \<times> json) list \<times> context_files)" where
  "write_sanitized_context payload output_path = (let
     result = sanitize_context payload;
     doc = JObj (context_to_dict result)
   in bindE (validate_context_document doc) (\<lambda>errs. Inr
     ([(''output'', JStr output_path), (''report'', JStr (with_md output_path)),
       (''removed_field_count'', JInt (int (length (removed_fields result)))), (''validation_errors'', strings errs)],
      \<lparr>cf_output = output_path, cf_report = with_md output_path, cf_document = doc,
       cf_markdown = render_markdown_report result\<rparr>)))"

definition demo_payload :: json where
  "demo_payload = JObj
     [(''incident_id'', JStr ''inc-demo-postgres-down''), (''run_id'', JStr ''ph6-demo''),
      (''classification'', JStr ''STALE_PROCESSING_DETECTED''), (''severity'', JStr ''SEV2''), (''confidence'', JFloat ''0.82''),
      (''created_at'', JStr ''2026-07-07T00:00:00+00:00''), (''status'', JStr ''WAITING_APPROVAL''),
      (''case_type'', JStr ''STALE_PROCESSING''), (''target_type'', JStr ''ACCOUNT''), (''account_token'', JStr ''acctok_demo_001''),
      (''event_token'', JStr ''evttok_demo_001''), (''idempotency_key_hash'', JStr (replicate 64 (CHR ''a''))),
      (''request_hash'', JStr (replicate 64 (CHR ''b''))),
      (''consistency_counts'', JObj [(''stale_processing_count'', JInt 1), (''duplicate_ledger_count'', JInt 0),
         (''duplicate_external_event_count'', JInt 0), (''account_balance_mismatch_count'', JInt 0), (''account_no'', JStr ''ACC-001'')]),
      (''manual_action_candidates'', JList [JObj [(''proposed_action'', JStr ''NOOP_REVIEW_ONLY''),
         (''approval_required'', JBool True), (''authorization'', JStr ''Bearer REDACTED'')]]),
      (''runbook_reference'', JStr ''docs/48-ph6-ai-safe-context-sanitizer.md''),
      (''evidence_paths'', JList [JStr ''reports/incidents/sample-analyzer-result.json'']),
      (''raw_request_body'', JStr (''{'' @ [dquote] @ ''amount'' @ [dquote] @ '':1000}'')), (''hmac_signature'', JStr ''HMAC REDACTED'')]"

subsection \<open>The command\<close>

datatype context_source = From_incidents | From_recovery_cases | From_reconciliation

definition input_name :: "context_input \<Rightarrow> string" where
  "input_name i = (case i of Dir_input d \<Rightarrow> incident_name d | File_input path _ \<Rightarrow> path_name path)"

definition source_candidate :: "context_source \<Rightarrow> context_input \<Rightarrow> bool" where
  "source_candidate s i = (case s of
       From_incidents \<Rightarrow> (case i of Dir_input d \<Rightarrow> take 4 (incident_name d) = ''inc-'' | _ \<Rightarrow> False)
     | From_recovery_cases \<Rightarrow> (case i of Dir_input d \<Rightarrow> take 3 (incident_name d) = ''rc-''
         | File_input path _ \<Rightarrow> suffix_of path = ''.json'')
     | From_reconciliation \<Rightarrow> (case i of Dir_input d \<Rightarrow> take 4 (incident_name d) = ''run-'' | _ \<Rightarrow> False))"

text \<open>The last of the candidates in the order of their names; \<open>entries\<close> is what the root of the source holds.\<close>

definition latest_source :: "context_source \<Rightarrow> context_input list \<Rightarrow> exn + context_input" where
  "latest_source s entries = (let cs = sort_key input_name (filter (source_candidate s) entries) in
     if cs = [] then Inl OSError else Inr (last cs))"

datatype context_command =
    Sanitize_context_command context_input "string option"
  | Sanitize_latest_command context_source "context_input list"
  | Validate_context_command string artifact_file
  | Demo_command

definition run_output :: "string list \<Rightarrow> string \<Rightarrow> string \<Rightarrow> exn + string" where
  "run_output existing output_dir stamp = (case run_dir_name existing stamp of
       None \<Rightarrow> Inl OSError
     | Some name \<Rightarrow> Inr (path_join (path_join output_dir name) ''context.json''))"

definition context_handle :: "string \<Rightarrow> string list \<Rightarrow> string \<Rightarrow> string \<Rightarrow> context_command \<Rightarrow>
    exn + (outcome \<times> context_files option)" where
  "context_handle root existing output_dir stamp cmd = (case cmd of
       Sanitize_context_command i output \<Rightarrow>
         bindE (load_input root i) (\<lambda>payload.
         bindE (case output of Some p \<Rightarrow> Inr p | None \<Rightarrow> run_output existing output_dir stamp) (\<lambda>path.
         bindE (write_sanitized_context payload path) (\<lambda>(result, files).
         Inr (document_outcome 0 (JObj result), Some files))))
     | Sanitize_latest_command source entries \<Rightarrow>
         bindE (latest_source source entries) (\<lambda>i.
         bindE (run_output existing output_dir stamp) (\<lambda>path.
         bindE (load_input root i) (\<lambda>payload.
         bindE (write_sanitized_context payload path) (\<lambda>(result, files).
         Inr (document_outcome 0 (JObj result), Some files)))))
     | Validate_context_command path f \<Rightarrow>
         bindE (case af_json f of Inl msg \<Rightarrow> Inl (ValueError msg) | Inr j \<Rightarrow> validate_context_document j) (\<lambda>errs.
         Inr (document_outcome (if errs = [] then 0 else 1)
           (JObj [(''input'', JStr path), (''validation_errors'', strings errs)]), None))
     | Demo_command \<Rightarrow>
         bindE (run_output existing output_dir stamp) (\<lambda>path.
         bindE (write_sanitized_context demo_payload path) (\<lambda>(result, files).
         bindE (validate_context_document (cf_document files)) (\<lambda>errs.
         Inr (document_outcome (if errs = [] then 0 else 1) (JObj (put ''validation_errors'' (strings errs) result)), Some files)))))"

definition context_main :: "string \<Rightarrow> string list \<Rightarrow> string \<Rightarrow> string \<Rightarrow> context_command \<Rightarrow>
    exn + (outcome \<times> context_files option)" where
  "context_main root existing output_dir stamp cmd = (case context_handle root existing output_dir stamp cmd of
       Inl exc \<Rightarrow> (case exc of
           OSError \<Rightarrow> Inr (exited 2 [] [''PH6 AI context error: '' @ exn_name exc @ '': '' @ exn_str exc], None)
         | ValueError _ \<Rightarrow> Inr (exited 2 [] [''PH6 AI context error: '' @ exn_name exc @ '': '' @ exn_str exc], None)
         | _ \<Rightarrow> Inl exc)
     | Inr r \<Rightarrow> Inr r)"

subsection \<open>What is written validates\<close>

declare sanitize_value.simps(1-3) [simp del] sanitize_fields.simps(2) [simp del] sanitize_items.simps(2) [simp del]

lemma envelope_keys: "list_all (\<lambda>k. removal_reason_for_key k = None) ENVELOPE_KEYS"
  by code_simp

lemma reasons_plain:
  "\<not> sensitive_text ''sensitive_value_pattern'' (Some ''reason'')" "\<not> sensitive_text ''not_in_allowlist'' (Some ''reason'')"
  "\<not> sensitive_text ''sensitive_field_name'' (Some ''reason'')"
  by code_simp+

lemma removed_reason:
  "f \<in> set (snd (sanitize_value j path pk)) \<Longrightarrow> rf_reason f \<in> {''sensitive_value_pattern'', ''not_in_allowlist'', ''sensitive_field_name''}"
  "f \<in> set (snd (sanitize_fields kvs path)) \<Longrightarrow> rf_reason f \<in> {''sensitive_value_pattern'', ''not_in_allowlist'', ''sensitive_field_name''}"
  "f \<in> set (snd (sanitize_items xs i path pk)) \<Longrightarrow> rf_reason f \<in> {''sensitive_value_pattern'', ''not_in_allowlist'', ''sensitive_field_name''}"
proof (induction j and kvs and xs arbitrary: path pk and path and i path pk rule: json_cases_induct)
  case (1 j)
  then show ?case by (simp add: sanitize_value_scalar split: if_splits)
next
  case (5 k v kvs)
  have "removal_reason_for_key k = Some reason \<Longrightarrow> reason = ''sensitive_field_name''" for reason
    by (auto simp: removal_reason_for_key_def Let_def split: if_splits)
  with 5 show ?case
    by (auto simp: sanitize_fields.simps Let_def split: prod.splits option.splits if_splits dest!: "5.IH"(1)) (metis snd_conv)+
qed auto

lemma contains_sensitive_key:
  "\<not> digest_key pk \<Longrightarrow> contains_sensitive_value j pk = contains_sensitive_value j None"
proof (induction j)
  case (JStr s)
  then show ?case using scalar_key [of "JStr s" pk] by (simp add: is_container_def)
next
  case (JList xs)
  then show ?case by (simp add: list_ex_iff)
qed simp_all

lemma envelope_validates:
  assumes "no_digest_lists j" "list_all (\<lambda>f. \<not> sensitive_text (rf_path f) (Some ''path'')) (removed_fields (sanitize_context j))"
  shows "validate_payload (JObj (context_to_dict (sanitize_context j))) ''$'' = []"
proof -
  let ?v = "fst (sanitize_value j ''$'' None)" and ?fs = "snd (sanitize_value j ''$'' None)"
  have r: "sanitize_context j = \<lparr>sanitized_context = ?v, removed_fields = ?fs\<rparr>"
    by (simp add: sanitize_context_def split: prod.split)
  have env: "removal_reason_for_key k = None" if "k \<in> set ENVELOPE_KEYS" for k
    using envelope_keys that by (simp add: list_all_iff)
  have nd: "\<not> digest_key (Some k)" if "k \<in> set ENVELOPE_KEYS" for k
    using that by (auto simp: digest_key_def ENVELOPE_KEYS_def HASH_OR_TOKEN_KEYS_def)
  have v: "\<not> contains_sensitive_value ?v (Some ''sanitized_context'')" "validate_payload ?v p = []" for p
    using sanitize_clean(1) [of j "''$''" None] contains_sensitive_key [of "Some ''sanitized_context''"]
      nd [of "''sanitized_context''"] validate_sanitized(1) [OF assms(1)]
    by (simp_all add: ENVELOPE_KEYS_def digest_key_def)
  have f: "\<not> contains_sensitive_value (removed_to_dict f) key" if "f \<in> set ?fs" for f key
  proof -
    have "\<not> sensitive_text (rf_path f) (Some ''path'')" using assms(2) that by (simp add: r list_all_iff)
    moreover have "\<not> sensitive_text (rf_reason f) (Some ''reason'')"
      using removed_reason(1) [OF that] reasons_plain by auto
    ultimately show ?thesis by (simp add: removed_to_dict_def env ENVELOPE_KEYS_def)
  qed
  have items: "validate_items (map removed_to_dict fs) n p = []" if "set fs \<subseteq> set ?fs" for fs n p
    using that
  proof (induction fs arbitrary: n)
    case (Cons x xs)
    then have "\<not> contains_sensitive_value (removed_to_dict x) None" using f by simp
    with Cons show ?case
      by (simp add: removed_to_dict_def key_errors_def env ENVELOPE_KEYS_def is_container_def)
  qed simp
  have "\<not> contains_sensitive_value (JObj [(''removed_field_count'', JInt (int (length ?fs))),
      (''removed_fields'', JList (map removed_to_dict ?fs))]) key" for key
    using f by (simp add: env ENVELOPE_KEYS_def list_ex_iff)
  then show ?thesis
    using v f items [of ?fs] unfolding r
    by (simp add: context_to_dict_def key_errors_def env ENVELOPE_KEYS_def is_container_def list_ex_iff)
qed

text \<open>
  The context file that is written passes the validation that is run on it, when no list stands under a digest key
  and no name of a removed field itself looks like a credential - the redaction summary repeats those names.
\<close>

theorem context_file_validates:
  assumes "no_digest_lists j" "list_all (\<lambda>f. \<not> sensitive_text (rf_path f) (Some ''path'')) (removed_fields (sanitize_context j))"
  shows "\<exists>result files. write_sanitized_context j path = Inr (result, files) \<and>
    json_get ''validation_errors'' result = Some (strings []) \<and> validate_context_document (cf_document files) = Inr []"
proof -
  have "validate_context_document (JObj (context_to_dict (sanitize_context j))) = Inr []"
    using envelope_validates [OF assms]
    by (simp add: validate_context_document_def validate_sanitized_context_def context_to_dict_def json_get_def sorted_set_def)
  then show ?thesis by (simp add: write_sanitized_context_def json_get_def Let_def)
qed

theorem context_file_validates_witness:
  "\<exists>result files. write_sanitized_context (JObj [(''run_id'', JStr ''ph6''), (''account_no'', JStr ''ACC-001'')]) ''out/context.json'' =
    Inr (result, files) \<and> validate_context_document (cf_document files) = Inr []"
proof -
  let ?j = "JObj [(''run_id'', JStr ''ph6''), (''account_no'', JStr ''ACC-001'')]"
  have "list_all (\<lambda>f. \<not> sensitive_text (rf_path f) (Some ''path'')) (removed_fields (sanitize_context ?j))" by code_simp
  from context_file_validates [OF _ this, of "''out/context.json''"] show ?thesis by (auto simp: is_list_def)
qed

end
