(* ===== verification/Py_Float.thy ===== *)
theory Py_Float
  imports Complex_Main Py_Convert Domain
begin

text \<open>
  Python's \<open>float\<close>: IEEE 754 double precision, as far as the sources compute with it (conversion of numbers and texts,
  products and comparisons). \<open>Fin m e\<close> is the number \<open>m * 2^e\<close>; one number has several such forms, and the sign of a zero
  is not kept, since nothing here can tell the two zeros apart. Results are rounded to nearest, ties to the even
  significand.
\<close>

datatype py_float = Fin int int | PosInf | NegInf | NaN

subsection \<open>Rounding\<close>

function num_bits :: "int \<Rightarrow> int" where
  "num_bits n = (if n \<le> 0 then 0 else 1 + num_bits (n div 2))"
  by pat_completeness auto
termination
  by (relation "measure nat") auto

declare num_bits.simps [simp del]

text \<open>\<open>m * 2^e\<close> for \<open>e \<ge> 0\<close> and \<open>m\<close> otherwise: shifting both sides of a fraction or comparison scales by any power of two.\<close>

definition shifted :: "int \<Rightarrow> int \<Rightarrow> int" where
  "shifted m e = m * 2 ^ nat e"

definition half_even :: "int \<Rightarrow> int \<Rightarrow> int" where
  "half_even n d = (let f = n div d; r = 2 * (n mod d) in if r < d \<or> r = d \<and> even f then f else f + 1)"

text \<open>The exponent of the last of 53 bits of \<open>n / d\<close>; subnormal numbers share the lowest one.\<close>

definition ulp_exp :: "int \<Rightarrow> int \<Rightarrow> int" where
  "ulp_exp n d = (let e = num_bits n - num_bits d in
     max (- 1074) ((if shifted d e \<le> shifted n (- e) then e else e - 1) - 52))"

text \<open>\<open>n / d\<close> for \<open>n \<ge> 0\<close> and \<open>d > 0\<close>.\<close>

definition round_ratio :: "int \<Rightarrow> int \<Rightarrow> py_float" where
  "round_ratio n d = (if n = 0 then Fin 0 0 else let
     u = ulp_exp n d;
     q = half_even (shifted n (- u)) (shifted d u)
   in if 971 < u \<or> u = 971 \<and> 2 ^ 53 \<le> q then PosInf else Fin q u)"

fun flt_neg :: "py_float \<Rightarrow> py_float" where
  "flt_neg (Fin m e) = Fin (- m) e"
| "flt_neg PosInf = NegInf"
| "flt_neg NegInf = PosInf"
| "flt_neg NaN = NaN"

definition round_signed :: "int \<Rightarrow> int \<Rightarrow> py_float" where
  "round_signed n d = (if n < 0 then flt_neg (round_ratio (- n) d) else round_ratio n d)"

subsection \<open>Operations\<close>

definition fin_less :: "int \<Rightarrow> int \<Rightarrow> int \<Rightarrow> int \<Rightarrow> bool" where
  "fin_less m e n f \<longleftrightarrow> shifted m (e - f) < shifted n (f - e)"

fun flt_less :: "py_float \<Rightarrow> py_float \<Rightarrow> bool" where
  "flt_less (Fin m e) (Fin n f) = fin_less m e n f"
| "flt_less (Fin m e) y = (y = PosInf)"
| "flt_less NegInf y = (y \<noteq> NegInf \<and> y \<noteq> NaN)"
| "flt_less _ _ = False"

definition flt_eq :: "py_float \<Rightarrow> py_float \<Rightarrow> bool" where
  "flt_eq x y \<longleftrightarrow> x \<noteq> NaN \<and> y \<noteq> NaN \<and> \<not> flt_less x y \<and> \<not> flt_less y x"

definition flt_le :: "py_float \<Rightarrow> py_float \<Rightarrow> bool" where
  "flt_le x y \<longleftrightarrow> flt_less x y \<or> flt_eq x y"

text \<open>\<open>max(x, y)\<close> of two arguments keeps the first unless the second is greater.\<close>

definition flt_max :: "py_float \<Rightarrow> py_float \<Rightarrow> py_float" where
  "flt_max x y = (if flt_less x y then y else x)"

definition flt_sign :: "py_float \<Rightarrow> int" where
  "flt_sign x = (case x of Fin m e \<Rightarrow> sgn m | PosInf \<Rightarrow> 1 | NegInf \<Rightarrow> - 1 | NaN \<Rightarrow> 0)"

definition flt_mul :: "py_float \<Rightarrow> py_float \<Rightarrow> py_float" where
  "flt_mul x y = (case (x, y) of
       (Fin m e, Fin n f) \<Rightarrow> round_signed (shifted (m * n) (e + f)) (shifted 1 (- (e + f)))
     | _ \<Rightarrow> let s = flt_sign x * flt_sign y in if s = 0 then NaN else if 0 < s then PosInf else NegInf)"

text \<open>Truth of an optional float: \<open>None\<close> and zero are false.\<close>

definition flt_truthy :: "py_float option \<Rightarrow> bool" where
  "flt_truthy v = (case v of None \<Rightarrow> False | Some (Fin m e) \<Rightarrow> m \<noteq> 0 | Some _ \<Rightarrow> True)"

subsection \<open>Numbers of a document\<close>

fun digits_int :: "string \<Rightarrow> int \<Rightarrow> int" where
  "digits_int [] acc = acc"
| "digits_int (c # s) acc = digits_int s (10 * acc + int (code_of c - 48))"

text \<open>The text \<open>digits[.digits][e[sign]digits]\<close>, rounded.\<close>

definition decimal_float :: "string \<Rightarrow> py_float" where
  "decimal_float u = (let
     m = takeWhile (\<lambda>c. c \<noteq> CHR ''e'') u;
     t = drop (Suc (length m)) u;
     x = (if t \<noteq> [] \<and> hd t = CHR ''-'' then - digits_int (tl t) 0 else digits_int (unsigned t) 0);
     ip = takeWhile (\<lambda>c. c \<noteq> CHR ''.'') m;
     fp = drop (Suc (length ip)) m;
     e = x - int (length fp)
   in round_ratio (digits_int (ip @ fp) 0 * 10 ^ nat e) (10 ^ nat (- e)))"

text \<open>The value of the text that \<open>repr\<close> gave a float.\<close>

definition float_of_text :: "string \<Rightarrow> py_float" where
  "float_of_text s = (let
     neg = (s \<noteq> [] \<and> hd s = CHR ''-'');
     u = (if neg then tl s else s);
     v = (if u = ''inf'' then PosInf else if u = ''nan'' then NaN else decimal_float u)
   in if neg then flt_neg v else v)"

text \<open>
  The exact value of a number (a \<open>bool\<close> is one), for comparisons, which Python makes exactly; and \<open>float(value)\<close>, which rounds
  an integer and refuses one that is too large.
\<close>

fun number_value :: "json \<Rightarrow> py_float option" where
  "number_value (JBool b) = Some (Fin (if b then 1 else 0) 0)"
| "number_value (JInt i) = Some (Fin i 0)"
| "number_value (JFloat f) = Some (float_of_text f)"
| "number_value _ = None"

definition float_of_int :: "int \<Rightarrow> exn + py_float" where
  "float_of_int i = (case round_signed i 1 of
       Fin m e \<Rightarrow> Inr (Fin m e)
     | _ \<Rightarrow> Inl (OverflowError ''int too large to convert to float''))"

subsection \<open>The order of the values\<close>

definition two_pow :: "int \<Rightarrow> rat" where
  "two_pow e = 2 powi e"

definition flt_val :: "py_float \<Rightarrow> rat" where
  "flt_val x = (case x of Fin m e \<Rightarrow> of_int m * two_pow e | _ \<Rightarrow> 0)"

lemma two_pow_pos [simp]: "0 < two_pow e"
  by (simp add: two_pow_def)

lemma two_pow_add: "two_pow (a + b) = two_pow a * two_pow b"
  by (simp add: two_pow_def power_int_add)

lemma shifted_val: "of_int (shifted m e) = (if 0 \<le> e then of_int m * two_pow e else of_int m)"
  by (simp add: shifted_def two_pow_def power_int_def)

lemma fin_less_val: "fin_less m e n f \<longleftrightarrow> of_int m * two_pow e < of_int n * two_pow f"
proof -
  let ?k = "min e f"
  have "of_int (shifted m (e - f)) * two_pow ?k = of_int m * two_pow e"
    "of_int (shifted n (f - e)) * two_pow ?k = of_int n * two_pow f"
    using two_pow_add [of "e - f" f] two_pow_add [of "f - e" e] by (auto simp: shifted_val min_def)
  moreover have "fin_less m e n f \<longleftrightarrow>
      of_int (shifted m (e - f)) * two_pow ?k < of_int (shifted n (f - e)) * two_pow ?k"
    by (simp add: fin_less_def)
  ultimately show ?thesis by simp
qed

lemma flt_less_val [simp]: "flt_less (Fin m e) (Fin n f) \<longleftrightarrow> flt_val (Fin m e) < flt_val (Fin n f)"
  by (simp add: fin_less_val flt_val_def)

declare flt_less.simps(1) [simp del]

lemma flt_le_val [simp]: "flt_le (Fin m e) (Fin n f) \<longleftrightarrow> flt_val (Fin m e) \<le> flt_val (Fin n f)"
  by (auto simp: flt_le_def flt_eq_def)

lemma flt_less_irrefl [simp]: "\<not> flt_less x x"
  by (cases x) simp_all

lemma flt_less_trans: "flt_less x y \<Longrightarrow> flt_less y z \<Longrightarrow> flt_less x z"
  by (cases x; cases y; cases z) (auto simp: flt_less_val intro: less_trans)

subsection \<open>Exact integers\<close>

lemma num_bits_bounds: "0 < n \<Longrightarrow> 0 < num_bits n \<and> 2 ^ nat (num_bits n - 1) \<le> n \<and> n < 2 ^ nat (num_bits n)"
proof (induction n rule: num_bits.induct)
  case (1 n)
  have eq: "num_bits n = 1 + num_bits (n div 2)" using 1(2) by (subst num_bits.simps) simp
  show ?case
  proof (cases "n = 1")
    case True
    then show ?thesis using eq by (simp add: num_bits.simps [of 0])
  next
    case False
    with 1 have ih: "0 < num_bits (n div 2)" "2 ^ nat (num_bits (n div 2) - 1) \<le> n div 2"
        "n div 2 < 2 ^ nat (num_bits (n div 2))" by simp_all
    define k where "k = nat (num_bits (n div 2) - 1)"
    have k: "nat (num_bits n) = Suc (Suc k)" "nat (num_bits n - 1) = Suc k" "nat (num_bits (n div 2)) = Suc k"
      using ih(1) by (simp_all add: eq k_def)
    from ih(2,3) have "2 ^ k \<le> n div 2" "n div 2 < 2 * 2 ^ k" by (simp_all only: k k_def [symmetric] power_Suc)
    then have "2 * 2 ^ k \<le> n" "n < 4 * 2 ^ k" by linarith+
    then show ?thesis using ih(1) unfolding k by (simp add: eq)
  qed
qed

lemma half_even_exact: "0 < d \<Longrightarrow> half_even (j * d) d = j"
  by (simp add: half_even_def)

lemma ulp_exp_small:
  assumes "0 < n" "0 < d" "n < 2 ^ 53 * d"
  shows "ulp_exp n d \<le> 0"
proof -
  let ?e = "num_bits n - num_bits d"
  note n = num_bits_bounds [OF assms(1)] and d = num_bits_bounds [OF assms(2)]
  have "(2 :: int) ^ nat (num_bits n - 1) < 2 ^ 53 * 2 ^ nat (num_bits d)"
    using n d assms(3) by simp
  then have "(2 :: int) ^ nat (num_bits n - 1) < 2 ^ (53 + nat (num_bits d))" by (simp add: power_add)
  then have "nat (num_bits n - 1) < 53 + nat (num_bits d)" by (rule power_less_imp_less_exp [rotated]) simp
  then have le: "?e \<le> 53" using n d by linarith
  have "?e \<le> 52" if "shifted d ?e \<le> shifted n (- ?e)"
  proof (rule ccontr)
    assume "\<not> ?e \<le> 52"
    then have "?e = 53" using le by simp
    with that have "d * 2 ^ 53 \<le> n" by (simp add: shifted_def)
    with assms(3) show False by simp
  qed
  with le show ?thesis by (auto simp: ulp_exp_def Let_def)
qed

text \<open>A fraction that is an integer of at most 53 bits is not rounded.\<close>

lemma round_ratio_exact:
  assumes "0 \<le> j" "j < 2 ^ 53" "0 < d"
  shows "\<exists>m e. round_ratio (j * d) d = Fin m e \<and> e \<le> 0 \<and> flt_val (Fin m e) = of_int j"
proof (cases "j = 0")
  case False
  then have "0 < j * d" using assms by simp
  moreover have "j * d < 2 ^ 53 * d" using assms by (simp only: mult_less_cancel_right_pos)
  ultimately have u: "ulp_exp (j * d) d \<le> 0" using ulp_exp_small assms(3) by blast
  let ?u = "ulp_exp (j * d) d"
  have "shifted d ?u = d" "shifted (j * d) (- ?u) = shifted j (- ?u) * d" using u by (simp_all add: shifted_def)
  then have "half_even (shifted (j * d) (- ?u)) (shifted d ?u) = shifted j (- ?u)" using half_even_exact [OF assms(3)] by simp
  moreover have "of_int (shifted j (- ?u)) * two_pow ?u = of_int j"
    using u two_pow_add [of "- ?u" ?u] by (auto simp: shifted_val two_pow_def)
  ultimately show ?thesis using u False assms(3) by (simp add: round_ratio_def Let_def flt_val_def)
qed (simp add: round_ratio_def flt_val_def)

lemma round_signed_exact:
  assumes "\<bar>j\<bar> < 2 ^ 53" "0 < d"
  shows "\<exists>m e. round_signed (j * d) d = Fin m e \<and> e \<le> 0 \<and> flt_val (Fin m e) = of_int j"
proof (cases "j < 0")
  case True
  then have "j * d < 0" using assms(2) by (simp add: mult_neg_pos)
  with round_ratio_exact [of "- j" d] assms True show ?thesis by (fastforce simp: round_signed_def flt_val_def)
next
  case False
  then have "\<not> j * d < 0" using assms(2) by (simp add: mult_less_0_iff)
  with round_ratio_exact [of j d] assms False show ?thesis by (simp add: round_signed_def)
qed

lemma float_of_int_exact:
  assumes "\<bar>i\<bar> < 2 ^ 53"
  obtains m e where "float_of_int i = Inr (Fin m e)" "e \<le> 0" "flt_val (Fin m e) = of_int i"
  using round_signed_exact [OF assms, of 1] by (auto simp: float_of_int_def)

lemma flt_mul_exact:
  assumes "flt_val (Fin m e) = of_int i" "e \<le> 0" "\<bar>i * k\<bar> < 2 ^ 53"
  obtains n f where "flt_mul (Fin m e) (Fin k 0) = Fin n f" "flt_val (Fin n f) = of_int (i * k)"
proof -
  let ?d = "2 ^ nat (- e) :: int"
  have "two_pow e * of_int ?d = 1" using two_pow_add [of e "- e"] assms(2) by (simp add: two_pow_def power_int_def)
  then have "of_int m = of_int i * (of_int ?d :: rat)" using assms(1) by (simp add: flt_val_def) (metis mult.assoc mult.commute mult_1)
  then have "m = i * ?d" by (metis of_int_eq_iff of_int_mult)
  then have "flt_mul (Fin m e) (Fin k 0) = round_signed (i * k * ?d) ?d"
    using assms(2) by (simp add: flt_mul_def shifted_def mult.assoc mult.left_commute mult.commute [of k])
  with round_signed_exact [OF assms(3), of ?d] show thesis using that by auto
qed

end
