(* ===== verification/Drill_Common.thy ===== *)
theory Drill_Common
  imports Py_Float Ai_Context_Cli
begin

text \<open>
  What the report scripts share: the texts \<open>json.dumps(v, ensure_ascii=False)\<close> prints with its default separators,
  Python's equality of decoded values, differences of key sets, and the ways a script ends.
\<close>

subsection \<open>Values\<close>

definition float_json :: "string \<Rightarrow> string" where
  "float_json f = (if f = ''inf'' then ''Infinity'' else if f = ''-inf'' then ''-Infinity'' else if f = ''nan'' then ''NaN'' else f)"

fun dumps_default :: "bool \<Rightarrow> json \<Rightarrow> string" where
  "dumps_default sorted_keys (JFloat f) = float_json f"
| "dumps_default sorted_keys (JList xs) = ''['' @ join '', '' (map (dumps_default sorted_keys) xs) @ '']''"
| "dumps_default sorted_keys (JObj kvs) = ''{'' @ join '', '' (map (\<lambda>(k, t). dumps_str k @ '': '' @ t)
     ((if sorted_keys then sort_key fst else id) (map (\<lambda>(k, v). (k, dumps_default sorted_keys v)) kvs))) @ ''}''"
| "dumps_default sorted_keys j = dumps j"

text \<open>\<open>==\<close>: numbers by value, whatever their type, and objects whatever the order of their keys.\<close>

function (sequential) py_eq :: "json \<Rightarrow> json \<Rightarrow> bool" where
  "py_eq (JList xs) b = (case b of JList ys \<Rightarrow> length xs = length ys \<and> list_all (\<lambda>(x, y). py_eq x y) (zip xs ys) | _ \<Rightarrow> False)"
| "py_eq (JObj kvs) b = (case b of
       JObj kws \<Rightarrow> length kvs = length kws \<and>
         list_all (\<lambda>(k, v). case map_of kws k of None \<Rightarrow> False | Some w \<Rightarrow> py_eq v w) kvs
     | _ \<Rightarrow> False)"
| "py_eq a b = (case (number_value a, number_value b) of
       (Some x, Some y) \<Rightarrow> flt_eq x y
     | _ \<Rightarrow> a = b)"
  by pat_completeness auto
termination
  by (relation "measure (size \<circ> fst)") (auto dest!: set_zip_leftD simp: less_Suc_eq_le intro: size_list_estimation')

text \<open>A list or an object has no hash: putting it into a set raises.\<close>

fun hashable :: "json \<Rightarrow> bool" where
  "hashable (JList _) = False"
| "hashable (JObj _) = False"
| "hashable _ = True"

definition unhashable :: exn where
  "unhashable = TypeError ''unhashable type''"

text \<open>
  What \<open>set(value)\<close> and then \<open>value.get\<close> raise on a document that is not an object: a value that is not iterable or has
  an item without a hash fails in \<open>set\<close>, the others have no \<open>get\<close>.
\<close>

definition not_an_object :: "json \<Rightarrow> exn" where
  "not_an_object j = (case j of
       JStr _ \<Rightarrow> AttributeError ''get''
     | JList xs \<Rightarrow> if list_all hashable xs then AttributeError ''get'' else unhashable
     | _ \<Rightarrow> TypeError ''object is not iterable'')"

text \<open>\<open>sorted(xs - set(ys))\<close>\<close>

definition sorted_minus :: "string list \<Rightarrow> string list \<Rightarrow> string list" where
  "sorted_minus xs ys = sorted_set (filter (\<lambda>x. x \<notin> set ys) xs)"

text \<open>\<open>mapping.get(key, default)\<close>, and \<open>None\<close> where no default is given.\<close>

definition obj_get :: "string \<Rightarrow> json \<Rightarrow> (string \<times> json) list \<Rightarrow> json" where
  "obj_get k d kvs = (case json_get k kvs of None \<Rightarrow> d | Some v \<Rightarrow> v)"

text \<open>\<open>f"{item.get(name, index)}"\<close>\<close>

definition item_label :: "string \<Rightarrow> nat \<Rightarrow> (string \<times> json) list \<Rightarrow> string" where
  "item_label name i kvs = py_str (obj_get name (JInt (int i)) kvs)"

definition starts_with :: "string \<Rightarrow> string \<Rightarrow> bool" where
  "starts_with prefix s \<longleftrightarrow> take (length prefix) s = prefix"

subsection \<open>Patterns with their texts\<close>

definition whole_word :: "string \<Rightarrow> rx" where
  "whole_word w = seq [Edge, lit_i w, Edge]"

text \<open>A pattern with the text it was written as, which the error messages quote.\<close>

definition word_pattern :: "string \<Rightarrow> string \<times> rx" where
  "word_pattern w = ([backslash] @ ''b'' @ w @ [backslash] @ ''b'', whole_word w)"

definition assigned_pattern :: "string \<Rightarrow> string \<times> rx" where
  "assigned_pattern w = (w @ [backslash] @ ''s*[:=]'' @ [backslash] @ ''s*'' @ [backslash] @ ''S+'', assigned w)"

definition credential_pattern :: "string \<Rightarrow> string \<times> rx" where
  "credential_pattern w = (w @ [backslash] @ ''s+'' @ [backslash] @ ''S+'', credential w)"

subsection \<open>Rendering\<close>

text \<open>\<open>report[key]\<close> of a report that has all its fields, as a text and as the texts of a list.\<close>

definition report_text :: "string \<Rightarrow> (string \<times> json) list \<Rightarrow> string" where
  "report_text k report = py_str (obj_get k JNull report)"

definition report_items :: "string \<Rightarrow> (string \<times> json) list \<Rightarrow> string list" where
  "report_items k report = (case obj_get k JNull report of JList xs \<Rightarrow> map (\<lambda>x. ''- '' @ py_str x) xs | _ \<Rightarrow> [])"

definition quoted_line :: "string \<Rightarrow> string \<Rightarrow> (string \<times> json) list \<Rightarrow> string" where
  "quoted_line label k report = ''- '' @ label @ '': `'' @ report_text k report @ ''`''"

subsection \<open>Endings\<close>

text \<open>
  What a script wrote, and how it ended. \<open>SystemExit\<close> with a text prints it and exits with 1; the exceptions a \<open>main\<close> catches
  exit with 2; any other one leaves as a traceback. A demonstration writes its files before it validates them: the files are recorded
  with the outcome of the run that passes, not with the exception of one that does not.
\<close>

type_synonym written = "(string \<times> artifact_file) list"

definition parsed :: "artifact_file \<Rightarrow> exn + json" where
  "parsed f = (case af_json f of Inl msg \<Rightarrow> Inl (ValueError msg) | Inr j \<Rightarrow> Inr j)"

definition system_exit :: "string \<Rightarrow> outcome" where
  "system_exit msg = exited 1 [] [msg]"

definition drill_main :: "string \<Rightarrow> exn + (outcome \<times> written) \<Rightarrow> exn + (outcome \<times> written)" where
  "drill_main title r = (case r of
       Inl exc \<Rightarrow> (case exc of
           OSError \<Rightarrow> Inr (exited 2 [] [title @ '' error: '' @ exn_name exc @ '': '' @ exn_str exc], [])
         | ValueError _ \<Rightarrow> Inr (exited 2 [] [title @ '' error: '' @ exn_name exc @ '': '' @ exn_str exc], [])
         | _ \<Rightarrow> Inl exc)
     | Inr x \<Rightarrow> Inr x)"

lemma set_sorted_set [simp]: "set (sorted_set xs) = set xs"
  by (simp add: sorted_set_def)

lemma sorted_set_Nil [simp]: "sorted_set xs = [] \<longleftrightarrow> xs = []"
  by (metis set_sorted_set set_empty)

lemma sorted_minus_Nil: "sorted_minus xs ys = [] \<longleftrightarrow> set xs \<subseteq> set ys"
  by (auto simp: sorted_minus_def filter_empty_conv)

subsection \<open>Patterns with a literal inside\<close>

text \<open>A pattern that cannot match unless a literal occurs in the text.\<close>

definition needs :: "string \<Rightarrow> rx \<Rightarrow> bool" where
  "needs w r \<longleftrightarrow> (\<forall>prev s. ends r prev s \<noteq> [] \<longrightarrow> occurs_in (lower w) (lower s))"

lemma ends_suffix: "(p, t) \<in> set (ends r prev s) \<Longrightarrow> \<exists>u. s = u @ t"
proof (induction r arbitrary: prev s p t)
  case (Many c)
  have "(p, t) \<in> set (many_ends c prev s) \<Longrightarrow> \<exists>u. s = u @ t" for prev
    by (induction s arbitrary: prev) (auto split: if_splits, metis append_Cons)
  with Many show ?case by simp
next
  case (Seq a b)
  then obtain p' s' where "(p', s') \<in> set (ends a prev s)" "(p, t) \<in> set (ends b p' s')" by auto
  with Seq.IH show ?case by (metis append_assoc)
qed (auto split: list.splits if_splits)

lemma occurs_append: "occurs_in w t \<Longrightarrow> occurs_in w (u @ t)"
  by (induction u) (auto simp: occurs_in_Cons)

lemma occurs_prefix: "take (length w) s = w \<Longrightarrow> occurs_in w s"
  by (subst occurs_in.simps) simp

lemma occurs_in_iff: "occurs_in w s \<longleftrightarrow> (\<exists>u t. s = u @ w @ t)"
proof (induction s)
  case Nil
  then show ?case by (subst occurs_in.simps) auto
next
  case (Cons c s)
  have "take (length w) (c # s) = w \<longleftrightarrow> (\<exists>t. c # s = w @ t)" by (metis append_eq_conv_conj)
  then show ?case using Cons by (auto simp: occurs_in_Cons Cons_eq_append_conv)
qed

lemma occurs_trans: "occurs_in v w \<Longrightarrow> occurs_in w s \<Longrightarrow> occurs_in v s"
  by (metis occurs_in_iff append_assoc)

lemma needs_lit: "needs w (lit_i w)"
  using ends_lit occurs_prefix by (fastforce simp: needs_def lower_def)

lemma needs_first: "needs w a \<Longrightarrow> needs w (Seq a b)"
proof -
  have "ends (Seq a b) prev s \<noteq> [] \<Longrightarrow> ends a prev s \<noteq> []" for prev s by auto
  then show "needs w a \<Longrightarrow> needs w (Seq a b)" unfolding needs_def by blast
qed

lemma needs_later:
  assumes "needs w b"
  shows "needs w (Seq a b)"
  unfolding needs_def
proof (intro allI impI)
  fix prev s assume "ends (Seq a b) prev s \<noteq> []"
  then obtain p t where t: "(p, t) \<in> set (ends a prev s)" "ends b p t \<noteq> []" by auto
  then obtain u where "s = u @ t" using ends_suffix by blast
  with t(2) assms show "occurs_in (lower w) (lower s)" by (auto simp: needs_def lower_def intro: occurs_append)
qed

lemma needs_absent:
  assumes "needs w r" "\<not> occurs_in (lower w) (lower s)"
  shows "\<not> rx_search r s"
proof -
  have "search_from r prev s \<Longrightarrow> occurs_in (lower w) (lower s)" for prev
    using assms(1)
  proof (induction s arbitrary: prev)
    case (Cons c s)
    have "lower (c # s) = [lower_char c] @ lower s" by (simp add: lower_def)
    with Cons show ?case unfolding needs_def search_from_Cons by (metis occurs_append)
  qed (simp add: search_from_Nil needs_def)
  with assms(2) show ?thesis by (auto simp: rx_search_def)
qed

end
