(* ===== verification/Latency_Attribution.thy ===== *)
theory Latency_Attribution
  imports Drill_Common
begin

text \<open>
  Latency attribution (\<open>scripts/ph10_latency_attribution.py\<close>): from the percentiles of a load test, of the phases of a request
  and of the consistency counters, one candidate classification with a confidence, written as a report that is
  validated. Millisecond values are floats (\<open>Py_Float\<close>), compared and multiplied as the script does. The two forbidden
  claims written in Korean cannot occur in a text of code points below 256 and are left out.
\<close>

subsection \<open>Constants\<close>

definition FIXED_GENERATED_AT :: string where
  "FIXED_GENERATED_AT = ''2026-07-07T00:00:00+00:00''"

definition CLASSIFICATIONS :: "string list" where
  "CLASSIFICATIONS = [
    ''baseline_normal_latency'', ''internal_application_latency'', ''internal_postgres_latency'',
    ''internal_postgres_pool_pressure'', ''internal_postgres_lock_contention'', ''redis_degraded_latency'',
    ''redis_unavailable_fallback'', ''external_dependency_latency'', ''external_endpoint_slow'',
    ''app_http_client_path_issue'', ''edge_or_client_network_latency'', ''partner_specific_latency'',
    ''route_specific_latency_candidate'', ''insufficient_evidence'']"

definition CONFIDENCE_LEVELS :: "string list" where
  "CONFIDENCE_LEVELS = [''LOW'', ''MEDIUM'', ''HIGH'']"

definition CONSISTENCY_STATUSES :: "string list" where
  "CONSISTENCY_STATUSES = [''CLEAN'', ''VIOLATION_DETECTED'', ''UNKNOWN'']"

definition REQUIRED_REPORT_FIELDS :: "string list" where
  "REQUIRED_REPORT_FIELDS = [
    ''run_id'', ''generated_at'', ''phase'', ''scenario'', ''input_summary'', ''classification'', ''confidence'', ''primary_suspect'',
    ''secondary_suspects'', ''evidence'', ''recommended_next_checks'', ''manual_confirmation_required'',
    ''consistency_status'', ''sensitive_data_policy'', ''non_scope'', ''follow_up_candidates'', ''validation_summary'']"

definition REQUIRED_EVIDENCE_FIELDS :: "string list" where
  "REQUIRED_EVIDENCE_FIELDS = [''run_id'', ''scenario'', ''baseline'', ''observed'', ''consistency'']"

definition PH10_FORBIDDEN_KEYS :: "string list" where
  "PH10_FORBIDDEN_KEYS = [
    ''account_no'', ''raw_account_no'', ''idempotency_key'', ''raw_idempotency_key'', ''authorization'', ''authorization_header'',
    ''signature'', ''x_signature'', ''client_secret'', ''access_token'', ''refresh_token'', ''password'', ''secret'',
    ''raw_request_body'', ''database_url'', ''raw_url'']"

definition FORBIDDEN_METRIC_LABELS :: "string list" where
  "FORBIDDEN_METRIC_LABELS = [
    ''account_id'', ''event_id'', ''idempotency_key'', ''trace_id'', ''request_id'', ''raw_url'', ''customer_id'',
    ''customer_identifier'', ''account_no'', ''external_event_id'']"

definition http_url :: rx where
  "http_url = seq [lit_i ''http'', optional (lit_i ''s''), lit_i ''://'', some_of (\<lambda>c. \<not> is_space c \<and> c \<noteq> CHR '')'')]"

definition PH10_SENSITIVE_TEXT_PATTERNS :: "(string \<times> rx) list" where
  "PH10_SENSITIVE_TEXT_PATTERNS =
    [assigned_pattern ''Authorization'', credential_pattern ''Bearer'', credential_pattern ''Basic'',
     assigned_pattern ''X-Signature'', assigned_pattern ''Idempotency-Key''] @
    map word_pattern [''account_no'', ''raw_account_no'', ''idempotency_key'', ''raw_idempotency_key'', ''authorization'',
      ''signature'', ''client_secret'', ''access_token'', ''refresh_token'', ''password'', ''secret'', ''raw_request_body'',
      ''database_url'', ''raw_url''] @
    [(''https?://[^'' @ [backslash] @ ''s)]+'', http_url),
     (''postgresql://'' @ [backslash] @ ''S+'', Seq (lit_i ''postgresql://'') text_run)]"

definition PH10_FORBIDDEN_CLAIMS :: "string list" where
  "PH10_FORBIDDEN_CLAIMS = [
    ''k6 proves postgres root cause'', ''k6 alone proves postgres'', ''k6 alone proves redis'', ''k6 alone proves external'',
    ''PH11 latency drill completed'', ''make k6-latency-baseline completed'', ''make latency-drill-db-pool completed'',
    ''AI confirmed the root cause'', ''AI automatically fixes latency'']"

subsection \<open>Analysis\<close>

definition consistency_status_from :: "json \<Rightarrow> string" where
  "consistency_status_from consistency = (case consistency of
       JObj kvs \<Rightarrow> (let
         values = map (\<lambda>counter. number_value (obj_get counter JNull kvs))
           [''duplicate_ledger_count'', ''duplicate_external_event_count'', ''reconciliation_failure_count'',
            ''invalid_state_transition_count'']
       in if list_ex (\<lambda>v. case v of None \<Rightarrow> False | Some x \<Rightarrow> flt_less (Fin 0 0) x) values then ''VIOLATION_DETECTED''
          else if list_all (\<lambda>v. case v of None \<Rightarrow> False | Some x \<Rightarrow> flt_eq x (Fin 0 0)) values then ''CLEAN''
          else ''UNKNOWN'')
     | _ \<Rightarrow> ''UNKNOWN'')"

text \<open>\<open>_num\<close>\<close>

definition num_of :: "(string \<times> json) list \<Rightarrow> string \<Rightarrow> exn + py_float option" where
  "num_of mapping key = (case obj_get key JNull mapping of
       JInt i \<Rightarrow> (case float_of_int i of Inl e \<Rightarrow> Inl e | Inr x \<Rightarrow> Inr (Some x))
     | j \<Rightarrow> Inr (number_value j))"

record attribution =
  at_classification :: string
  at_confidence :: string
  at_primary :: string
  at_secondary :: "string list"
  at_evidence :: "string list"
  at_checks :: "string list"

abbreviation verdict where
  "verdict c conf p sec ev next \<equiv> \<lparr>at_classification = c, at_confidence = conf, at_primary = p, at_secondary = sec,
     at_evidence = ev, at_checks = next\<rparr>"

definition latency_report :: "(string \<times> json) list \<Rightarrow> attribution \<Rightarrow> (string \<times> json) list" where
  "latency_report evidence a = [
     (''run_id'', obj_get ''run_id'' (JStr ''ph10-latency-attribution'') evidence),
     (''generated_at'', obj_get ''generated_at'' (JStr FIXED_GENERATED_AT) evidence),
     (''phase'', JStr ''PH10 Latency Attribution / External Dependency Diagnosis''),
     (''scenario'', obj_get ''scenario'' (JStr ''unknown'') evidence),
     (''input_summary'', JObj [
       (''route_group'', obj_get ''route_group'' (JStr ''not_collected'') evidence),
       (''method'', obj_get ''method'' (JStr ''not_collected'') evidence),
       (''status_code_family'', obj_get ''status_code_family'' (JStr ''not_collected'') evidence),
       (''consistency'', obj_get ''consistency'' (JStr ''not_collected'') evidence),
       (''k6_is_symptom_only'', JBool True),
       (''raw_identifiers_included'', JBool False)]),
     (''classification'', JStr (at_classification a)),
     (''confidence'', JStr (at_confidence a)),
     (''primary_suspect'', JStr (at_primary a)),
     (''secondary_suspects'', strings (at_secondary a)),
     (''evidence'', strings (at_evidence a)),
     (''recommended_next_checks'', strings (at_checks a)),
     (''manual_confirmation_required'', strings [
       ''operator must confirm with dashboard, logs, and runbook evidence'',
       ''do not treat deterministic classification as final root cause'',
       ''if consistency_status is VIOLATION_DETECTED, follow consistency incident flow first'']),
     (''consistency_status'', JStr (consistency_status_from (obj_get ''consistency'' JNull evidence))),
     (''sensitive_data_policy'', JObj [
       (''financial_identifier_policy'', JStr ''plain values prohibited''),
       (''retry_identifier_policy'', JStr ''plain values prohibited''),
       (''request_payload_policy'', JStr ''payload contents prohibited''),
       (''auth_material_policy'', JStr ''headers and signing material prohibited''),
       (''endpoint_value_policy'', JStr ''plain endpoint values prohibited''),
       (''metric_label_policy'', JStr ''bounded route_group, endpoint_group, partner_alias, method, status_code, result, phase, operation only'')]),
     (''non_scope'', strings [
       ''PH11 k6 latency drill execution'',
       ''Toxiproxy or netem fault injection'',
       ''mock partner service'',
       ''OpenTelemetry full tracing'',
       ''production network fault injection'',
       ''AI root-cause confirmation or automatic recovery'']),
     (''follow_up_candidates'', strings [
       ''PH11 k6 latency scenarios and fault injection'',
       ''mock partner service'',
       ''Toxiproxy or netem latency profile'',
       ''OpenTelemetry trace expansion'',
       ''Grafana latency attribution dashboard'']),
     (''validation_summary'', JObj [
       (''classification_is_candidate'', JBool True),
       (''k6_only_root_cause_claim_allowed'', JBool False),
       (''ph11_drill_completed'', JBool False),
       (''sensitive_data_included'', JBool False)])]"

record signals =
  sg_k6_p95 :: "py_float option"
  sg_k6_p99 :: "py_float option"
  sg_base_p95 :: "py_float option"
  sg_base_p99 :: "py_float option"
  sg_handler :: "py_float option"
  sg_base_handler :: "py_float option"
  sg_nginx_request :: "py_float option"
  sg_nginx_upstream :: "py_float option"
  sg_postgres :: "py_float option"
  sg_db_pool :: "py_float option"
  sg_db_lock :: "py_float option"
  sg_redis :: "py_float option"
  sg_outbound :: "py_float option"
  sg_blackbox :: "py_float option"
  sg_error_rate :: "py_float option"

definition read_signals :: "(string \<times> json) list \<Rightarrow> (string \<times> json) list \<Rightarrow> exn + signals" where
  "read_signals observed baseline =
     bindE (num_of observed ''k6_p95_ms'') (\<lambda>k6_p95.
     bindE (num_of observed ''k6_p99_ms'') (\<lambda>k6_p99.
     bindE (num_of baseline ''k6_p95_ms'') (\<lambda>base_p95.
     bindE (num_of baseline ''k6_p99_ms'') (\<lambda>base_p99.
     bindE (num_of observed ''fastapi_handler_p95_ms'') (\<lambda>handler.
     bindE (num_of baseline ''server_handler_p95_ms'') (\<lambda>base_handler.
     bindE (num_of observed ''nginx_request_p95_ms'') (\<lambda>nginx_request.
     bindE (num_of observed ''nginx_upstream_p95_ms'') (\<lambda>nginx_upstream.
     bindE (num_of observed ''postgres_phase_p95_ms'') (\<lambda>postgres.
     bindE (num_of observed ''db_pool_wait_p95_ms'') (\<lambda>db_pool.
     bindE (num_of observed ''db_lock_wait_p95_ms'') (\<lambda>db_lock.
     bindE (num_of observed ''redis_phase_p95_ms'') (\<lambda>redis.
     bindE (num_of observed ''outbound_http_p95_ms'') (\<lambda>outbound.
     bindE (num_of observed ''blackbox_probe_p95_ms'') (\<lambda>blackbox.
     bindE (num_of observed ''error_rate'') (\<lambda>error_rate.
     Inr \<lparr>sg_k6_p95 = k6_p95, sg_k6_p99 = k6_p99, sg_base_p95 = base_p95, sg_base_p99 = base_p99, sg_handler = handler,
       sg_base_handler = base_handler, sg_nginx_request = nginx_request, sg_nginx_upstream = nginx_upstream,
       sg_postgres = postgres, sg_db_pool = db_pool, sg_db_lock = db_lock, sg_redis = redis, sg_outbound = outbound,
       sg_blackbox = blackbox, sg_error_rate = error_rate\<rparr>)))))))))))))))"

text \<open>\<open>x * 2\<close>, and \<open>value >= handler * share\<close> for a value that is there and not zero.\<close>

definition twice :: "py_float \<Rightarrow> py_float" where
  "twice x = flt_mul x (Fin 2 0)"

definition dominant :: "py_float option \<Rightarrow> py_float \<Rightarrow> string \<Rightarrow> bool" where
  "dominant v handler share = (case v of
       None \<Rightarrow> False
     | Some x \<Rightarrow> flt_truthy v \<and> flt_le (flt_mul handler (float_of_text share)) x)"

definition is_normal_k6 :: "py_float \<Rightarrow> py_float \<Rightarrow> py_float \<Rightarrow> py_float \<Rightarrow> bool" where
  "is_normal_k6 k6_p95 k6_p99 base_p95 base_p99 \<longleftrightarrow>
     flt_less k6_p95 (twice base_p95) \<and> flt_less k6_p99 (twice base_p99) \<and> flt_le k6_p95 (Fin 300 0)"

definition insufficient :: "string \<Rightarrow> string \<Rightarrow> attribution" where
  "insufficient evidence_line next_check =
     verdict ''insufficient_evidence'' ''LOW'' ''unknown'' [] [evidence_line] [next_check]"

text \<open>The answers, one for each rule.\<close>

definition edge_latency :: attribution where
  "edge_latency = verdict ''edge_or_client_network_latency'' ''MEDIUM'' ''edge_or_client_network'' [''nginx_edge'', ''partner_network'']
     [''Nginx request time is high while upstream and FastAPI handler remain near baseline'',
      ''k6 latency is a symptom and does not prove an internal dependency bottleneck'']
     [''compare Nginx access timing with partner-side timestamps'']"

definition endpoint_slow :: attribution where
  "endpoint_slow = verdict ''external_endpoint_slow'' ''HIGH'' ''external_endpoint'' [''outbound_http_client'']
     [''blackbox probe and app outbound HTTP phase are both high'']
     [''confirm provider status and compare blackbox probe history'']"

definition client_path :: attribution where
  "client_path = verdict ''app_http_client_path_issue'' ''MEDIUM'' ''app_http_client_path'' [''dns_tls_pool'']
     [''app outbound HTTP is high while blackbox probe is normal'']
     [''inspect HTTP client pool, DNS, TLS, timeout, and retry settings'']"

definition pool_pressure :: attribution where
  "pool_pressure = verdict ''internal_postgres_pool_pressure'' ''MEDIUM'' ''postgres_pool_wait'' [''postgres'']
     [''DB pool wait is a large share of FastAPI handler time'']
     [''check DB connection usage and pool timeout logs'']"

definition lock_contention :: attribution where
  "lock_contention = verdict ''internal_postgres_lock_contention'' ''MEDIUM'' ''postgres_lock_wait'' [''postgres'']
     [''DB lock wait is a large share of FastAPI handler time'']
     [''inspect lock holder queries and transaction duration'']"

definition postgres_latency :: attribution where
  "postgres_latency = verdict ''internal_postgres_latency'' ''HIGH'' ''postgres'' [''db_query_or_transaction'']
     [''FastAPI handler p95 increased'', ''PostgreSQL phase is at least 60% of handler time'',
      ''Redis and outbound phases are not dominant'']
     [''check DB pool, lock wait, slow query, and consistency SQL evidence'']"

definition redis_unavailable :: attribution where
  "redis_unavailable = verdict ''redis_unavailable_fallback'' ''MEDIUM'' ''redis_unavailable'' [''db_fallback'']
     [''Redis is unavailable and fallback path is active'']
     [''confirm PostgreSQL consistency and Redis recovery status'']"

definition redis_degraded :: attribution where
  "redis_degraded = verdict ''redis_degraded_latency'' ''MEDIUM'' ''redis'' [''redis_timeout_or_fallback'']
     [''Redis phase is at least 40% of handler time while PostgreSQL is not dominant'']
     [''check Redis latency, timeout, and fallback metrics'']"

definition dependency_latency :: attribution where
  "dependency_latency = verdict ''external_dependency_latency'' ''MEDIUM'' ''outbound_dependency'' [''external_partner'']
     [''outbound HTTP phase is at least 70% of handler time'']
     [''compare app outbound metric with blackbox probe and provider status'']"

definition partner_specific :: attribution where
  "partner_specific = verdict ''partner_specific_latency'' ''LOW'' ''partner_specific'' [''partner_network_or_payload'']
     [''latency is associated with a bounded partner_alias evidence field'', ''candidate scope only, not final root cause'']
     [''compare with other partner_alias groups without using raw identifiers'']"

definition route_specific :: attribution where
  "route_specific = verdict ''route_specific_latency_candidate'' ''LOW'' ''route_group'' [''route_specific'']
     [''latency is tied to route_group but phase evidence is not yet dominant'', ''candidate scope only, not final root cause'']
     [''collect per-phase timing for the route_group'']"

definition application_latency :: attribution where
  "application_latency = verdict ''internal_application_latency'' ''LOW'' ''fastapi_handler'' [''application_logic'']
     [''FastAPI handler increased but no dependency phase is dominant'']
     [''collect finer phase timing and route-specific logs'']"

definition normal_latency :: attribution where
  "normal_latency = verdict ''baseline_normal_latency'' ''HIGH'' ''none'' []
     [''k6 p95/p99 are below 2x baseline and below initial absolute threshold'',
      ''error rate is low'', ''consistency counters are clean'']
     [''continue baseline collection and watch for route-specific changes'']"

definition contradictory :: attribution where
  "contradictory = insufficient ''available evidence is contradictory or not specific enough''
     ''collect Nginx, FastAPI phase, Redis, PostgreSQL, outbound, blackbox, and consistency evidence''"

definition missing_handler :: attribution where
  "missing_handler = insufficient ''missing FastAPI handler baseline or observed evidence''
     ''collect server handler p95 and phase timing evidence''"

definition missing_k6 :: attribution where
  "missing_k6 = insufficient ''missing k6 or baseline percentile evidence'' ''collect k6 p95/p99 and baseline p95/p99''"

definition not_objects :: attribution where
  "not_objects = insufficient ''baseline and observed evidence must be objects'' ''regenerate structured latency evidence''"

definition missing_fields_answer :: "string list \<Rightarrow> attribution" where
  "missing_fields_answer missing = insufficient (''missing evidence fields: '' @ join '', '' missing)
     ''collect baseline, observed phase, and consistency evidence''"

text \<open>The rules about the path to the service and to outside endpoints.\<close>

definition endpoint_rules :: "signals \<Rightarrow> py_float \<Rightarrow> py_float \<Rightarrow> py_float \<Rightarrow> attribution option" where
  "endpoint_rules s base_p95 handler base_handler = (let
     limit = flt_max (twice base_handler) (Fin 250 0);
     upstream_normal = (case sg_nginx_upstream s of None \<Rightarrow> False | Some x \<Rightarrow> flt_le x limit);
     handler_normal = flt_le handler limit
   in
     if (case sg_nginx_request s of None \<Rightarrow> False | Some x \<Rightarrow> flt_less (flt_max (twice base_p95) (Fin 500 0)) x) \<and>
        upstream_normal \<and> handler_normal
     then Some edge_latency
     else if flt_truthy (sg_blackbox s) \<and>
        (case sg_blackbox s of None \<Rightarrow> False | Some x \<Rightarrow> flt_less (flt_max (twice base_p95) (Fin 500 0)) x) \<and>
        dominant (sg_outbound s) handler ''0.5''
     then Some endpoint_slow
     else if dominant (sg_outbound s) handler ''0.7'' \<and> flt_truthy (sg_blackbox s) \<and>
        (case sg_blackbox s of None \<Rightarrow> False | Some x \<Rightarrow> flt_le x (flt_max base_p95 (Fin 250 0)))
     then Some client_path
     else None)"

text \<open>The rules about one dependency's share of the handler time.\<close>

definition dependency_rules :: "(string \<times> json) list \<Rightarrow> signals \<Rightarrow> py_float \<Rightarrow> bool \<Rightarrow> attribution option" where
  "dependency_rules observed s handler handler_high =
    (if handler_high \<and> dominant (sg_db_pool s) handler ''0.35''
     then Some pool_pressure
     else if handler_high \<and> dominant (sg_db_lock s) handler ''0.35''
     then Some lock_contention
     else if handler_high \<and> dominant (sg_postgres s) handler ''0.6''
     then Some postgres_latency
     else if json_get ''redis_unavailable'' observed = Some (JBool True)
     then Some redis_unavailable
     else if handler_high \<and> dominant (sg_redis s) handler ''0.4'' \<and> \<not> dominant (sg_postgres s) handler ''0.6''
     then Some redis_degraded
     else if handler_high \<and> dominant (sg_outbound s) handler ''0.7''
     then Some dependency_latency
     else None)"

text \<open>The candidates that only narrow the scope, and the last resort.\<close>

definition scope_rules :: "(string \<times> json) list \<Rightarrow> py_float \<Rightarrow> py_float \<Rightarrow> bool \<Rightarrow> attribution" where
  "scope_rules evidence k6_p95 base_p95 handler_high =
    (if json_truthy (obj_get ''partner_alias'' JNull evidence) \<and> flt_less (twice base_p95) k6_p95
     then partner_specific
     else if json_truthy (obj_get ''route_group'' JNull evidence) \<and> flt_less (twice base_p95) k6_p95 \<and> \<not> handler_high
     then route_specific
     else if handler_high
     then application_latency
     else contradictory)"

text \<open>After the percentiles of the load test are known. \<open>error_rate <= 0.01\<close> is asked of whatever was read.\<close>

definition attribute_latency :: "(string \<times> json) list \<Rightarrow> (string \<times> json) list \<Rightarrow> signals \<Rightarrow> py_float \<Rightarrow> py_float \<Rightarrow> py_float \<Rightarrow>
    py_float \<Rightarrow> exn + attribution" where
  "attribute_latency evidence observed s k6_p95 k6_p99 base_p95 base_p99 = (let
     consistency_status = consistency_status_from (obj_get ''consistency'' JNull evidence);
     normal_k6 = is_normal_k6 k6_p95 k6_p99 base_p95 base_p99
   in
     if normal_k6 \<and> sg_error_rate s = None then Inl (TypeError ''<= not supported between NoneType and float'')
     else if normal_k6 \<and> flt_le (the (sg_error_rate s)) (float_of_text ''0.01'') \<and> consistency_status = ''CLEAN''
     then Inr normal_latency
     else (case (sg_handler s, sg_base_handler s) of
         (Some handler, Some base_handler) \<Rightarrow> (let
           handler_high = (flt_less (twice base_handler) handler \<or> flt_less (Fin 300 0) handler)
         in case endpoint_rules s base_p95 handler base_handler of
             Some a \<Rightarrow> Inr a
           | None \<Rightarrow> (case dependency_rules observed s handler handler_high of
               Some a \<Rightarrow> Inr a
             | None \<Rightarrow> Inr (scope_rules evidence k6_p95 base_p95 handler_high)))
       | _ \<Rightarrow> Inr missing_handler))"

definition attribute_evidence :: "(string \<times> json) list \<Rightarrow> exn + attribution" where
  "attribute_evidence evidence = (let missing = sorted_minus REQUIRED_EVIDENCE_FIELDS (map fst evidence) in
     if missing \<noteq> [] then Inr (missing_fields_answer missing)
     else (case (obj_get ''baseline'' (JObj []) evidence, obj_get ''observed'' (JObj []) evidence) of
         (JObj baseline, JObj observed) \<Rightarrow> bindE (read_signals observed baseline) (\<lambda>s.
           case (sg_k6_p95 s, sg_k6_p99 s, sg_base_p95 s, sg_base_p99 s) of
             (Some k6_p95, Some k6_p99, Some base_p95, Some base_p99) \<Rightarrow>
               attribute_latency evidence observed s k6_p95 k6_p99 base_p95 base_p99
           | _ \<Rightarrow> Inr missing_k6)
       | _ \<Rightarrow> Inr not_objects))"

definition analyze_evidence :: "json \<Rightarrow> exn + (string \<times> json) list" where
  "analyze_evidence j = (case j of
       JObj evidence \<Rightarrow> bindE (attribute_evidence evidence) (\<lambda>a. Inr (latency_report evidence a))
     | _ \<Rightarrow> Inl (not_an_object j))"

subsection \<open>Validation\<close>

text \<open>\<open>x in {...}\<close> for a set of texts.\<close>

definition member_of :: "json \<Rightarrow> string list \<Rightarrow> bool" where
  "member_of j xs = (case j of JStr s \<Rightarrow> s \<in> set xs | _ \<Rightarrow> False)"

text \<open>The items a \<open>for\<close> loop over a value sees.\<close>

definition iterated :: "json \<Rightarrow> exn + json list" where
  "iterated j = (case j of
       JList xs \<Rightarrow> Inr xs
     | JStr s \<Rightarrow> Inr (map (\<lambda>c. JStr [c]) s)
     | JObj kvs \<Rightarrow> Inr (map (\<lambda>(k, _). JStr k) kvs)
     | _ \<Rightarrow> Inl (TypeError ''object is not iterable''))"

definition K6_CLAIM_CLASSIFICATIONS :: "string list" where
  "K6_CLAIM_CLASSIFICATIONS = [''internal_postgres_latency'', ''redis_degraded_latency'', ''external_dependency_latency'',
     ''external_endpoint_slow'', ''app_http_client_path_issue'']"

definition validate_k6_only_claim :: "(string \<times> json) list \<Rightarrow> exn + string list" where
  "validate_k6_only_claim payload =
    (if member_of (obj_get ''classification'' JNull payload) K6_CLAIM_CLASSIFICATIONS
     then bindE (iterated (obj_get ''evidence'' (JList []) payload)) (\<lambda>items. let
         evidence_text = join '' '' (map (\<lambda>item. lower (py_str item)) items);
         has_supporting_signal = list_ex (\<lambda>term. occurs_in term evidence_text)
           [''nginx'', ''fastapi'', ''postgres'', ''redis'', ''outbound'', ''blackbox'']
       in Inr (if occurs_in ''k6'' evidence_text \<and> \<not> has_supporting_signal
         then [''k6-only evidence cannot assert DB/Redis/external root cause''] else []))
     else Inr [])"

definition validate_consistency_boundary :: "(string \<times> json) list \<Rightarrow> string list" where
  "validate_consistency_boundary payload = (let
     consistency = (case obj_get ''input_summary'' (JObj []) payload of
         JObj summary \<Rightarrow> obj_get ''consistency'' JNull summary | _ \<Rightarrow> JNull);
     reported_clean = (json_get ''consistency_status'' payload = Some (JStr ''CLEAN''));
     evidence_text = lower (dumps_default False (obj_get ''evidence'' (JList []) payload))
   in (if consistency_status_from consistency = ''VIOLATION_DETECTED'' \<and> reported_clean
       then [''consistency violation cannot be reported as CLEAN''] else []) @
      (if occurs_in ''duplicate ledger'' evidence_text \<and> reported_clean
       then [''consistency violation evidence cannot be reported as CLEAN''] else []))"

text \<open>\<open>_matching_forbidden_key\<close>, as whether there is one: which one it is does not matter to its caller.\<close>

definition matching_forbidden_key :: "string \<Rightarrow> bool" where
  "matching_forbidden_key key \<longleftrightarrow> list_ex (\<lambda>forbidden. key = forbidden \<or> occurs_in forbidden key) PH10_FORBIDDEN_KEYS"

definition skipped_path :: "string \<Rightarrow> bool" where
  "skipped_path path \<longleftrightarrow> starts_with ''$.sensitive_data_policy'' path \<or> starts_with ''$.non_scope'' path"

fun sensitive_content :: "json \<Rightarrow> string \<Rightarrow> string list"
  and sensitive_fields :: "(string \<times> json) list \<Rightarrow> string \<Rightarrow> string list"
  and sensitive_items :: "json list \<Rightarrow> nat \<Rightarrow> string \<Rightarrow> string list" where
  "sensitive_content j path = (if skipped_path path then [] else case j of
       JObj kvs \<Rightarrow> sensitive_fields kvs path
     | JList xs \<Rightarrow> sensitive_items xs 0 path
     | JStr s \<Rightarrow> map (\<lambda>(pattern, _). ''sensitive text pattern found at '' @ path @ '': '' @ pattern)
         (filter (\<lambda>(_, r). rx_search r s) PH10_SENSITIVE_TEXT_PATTERNS)
     | _ \<Rightarrow> [])"
| "sensitive_fields [] path = []"
| "sensitive_fields ((k, v) # kvs) path =
     (if matching_forbidden_key (lower k) then [''sensitive key found at '' @ path @ ''.'' @ k] else []) @
     sensitive_content v (path @ ''.'' @ k) @ sensitive_fields kvs path"
| "sensitive_items [] i path = []"
| "sensitive_items (x # xs) i path = sensitive_content x (path @ ''['' @ nat_str i @ '']'') @ sensitive_items xs (Suc i) path"

declare sensitive_content.simps [simp del]

definition extract_label_names :: "json \<Rightarrow> string list" where
  "extract_label_names j = (case j of
       JObj kvs \<Rightarrow> map (\<lambda>(k, _). lower k) kvs
     | JList xs \<Rightarrow> map (\<lambda>x. lower (py_str x)) xs
     | JStr s \<Rightarrow> [lower s]
     | _ \<Rightarrow> [])"

definition label_errors :: "string \<Rightarrow> json \<Rightarrow> string \<Rightarrow> string list" where
  "label_errors k v path = (if lower k \<in> {''metric_labels'', ''labels'', ''label_candidates'', ''prometheus_labels''}
     then (let forbidden = sorted_set (filter (\<lambda>l. l \<in> set FORBIDDEN_METRIC_LABELS) (extract_label_names v)) in
       if forbidden \<noteq> [] then [''forbidden metric label at '' @ path @ ''.'' @ k @ '': '' @ join '', '' forbidden] else [])
     else [])"

fun validate_metric_labels :: "json \<Rightarrow> string \<Rightarrow> string list"
  and label_fields :: "(string \<times> json) list \<Rightarrow> string \<Rightarrow> string list"
  and label_items :: "json list \<Rightarrow> nat \<Rightarrow> string \<Rightarrow> string list" where
  "validate_metric_labels (JObj kvs) path = label_fields kvs path"
| "validate_metric_labels (JList xs) path = label_items xs 0 path"
| "validate_metric_labels _ path = []"
| "label_fields [] path = []"
| "label_fields ((k, v) # kvs) path =
     label_errors k v path @ validate_metric_labels v (path @ ''.'' @ k) @ label_fields kvs path"
| "label_items [] i path = []"
| "label_items (x # xs) i path = validate_metric_labels x (path @ ''['' @ nat_str i @ '']'') @ label_items xs (Suc i) path"

definition forbidden_claims :: "string list \<Rightarrow> (string \<times> json) list \<Rightarrow> string list" where
  "forbidden_claims claims payload = (let rendered = lower (dumps_default True (JObj payload)) in
     map (\<lambda>claim. ''forbidden claim found: '' @ claim) (filter (\<lambda>claim. occurs_in (lower claim) rendered) claims))"

definition field_errors :: "(string \<times> json) list \<Rightarrow> string list" where
  "field_errors payload = (let
     missing_fields = sorted_minus REQUIRED_REPORT_FIELDS (map fst payload);
     extra_fields = sorted_minus (map fst payload) REQUIRED_REPORT_FIELDS
   in (if missing_fields \<noteq> [] then [''missing top-level fields: '' @ join '', '' missing_fields] else []) @
      (if extra_fields \<noteq> [] then [''unexpected top-level fields: '' @ join '', '' extra_fields] else []))"

definition verdict_errors :: "(string \<times> json) list \<Rightarrow> string list" where
  "verdict_errors payload = (let classification = obj_get ''classification'' JNull payload in
     (if \<not> member_of classification CLASSIFICATIONS
      then [''classification must be one of: '' @ join '', '' (sorted_set CLASSIFICATIONS)] else []) @
     (if \<not> member_of (obj_get ''confidence'' JNull payload) CONFIDENCE_LEVELS
      then [''confidence must be LOW, MEDIUM, or HIGH''] else []) @
     (if \<not> member_of (obj_get ''consistency_status'' JNull payload) CONSISTENCY_STATUSES
      then [''consistency_status must be CLEAN, VIOLATION_DETECTED, or UNKNOWN''] else []) @
     (if classification \<noteq> JStr ''insufficient_evidence'' \<and> \<not> json_truthy (obj_get ''evidence'' JNull payload)
      then [''non-insufficient classification must include evidence''] else []) @
     (if classification \<noteq> JStr ''insufficient_evidence'' \<and> \<not> json_truthy (obj_get ''recommended_next_checks'' JNull payload)
      then [''non-insufficient classification must include recommended_next_checks''] else []))"

definition validate_latency_report :: "(string \<times> json) list \<Rightarrow> exn + string list" where
  "validate_latency_report payload =
    (if list_all hashable [obj_get ''classification'' JNull payload, obj_get ''confidence'' JNull payload,
        obj_get ''consistency_status'' JNull payload]
     then bindE (validate_k6_only_claim payload) (\<lambda>k6_errors. Inr (sorted_set (
       field_errors payload @ verdict_errors payload @ k6_errors @ validate_consistency_boundary payload @
       sensitive_content (JObj payload) ''$'' @ validate_metric_labels (JObj payload) ''$'' @
       forbidden_claims PH10_FORBIDDEN_CLAIMS payload)))
     else Inl unhashable)"

subsection \<open>The command\<close>

definition render_latency_report :: "(string \<times> json) list \<Rightarrow> string" where
  "render_latency_report report = join [CHR 0x0A] (
     [''# PH10 Latency Attribution Report'', [],
      quoted_line ''Run ID'' ''run_id'' report, quoted_line ''Generated at'' ''generated_at'' report,
      quoted_line ''Scenario'' ''scenario'' report, quoted_line ''Classification'' ''classification'' report,
      quoted_line ''Confidence'' ''confidence'' report, quoted_line ''Primary suspect'' ''primary_suspect'' report,
      quoted_line ''Consistency status'' ''consistency_status'' report, [],
      ''## Interpretation Boundary'', [],
      ''- k6 p95/p99 are symptom evidence, not standalone root-cause proof.'',
      ''- Attribution compares Nginx timing, FastAPI phase timing, Redis/PostgreSQL, outbound HTTP, blackbox probe, and consistency evidence.'',
      ''- PH10 implements an analyzer/report, not PH11 latency drill execution.'',
      ''- Consistency violations remain separate SEV1 candidates and are not downgraded to latency warnings.'', [],
      ''## Evidence'', []] @
     report_items ''evidence'' report @ [[], ''## Recommended Next Checks'', []] @
     report_items ''recommended_next_checks'' report @ [[], ''## Manual Confirmation Required'', []] @
     report_items ''manual_confirmation_required'' report @ [[], ''## Follow-up Candidates'', []] @
     report_items ''follow_up_candidates'' report) @ [CHR 0x0A]"

definition rule_meanings :: "(string \<times> string) list" where
  "rule_meanings = [
    (''baseline_normal_latency'', ''k6 and server timings are near baseline and consistency is clean''),
    (''internal_postgres_latency'', ''PostgreSQL phase dominates FastAPI handler time''),
    (''internal_postgres_pool_pressure'', ''DB pool wait is a material share of handler time''),
    (''internal_postgres_lock_contention'', ''DB lock wait is a material share of handler time''),
    (''redis_degraded_latency'', ''Redis phase dominates without PostgreSQL dominance''),
    (''redis_unavailable_fallback'', ''Redis unavailable and fallback path is active''),
    (''external_dependency_latency'', ''app outbound HTTP dominates handler time''),
    (''external_endpoint_slow'', ''blackbox probe and app outbound are both high''),
    (''app_http_client_path_issue'', ''blackbox probe is normal but app outbound is high''),
    (''edge_or_client_network_latency'', ''Nginx request is high while upstream/app are normal''),
    (''partner_specific_latency'', ''bounded partner_alias evidence narrows candidate scope''),
    (''internal_application_latency'', ''handler is high without a dominant dependency phase''),
    (''route_specific_latency_candidate'', ''bounded route_group candidate without enough phase evidence''),
    (''insufficient_evidence'', ''evidence is missing or contradictory'')]"

definition rule_meaning :: "string \<Rightarrow> exn + string" where
  "rule_meaning classification = (case map_of rule_meanings classification of
       None \<Rightarrow> Inl (KeyError classification) | Some m \<Rightarrow> Inr m)"

definition list_rules :: "exn + json list" where
  "list_rules = mapE (\<lambda>name. bindE (rule_meaning name) (\<lambda>m.
     Inr (JObj [(''classification'', JStr name), (''meaning'', JStr m)]))) (sorted_set CLASSIFICATIONS)"

definition sample_latency_evidence :: "(string \<times> json) list" where
  "sample_latency_evidence = [
     (''run_id'', JStr ''ph10-sample-latency-attribution''), (''generated_at'', JStr FIXED_GENERATED_AT),
     (''scenario'', JStr ''db_phase_dominant''), (''route_group'', JStr ''financial_event_write''), (''method'', JStr ''POST''),
     (''status_code_family'', JStr ''2xx''),
     (''baseline'', JObj [(''k6_p95_ms'', JInt 180), (''k6_p99_ms'', JInt 420), (''server_handler_p95_ms'', JInt 120),
       (''server_handler_p99_ms'', JInt 300)]),
     (''observed'', JObj [(''k6_p95_ms'', JInt 620), (''k6_p99_ms'', JInt 1800), (''nginx_request_p95_ms'', JInt 600),
       (''nginx_upstream_p95_ms'', JInt 570), (''fastapi_handler_p95_ms'', JInt 540), (''hmac_phase_p95_ms'', JInt 5),
       (''idempotency_phase_p95_ms'', JInt 20), (''redis_phase_p95_ms'', JInt 30), (''postgres_phase_p95_ms'', JInt 390),
       (''business_logic_p95_ms'', JInt 50), (''outbound_http_p95_ms'', JInt 0), (''blackbox_probe_p95_ms'', JInt 0),
       (''error_rate'', JFloat ''0.01'')]),
     (''consistency'', JObj [(''duplicate_ledger_count'', JInt 0), (''duplicate_external_event_count'', JInt 0),
       (''reconciliation_failure_count'', JInt 0), (''invalid_state_transition_count'', JInt 0)])]"

definition written_latency :: "string \<Rightarrow> json \<Rightarrow> (string \<times> json) list \<Rightarrow> written" where
  "written_latency output_dir evidence report = [
     (path_join output_dir ''sample-input-evidence.json'', unicode_file evidence),
     (path_join output_dir ''sample-latency-attribution-report.json'', unicode_file (JObj report)),
     (path_join output_dir ''sample-latency-attribution-report.md'', text_file (render_latency_report report))]"

datatype latency_command =
    Latency_demo string
  | Latency_analyze string artifact_file string
  | Latency_validate string artifact_file
  | Latency_list_rules

definition validate_latency_document :: "json \<Rightarrow> exn + string list" where
  "validate_latency_document j = (case j of JObj payload \<Rightarrow> validate_latency_report payload | _ \<Rightarrow> Inl (not_an_object j))"

definition latency_handle :: "latency_command \<Rightarrow> exn + (outcome \<times> written)" where
  "latency_handle cmd = (case cmd of
       Latency_demo output_dir \<Rightarrow>
         bindE (analyze_evidence (JObj sample_latency_evidence)) (\<lambda>report.
         bindE (validate_latency_report report) (\<lambda>errors.
         if errors \<noteq> [] then Inl (ValueError (dumps_default False (strings errors)))
         else Inr (document_outcome 0 (JObj [
             (''input'', JStr (path_join output_dir ''sample-input-evidence.json'')),
             (''output'', JStr (path_join output_dir ''sample-latency-attribution-report.json'')),
             (''report'', JStr (path_join output_dir ''sample-latency-attribution-report.md'')),
             (''classification'', obj_get ''classification'' JNull report), (''validation_errors'', strings [])]),
           written_latency output_dir (JObj sample_latency_evidence) report)))
     | Latency_analyze path f output_dir \<Rightarrow>
         bindE (parsed f) (\<lambda>evidence.
         bindE (analyze_evidence evidence) (\<lambda>report.
         Inr (document_outcome 0 (JObj [(''input'', JStr path),
             (''output'', JStr (path_join output_dir ''sample-latency-attribution-report.json'')),
             (''classification'', obj_get ''classification'' JNull report)]),
           written_latency output_dir evidence report)))
     | Latency_validate path f \<Rightarrow>
         bindE (parsed f) (\<lambda>j. bindE (validate_latency_document j) (\<lambda>errors.
         Inr (if errors \<noteq> []
           then system_exit (pretty_unicode (JObj [(''input'', JStr path), (''validation_errors'', strings errors)]))
           else document_outcome 0 (JObj [(''input'', JStr path), (''validation_errors'', strings [])]), [])))
     | Latency_list_rules \<Rightarrow> bindE list_rules (\<lambda>rules. Inr (document_outcome 0 (JObj [(''rules'', JList rules)]), [])))"

definition latency_main :: "latency_command \<Rightarrow> exn + (outcome \<times> written)" where
  "latency_main cmd = drill_main ''PH10 latency attribution'' (latency_handle cmd)"

end
