(* ===== verification/Latency_Answers.thy ===== *)
theory Latency_Answers
  imports Latency_Attribution
begin

text \<open>
  The answers of latency attribution (\<open>Latency_Attribution\<close>) as a finite list: which measurement each rests on, and that none
  of their texts, nor any fixed text of a report, is one the validator objects to.
\<close>

subsection \<open>What a classification rests on\<close>

text \<open>The classifications that name a dependency, the phase each rests on and its least share of the handler time.\<close>

definition DEPENDENCY_SHARES :: "(string \<times> string \<times> string) list" where
  "DEPENDENCY_SHARES = [
    (''internal_postgres_pool_pressure'', ''db_pool_wait_p95_ms'', ''0.35''),
    (''internal_postgres_lock_contention'', ''db_lock_wait_p95_ms'', ''0.35''),
    (''internal_postgres_latency'', ''postgres_phase_p95_ms'', ''0.6''),
    (''redis_degraded_latency'', ''redis_phase_p95_ms'', ''0.4''),
    (''external_dependency_latency'', ''outbound_http_p95_ms'', ''0.7''),
    (''external_endpoint_slow'', ''outbound_http_p95_ms'', ''0.5''),
    (''app_http_client_path_issue'', ''outbound_http_p95_ms'', ''0.7'')]"

text \<open>The phase was measured, and is at least that share of a measured handler time.\<close>

definition share_measured :: "(string \<times> json) list \<Rightarrow> string \<Rightarrow> string \<Rightarrow> bool" where
  "share_measured observed key share = (case (num_of observed key, num_of observed ''fastapi_handler_p95_ms'') of
       (Inr (Some x), Inr (Some h)) \<Rightarrow> flt_le (flt_mul h (float_of_text share)) x
     | _ \<Rightarrow> False)"

lemma read_signals_fields:
  assumes "read_signals observed baseline = Inr s"
  shows "num_of observed ''fastapi_handler_p95_ms'' = Inr (sg_handler s)" "num_of observed ''db_pool_wait_p95_ms'' = Inr (sg_db_pool s)"
    "num_of observed ''db_lock_wait_p95_ms'' = Inr (sg_db_lock s)" "num_of observed ''postgres_phase_p95_ms'' = Inr (sg_postgres s)"
    "num_of observed ''redis_phase_p95_ms'' = Inr (sg_redis s)" "num_of observed ''outbound_http_p95_ms'' = Inr (sg_outbound s)"
  using assms by (auto simp: read_signals_def bindE_def split: sum.splits)

lemma dominant_measured:
  "dominant v h share \<Longrightarrow> num_of observed key = Inr v \<Longrightarrow> num_of observed ''fastapi_handler_p95_ms'' = Inr (Some h) \<Longrightarrow>
    share_measured observed key share"
  by (auto simp: dominant_def share_measured_def split: option.splits)

lemmas answer_defs = edge_latency_def endpoint_slow_def client_path_def pool_pressure_def lock_contention_def
  postgres_latency_def redis_unavailable_def redis_degraded_def dependency_latency_def partner_specific_def
  route_specific_def application_latency_def normal_latency_def contradictory_def missing_handler_def missing_k6_def
  not_objects_def missing_fields_answer_def insufficient_def

lemma endpoint_rules_share:
  assumes "endpoint_rules s base_p95 h base_handler = Some a" "read_signals observed baseline = Inr s" "sg_handler s = Some h"
    "(at_classification a, key, share) \<in> set DEPENDENCY_SHARES"
  shows "share_measured observed key share"
  using assms read_signals_fields [OF assms(2)]
  by (auto simp: endpoint_rules_def DEPENDENCY_SHARES_def Let_def answer_defs split: if_splits intro: dominant_measured)

lemma dependency_rules_share:
  assumes "dependency_rules observed s h high = Some a" "read_signals observed baseline = Inr s" "sg_handler s = Some h"
    "(at_classification a, key, share) \<in> set DEPENDENCY_SHARES"
  shows "share_measured observed key share"
  using assms read_signals_fields [OF assms(2)]
  by (auto simp: dependency_rules_def DEPENDENCY_SHARES_def answer_defs split: if_splits intro: dominant_measured)

lemma scope_rules_share: "(at_classification (scope_rules ev k6 base high), key, share) \<notin> set DEPENDENCY_SHARES"
  by (simp add: scope_rules_def DEPENDENCY_SHARES_def answer_defs)

lemma attribute_latency_cases:
  assumes "attribute_latency ev observed s k6_p95 k6_p99 base_p95 base_p99 = Inr a"
  obtains (normal) "a = normal_latency" "consistency_status_from (obj_get ''consistency'' JNull ev) = ''CLEAN''"
    | (missing) "a = missing_handler"
    | (endpoint) h b where "sg_handler s = Some h" "endpoint_rules s base_p95 h b = Some a"
    | (dependency) h high where "sg_handler s = Some h" "dependency_rules observed s h high = Some a"
    | (scope) high where "a = scope_rules ev k6_p95 base_p95 high"
  using assms
  by (auto simp: attribute_latency_def Let_def split: if_splits option.splits)

lemma attribution_share:
  assumes "attribute_latency ev observed s k6_p95 k6_p99 base_p95 base_p99 = Inr a" "read_signals observed baseline = Inr s"
    "(at_classification a, key, share) \<in> set DEPENDENCY_SHARES"
  shows "share_measured observed key share"
  using assms(1)
proof (cases rule: attribute_latency_cases)
  case (endpoint h b)
  then show ?thesis using endpoint_rules_share assms(2,3) by blast
next
  case (dependency h high)
  then show ?thesis using dependency_rules_share assms(2,3) by blast
next
  case (scope high)
  then show ?thesis using scope_rules_share assms(3) by simp
qed (use assms(3) in \<open>simp_all add: DEPENDENCY_SHARES_def answer_defs\<close>)

text \<open>The answers there are.\<close>

definition FIXED_ANSWERS :: "attribution list" where
  "FIXED_ANSWERS = [edge_latency, endpoint_slow, client_path, pool_pressure, lock_contention, postgres_latency,
     redis_unavailable, redis_degraded, dependency_latency, partner_specific, route_specific, application_latency,
     normal_latency, contradictory, missing_handler, missing_k6, not_objects]"

definition ANSWERS :: "attribution list" where
  "ANSWERS = FIXED_ANSWERS @ map missing_fields_answer (subseqs (sorted_set REQUIRED_EVIDENCE_FIELDS))"

lemma attribute_latency_answers:
  assumes "attribute_latency ev observed s k6_p95 k6_p99 base_p95 base_p99 = Inr a"
  shows "a \<in> set FIXED_ANSWERS"
proof -
  have "a \<in> set FIXED_ANSWERS" if "endpoint_rules s base_p95 h b = Some a" for h b
    using that by (auto simp: endpoint_rules_def Let_def FIXED_ANSWERS_def split: if_splits)
  moreover have "a \<in> set FIXED_ANSWERS" if "dependency_rules observed s h high = Some a" for h high
    using that by (auto simp: dependency_rules_def FIXED_ANSWERS_def split: if_splits)
  moreover have "scope_rules ev k6_p95 base_p95 high \<in> set FIXED_ANSWERS" for high
    by (simp add: scope_rules_def FIXED_ANSWERS_def)
  moreover have "normal_latency \<in> set FIXED_ANSWERS" "missing_handler \<in> set FIXED_ANSWERS" by (simp_all add: FIXED_ANSWERS_def)
  ultimately show ?thesis using attribute_latency_cases [OF assms] by metis
qed

lemma filter_in_subseqs: "filter P xs \<in> set (subseqs xs)"
  by (induction xs) (auto simp: Let_def)

lemma sorted_minus_subseq: "sorted_minus xs ys \<in> set (subseqs (sorted_set xs))"
  by (simp add: sorted_minus_def sorted_set_def remdups_filter filter_sort [symmetric] filter_in_subseqs)

lemma attribute_evidence_cases:
  assumes "attribute_evidence ev = Inr a"
  obtains (fields) "a = missing_fields_answer (sorted_minus REQUIRED_EVIDENCE_FIELDS (map fst ev))"
    | (other) "a = missing_k6 \<or> a = not_objects"
    | (latency) baseline observed s k6_p95 k6_p99 base_p95 base_p99 where
        "obj_get ''observed'' (JObj []) ev = JObj observed" "obj_get ''baseline'' (JObj []) ev = JObj baseline"
        "read_signals observed baseline = Inr s"
        "attribute_latency ev observed s k6_p95 k6_p99 base_p95 base_p99 = Inr a"
  using assms
  by (auto simp: attribute_evidence_def Let_def bindE_def split: if_splits json.splits sum.splits option.splits)

lemma attribute_evidence_answers: "attribute_evidence ev = Inr a \<Longrightarrow> a \<in> set ANSWERS"
proof (erule attribute_evidence_cases)
  assume "a = missing_fields_answer (sorted_minus REQUIRED_EVIDENCE_FIELDS (map fst ev))"
  then show ?thesis using sorted_minus_subseq by (simp add: ANSWERS_def)
qed (auto simp: ANSWERS_def FIXED_ANSWERS_def dest!: attribute_latency_answers)

lemma answers_listed:
  "list_all (\<lambda>a. at_classification a \<in> set CLASSIFICATIONS \<and> at_confidence a \<in> set CONFIDENCE_LEVELS \<and> at_evidence a \<noteq> [] \<and>
     at_checks a \<noteq> []) ANSWERS"
  by code_simp

subsection \<open>What the validator finds in a report\<close>

text \<open>A text without any of these words matches no sensitive pattern.\<close>

definition SENSITIVE_WORDS :: "string list" where
  "SENSITIVE_WORDS = [''auth'', ''account'', ''bearer'', ''basic'', ''signature'', ''secret'', ''idempotency'', ''token'', ''password'',
     ''raw_'', ''database'', ''://'']"

text \<open>All of them are looked for in one pass.\<close>

definition word_starts :: "char \<Rightarrow> string \<Rightarrow> bool" where
  "word_starts c s =
    (if c = CHR ''a'' then starts ''uth'' s \<or> starts ''ccount'' s else if c = CHR ''b'' then starts ''earer'' s \<or> starts ''asic'' s
     else if c = CHR ''s'' then starts ''ignature'' s \<or> starts ''ecret'' s else if c = CHR ''i'' then starts ''dempotency'' s
     else if c = CHR ''t'' then starts ''oken'' s else if c = CHR ''p'' then starts ''assword'' s
     else if c = CHR ''r'' then starts ''aw_'' s else if c = CHR ''d'' then starts ''atabase'' s
     else if c = CHR '':'' then starts ''//'' s else False)"

fun sensitive_word :: "string \<Rightarrow> bool" where
  "sensitive_word [] = False"
| "sensitive_word (c # s) = (if word_starts c s then True else sensitive_word s)"

definition plain_text :: "string \<Rightarrow> bool" where
  "plain_text s \<longleftrightarrow> \<not> sensitive_word (lower s)"

lemma starts_Cons: "starts (p # ps) (c # s) \<longleftrightarrow> c = p \<and> starts ps s"
  by auto

lemma word_starts_all: "list_all (\<lambda>w. starts w (c # s) \<longrightarrow> word_starts c s) SENSITIVE_WORDS"
  by (simp add: SENSITIVE_WORDS_def word_starts_def starts_Cons del: starts.simps)

lemma sensitive_word_if: "w \<in> set SENSITIVE_WORDS \<Longrightarrow> occurs_in w s \<Longrightarrow> sensitive_word s"
proof (induction s)
  case Nil
  then show ?case by (auto simp: occurs_in_iff SENSITIVE_WORDS_def)
next
  case (Cons c s)
  then show ?case using word_starts_all [of c s] by (auto simp: occurs_in_Cons starts_take [symmetric] list_all_iff simp del: starts.simps)
qed

text \<open>The word each pattern is about.\<close>

definition PATTERN_WORDS :: "string list" where
  "PATTERN_WORDS = [''Authorization'', ''Bearer'', ''Basic'', ''X-Signature'', ''Idempotency-Key'', ''account_no'', ''raw_account_no'',
     ''idempotency_key'', ''raw_idempotency_key'', ''authorization'', ''signature'', ''client_secret'', ''access_token'',
     ''refresh_token'', ''password'', ''secret'', ''raw_request_body'', ''database_url'', ''raw_url'', ''://'', ''postgresql://'']"

lemma needs_patterns [simp]:
  "needs w (assigned w)" "needs w (credential w)" "needs w (whole_word w)" "needs w (Seq (lit_i w) r)" "needs ''://'' http_url"
  by (simp_all add: assigned_def credential_def whole_word_def http_url_def needs_first needs_later needs_lit del: lit_i.simps)

lemma pattern_words:
  assumes "(t, r) \<in> set PH10_SENSITIVE_TEXT_PATTERNS"
  shows "\<exists>w \<in> set PATTERN_WORDS. needs w r"
  using assms
  by (auto simp: PH10_SENSITIVE_TEXT_PATTERNS_def assigned_pattern_def credential_pattern_def word_pattern_def
      PATTERN_WORDS_def simp del: lit_i.simps)

lemma words_sensitive: "list_all (\<lambda>w. list_ex (\<lambda>v. occurs_in v (lower w)) SENSITIVE_WORDS) PATTERN_WORDS"
  by code_simp

lemma plain_text_search:
  assumes "plain_text s" "(t, r) \<in> set PH10_SENSITIVE_TEXT_PATTERNS"
  shows "\<not> rx_search r s"
proof -
  obtain w where w: "w \<in> set PATTERN_WORDS" "needs w r" using pattern_words [OF assms(2)] by blast
  then obtain v where v: "v \<in> set SENSITIVE_WORDS" "occurs_in v (lower w)"
    using words_sensitive by (auto simp: list_all_iff list_ex_iff)
  then have "\<not> occurs_in v (lower s)" using assms(1) sensitive_word_if by (auto simp: plain_text_def)
  then show ?thesis using needs_absent [OF w(2)] occurs_trans [OF v(2)] by blast
qed

text \<open>A value without such texts, without a forbidden key and without metric labels.\<close>

definition plain_key :: "string \<Rightarrow> bool" where
  "plain_key k \<longleftrightarrow> \<not> matching_forbidden_key (lower k) \<and>
     lower k \<notin> {''metric_labels'', ''labels'', ''label_candidates'', ''prometheus_labels''}"

fun plain_value :: "json \<Rightarrow> bool" where
  "plain_value (JObj kvs) = list_all (\<lambda>(k, v). plain_key k \<and> plain_value v) kvs"
| "plain_value (JList xs) = list_all plain_value xs"
| "plain_value (JStr s) = plain_text s"
| "plain_value _ = True"

lemma sensitive_content_simps:
  "sensitive_content (JObj kvs) path = (if skipped_path path then [] else sensitive_fields kvs path)"
  "sensitive_content (JList xs) path = (if skipped_path path then [] else sensitive_items xs 0 path)"
  by (simp_all add: sensitive_content.simps)

lemma plain_value_clean:
  "plain_value j \<Longrightarrow> sensitive_content j path = [] \<and> validate_metric_labels j path = []"
  "list_all (\<lambda>(k, v). plain_key k \<and> plain_value v) kvs \<Longrightarrow> sensitive_fields kvs path = [] \<and> label_fields kvs path = []"
  "list_all plain_value xs \<Longrightarrow> sensitive_items xs i path = [] \<and> label_items xs i path = []"
proof (induction j and kvs and xs arbitrary: path and path and i path rule: json_cases_induct)
  case (1 j)
  then show ?case
    by (cases j) (auto simp: sensitive_content.simps is_container_def plain_text_search filter_empty_conv)
next
  case (5 k v kvs)
  then show ?case by (auto simp: plain_key_def label_errors_def)
qed (simp_all add: sensitive_content_simps)

text \<open>The fields a report copies from the evidence, with the value they get when the evidence has none, and their place in the report.\<close>

definition COPIED_FIELDS :: "(string \<times> string \<times> string) list" where
  "COPIED_FIELDS = [
    (''run_id'', ''ph10-latency-attribution'', ''$.run_id''), (''generated_at'', FIXED_GENERATED_AT, ''$.generated_at''),
    (''scenario'', ''unknown'', ''$.scenario''), (''route_group'', ''not_collected'', ''$.input_summary.route_group''),
    (''method'', ''not_collected'', ''$.input_summary.method''),
    (''status_code_family'', ''not_collected'', ''$.input_summary.status_code_family''),
    (''consistency'', ''not_collected'', ''$.input_summary.consistency'')]"

definition copied_errors :: "(string \<times> json) list \<Rightarrow> string list" where
  "copied_errors ev = concat (map (\<lambda>(k, d, path). let v = obj_get k (JStr d) ev in
     sensitive_content v path @ validate_metric_labels v path) COPIED_FIELDS)"

lemma report_keys_plain:
  "list_all plain_key ([''route_group'', ''method'', ''status_code_family'', ''consistency'', ''k6_is_symptom_only'',
     ''raw_identifiers_included''] @ REQUIRED_REPORT_FIELDS)"
  by code_simp

definition plain_answer :: "attribution \<Rightarrow> bool" where
  "plain_answer a \<longleftrightarrow> list_all plain_text (at_classification a # at_confidence a # at_primary a # at_secondary a @ at_evidence a @ at_checks a)"

lemma answers_plain: "list_all plain_answer ANSWERS"
  by code_simp

text \<open>The answers that name a dependency do not mention the load test, and none speaks of duplicate ledger entries.\<close>

definition k6_silent :: "attribution \<Rightarrow> bool" where
  "k6_silent a = (if at_classification a \<in> set K6_CLAIM_CLASSIFICATIONS
     then \<not> occurs_in ''k6'' (join '' '' (map lower (at_evidence a))) else True)"

lemma answers_k6_silent: "list_all k6_silent ANSWERS"
  by code_simp

definition ledger_silent :: "attribution \<Rightarrow> bool" where
  "ledger_silent a \<longleftrightarrow> \<not> occurs_in ''duplicate ledger'' (lower (dumps_default False (strings (at_evidence a))))"

lemma answers_ledger_silent: "list_all ledger_silent ANSWERS"
  by code_simp

end
