(* ===== verification/Latency_Properties.thy ===== *)
theory Latency_Properties
  imports Latency_Answers
begin

text \<open>
  What latency attribution promises: a dependency is named only when its own measured share of the handler time
  supports it, a consistency violation is reported whatever the latency looks like, normal latency is decided
  exactly on whole milliseconds, and a report passes the validator up to the fields copied from the evidence.
\<close>

subsection \<open>What the validator finds in a report\<close>

lemma sorted_set_cong: "set xs = set ys \<Longrightarrow> sorted_set xs = sorted_set ys"
  by (simp add: sorted_set_def flip: sorted_list_of_set_sort_remdups)

lemma strings_plain: "list_all plain_text xs \<Longrightarrow> plain_value (strings xs)"
  by (simp add: strings_def list.pred_map comp_def)

lemma keys_not_forbidden:
  "k \<in> set ([''route_group'', ''method'', ''status_code_family'', ''consistency'', ''k6_is_symptom_only'',
     ''raw_identifiers_included''] @ REQUIRED_REPORT_FIELDS) \<Longrightarrow> plain_key k"
  using report_keys_plain by (simp only: list_all_iff)

lemma plain_key_fields:
  assumes "plain_key k"
  shows "sensitive_fields ((k, v) # kvs) path = sensitive_content v (path @ ''.'' @ k) @ sensitive_fields kvs path"
    "label_fields ((k, v) # kvs) path = validate_metric_labels v (path @ ''.'' @ k) @ label_fields kvs path"
  using assms by (simp_all add: plain_key_def label_errors_def)

lemma fixed_texts_plain:
  "list_all plain_value (map snd (filter (\<lambda>(k, v). k \<in> {''phase'', ''manual_confirmation_required'', ''sensitive_data_policy'',
     ''non_scope'', ''follow_up_candidates'', ''validation_summary''}) (latency_report [] not_objects)))"
  by code_simp

lemma status_plain: "plain_value (JStr (consistency_status_from j))"
proof -
  have "list_all plain_text [''UNKNOWN'', ''CLEAN'', ''VIOLATION_DETECTED'']" by code_simp
  then show ?thesis by (simp add: consistency_status_from_def Let_def split: json.split)
qed

lemma report_split:
  assumes "a \<in> set ANSWERS"
  obtains rest where "latency_report ev a = [
      (''run_id'', obj_get ''run_id'' (JStr ''ph10-latency-attribution'') ev),
      (''generated_at'', obj_get ''generated_at'' (JStr FIXED_GENERATED_AT) ev),
      (''phase'', JStr ''PH10 Latency Attribution / External Dependency Diagnosis''),
      (''scenario'', obj_get ''scenario'' (JStr ''unknown'') ev),
      (''input_summary'', JObj [
        (''route_group'', obj_get ''route_group'' (JStr ''not_collected'') ev),
        (''method'', obj_get ''method'' (JStr ''not_collected'') ev),
        (''status_code_family'', obj_get ''status_code_family'' (JStr ''not_collected'') ev),
        (''consistency'', obj_get ''consistency'' (JStr ''not_collected'') ev),
        (''k6_is_symptom_only'', JBool True), (''raw_identifiers_included'', JBool False)])] @ rest"
    "list_all (\<lambda>(k, v). plain_key k \<and> plain_value v) rest"
    "plain_value (JStr ''PH10 Latency Attribution / External Dependency Diagnosis'')"
proof (rule that)
  have a: "plain_answer a" using answers_plain assms by (simp only: list_all_iff)
  have keys: "list_all plain_key REQUIRED_REPORT_FIELDS" using report_keys_plain by simp
  show "list_all (\<lambda>(k, v). plain_key k \<and> plain_value v) (drop 5 (latency_report ev a))"
    using a keys fixed_texts_plain status_plain
    by (simp add: latency_report_def plain_answer_def strings_plain REQUIRED_REPORT_FIELDS_def del: plain_value.simps(1,2))
  show "plain_value (JStr ''PH10 Latency Attribution / External Dependency Diagnosis'')"
    using fixed_texts_plain by (simp add: latency_report_def del: plain_value.simps)
qed (simp add: latency_report_def)

lemma report_content:
  assumes "a \<in> set ANSWERS"
  shows "set (sensitive_content (JObj (latency_report ev a)) ''$'') \<union> set (validate_metric_labels (JObj (latency_report ev a)) ''$'') =
    set (copied_errors ev)"
proof -
  obtain rest where r: "latency_report ev a = [
      (''run_id'', obj_get ''run_id'' (JStr ''ph10-latency-attribution'') ev),
      (''generated_at'', obj_get ''generated_at'' (JStr FIXED_GENERATED_AT) ev),
      (''phase'', JStr ''PH10 Latency Attribution / External Dependency Diagnosis''),
      (''scenario'', obj_get ''scenario'' (JStr ''unknown'') ev),
      (''input_summary'', JObj [
        (''route_group'', obj_get ''route_group'' (JStr ''not_collected'') ev),
        (''method'', obj_get ''method'' (JStr ''not_collected'') ev),
        (''status_code_family'', obj_get ''status_code_family'' (JStr ''not_collected'') ev),
        (''consistency'', obj_get ''consistency'' (JStr ''not_collected'') ev),
        (''k6_is_symptom_only'', JBool True), (''raw_identifiers_included'', JBool False)])] @ rest"
    "list_all (\<lambda>(k, v). plain_key k \<and> plain_value v) rest"
    "plain_value (JStr ''PH10 Latency Attribution / External Dependency Diagnosis'')"
    using report_split [OF assms] by blast
  have keys: "plain_key ''run_id'' \<and> plain_key ''generated_at'' \<and> plain_key ''phase'' \<and> plain_key ''scenario'' \<and>
      plain_key ''input_summary'' \<and> plain_key ''route_group'' \<and> plain_key ''method'' \<and> plain_key ''status_code_family'' \<and>
      plain_key ''consistency'' \<and> plain_key ''k6_is_symptom_only'' \<and> plain_key ''raw_identifiers_included''"
    using report_keys_plain by (simp add: REQUIRED_REPORT_FIELDS_def)
  show ?thesis
    unfolding r(1) using keys plain_value_clean(1) [OF r(3)] plain_value_clean(2) [OF r(2)]
    by (auto simp: sensitive_content_simps plain_key_fields skipped_path_def starts_with_def copied_errors_def COPIED_FIELDS_def Let_def
        sensitive_content.simps [of "JBool _"] simp del: sensitive_fields.simps(2) label_fields.simps(2))
qed

lemma report_get:
  "obj_get ''classification'' d (latency_report ev a) = JStr (at_classification a)"
  "obj_get ''confidence'' d (latency_report ev a) = JStr (at_confidence a)"
  "obj_get ''evidence'' d (latency_report ev a) = strings (at_evidence a)"
  "obj_get ''recommended_next_checks'' d (latency_report ev a) = strings (at_checks a)"
  "obj_get ''consistency_status'' d (latency_report ev a) = JStr (consistency_status_from (obj_get ''consistency'' JNull ev))"
  "json_get ''consistency_status'' (latency_report ev a) = Some (JStr (consistency_status_from (obj_get ''consistency'' JNull ev)))"
  "json_get ''classification'' (latency_report ev a) = Some (JStr (at_classification a))"
  by (simp_all add: latency_report_def obj_get_def json_get_def)

lemma report_keys: "map fst (latency_report ev a) = REQUIRED_REPORT_FIELDS"
  by (simp add: latency_report_def REQUIRED_REPORT_FIELDS_def)

lemma report_boundary:
  assumes "a \<in> set ANSWERS"
  shows "validate_consistency_boundary (latency_report ev a) = []"
proof -
  have "ledger_silent a" using answers_ledger_silent assms by (simp only: list_all_iff)
  moreover have "obj_get ''input_summary'' d (latency_report ev a) = JObj summary \<Longrightarrow>
      consistency_status_from (obj_get ''consistency'' JNull summary) = consistency_status_from (obj_get ''consistency'' JNull ev)" for d summary
    by (auto simp: latency_report_def obj_get_def json_get_def consistency_status_from_def split: option.splits)
  ultimately show ?thesis
    by (auto simp: validate_consistency_boundary_def Let_def report_get ledger_silent_def split: json.splits)
      (simp_all add: consistency_status_from_def)
qed

lemma report_k6_claim:
  assumes "a \<in> set ANSWERS"
  shows "validate_k6_only_claim (latency_report ev a) = Inr []"
proof -
  have "k6_silent a" using answers_k6_silent assms by (simp only: list_all_iff)
  then show ?thesis
    by (simp add: validate_k6_only_claim_def report_get member_of_def iterated_def strings_def Let_def comp_def py_str_def
        k6_silent_def split: if_splits)
qed

lemma report_verdict:
  assumes "a \<in> set ANSWERS"
  shows "verdict_errors (latency_report ev a) = []"
proof -
  have "at_classification a \<in> set CLASSIFICATIONS" "at_confidence a \<in> set CONFIDENCE_LEVELS" "at_evidence a \<noteq> []" "at_checks a \<noteq> []"
    using answers_listed assms by (simp_all only: list_all_iff) blast+
  moreover have "consistency_status_from j \<in> set CONSISTENCY_STATUSES" for j
    by (simp add: consistency_status_from_def CONSISTENCY_STATUSES_def Let_def split: json.split)
  ultimately show ?thesis by (simp add: verdict_errors_def report_get member_of_def strings_def)
qed

lemma copied_errors_plain:
  "list_all (\<lambda>(k, d, path). plain_value (obj_get k (JStr d) ev)) COPIED_FIELDS \<Longrightarrow> copied_errors ev = []"
  by (auto simp: copied_errors_def list_all_iff Let_def dest!: plain_value_clean(1))



subsection \<open>What an attribution rests on\<close>

lemma rule_answers:
  "endpoint_rules s base_p95 h b = Some a \<Longrightarrow> a \<in> {edge_latency, endpoint_slow, client_path}"
  "dependency_rules observed s h high = Some a \<Longrightarrow>
    a \<in> {pool_pressure, lock_contention, postgres_latency, redis_unavailable, redis_degraded, dependency_latency}"
  "scope_rules ev k6_p95 base_p95 high \<in> {partner_specific, route_specific, application_latency, contradictory}"
  by (simp_all add: endpoint_rules_def dependency_rules_def scope_rules_def Let_def split: if_splits)

lemma other_classifications:
  "a \<in> {edge_latency, endpoint_slow, client_path, pool_pressure, lock_contention, postgres_latency, redis_unavailable, redis_degraded,
     dependency_latency, partner_specific, route_specific, application_latency, contradictory, missing_handler, missing_k6, not_objects} \<Longrightarrow>
    at_classification a \<noteq> ''baseline_normal_latency''"
  "at_classification (missing_fields_answer m) \<noteq> ''baseline_normal_latency''"
  by (auto simp: answer_defs)

lemma normal_needs_clean:
  assumes "attribute_latency ev observed s k6_p95 k6_p99 base_p95 base_p99 = Inr a" "at_classification a = ''baseline_normal_latency''"
  shows "a = normal_latency" "consistency_status_from (obj_get ''consistency'' JNull ev) = ''CLEAN''"
proof -
  have "a = normal_latency \<and> consistency_status_from (obj_get ''consistency'' JNull ev) = ''CLEAN''"
    using assms(1)
  proof (cases rule: attribute_latency_cases)
    case (endpoint h b)
    then have False using rule_answers(1) other_classifications(1) [of a] assms(2) by blast
    then show ?thesis ..
  next
    case (dependency h high)
    then have False using rule_answers(2) other_classifications(1) [of a] assms(2) by blast
    then show ?thesis ..
  next
    case (scope high)
    then have False using rule_answers(3) other_classifications(1) [of a] assms(2) by blast
    then show ?thesis ..
  next
    case missing
    then have False using other_classifications(1) [of a] assms(2) by blast
    then show ?thesis ..
  qed simp
  then show "a = normal_latency" "consistency_status_from (obj_get ''consistency'' JNull ev) = ''CLEAN''" by simp_all
qed



subsection \<open>Normal latency and a missing error rate\<close>

lemma normal_only_by_rule:
  assumes "attribute_latency ev observed s k6_p95 k6_p99 base_p95 base_p99 = Inr a" "sg_error_rate s = Some rate"
    "a = normal_latency"
  shows "is_normal_k6 k6_p95 k6_p99 base_p95 base_p99 \<and> flt_le rate (float_of_text ''0.01'')"
proof (rule ccontr)
  assume "\<not> ?thesis"
  then have "a = missing_handler \<or> (\<exists>h b. endpoint_rules s base_p95 h b = Some a) \<or>
      (\<exists>h high. dependency_rules observed s h high = Some a) \<or> (\<exists>high. a = scope_rules ev k6_p95 base_p95 high)"
    using assms(1,2) by (auto simp: attribute_latency_def Let_def split: if_splits option.splits)
  then have "at_classification a \<noteq> ''baseline_normal_latency''"
    using rule_answers other_classifications(1) [of a] by blast
  with assms(3) show False by (simp add: normal_latency_def)
qed

lemma twice_exact:
  assumes "flt_val (Fin m e) = of_int i" "e \<le> 0" "\<bar>i\<bar> < 2 ^ 52"
  obtains n f where "twice (Fin m e) = Fin n f" "flt_val (Fin n f) = of_int (2 * i)"
proof -
  have "\<bar>i * 2\<bar> < 2 ^ 53" using assms(3) by simp
  from flt_mul_exact [OF assms(1,2) this] show thesis using that by (auto simp: twice_def mult.commute)
qed

text \<open>On whole milliseconds the rule for a normal load test is the one of the integers.\<close>

lemma normal_k6_int:
  assumes "float_of_int k95 = Inr x95" "float_of_int k99 = Inr x99" "float_of_int b95 = Inr y95" "float_of_int b99 = Inr y99"
    "\<bar>k95\<bar> < 2 ^ 52" "\<bar>k99\<bar> < 2 ^ 52" "\<bar>b95\<bar> < 2 ^ 52" "\<bar>b99\<bar> < 2 ^ 52"
  shows "is_normal_k6 x95 x99 y95 y99 \<longleftrightarrow> k95 < 2 * b95 \<and> k99 < 2 * b99 \<and> k95 \<le> 300"
proof -
  have ex: "\<exists>m e. x = Fin m e \<and> e \<le> 0 \<and> flt_val x = of_int i" if "float_of_int i = Inr x" "\<bar>i\<bar> < 2 ^ 52" for i x
  proof -
    have "\<bar>i\<bar> < 2 ^ 53" using that(2) by simp
    then obtain m e where "float_of_int i = Inr (Fin m e)" "e \<le> 0" "flt_val (Fin m e) = of_int i" by (rule float_of_int_exact)
    with that(1) show ?thesis by auto
  qed
  have two: "\<exists>n f. twice y = Fin n f \<and> flt_val (Fin n f) = of_int (2 * i)" if "float_of_int i = Inr y" "\<bar>i\<bar> < 2 ^ 52" for i y
  proof -
    from ex [OF that] obtain m e where "y = Fin m e" "e \<le> 0" "flt_val (Fin m e) = of_int i" by auto
    with twice_exact [of m e i] that(2) show ?thesis by blast
  qed
  have "flt_val (Fin 300 0) = of_int 300" by (simp add: flt_val_def two_pow_def)
  with ex [OF assms(1,5)] ex [OF assms(2,6)] two [OF assms(3,7)] two [OF assms(4,8)] show ?thesis
    by (auto simp: is_normal_k6_def simp del: of_int_mult)
qed

text \<open>
  C33: on whole milliseconds below 2^52 no rounding matters: latency is called normal exactly when both percentiles are below twice
  their baseline, the p95 is at most 300 ms, the error rate is at most one percent and the consistency counters are clean.
\<close>

theorem normal_latency_iff:
  assumes "set REQUIRED_EVIDENCE_FIELDS \<subseteq> set (map fst ev)" "analyze_evidence (JObj ev) = Inr report"
    "obj_get ''observed'' (JObj []) ev = JObj observed" "obj_get ''baseline'' (JObj []) ev = JObj baseline"
    "obj_get ''k6_p95_ms'' JNull observed = JInt k95" "obj_get ''k6_p99_ms'' JNull observed = JInt k99"
    "obj_get ''k6_p95_ms'' JNull baseline = JInt b95" "obj_get ''k6_p99_ms'' JNull baseline = JInt b99"
    "\<bar>k95\<bar> < 2 ^ 52" "\<bar>k99\<bar> < 2 ^ 52" "\<bar>b95\<bar> < 2 ^ 52" "\<bar>b99\<bar> < 2 ^ 52"
    "num_of observed ''error_rate'' = Inr (Some rate)"
  shows "json_get ''classification'' report = Some (JStr ''baseline_normal_latency'') \<longleftrightarrow>
    k95 < 2 * b95 \<and> k99 < 2 * b99 \<and> k95 \<le> 300 \<and> flt_le rate (float_of_text ''0.01'') \<and>
    consistency_status_from (obj_get ''consistency'' JNull ev) = ''CLEAN''"
proof -
  from assms(2) obtain a where a: "attribute_evidence ev = Inr a" "report = latency_report ev a"
    by (auto simp: analyze_evidence_def bindE_def split: sum.splits)
  have none: "sorted_minus REQUIRED_EVIDENCE_FIELDS (map fst ev) = []" using assms(1) by (simp add: sorted_minus_Nil)
  from a(1) none assms(3,4) obtain s where s: "read_signals observed baseline = Inr s"
    by (auto simp: attribute_evidence_def bindE_def split: sum.splits)
  then have nums: "num_of observed ''k6_p95_ms'' = Inr (sg_k6_p95 s)" "num_of observed ''k6_p99_ms'' = Inr (sg_k6_p99 s)"
    "num_of baseline ''k6_p95_ms'' = Inr (sg_base_p95 s)" "num_of baseline ''k6_p99_ms'' = Inr (sg_base_p99 s)"
    "num_of observed ''error_rate'' = Inr (sg_error_rate s)"
    by (auto simp: read_signals_def bindE_def split: sum.splits)
  from nums(1-4) obtain x95 x99 y95 y99 where x: "float_of_int k95 = Inr x95" "sg_k6_p95 s = Some x95"
      "float_of_int k99 = Inr x99" "sg_k6_p99 s = Some x99" "float_of_int b95 = Inr y95" "sg_base_p95 s = Some y95"
      "float_of_int b99 = Inr y99" "sg_base_p99 s = Some y99"
    using assms(5-8) by (auto simp: num_of_def split: sum.splits)
  have at: "attribute_latency ev observed s x95 x99 y95 y99 = Inr a"
    using a(1) none assms(3,4) s x by (simp add: attribute_evidence_def)
  have rate: "sg_error_rate s = Some rate" using nums(5) assms(13) by simp
  note normal = normal_k6_int [OF x(1,3,5,7) assms(9-12)]
  show ?thesis
  proof
    assume "json_get ''classification'' report = Some (JStr ''baseline_normal_latency'')"
    then have "at_classification a = ''baseline_normal_latency''" by (simp add: a(2) report_get)
    from normal_needs_clean [OF at this] at rate normal other_classifications
    show "k95 < 2 * b95 \<and> k99 < 2 * b99 \<and> k95 \<le> 300 \<and> flt_le rate (float_of_text ''0.01'') \<and>
        consistency_status_from (obj_get ''consistency'' JNull ev) = ''CLEAN''"
      using normal_only_by_rule [OF at rate] by metis
  next
    assume "k95 < 2 * b95 \<and> k99 < 2 * b99 \<and> k95 \<le> 300 \<and> flt_le rate (float_of_text ''0.01'') \<and>
        consistency_status_from (obj_get ''consistency'' JNull ev) = ''CLEAN''"
    with at rate normal have "a = normal_latency" by (simp add: attribute_latency_def)
    then show "json_get ''classification'' report = Some (JStr ''baseline_normal_latency'')"
      by (simp add: a(2) report_get normal_latency_def)
  qed
qed

text \<open>Evidence of a quiet run, with and without an error rate.\<close>

definition quiet_evidence :: "(string \<times> json) list \<Rightarrow> (string \<times> json) list" where
  "quiet_evidence extra = [
     (''run_id'', JStr ''quiet''), (''scenario'', JStr ''baseline''),
     (''baseline'', JObj [(''k6_p95_ms'', JInt 180), (''k6_p99_ms'', JInt 420)]),
     (''observed'', JObj ([(''k6_p95_ms'', JInt 190), (''k6_p99_ms'', JInt 430)] @ extra)),
     (''consistency'', JObj [(''duplicate_ledger_count'', JInt 0), (''duplicate_external_event_count'', JInt 0),
       (''reconciliation_failure_count'', JInt 0), (''invalid_state_transition_count'', JInt 0)])]"

lemma quiet_fields:
  "set REQUIRED_EVIDENCE_FIELDS \<subseteq> set (map fst (quiet_evidence extra))"
  "obj_get ''observed'' (JObj []) (quiet_evidence extra) = JObj ([(''k6_p95_ms'', JInt 190), (''k6_p99_ms'', JInt 430)] @ extra)"
  "obj_get ''baseline'' (JObj []) (quiet_evidence extra) = JObj [(''k6_p95_ms'', JInt 180), (''k6_p99_ms'', JInt 420)]"
  by (simp_all add: REQUIRED_EVIDENCE_FIELDS_def quiet_evidence_def obj_get_def json_get_def)

theorem normal_latency_iff_witness:
  "\<exists>report. analyze_evidence (JObj (quiet_evidence [(''error_rate'', JFloat ''0.0'')])) = Inr report \<and>
    json_get ''classification'' report = Some (JStr ''baseline_normal_latency'')"
proof -
  let ?ev = "quiet_evidence [(''error_rate'', JFloat ''0.0'')]"
  have "attribute_evidence ?ev = Inr normal_latency" by code_simp
  then have r: "analyze_evidence (JObj ?ev) = Inr (latency_report ?ev normal_latency)" by (simp add: analyze_evidence_def)
  have "consistency_status_from (obj_get ''consistency'' JNull ?ev) = ''CLEAN''"
    "flt_le (float_of_text ''0.0'') (float_of_text ''0.01'')" by code_simp+
  moreover have "num_of [(''k6_p95_ms'', JInt 190), (''k6_p99_ms'', JInt 430), (''error_rate'', JFloat ''0.0'')] ''error_rate'' =
      Inr (Some (float_of_text ''0.0''))" by (simp add: num_of_def obj_get_def json_get_def)
  ultimately show ?thesis
    using normal_latency_iff [OF quiet_fields(1) r quiet_fields(2,3), of 190 430 180 420 "float_of_text ''0.0''"] r
    by (simp add: obj_get_def json_get_def)
qed

text \<open>
  C35: a quiet load test whose evidence lacks the error rate is not reported as insufficient evidence: comparing the missing rate raises
  \<open>TypeError\<close>, which the command does not catch, and no report is written.
\<close>

theorem missing_error_rate_crashes:
  assumes "af_json f = Inr (JObj ev)" "set REQUIRED_EVIDENCE_FIELDS \<subseteq> set (map fst ev)"
    "obj_get ''observed'' (JObj []) ev = JObj observed" "obj_get ''baseline'' (JObj []) ev = JObj baseline"
    "read_signals observed baseline = Inr s"
    "sg_k6_p95 s = Some k95" "sg_k6_p99 s = Some k99" "sg_base_p95 s = Some b95" "sg_base_p99 s = Some b99"
    "is_normal_k6 k95 k99 b95 b99" "sg_error_rate s = None"
  shows "\<exists>msg. latency_main (Latency_analyze path f output_dir) = Inl (TypeError msg)"
proof -
  have "sorted_minus REQUIRED_EVIDENCE_FIELDS (map fst ev) = []" using assms(2) by (simp add: sorted_minus_Nil)
  then have "\<exists>msg. attribute_evidence ev = Inl (TypeError msg)"
    using assms by (simp add: attribute_evidence_def attribute_latency_def)
  then show ?thesis using assms(1) by (auto simp: latency_main_def drill_main_def latency_handle_def parsed_def analyze_evidence_def)
qed

theorem missing_error_rate_crashes_witness:
  "\<exists>msg. latency_main (Latency_analyze ''quiet.json'' (json_file (JObj (quiet_evidence []))) ''out'') = Inl (TypeError msg)"
proof -
  have "\<exists>s k95 k99 b95 b99. read_signals [(''k6_p95_ms'', JInt 190), (''k6_p99_ms'', JInt 430)] [(''k6_p95_ms'', JInt 180), (''k6_p99_ms'', JInt 420)] = Inr s \<and>
      sg_k6_p95 s = Some k95 \<and> sg_k6_p99 s = Some k99 \<and> sg_base_p95 s = Some b95 \<and> sg_base_p99 s = Some b99 \<and>
      is_normal_k6 k95 k99 b95 b99 \<and> sg_error_rate s = None"
  proof -
    have small: "\<exists>x. float_of_int i = Inr x" if "\<bar>i\<bar> < 2 ^ 53" for i using float_of_int_exact [OF that] by metis
    obtain x95 x99 y95 y99 where x: "float_of_int 190 = Inr x95" "float_of_int 430 = Inr x99" "float_of_int 180 = Inr y95"
        "float_of_int 420 = Inr y99"
      using small [of 190] small [of 430] small [of 180] small [of 420] by auto
    with normal_k6_int [OF x] show ?thesis
      by (simp add: read_signals_def num_of_def obj_get_def json_get_def)
  qed
  then show ?thesis
    using missing_error_rate_crashes [OF _ quiet_fields(1) [of "[]"] quiet_fields(2,3) [of "[]"]] by (fastforce simp: json_file_def)
qed

end
