(* ===== verification/Rotation_Drill.thy ===== *)
theory Rotation_Drill
  imports Drill_Common Partner_Hmac
begin

text \<open>
  The partner key rotation drill (\<open>scripts/ph7_hmac_rotation_drill.py\<close>): nine requests against a registry with a key in every
  state, verified by the service's own verifier, reported and validated. The texts of timestamps come from the
  environment, as everywhere.
\<close>

subsection \<open>Constants\<close>

text \<open>\<open>FIXED_NOW\<close>, 7 July 2026 at midnight UTC, in microseconds.\<close>

definition FIXED_NOW :: instant where
  "FIXED_NOW = 1783382400 * 1000000"

definition REQUIRED_CASES :: "string list" where
  "REQUIRED_CASES = [
    ''current_secret_success'', ''previous_secret_inside_window_success'', ''previous_secret_expired_reject'',
    ''revoked_secret_reject'', ''disabled_client_reject'', ''timestamp_skew_reject'', ''missing_nonce_reject'',
    ''invalid_signature_reject'', ''next_secret_dry_run_success'']"

definition assigned_key_pattern :: "string \<Rightarrow> string \<times> rx" where
  "assigned_key_pattern w = (w @ [backslash] @ ''s*[:=]'', seq [lit_i w, spaces, Cls (\<lambda>c. c = CHR '':'' \<or> c = CHR ''='')])"

definition PH7_FORBIDDEN_TEXT_PATTERNS :: "(string \<times> rx) list" where
  "PH7_FORBIDDEN_TEXT_PATTERNS =
    [assigned_pattern ''Authorization'', credential_pattern ''Bearer'', credential_pattern ''Basic'', credential_pattern ''HMAC'',
     assigned_pattern ''X-Signature'', assigned_key_pattern ''raw_request_body'', assigned_key_pattern ''client_secret'',
     assigned_key_pattern ''access_token'', assigned_key_pattern ''refresh_token'', assigned_key_pattern ''database_url'']"

definition PH7_FORBIDDEN_KEYS :: "string list" where
  "PH7_FORBIDDEN_KEYS = [''authorization'', ''cookie'', ''set_cookie'', ''raw_body'', ''raw_request_body'', ''raw_signature'', ''raw_secret'',
     ''client_secret'', ''access_token'', ''refresh_token'', ''database_url'']"

definition ALLOWED_SECURITY_FLAG_KEYS :: "string list" where
  "ALLOWED_SECURITY_FLAG_KEYS = [''raw_secret_included'', ''raw_signature_included'', ''raw_body_included'', ''signature_present'',
     ''signature_algorithm'', ''secret_status'']"

definition ALLOWED_CASE_KEYS :: "string list" where
  "ALLOWED_CASE_KEYS = [''client_token'', ''client_status'', ''key_id'', ''key_version'', ''secret_status'', ''request_case'',
     ''expected_result'', ''actual_result'', ''decision'', ''decision_reason'', ''timestamp_skew_seconds'', ''nonce_present'',
     ''canonical_request_hash'', ''body_hash'', ''signature_present'', ''signature_algorithm'', ''rotation_window_status'',
     ''raw_secret_included'', ''raw_signature_included'', ''raw_body_included'']"

subsection \<open>The cases\<close>

definition drill_secret :: "string \<Rightarrow> string \<Rightarrow> string \<Rightarrow> secret_status \<Rightarrow> partner_secret" where
  "drill_secret client_id key_id secret_value status = \<lparr>ps_client_id = client_id, ps_key_id = key_id, ps_secret = secret_value,
     ps_status = status, ps_previous_valid_until = None, ps_client_enabled = True\<rparr>"

definition drill_registry :: registry where
  "drill_registry = partner_secret_registry [
     drill_secret ''bank-a'' ''key-current'' ''demo-current-value'' CURRENT,
     (drill_secret ''bank-a'' ''key-previous'' ''demo-previous-value'' PREVIOUS)
       \<lparr>ps_previous_valid_until := Some (utc (FIXED_NOW + 300 * 1000000))\<rparr>,
     (drill_secret ''bank-a'' ''key-previous-expired'' ''demo-expired-previous-value'' PREVIOUS)
       \<lparr>ps_previous_valid_until := Some (utc (FIXED_NOW - 1000000))\<rparr>,
     drill_secret ''bank-a'' ''key-revoked'' ''demo-revoked-value'' REVOKED,
     drill_secret ''bank-a'' ''key-next'' ''demo-next-value'' NEXT,
     (drill_secret ''bank-disabled'' ''key-current'' ''demo-disabled-value'' DISABLED)\<lparr>ps_client_enabled := False\<rparr>]"

record drill_case =
  dc_request_case :: string
  dc_key_id :: string
  dc_signing_value :: string
  dc_expected_result :: string
  dc_client_id :: string
  dc_timestamp :: string
  dc_nonce :: string
  dc_signature :: "string option"
  dc_allow_next_for_dry_run :: bool

definition raw_drill_body :: bytes where
  "raw_drill_body = ''{'' @ [dquote] @ ''amount'' @ [dquote] @ '':1000,'' @ [dquote] @ ''currency'' @ [dquote] @ '':'' @ [dquote] @ ''KRW'' @ [dquote] @ ''}''"

text \<open>The arguments of \<open>_case\<close> with its defaults.\<close>

definition default_case :: "env \<Rightarrow> string \<Rightarrow> string \<Rightarrow> string \<Rightarrow> string \<Rightarrow> drill_case" where
  "default_case E request_case key_id signing_value expected_result =
     \<lparr>dc_request_case = request_case, dc_key_id = key_id, dc_signing_value = signing_value, dc_expected_result = expected_result,
      dc_client_id = ''bank-a'', dc_timestamp = isoformat E FIXED_NOW, dc_nonce = ''nonce-001'', dc_signature = None,
      dc_allow_next_for_dry_run = False\<rparr>"

definition case_canonical :: "drill_case \<Rightarrow> string" where
  "case_canonical c = build_partner_canonical_request ''POST'' ''/api/v1/transaction-events'' (dc_timestamp c) (dc_nonce c) raw_drill_body"

definition case_request :: "drill_case \<Rightarrow> partner_request" where
  "case_request c = \<lparr>px_method = ''POST'', px_path = ''/api/v1/transaction-events'', px_timestamp = dc_timestamp c, px_nonce = dc_nonce c,
     px_raw_body = raw_drill_body, px_client_id = dc_client_id c, px_key_id = dc_key_id c,
     px_signature = (case dc_signature c of
         Some s \<Rightarrow> s
       | None \<Rightarrow> generate_partner_hmac_signature (dc_signing_value c) (case_canonical c))\<rparr>"

definition run_case :: "env \<Rightarrow> drill_case \<Rightarrow> exn + (string \<times> json) list" where
  "run_case E c = bindE (verify_partner_hmac_request E drill_registry (case_request c) FIXED_NOW 300 (dc_allow_next_for_dry_run c)
     (dc_request_case c) (dc_expected_result c)) (\<lambda>r. Inr (to_report_dict r))"

definition drill_cases :: "env \<Rightarrow> drill_case list" where
  "drill_cases E = [
     default_case E ''current_secret_success'' ''key-current'' ''demo-current-value'' ''ACCEPT'',
     default_case E ''previous_secret_inside_window_success'' ''key-previous'' ''demo-previous-value'' ''ACCEPT'',
     default_case E ''previous_secret_expired_reject'' ''key-previous-expired'' ''demo-expired-previous-value'' ''REJECT'',
     default_case E ''revoked_secret_reject'' ''key-revoked'' ''demo-revoked-value'' ''REJECT'',
     (default_case E ''disabled_client_reject'' ''key-current'' ''demo-disabled-value'' ''REJECT'')\<lparr>dc_client_id := ''bank-disabled''\<rparr>,
     (default_case E ''timestamp_skew_reject'' ''key-current'' ''demo-current-value'' ''REJECT'')
       \<lparr>dc_timestamp := isoformat E (FIXED_NOW - 600 * 1000000)\<rparr>,
     (default_case E ''missing_nonce_reject'' ''key-current'' ''demo-current-value'' ''REJECT'')\<lparr>dc_nonce := []\<rparr>,
     (default_case E ''invalid_signature_reject'' ''key-current'' ''demo-current-value'' ''REJECT'')
       \<lparr>dc_signature := Some (replicate 64 (CHR ''0''))\<rparr>,
     (default_case E ''next_secret_dry_run_success'' ''key-next'' ''demo-next-value'' ''ACCEPT'')\<lparr>dc_allow_next_for_dry_run := True\<rparr>]"

definition build_rotation_report :: "env \<Rightarrow> exn + (string \<times> json) list" where
  "build_rotation_report E = bindE (mapE (run_case E) (drill_cases E)) (\<lambda>cases. Inr [
     (''run_id'', JStr ''ph7-hmac-rotation-sample''),
     (''generated_at'', JStr (isoformat E FIXED_NOW)),
     (''scenario'', JStr ''partner_secret_rotation_hmac_hardening''),
     (''policy'', JObj [
       (''signature_algorithm'', JStr ''HMAC-SHA256''),
       (''canonical_request'', JStr (join [backslash, CHR ''n''] [''{method}'', ''{path}'', ''{timestamp}'', ''{nonce}'', ''{body_sha256}''])),
       (''timestamp_skew_seconds'', JInt 300),
       (''nonce_required'', JBool True),
       (''nonce_persistence'', JStr ''follow_up_candidate''),
       (''raw_secret_included'', JBool False),
       (''raw_signature_included'', JBool False),
       (''raw_body_included'', JBool False)]),
     (''cases'', JList (map JObj cases)),
     (''sensitive_data_included'', JBool False),
     (''runbook_reference'', JStr ''docs/49-ph7-partner-secret-rotation-hmac-hardening.md'')])"

subsection \<open>Validation\<close>

fun forbidden_paths :: "json \<Rightarrow> string \<Rightarrow> string list"
  and forbidden_members :: "(string \<times> json) list \<Rightarrow> string \<Rightarrow> string list"
  and forbidden_elements :: "json list \<Rightarrow> nat \<Rightarrow> string \<Rightarrow> string list" where
  "forbidden_paths (JObj kvs) path = forbidden_members kvs path"
| "forbidden_paths (JList xs) path = forbidden_elements xs 0 path"
| "forbidden_paths _ path = []"
| "forbidden_members [] path = []"
| "forbidden_members ((k, v) # kvs) path = (let normalized = lower (replace_char (CHR ''-'') ''_'' k) in
     (if normalized \<in> set PH7_FORBIDDEN_KEYS \<and> normalized \<notin> set ALLOWED_SECURITY_FLAG_KEYS
      then [''forbidden key at '' @ path @ ''.'' @ k] else []) @
     forbidden_paths v (path @ ''.'' @ k) @ forbidden_members kvs path)"
| "forbidden_elements [] i path = []"
| "forbidden_elements (x # xs) i path = forbidden_paths x (path @ ''['' @ nat_str i @ '']'') @ forbidden_elements xs (Suc i) path"

definition case_errors :: "nat \<Rightarrow> json \<Rightarrow> string list" where
  "case_errors i j = (case j of
       JObj c \<Rightarrow> (let extra_keys = sorted_minus (map fst c) ALLOWED_CASE_KEYS; label = item_label ''request_case'' i c in
         (if extra_keys \<noteq> [] then [label @ '' has unexpected keys: '' @ join '', '' extra_keys] else []) @
         concat (map (\<lambda>flag. if json_get flag c \<noteq> Some (JBool False) then [label @ '' '' @ flag @ '' must be false''] else [])
           [''raw_secret_included'', ''raw_signature_included'', ''raw_body_included'']) @
         (if \<not> py_eq (obj_get ''actual_result'' JNull c) (obj_get ''expected_result'' JNull c) then [label @ '' result mismatch''] else []))
     | _ \<Rightarrow> [''case['' @ nat_str i @ ''] must be an object''])"

text \<open>The names under one key of the objects of a list; a value without a hash stops the validator.\<close>

definition names_found :: "string \<Rightarrow> json list \<Rightarrow> exn + json list" where
  "names_found key items = (let vs = concat (map (\<lambda>j. case j of JObj kvs \<Rightarrow> [obj_get key JNull kvs] | _ \<Rightarrow> []) items) in
     if list_all hashable vs then Inr vs else Inl unhashable)"

definition names_missing :: "string list \<Rightarrow> json list \<Rightarrow> string list" where
  "names_missing required found = sorted_set (filter (\<lambda>r. JStr r \<notin> set found) required)"

definition pattern_errors :: "(string \<times> rx) list \<Rightarrow> string \<Rightarrow> string list" where
  "pattern_errors patterns rendered = map (\<lambda>(pattern, _). ''forbidden text pattern found: '' @ pattern)
     (filter (\<lambda>(_, r). rx_search r rendered) patterns)"

definition validate_rotation_report :: "(string \<times> json) list \<Rightarrow> exn + string list" where
  "validate_rotation_report payload = (let
     raw_cases = obj_get ''cases'' JNull payload;
     cases = (case raw_cases of JList xs \<Rightarrow> xs | _ \<Rightarrow> [])
   in bindE (names_found ''request_case'' cases) (\<lambda>found_cases. let missing_cases = names_missing REQUIRED_CASES found_cases in
     Inr (sorted_set (
       (case raw_cases of JList _ \<Rightarrow> [] | _ \<Rightarrow> [''cases must be a list'']) @
       (if missing_cases \<noteq> [] then [''missing required cases: '' @ join '', '' missing_cases] else []) @
       (if json_get ''sensitive_data_included'' payload \<noteq> Some (JBool False) then [''sensitive_data_included must be false''] else []) @
       concat (map (\<lambda>(i, c). case_errors i c) (enumerate 0 cases)) @
       forbidden_paths (JObj payload) ''$'' @
       pattern_errors PH7_FORBIDDEN_TEXT_PATTERNS (dumps_default True (JObj payload))))))"

definition validate_rotation_document :: "json \<Rightarrow> exn + string list" where
  "validate_rotation_document j = (case j of JObj payload \<Rightarrow> validate_rotation_report payload | _ \<Rightarrow> Inl (AttributeError ''get''))"

subsection \<open>The command\<close>

definition case_row :: "json \<Rightarrow> string" where
  "case_row j = (case j of
       JObj c \<Rightarrow> ''| '' @ join '' | '' (map (\<lambda>k. py_str (obj_get k JNull c))
         [''request_case'', ''actual_result'', ''decision_reason'', ''secret_status'', ''rotation_window_status'']) @ '' |''
     | _ \<Rightarrow> [])"

definition render_rotation_report :: "(string \<times> json) list \<Rightarrow> string" where
  "render_rotation_report report = join [CHR 0x0A] (
     [''# PH7 HMAC Rotation Drill Report'', [],
      quoted_line ''Run ID'' ''run_id'' report, quoted_line ''Generated at'' ''generated_at'' report,
      quoted_line ''Sensitive data included'' ''sensitive_data_included'' report,
      quoted_line ''Nonce persistence'' ''nonce_persistence'' (case obj_get ''policy'' JNull report of JObj p \<Rightarrow> p | _ \<Rightarrow> []), [],
      ''| Case | Result | Reason | Secret Status | Window |'', ''| --- | --- | --- | --- | --- |''] @
     (case obj_get ''cases'' JNull report of JList cs \<Rightarrow> map case_row cs | _ \<Rightarrow> []) @
     [[], ''Raw secret, raw signature, Authorization header, and raw request body are not included.'']) @ [CHR 0x0A]"

definition case_count :: "(string \<times> json) list \<Rightarrow> json" where
  "case_count report = (case obj_get ''cases'' JNull report of JList cs \<Rightarrow> JInt (int (length cs)) | _ \<Rightarrow> JInt 0)"

datatype rotation_command =
    Rotation_demo string
  | Rotation_validate string artifact_file
  | Rotation_smoke

definition rotation_handle :: "env \<Rightarrow> rotation_command \<Rightarrow> exn + (outcome \<times> written)" where
  "rotation_handle E cmd = (case cmd of
       Rotation_demo output_dir \<Rightarrow>
         bindE (build_rotation_report E) (\<lambda>report.
         bindE (validate_rotation_report report) (\<lambda>errors.
         if errors \<noteq> [] then Inl (ValueError (dumps_default False (strings errors)))
         else Inr (document_outcome 0 (JObj [
             (''output'', JStr (path_join output_dir ''sample-hmac-rotation-report.json'')),
             (''report'', JStr (path_join output_dir ''sample-hmac-rotation-report.md'')),
             (''case_count'', case_count report), (''validation_errors'', strings [])]),
           [(path_join output_dir ''sample-hmac-rotation-report.json'', unicode_file (JObj report)),
            (path_join output_dir ''sample-hmac-rotation-report.md'', text_file (render_rotation_report report))])))
     | Rotation_validate path f \<Rightarrow>
         bindE (parsed f) (\<lambda>j. bindE (validate_rotation_document j) (\<lambda>errors.
         Inr (if errors \<noteq> []
           then system_exit (pretty_unicode (JObj [(''input'', JStr path), (''validation_errors'', strings errors)]))
           else document_outcome 0 (JObj [(''input'', JStr path), (''validation_errors'', strings [])]), [])))
     | Rotation_smoke \<Rightarrow>
         bindE (build_rotation_report E) (\<lambda>report.
         bindE (validate_rotation_report report) (\<lambda>errors.
         Inr (if errors \<noteq> [] then system_exit (pretty (JObj [(''validation_errors'', strings errors)]))
           else document_outcome 0 (JObj [(''run_id'', obj_get ''run_id'' JNull report), (''case_count'', case_count report),
             (''validation_errors'', strings [])]), []))))"

definition rotation_main :: "env \<Rightarrow> rotation_command \<Rightarrow> exn + (outcome \<times> written)" where
  "rotation_main E cmd = drill_main ''PH7 HMAC rotation drill'' (rotation_handle E cmd)"

end
