(* ===== verification/Rotation_Properties.thy ===== *)
theory Rotation_Properties
  imports Rotation_Drill
begin

text \<open>
  The rotation drill shows what it says: run against the service's verifier, every case is decided as expected. The one case
  whose outcome depends on the value of a digest is the forged signature; it is accepted exactly if the digest is that text.
\<close>

lemma partner_result_fields [simp]:
  "pr_actual_result (partner_result c a reason k s st) = (if a then ''ACCEPT'' else ''REJECT'')"
  "pr_request_case (partner_result c a reason k s st) = cr_request_case c"
  "pr_expected_result (partner_result c a reason k s st) = cr_expected_result c"
  by (simp_all add: partner_result_def)

lemma verified_fields:
  assumes "verify_partner_hmac_request E reg p cur skew dry rc er = Inr r"
  shows "pr_actual_result r = (if pr_accepted r then ''ACCEPT'' else ''REJECT'') \<and> pr_request_case r = rc \<and> pr_expected_result r = er"
  using assms
  by (auto simp: verify_partner_hmac_request_def verify_secret_def Let_def common_of_def reject_request_def reject_with_secret_def
      split: if_splits option.splits sum.splits bool.splits)

lemma report_dict_get:
  "json_get ''request_case'' (to_report_dict r) = Some (JStr (pr_request_case r))"
  "json_get ''expected_result'' (to_report_dict r) = Some (JStr (pr_expected_result r))"
  "json_get ''actual_result'' (to_report_dict r) = Some (JStr (pr_actual_result r))"
  by (simp_all add: to_report_dict_def json_get_def)

text \<open>The row of a case, with its decision.\<close>

definition decided :: "drill_case \<Rightarrow> bool \<Rightarrow> (string \<times> json) list \<Rightarrow> bool" where
  "decided c accepted row \<longleftrightarrow> json_get ''request_case'' row = Some (JStr (dc_request_case c)) \<and>
     json_get ''expected_result'' row = Some (JStr (dc_expected_result c)) \<and>
     json_get ''actual_result'' row = Some (JStr (if accepted then ''ACCEPT'' else ''REJECT''))"

lemma case_request_fields [simp]:
  "px_timestamp (case_request c) = dc_timestamp c" "px_nonce (case_request c) = dc_nonce c"
  "px_client_id (case_request c) = dc_client_id c" "px_key_id (case_request c) = dc_key_id c"
  "canonical_of (case_request c) = case_canonical c"
  by (simp_all add: case_request_def canonical_of_def case_canonical_def)

lemma run_case_decided:
  assumes "partner_parse_timestamp E (dc_timestamp c) = Some (utc t)" "strip (dc_nonce c) \<noteq> []"
    "is_hex_digest (strip (px_signature (case_request c)))"
  shows "\<exists>row. run_case E c = Inr row \<and> decided c (skew_seconds t FIXED_NOW \<le> 300 \<and>
     (case get_partner_secret drill_registry (dc_client_id c) (dc_key_id c) of
        None \<Rightarrow> False
      | Some s \<Rightarrow> usable_secret s FIXED_NOW (dc_allow_next_for_dry_run c) \<and>
          lower (strip (px_signature (case_request c))) = generate_partner_hmac_signature (ps_secret s) (case_canonical c))) row"
proof -
  let ?v = "verify_partner_hmac_request E drill_registry (case_request c) FIXED_NOW 300 (dc_allow_next_for_dry_run c)
     (dc_request_case c) (dc_expected_result c)"
  have "strip (px_signature (case_request c)) \<noteq> []" using assms(3) by (auto simp: is_hex_digest_def)
  then have "\<exists>r. ?v = Inr r \<and> (pr_accepted r \<longleftrightarrow> skew_seconds t FIXED_NOW \<le> 300 \<and>
     (case get_partner_secret drill_registry (dc_client_id c) (dc_key_id c) of
        None \<Rightarrow> False
      | Some s \<Rightarrow> usable_secret s FIXED_NOW (dc_allow_next_for_dry_run c) \<and>
          lower (strip (px_signature (case_request c))) = generate_partner_hmac_signature (ps_secret s) (case_canonical c)))"
    using assms verify_secret_outcome [OF assms(3)]
    by (auto simp: verify_partner_hmac_request_def Let_def common_of_def timestamp_of_def utc_def split: option.split)
  then obtain r where r: "?v = Inr r" "pr_accepted r \<longleftrightarrow> skew_seconds t FIXED_NOW \<le> 300 \<and>
     (case get_partner_secret drill_registry (dc_client_id c) (dc_key_id c) of
        None \<Rightarrow> False
      | Some s \<Rightarrow> usable_secret s FIXED_NOW (dc_allow_next_for_dry_run c) \<and>
          lower (strip (px_signature (case_request c))) = generate_partner_hmac_signature (ps_secret s) (case_canonical c))" by blast
  with verified_fields [OF r(1)] show ?thesis by (simp add: run_case_def decided_def report_dict_get)
qed

lemma missing_nonce_decided:
  assumes "strip (dc_nonce c) = []" "\<not> a"
  shows "\<exists>row. run_case E c = Inr row \<and> decided c a row"
  using assms
  by (simp add: run_case_def verify_partner_hmac_request_def Let_def common_of_def decided_def report_dict_get reject_request_def)

lemma own_signature:
  "lower (strip (generate_partner_hmac_signature k c)) = generate_partner_hmac_signature k c"
  "is_hex_digest (strip (generate_partner_hmac_signature k c))"
proof -
  have "strip (generate_partner_hmac_signature k c) = generate_partner_hmac_signature k c"
    "is_hex_digest (generate_partner_hmac_signature k c)"
    by (simp_all add: generate_partner_hmac_signature_def digest_accepted)
  then show "lower (strip (generate_partner_hmac_signature k c)) = generate_partner_hmac_signature k c"
    "is_hex_digest (strip (generate_partner_hmac_signature k c))"
    by (simp_all add: generate_partner_hmac_signature_def)
qed

lemma zero_signature:
  "lower (strip (replicate 64 (CHR ''0''))) = replicate 64 (CHR ''0'')" "is_hex_digest (strip (replicate 64 (CHR ''0'')))"
proof -
  have "list_all is_hex_char (replicate 64 (CHR ''0''))" "length (replicate 64 (CHR ''0'')) = 64" by code_simp+
  note hex_text_digest [OF this]
  moreover have "lower (replicate 64 (CHR ''0'')) = replicate 64 (CHR ''0'')" by code_simp
  ultimately show "lower (strip (replicate 64 (CHR ''0''))) = replicate 64 (CHR ''0'')" "is_hex_digest (strip (replicate 64 (CHR ''0'')))"
    by simp_all
qed

lemma registry_keys:
  "get_partner_secret drill_registry ''bank-a'' ''key-current'' = Some (drill_secret ''bank-a'' ''key-current'' ''demo-current-value'' CURRENT)"
  "get_partner_secret drill_registry ''bank-a'' ''key-previous'' = Some ((drill_secret ''bank-a'' ''key-previous'' ''demo-previous-value'' PREVIOUS)
     \<lparr>ps_previous_valid_until := Some (utc (FIXED_NOW + 300 * 1000000))\<rparr>)"
  "get_partner_secret drill_registry ''bank-a'' ''key-previous-expired'' = Some ((drill_secret ''bank-a'' ''key-previous-expired''
     ''demo-expired-previous-value'' PREVIOUS)\<lparr>ps_previous_valid_until := Some (utc (FIXED_NOW - 1000000))\<rparr>)"
  "get_partner_secret drill_registry ''bank-a'' ''key-revoked'' = Some (drill_secret ''bank-a'' ''key-revoked'' ''demo-revoked-value'' REVOKED)"
  "get_partner_secret drill_registry ''bank-a'' ''key-next'' = Some (drill_secret ''bank-a'' ''key-next'' ''demo-next-value'' NEXT)"
  "get_partner_secret drill_registry ''bank-disabled'' ''key-current'' =
     Some ((drill_secret ''bank-disabled'' ''key-current'' ''demo-disabled-value'' DISABLED)\<lparr>ps_client_enabled := False\<rparr>)"
  by (simp_all add: get_partner_secret_def drill_registry_def partner_secret_registry_def drill_secret_def)

lemma nonce_plain: "strip ''nonce-001'' \<noteq> []"
  by code_simp

lemma strip_empty: "strip [] = []"
  by code_simp

definition agrees :: "(string \<times> json) list \<Rightarrow> bool" where
  "agrees row \<longleftrightarrow> json_get ''actual_result'' row = json_get ''expected_result'' row"

lemma decided_agrees: "decided c a row \<Longrightarrow> agrees row \<longleftrightarrow> dc_expected_result c = (if a then ''ACCEPT'' else ''REJECT'')"
  by (auto simp: decided_def agrees_def)

text \<open>What the forged signature of the drill would have to be.\<close>

definition genuine_signature :: "env \<Rightarrow> string" where
  "genuine_signature E = generate_partner_hmac_signature ''demo-current-value''
     (case_canonical (default_case E ''invalid_signature_reject'' ''key-current'' ''demo-current-value'' ''REJECT''))"

lemmas drill_case_simps = default_case_def registry_keys drill_secret_def usable_secret_def skew_seconds_def timestamp_of_def utc_def
  own_signature

lemma drill_cases_decided:
  assumes "\<And>t. fromisoformat E (with_offset (isoformat E t)) = Some (utc t)"
  shows "list_all (\<lambda>c. \<exists>row. run_case E c = Inr row \<and> decided c (dc_request_case c \<in> {''current_secret_success'',
      ''previous_secret_inside_window_success'', ''next_secret_dry_run_success''} \<or>
      dc_request_case c = ''invalid_signature_reject'' \<and> replicate 64 (CHR ''0'') = genuine_signature E) row) (drill_cases E)"
proof -
  have ts: "partner_parse_timestamp E (isoformat E t) = Some (utc t)" for t
    using assms by (simp add: partner_parse_timestamp_def utc_def)
  have sig: "px_signature (case_request c) = (case dc_signature c of Some s \<Rightarrow> s
      | None \<Rightarrow> generate_partner_hmac_signature (dc_signing_value c) (case_canonical c))" for c
    by (simp add: case_request_def)
  have run: "\<exists>row. run_case E c = Inr row \<and> decided c a row"
    if "dc_timestamp c = isoformat E t" "dc_nonce c = ''nonce-001''" "dc_signature c \<in> {None, Some (replicate 64 (CHR ''0''))}"
      "a \<longleftrightarrow> skew_seconds t FIXED_NOW \<le> 300 \<and> (case get_partner_secret drill_registry (dc_client_id c) (dc_key_id c) of
        None \<Rightarrow> False
      | Some s \<Rightarrow> usable_secret s FIXED_NOW (dc_allow_next_for_dry_run c) \<and>
          lower (strip (px_signature (case_request c))) = generate_partner_hmac_signature (ps_secret s) (case_canonical c))" for c a t
    using run_case_decided [of E c t] that ts nonce_plain own_signature(2) zero_signature(2) by (auto simp: sig)
  note simps = drill_case_simps sig zero_signature genuine_signature_def case_canonical_def strip_empty FIXED_NOW_def
  show ?thesis
    unfolding drill_cases_def list.pred_inject
    by (intro conjI)
      ((rule run [of _ FIXED_NOW]; (simp add: simps; fail)) |
       (rule run [of _ "FIXED_NOW - 600 * 1000000"]; (simp add: simps; fail)) |
       (rule missing_nonce_decided; (simp add: simps; fail)) | simp; fail)+
qed

text \<open>
  C36: with timestamps that read back as they were written, the drill runs to a report whose nine cases are the required ones in
  order; eight are decided as expected whatever the hash function computes, and the forged signature is refused unless
  it happens to be the genuine one.
\<close>

theorem rotation_drill_agrees:
  assumes "\<And>t. fromisoformat E (with_offset (isoformat E t)) = Some (utc t)"
  shows "\<exists>rows report. mapE (run_case E) (drill_cases E) = Inr rows \<and> build_rotation_report E = Inr report \<and>
    json_get ''cases'' report = Some (JList (map JObj rows)) \<and>
    map (json_get ''request_case'') rows = map (\<lambda>n. Some (JStr n)) REQUIRED_CASES \<and>
    map agrees rows = map (\<lambda>n. n \<noteq> ''invalid_signature_reject'' \<or> replicate 64 (CHR ''0'') \<noteq> genuine_signature E) REQUIRED_CASES"
proof -
  have all: "list_all (\<lambda>c. \<exists>row. run_case E c = Inr row \<and> decided c (dc_request_case c \<in> {''current_secret_success'',
      ''previous_secret_inside_window_success'', ''next_secret_dry_run_success''} \<or>
      dc_request_case c = ''invalid_signature_reject'' \<and> replicate 64 (CHR ''0'') = genuine_signature E) row) (drill_cases E)"
    by (rule drill_cases_decided) (rule assms)
  have "\<exists>rows. mapE (run_case E) cs = Inr rows \<and> list_all2 (\<lambda>c row. decided c (P c) row) cs rows"
    if "list_all (\<lambda>c. \<exists>row. run_case E c = Inr row \<and> decided c (P c) row) cs" for cs P
    using that by (induction cs) auto
  from this [OF all] obtain rows where rows: "mapE (run_case E) (drill_cases E) = Inr rows"
      "list_all2 (\<lambda>c row. decided c (dc_request_case c \<in> {''current_secret_success'', ''previous_secret_inside_window_success'',
        ''next_secret_dry_run_success''} \<or> dc_request_case c = ''invalid_signature_reject'' \<and> replicate 64 (CHR ''0'') = genuine_signature E) row)
        (drill_cases E) rows"
    by blast
  have names: "map dc_request_case (drill_cases E) = REQUIRED_CASES" by (simp add: drill_cases_def default_case_def REQUIRED_CASES_def)
  have "map (json_get ''request_case'') rows = map (\<lambda>c. Some (JStr (dc_request_case c))) (drill_cases E)"
    using rows(2) by (induction rule: list_all2_induct) (auto simp: decided_def)
  moreover have "map agrees rows = map (\<lambda>c. dc_expected_result c = (if dc_request_case c \<in> {''current_secret_success'',
      ''previous_secret_inside_window_success'', ''next_secret_dry_run_success''} \<or> dc_request_case c = ''invalid_signature_reject'' \<and>
      replicate 64 (CHR ''0'') = genuine_signature E then ''ACCEPT'' else ''REJECT'')) (drill_cases E)"
    using rows(2) by (induction rule: list_all2_induct) (simp_all add: decided_agrees)
  ultimately have "map (json_get ''request_case'') rows = map (\<lambda>n. Some (JStr n)) REQUIRED_CASES"
    "map agrees rows = map (\<lambda>n. n \<noteq> ''invalid_signature_reject'' \<or> replicate 64 (CHR ''0'') \<noteq> genuine_signature E) REQUIRED_CASES"
    by (simp_all add: drill_cases_def default_case_def REQUIRED_CASES_def)
  then show ?thesis using rows(1) by (simp add: build_rotation_report_def json_get_def)
qed

lemma digit_plain: "is_digit c \<Longrightarrow> \<not> is_space c \<and> c \<noteq> CHR ''_'' \<and> c \<notin> {CHR ''-'', CHR ''+''} \<and> c \<noteq> CHR ''Z''"
  by (auto simp: is_digit_def is_space_def code_of_def)

lemma int_text_plain:
  "strip (int_str i) = int_str i" "with_offset (int_str i) = int_str i"
proof -
  have "int_str i \<noteq> []" by (simp add: int_str_def nat_str_nonempty)
  moreover have "\<not> is_space c \<and> c \<noteq> CHR ''Z''" if "c \<in> set (int_str i)" for c
    using int_str_chars [OF that] digit_plain [of c] by (auto simp: is_space_def code_of_def)
  ultimately show "strip (int_str i) = int_str i" "with_offset (int_str i) = int_str i"
    by (simp_all add: strip_id with_offset_def replace_char_def concat_map_singleton cong: map_cong)
qed

lemma int_text_read: "int_of_str (int_str i) = Some i"
proof -
  have ds: "list_all is_digit (nat_str n)" "split_on (CHR ''_'') (nat_str n) = [nat_str n]" for n
    using nat_str_digits digit_plain by (auto simp: list_all_iff intro!: split_on_single)
  have "hd (nat_str n) \<notin> {CHR ''-'', CHR ''+''}" for n
    using nat_str_digits nat_str_nonempty digit_plain list.set_sel(1) by metis
  then show ?thesis
    unfolding int_of_str_def int_text_plain Let_def
    by (auto simp: int_str_def ds nat_str_nonempty digits_val_nat_str)
qed

theorem rotation_drill_agrees_witness:
  "\<exists>rows. mapE (run_case calm_env) (drill_cases calm_env) = Inr rows \<and>
    map (json_get ''request_case'') rows = map (\<lambda>n. Some (JStr n)) REQUIRED_CASES"
proof -
  have "fromisoformat calm_env (with_offset (isoformat calm_env t)) = Some (utc t)" for t
    by (simp add: calm_env_def int_text_plain int_text_read)
  from rotation_drill_agrees [OF this] show ?thesis by blast
qed

end
