(* ===== verification/Drill_Scan.thy ===== *)
theory Drill_Scan
  imports Latency_Attribution Rotation_Drill
begin

text \<open>
  What the three plan scripts (\<open>scripts/ph8_ha_queue_decision_matrix.py\<close>, \<open>scripts/ph9_production_hardening_drill.py\<close>,
  \<open>scripts/ph11_latency_drill_runner.py\<close>) share: the words of a command line, the targets of the Makefile, and the walk that
  looks for sensitive keys and texts. The text of the Makefile is an argument; \<open>None\<close> is a file that is not there.
\<close>

subsection \<open>Words and lines\<close>

text \<open>\<open>text.split()\<close>: the runs of characters that are not whitespace.\<close>

fun words_from :: "string \<Rightarrow> string \<Rightarrow> string list" where
  "words_from w [] = (if w = [] then [] else [w])"
| "words_from w (c # s) = (if is_space c then (if w = [] then [] else [w]) @ words_from [] s else words_from (w @ [c]) s)"

definition py_words :: "string \<Rightarrow> string list" where
  "py_words s = words_from [] s"

text \<open>
  \<open>text.splitlines()\<close> of a text read with universal newlines: line feed, the separators 0x0B, 0x0C, 0x1C, 0x1D, 0x1E and 0x85.
  A text that ends with one of them has no empty line after it.
\<close>

definition line_end :: "char \<Rightarrow> bool" where
  "line_end c \<longleftrightarrow> code_of c \<in> {10, 11, 12, 13, 28, 29, 30, 133}"

fun lines_from :: "string \<Rightarrow> string \<Rightarrow> string list" where
  "lines_from l [] = (if l = [] then [] else [l])"
| "lines_from l (c # s) = (if line_end c then l # lines_from [] s else lines_from (l @ [c]) s)"

definition py_lines :: "string \<Rightarrow> string list" where
  "py_lines s = lines_from [] s"

subsection \<open>Makefile targets\<close>

definition target_char :: "char \<Rightarrow> bool" where
  "target_char c = (let n = code_of c in
     (48 \<le> n \<and> n \<le> 57) \<or> (65 \<le> n \<and> n \<le> 90) \<or> (97 \<le> n \<and> n \<le> 122) \<or> c = CHR ''_'' \<or> c = CHR ''.'' \<or> c = CHR ''-'')"

text \<open>The group of a match of \<open>^([A-Za-z0-9_.-]+):\<close> at the start of a line.\<close>

definition line_target :: "string \<Rightarrow> string option" where
  "line_target line = (let name = takeWhile target_char line in
     case dropWhile target_char line of
       c # _ \<Rightarrow> if name \<noteq> [] \<and> c = CHR '':'' then Some name else None
     | [] \<Rightarrow> None)"

definition make_targets :: "string option \<Rightarrow> string list" where
  "make_targets makefile = (case makefile of None \<Rightarrow> [] | Some text \<Rightarrow> List.map_filter line_target (py_lines text))"

definition is_make :: "string \<Rightarrow> bool" where
  "is_make command \<longleftrightarrow> starts_with ''make '' command"

text \<open>\<open>parts[1] if len(parts) >= 2 else ""\<close>\<close>

definition target_of :: "string \<Rightarrow> string" where
  "target_of command = (case py_words command of _ # t # _ \<Rightarrow> t | _ \<Rightarrow> [])"

definition known_target :: "string list \<Rightarrow> string \<Rightarrow> bool" where
  "known_target targets command \<longleftrightarrow> (case py_words command of _ # t # _ \<Rightarrow> t \<in> set targets | _ \<Rightarrow> False)"

subsection \<open>Patterns of commands\<close>

definition any_text :: rx where
  "any_text = Many (\<lambda>c. c \<noteq> CHR 0x0A)"

text \<open>\<open>docker\s+compose\s+(a|b|...)\<close>\<close>

definition docker_compose :: "string list \<Rightarrow> rx" where
  "docker_compose verbs = seq [lit_i ''docker'', some_of is_space, lit_i ''compose'', some_of is_space, any_of (map lit_i verbs)]"

definition rm_option :: rx where
  "rm_option = seq [Edge, lit_i ''rm'', some_of is_space, lit_i ''-'']"

definition matches_any :: "rx list \<Rightarrow> string \<Rightarrow> bool" where
  "matches_any patterns s \<longleftrightarrow> list_ex (\<lambda>r. rx_search r s) patterns"

subsection \<open>Sensitive content\<close>

text \<open>
  The walk over a document: \<open>skip\<close> are the paths left out, \<open>key_hit\<close> the refused keys, \<open>patterns\<close> what no text may
  match.
\<close>

fun content_errors :: "(string \<Rightarrow> bool) \<Rightarrow> (string \<Rightarrow> bool) \<Rightarrow> (string \<times> rx) list \<Rightarrow> json \<Rightarrow> string \<Rightarrow> string list"
  and field_content :: "(string \<Rightarrow> bool) \<Rightarrow> (string \<Rightarrow> bool) \<Rightarrow> (string \<times> rx) list \<Rightarrow> (string \<times> json) list \<Rightarrow> string \<Rightarrow> string list"
  and item_content :: "(string \<Rightarrow> bool) \<Rightarrow> (string \<Rightarrow> bool) \<Rightarrow> (string \<times> rx) list \<Rightarrow> json list \<Rightarrow> nat \<Rightarrow> string \<Rightarrow> string list" where
  "content_errors skip key_hit patterns j path = (if skip path then [] else case j of
       JObj kvs \<Rightarrow> field_content skip key_hit patterns kvs path
     | JList xs \<Rightarrow> item_content skip key_hit patterns xs 0 path
     | JStr s \<Rightarrow> map (\<lambda>(pattern, _). ''sensitive text pattern found at '' @ path @ '': '' @ pattern)
         (filter (\<lambda>(_, r). rx_search r s) patterns)
     | _ \<Rightarrow> [])"
| "field_content skip key_hit patterns [] path = []"
| "field_content skip key_hit patterns ((k, v) # kvs) path =
     (if key_hit k then [''sensitive key found at '' @ path @ ''.'' @ k] else []) @
     content_errors skip key_hit patterns v (path @ ''.'' @ k) @ field_content skip key_hit patterns kvs path"
| "item_content skip key_hit patterns [] i path = []"
| "item_content skip key_hit patterns (x # xs) i path =
     content_errors skip key_hit patterns x (path @ ''['' @ nat_str i @ '']'') @ item_content skip key_hit patterns xs (Suc i) path"

declare content_errors.simps [simp del]

text \<open>The items of \<open>payload.get(key)\<close> when it is a list, none otherwise.\<close>

definition listed :: "json \<Rightarrow> json list" where
  "listed j = (case j of JList xs \<Rightarrow> xs | _ \<Rightarrow> [])"

definition not_listed :: "string \<Rightarrow> json \<Rightarrow> string list" where
  "not_listed msg j = (case j of JList _ \<Rightarrow> [] | _ \<Rightarrow> [msg])"

text \<open>\<open>f"{label} missing fields: {', '.join(sorted(missing))}"\<close>, when there are any.\<close>

definition fields_message :: "string \<Rightarrow> string list \<Rightarrow> string list" where
  "fields_message msg names = (if names \<noteq> [] then [msg @ '': '' @ join '', '' names] else [])"

text \<open>The errors of a list of texts, of which each that is not a text is one.\<close>

definition listed_text_errors :: "string \<Rightarrow> (string \<Rightarrow> string list) \<Rightarrow> json \<Rightarrow> string list" where
  "listed_text_errors msg check j = concat (map (\<lambda>item. case item of JStr s \<Rightarrow> check s | _ \<Rightarrow> [msg]) (listed j))"

text \<open>\<open>list_catalog_rows\<close>: some of the fields of every drill, which all have them.\<close>

definition row_of :: "string list \<Rightarrow> json \<Rightarrow> json" where
  "row_of keys j = (case j of JObj drill \<Rightarrow> JObj (map (\<lambda>k. (k, obj_get k JNull drill)) keys) | _ \<Rightarrow> JNull)"

end
