(* ===== verification/Latency_Drill.thy ===== *)
theory Latency_Drill
  imports Drill_Scan
begin

text \<open>
  The latency drill runner (\<open>scripts/ph11_latency_drill_runner.py\<close>): synthetic evidence for nine scenarios, six drills whose
  recorded classification is what the latency attribution of \<open>Latency_Attribution\<close> answers for their scenario, the report and
  its validator. The forbidden keys, the forbidden metric labels and the sensitive patterns are the lists of the attribution script, which
  this one repeats. The two forbidden claims written in Korean cannot occur in a text of code points below 256
  and are left out.
\<close>

subsection \<open>Constants\<close>

definition PH11_GENERATED_AT :: string where
  "PH11_GENERATED_AT = ''2026-07-08T00:00:00+00:00''"

definition REQUIRED_DRILLS :: "string list" where
  "REQUIRED_DRILLS = [''LAT-001'', ''LAT-002'', ''LAT-003'', ''LAT-004'', ''LAT-005'', ''LAT-006'']"

definition PH11_TOP_LEVEL_FIELDS :: "string list" where
  "PH11_TOP_LEVEL_FIELDS = [''run_id'', ''generated_at'', ''phase'', ''scope'', ''current_status'', ''drill_count'', ''drills'',
     ''safe_demo_scenarios'', ''manual_drill_candidates'', ''ph10_analyzer_link'', ''consistency_policy'',
     ''sensitive_data_policy'', ''metric_label_policy'', ''validation_summary'', ''follow_up_candidates'']"

definition PH11_DRILL_FIELDS :: "string list" where
  "PH11_DRILL_FIELDS = [''drill_id'', ''name'', ''goal'', ''scenario_type'', ''safe_to_auto_run'', ''manual_run_required'', ''requires_docker'',
     ''requires_k6'', ''requires_database'', ''requires_redis'', ''requires_nginx'', ''requires_mock_partner'', ''commands'',
     ''manual_commands'', ''candidate_commands'', ''expected_k6_evidence'', ''expected_server_evidence'',
     ''expected_consistency_evidence'', ''expected_ph10_classification'', ''actual_ph10_classification'',
     ''ph10_input_scenario'', ''success_criteria'', ''failure_signals'', ''safety_boundary'', ''manual_approval_required_for'',
     ''linked_docs'', ''status'']"

definition ALLOWED_DRILL_FIELDS :: "string list" where
  "ALLOWED_DRILL_FIELDS = PH11_DRILL_FIELDS @ [''label_candidates'']"

definition SCENARIOS :: "string list" where
  "SCENARIOS = [''baseline'', ''db_pool_pressure'', ''db_lock_contention'', ''redis_degraded'', ''redis_unavailable'',
     ''external_endpoint_slow'', ''app_http_client_path_issue'', ''nginx_edge_latency'', ''insufficient_evidence'']"

definition PH11_DESTRUCTIVE_COMMAND_PATTERNS :: "rx list" where
  "PH11_DESTRUCTIVE_COMMAND_PATTERNS =
    [docker_compose [''down'', ''stop'', ''pause'', ''rm'', ''kill''], rm_option, whole_word ''delete'', whole_word ''truncate'',
     whole_word ''drop'', seq [whole_word ''stop'', any_text, lit_i ''redis''], seq [whole_word ''stop'', any_text, lit_i ''postgres''],
     lit_i ''db-lock'', lit_i ''db-pool'', lit_i ''redis-down'', lit_i ''redis-delay'', lit_i ''toxiproxy'', lit_i ''netem'', lit_i ''failover'',
     lit_i ''promote'', lit_i ''write-resume'', seq [lit_i ''ledger'', any_text, lit_i ''compensation''],
     seq [lit_i ''partner'', any_text, lit_i ''approval'']]"

definition PH11_FORBIDDEN_CLAIMS :: "string list" where
  "PH11_FORBIDDEN_CLAIMS = [''k6 proves postgres root cause'', ''k6 alone proves postgres'', ''k6 alone proves redis'', ''k6 alone proves external'',
     ''production fault injection is automatically executed'', ''PH11 automatically runs production fault injection'',
     ''AI confirmed the root cause'', ''AI automatically fixes latency'']"

subsection \<open>Evidence for the attribution\<close>

definition ph11_baseline :: "(string \<times> json) list" where
  "ph11_baseline = [(''k6_p95_ms'', JInt 180), (''k6_p99_ms'', JInt 420), (''server_handler_p95_ms'', JInt 120), (''server_handler_p99_ms'',
     JInt 300)]"

definition ph11_consistency :: "(string \<times> json) list" where
  "ph11_consistency = [(''duplicate_ledger_count'', JInt 0), (''duplicate_external_event_count'', JInt 0), (''reconciliation_failure_count'',
     JInt 0), (''invalid_state_transition_count'', JInt 0)]"

definition observed_by_scenario :: "(string \<times> (string \<times> json) list) list" where
  "observed_by_scenario = [
     (''baseline'', [(''k6_p95_ms'', JInt 190), (''k6_p99_ms'', JInt 430), (''nginx_request_p95_ms'', JInt 180),
       (''nginx_upstream_p95_ms'', JInt 160), (''fastapi_handler_p95_ms'', JInt 130), (''postgres_phase_p95_ms'',
       JInt 70), (''redis_phase_p95_ms'', JInt 20), (''outbound_http_p95_ms'', JInt 0), (''blackbox_probe_p95_ms'',
       JInt 0), (''error_rate'', JInt 0)]),
     (''db_pool_pressure'', [(''k6_p95_ms'', JInt 700), (''k6_p99_ms'', JInt 1500), (''nginx_request_p95_ms'', JInt 680),
       (''nginx_upstream_p95_ms'', JInt 640), (''fastapi_handler_p95_ms'', JInt 600), (''db_pool_wait_p95_ms'',
       JInt 260), (''postgres_phase_p95_ms'', JInt 210), (''redis_phase_p95_ms'', JInt 20), (''outbound_http_p95_ms'',
       JInt 0), (''blackbox_probe_p95_ms'', JInt 0), (''error_rate'', JFloat ''0.01'')]),
     (''db_lock_contention'', [(''k6_p95_ms'', JInt 760), (''k6_p99_ms'', JInt 1800), (''nginx_request_p95_ms'', JInt 730),
       (''nginx_upstream_p95_ms'', JInt 700), (''fastapi_handler_p95_ms'', JInt 650), (''db_lock_wait_p95_ms'',
       JInt 300), (''postgres_phase_p95_ms'', JInt 260), (''redis_phase_p95_ms'', JInt 20), (''outbound_http_p95_ms'',
       JInt 0), (''blackbox_probe_p95_ms'', JInt 0), (''error_rate'', JFloat ''0.01'')]),
     (''redis_degraded'', [(''k6_p95_ms'', JInt 650), (''k6_p99_ms'', JInt 1400), (''nginx_request_p95_ms'', JInt 630),
       (''nginx_upstream_p95_ms'', JInt 600), (''fastapi_handler_p95_ms'', JInt 560), (''postgres_phase_p95_ms'',
       JInt 120), (''redis_phase_p95_ms'', JInt 260), (''outbound_http_p95_ms'', JInt 0), (''blackbox_probe_p95_ms'',
       JInt 0), (''error_rate'', JFloat ''0.01'')]),
     (''redis_unavailable'', [(''k6_p95_ms'', JInt 540), (''k6_p99_ms'', JInt 1100), (''nginx_request_p95_ms'', JInt 520),
       (''nginx_upstream_p95_ms'', JInt 500), (''fastapi_handler_p95_ms'', JInt 460), (''postgres_phase_p95_ms'',
       JInt 170), (''redis_phase_p95_ms'', JInt 0), (''redis_unavailable'', JBool True), (''outbound_http_p95_ms'',
       JInt 0), (''blackbox_probe_p95_ms'', JInt 0), (''error_rate'', JFloat ''0.02'')]),
     (''external_endpoint_slow'', [(''k6_p95_ms'', JInt 900), (''k6_p99_ms'', JInt 1900), (''nginx_request_p95_ms'', JInt 860),
       (''nginx_upstream_p95_ms'', JInt 830), (''fastapi_handler_p95_ms'', JInt 800), (''postgres_phase_p95_ms'',
       JInt 100), (''redis_phase_p95_ms'', JInt 30), (''outbound_http_p95_ms'', JInt 520), (''blackbox_probe_p95_ms'',
       JInt 900), (''error_rate'', JFloat ''0.02'')]),
     (''app_http_client_path_issue'', [(''k6_p95_ms'', JInt 780), (''k6_p99_ms'', JInt 1600), (''nginx_request_p95_ms'', JInt 730),
       (''nginx_upstream_p95_ms'', JInt 700), (''fastapi_handler_p95_ms'', JInt 680), (''postgres_phase_p95_ms'',
       JInt 90), (''redis_phase_p95_ms'', JInt 30), (''outbound_http_p95_ms'', JInt 500), (''blackbox_probe_p95_ms'',
       JInt 180), (''error_rate'', JFloat ''0.01'')]),
     (''nginx_edge_latency'', [(''k6_p95_ms'', JInt 900), (''k6_p99_ms'', JInt 1600), (''nginx_request_p95_ms'', JInt 850),
       (''nginx_upstream_p95_ms'', JInt 180), (''fastapi_handler_p95_ms'', JInt 140), (''postgres_phase_p95_ms'',
       JInt 70), (''redis_phase_p95_ms'', JInt 20), (''outbound_http_p95_ms'', JInt 0), (''blackbox_probe_p95_ms'',
       JInt 0), (''error_rate'', JInt 0)])]"

definition generate_ph10_input :: "string \<Rightarrow> exn + (string \<times> json) list" where
  "generate_ph10_input scenario =
    (if scenario \<notin> set SCENARIOS then Inl (ValueError (''unknown PH11 latency scenario: '' @ scenario))
     else if scenario = ''insufficient_evidence'' then Inr [
       (''run_id'', JStr ''ph11-insufficient-evidence-sample''), (''generated_at'', JStr PH11_GENERATED_AT),
       (''scenario'', JStr scenario), (''baseline'', JObj ph11_baseline)]
     else (case map_of observed_by_scenario scenario of
         None \<Rightarrow> Inl (KeyError scenario)
       | Some observed \<Rightarrow> Inr [
           (''run_id'', JStr (''ph11-'' @ scenario @ ''-sample'')), (''generated_at'', JStr PH11_GENERATED_AT),
           (''scenario'', JStr scenario), (''route_group'', JStr ''financial_event_write''), (''method'', JStr ''POST''),
           (''status_code_family'', JStr ''2xx''), (''baseline'', JObj ph11_baseline), (''observed'', JObj observed),
           (''consistency'', JObj ph11_consistency)]))"

text \<open>\<open>analyze_evidence(generate_ph10_input(scenario))["classification"]\<close>\<close>

definition analyzed_classification :: "string \<Rightarrow> exn + json" where
  "analyzed_classification scenario = bindE (generate_ph10_input scenario) (\<lambda>evidence.
     bindE (analyze_evidence (JObj evidence)) (\<lambda>report. Inr (obj_get ''classification'' JNull report)))"

subsection \<open>The catalog and the report\<close>

definition LAT_001 :: "(string \<times> json) list" where
  "LAT_001 = [(''drill_id'', JStr ''LAT-001''), (''name'', JStr ''Baseline Latency Drill''), (''goal'',
     JStr ''Create normal/peak local latency baselines and keep consistency counters clean.''), (''scenario_type'',
     JStr ''safe_sample_baseline''), (''safe_to_auto_run'', JBool True), (''manual_run_required'', JBool False),
     (''requires_docker'', JBool False), (''requires_k6'', JBool False), (''requires_database'', JBool False),
     (''requires_redis'', JBool False), (''requires_nginx'', JBool False), (''requires_mock_partner'', JBool False),
     (''commands'', strings [''make ph11-latency-drill-generate-ph10-input'', ''make ph11-latency-drill-validate'']),
     (''manual_commands'', strings [''make k6-normal'', ''make k6-peak'']), (''candidate_commands'',
     strings [''make ph11-latency-baseline-demo'']), (''expected_k6_evidence'', strings [''baseline p95/p99'', ''error rate'']),
     (''expected_server_evidence'', strings [''handler p95 near baseline'']), (''expected_consistency_evidence'',
     strings [''duplicate ledger count 0'', ''duplicate external event count 0'', ''reconciliation failure count 0'']),
     (''expected_ph10_classification'', JStr ''baseline_normal_latency''), (''ph10_input_scenario'', JStr ''baseline''),
     (''success_criteria'', strings [''PH10 returns baseline_normal_latency'',
     ''local baseline is not presented as production SLO'']), (''failure_signals'', strings [''baseline p95/p99 is missing'',
     ''consistency counter is non-zero'']), (''safety_boundary'', JStr ''Default command only generates sample evidence.''),
     (''manual_approval_required_for'', strings []), (''linked_docs'', strings [''docs/42-latency-drill-test-plan.md'']),
     (''status'', JStr ''implemented_safe_evidence'')]"

definition LAT_002 :: "(string \<times> json) list" where
  "LAT_002 = [(''drill_id'', JStr ''LAT-002''), (''name'', JStr ''PostgreSQL Pool Pressure Drill''), (''goal'',
     JStr ''Represent DB pool wait or pressure evidence without changing pool size by default.''), (''scenario_type'',
     JStr ''manual_db_pool_candidate''), (''safe_to_auto_run'', JBool False), (''manual_run_required'', JBool True),
     (''requires_docker'', JBool True), (''requires_k6'', JBool True), (''requires_database'', JBool True), (''requires_redis'',
     JBool False), (''requires_nginx'', JBool False), (''requires_mock_partner'', JBool False), (''commands'',
     strings [''make ph11-latency-drill-generate-ph10-input'']), (''manual_commands'',
     strings [''make ph11-latency-db-pool-manual'']), (''candidate_commands'', strings []), (''expected_k6_evidence'',
     strings [''p95/p99 increase'']), (''expected_server_evidence'', strings [''DB pool wait p95'',
     ''FastAPI handler p95 increase'']), (''expected_consistency_evidence'', strings [''duplicate ledger count 0'']),
     (''expected_ph10_classification'', JStr ''internal_postgres_pool_pressure''), (''ph10_input_scenario'',
     JStr ''db_pool_pressure''), (''success_criteria'', strings [''PH10 returns internal_postgres_pool_pressure'',
     ''pool pressure remains candidate evidence without supporting DB timing'']), (''failure_signals'',
     strings [''p99 alone is used as DB proof'', ''manual pool change is in default command'']), (''safety_boundary'',
     JStr ''Changing pool size is manual/opt-in only.''), (''manual_approval_required_for'',
     strings [''DB pool pressure drill'']), (''linked_docs'', strings [''docs/42-latency-drill-test-plan.md'']), (''status'',
     JStr ''implemented_safe_evidence_manual_drill_candidate'')]"

definition LAT_003 :: "(string \<times> json) list" where
  "LAT_003 = [(''drill_id'', JStr ''LAT-003''), (''name'', JStr ''PostgreSQL Lock Contention Drill''), (''goal'',
     JStr ''Represent row lock contention evidence without running a lock holder by default.''), (''scenario_type'',
     JStr ''manual_db_lock_candidate''), (''safe_to_auto_run'', JBool False), (''manual_run_required'', JBool True),
     (''requires_docker'', JBool True), (''requires_k6'', JBool True), (''requires_database'', JBool True), (''requires_redis'',
     JBool False), (''requires_nginx'', JBool False), (''requires_mock_partner'', JBool False), (''commands'',
     strings [''make ph11-latency-drill-demo'']), (''manual_commands'', strings [''make ph11-latency-db-lock-manual'']),
     (''candidate_commands'', strings []), (''expected_k6_evidence'', strings [''p95/p99 increase'', ''timeout candidate'']),
     (''expected_server_evidence'', strings [''DB lock wait p95'', ''FastAPI handler p95 increase'']),
     (''expected_consistency_evidence'', strings [''invalid state transition count 0'']), (''expected_ph10_classification'',
     JStr ''internal_postgres_lock_contention''), (''ph10_input_scenario'', JStr ''db_lock_contention''), (''success_criteria'',
     strings [''PH10 returns internal_postgres_lock_contention'',
     ''lock holder remains manual with timeout and cleanup notes'']), (''failure_signals'',
     strings [''lock holder runs in default demo'', ''write path can hang without timeout'']), (''safety_boundary'',
     JStr ''DB lock holder is manual/opt-in and must have timeout cleanup.''), (''manual_approval_required_for'',
     strings [''DB lock holder'']), (''linked_docs'', strings [''docs/42-latency-drill-test-plan.md'']), (''status'',
     JStr ''implemented_safe_evidence_manual_drill_candidate'')]"

definition LAT_004 :: "(string \<times> json) list" where
  "LAT_004 = [(''drill_id'', JStr ''LAT-004''), (''name'', JStr ''Redis Delay / Redis Down Drill''), (''goal'',
     JStr ''Separate Redis slow evidence from Redis unavailable fallback evidence.''), (''scenario_type'',
     JStr ''manual_redis_candidate''), (''safe_to_auto_run'', JBool False), (''manual_run_required'', JBool True),
     (''requires_docker'', JBool True), (''requires_k6'', JBool True), (''requires_database'', JBool True), (''requires_redis'',
     JBool True), (''requires_nginx'', JBool False), (''requires_mock_partner'', JBool False), (''commands'',
     strings [''make ph11-latency-drill-generate-ph10-input'']), (''manual_commands'',
     strings [''make ph11-latency-redis-down-manual'']), (''candidate_commands'',
     strings [''make ph11-latency-redis-delay-candidate'']), (''expected_k6_evidence'', strings [''p95/p99 increase'',
     ''fallback availability candidate'']), (''expected_server_evidence'', strings [''Redis phase p95'',
     ''Redis unavailable flag'']), (''expected_consistency_evidence'', strings [''duplicate external event count 0'']),
     (''expected_ph10_classification'', JStr ''redis_degraded_latency''), (''ph10_input_scenario'', JStr ''redis_degraded''),
     (''success_criteria'', strings [''PH10 returns redis_degraded_latency for slow evidence'',
     ''redis_unavailable scenario can generate redis_unavailable_fallback'']), (''failure_signals'',
     strings [''test-only Redis delay is added to production code'']), (''safety_boundary'',
     JStr ''Redis down/delay is manual or candidate only.''), (''manual_approval_required_for'', strings [''Redis down'',
     ''Redis delay'']), (''linked_docs'', strings [''docs/42-latency-drill-test-plan.md'']), (''status'',
     JStr ''implemented_safe_evidence_manual_drill_candidate'')]"

definition LAT_005 :: "(string \<times> json) list" where
  "LAT_005 = [(''drill_id'', JStr ''LAT-005''), (''name'', JStr ''External Dependency Slow Response Drill''), (''goal'',
     JStr ''Separate provider endpoint slowness from local HTTP client path problems.''), (''scenario_type'',
     JStr ''manual_external_candidate''), (''safe_to_auto_run'', JBool False), (''manual_run_required'', JBool True),
     (''requires_docker'', JBool True), (''requires_k6'', JBool True), (''requires_database'', JBool False), (''requires_redis'',
     JBool False), (''requires_nginx'', JBool False), (''requires_mock_partner'', JBool True), (''commands'',
     strings [''make ph11-latency-drill-generate-ph10-input'']), (''manual_commands'',
     strings [''make ph11-latency-external-slow-manual'']), (''candidate_commands'', strings []), (''expected_k6_evidence'',
     strings [''p95/p99 increase'', ''timeout candidate'']), (''expected_server_evidence'', strings [''outbound HTTP p95'',
     ''blackbox probe p95'']), (''expected_consistency_evidence'', strings [''reconciliation failure count 0'']),
     (''expected_ph10_classification'', JStr ''external_endpoint_slow''), (''ph10_input_scenario'',
     JStr ''external_endpoint_slow''), (''success_criteria'', strings [''PH10 returns external_endpoint_slow'',
     ''mock evidence is not claimed as full provider outage proof'']), (''failure_signals'',
     strings [''mock partner is described as complete provider proof'']), (''safety_boundary'',
     JStr ''Mock partner and slow endpoint behavior are manual/follow-up candidates.''), (''manual_approval_required_for'',
     strings [''mock partner'']), (''linked_docs'', strings [''docs/42-latency-drill-test-plan.md'']), (''status'',
     JStr ''implemented_safe_evidence_manual_drill_candidate'')]"

definition LAT_006 :: "(string \<times> json) list" where
  "LAT_006 = [(''drill_id'', JStr ''LAT-006''), (''name'', JStr ''Nginx Edge / Client Network Latency Drill''), (''goal'',
     JStr ''Identify high Nginx request time with normal upstream/FastAPI handler evidence.''), (''scenario_type'',
     JStr ''manual_nginx_edge_candidate''), (''safe_to_auto_run'', JBool False), (''manual_run_required'', JBool True),
     (''requires_docker'', JBool True), (''requires_k6'', JBool True), (''requires_database'', JBool False), (''requires_redis'',
     JBool False), (''requires_nginx'', JBool True), (''requires_mock_partner'', JBool False), (''commands'',
     strings [''make ph11-latency-drill-generate-ph10-input'']), (''manual_commands'', strings []), (''candidate_commands'',
     strings [''make ph11-latency-nginx-edge-candidate'']), (''expected_k6_evidence'',
     strings [''client-side p95/p99 increase'']), (''expected_server_evidence'', strings [''Nginx request time high'',
     ''upstream and handler normal'']), (''expected_consistency_evidence'', strings [''duplicate ledger count 0'']),
     (''expected_ph10_classification'', JStr ''edge_or_client_network_latency''), (''ph10_input_scenario'',
     JStr ''nginx_edge_latency''), (''success_criteria'', strings [''PH10 returns edge_or_client_network_latency'',
     ''request_id remains log correlation only, not metric label'']), (''failure_signals'',
     strings [''request_id is used as metric label'', ''network delay runs by default'']), (''safety_boundary'',
     JStr ''Nginx edge/network delay remains candidate/manual only.''), (''manual_approval_required_for'',
     strings [''network delay'']), (''linked_docs'', strings [''docs/42-latency-drill-test-plan.md'']), (''status'',
     JStr ''implemented_safe_evidence_manual_drill_candidate'')]"

definition drill_definitions :: "(string \<times> json) list list" where
  "drill_definitions = [LAT_001, LAT_002, LAT_003, LAT_004, LAT_005, LAT_006]"

definition catalog_drill :: "(string \<times> json) list \<Rightarrow> exn + json" where
  "catalog_drill item = (case json_get ''ph10_input_scenario'' item of
       Some (JStr scenario) \<Rightarrow> bindE (analyzed_classification scenario) (\<lambda>actual.
         Inr (JObj (item @ [(''actual_ph10_classification'', actual)])))
     | Some _ \<Rightarrow> Inl (TypeError ''scenario'')
     | None \<Rightarrow> Inl (KeyError ''ph10_input_scenario''))"

definition drill_catalog :: "exn + json list" where
  "drill_catalog = mapE catalog_drill drill_definitions"

definition drill_report :: "json list \<Rightarrow> (string \<times> json) list" where
  "drill_report drills = [
     (''run_id'', JStr ''ph11-latency-drill-evidence-runner-sample''),
     (''generated_at'', JStr PH11_GENERATED_AT),
     (''phase'', JStr ''PH11 Latency Drill Test Plan & Safe Evidence Runner''),
     (''scope'', strings [''LAT-001~LAT-006 latency drill catalog'', ''safe sample evidence generation'',
       ''PH10 analyzer input generation and expected/actual comparison'', ''consistency evidence boundary validation'',
       ''manual/opt-in boundary for destructive or environment-changing drills'']),
     (''current_status'',
       JStr ''Implemented as a safe catalog, synthetic evidence generator, PH10 analyzer integration, and validator. Default demo does not execute DB lock holders, Redis down/delay, Nginx delay, mock partner, Toxiproxy, netem, or production fault injection.''),
     (''drill_count'', JInt (int (length drills))),
     (''drills'', JList drills),
     (''safe_demo_scenarios'', strings [''baseline'', ''db_pool_pressure'', ''db_lock_contention'', ''redis_degraded'',
       ''redis_unavailable'', ''external_endpoint_slow'', ''app_http_client_path_issue'', ''nginx_edge_latency'',
       ''insufficient_evidence'']),
     (''manual_drill_candidates'', strings [''DB pool pressure with altered pool size'', ''controlled DB lock holder'',
       ''Redis down or Redis delay with network tooling'', ''mock partner slow endpoint'',
       ''Nginx edge/client network latency profile'']),
     (''ph10_analyzer_link'', JObj [(''script'', JStr ''scripts/ph10_latency_attribution.py''), (''input_contract'',
       JStr ''reports/latency/ph11-drill-evidence/sample-ph10-input-evidence.json''), (''expected_actual_policy'',
       JStr ''Each drill records expected_ph10_classification, recomputes the PH10 analyzer output from ph10_input_scenario, and validates it against stored actual_ph10_classification.'')]),
     (''consistency_policy'', JObj [(''duplicate_ledger_count'', JInt 0), (''duplicate_external_event_count'', JInt 0),
       (''reconciliation_failure_count'', JInt 0), (''invalid_state_transition_count'', JInt 0), (''violation_priority'',
       JStr ''Any non-zero consistency counter is treated as a consistency incident candidate before latency classification.'')]),
     (''sensitive_data_policy'', JObj [(''plain_financial_identifiers'', JStr ''prohibited''),
       (''plain_retry_identifiers'', JStr ''prohibited''), (''request_payload_contents'', JStr ''prohibited''),
       (''auth_material'', JStr ''prohibited''), (''signing_material'', JStr ''prohibited''), (''endpoint_values'',
       JStr ''prohibited'')]),
     (''metric_label_policy'', JObj [
       (''allowed'', strings [''route_group'', ''endpoint_group'', ''partner_alias'', ''method'', ''status_code_family'', ''result'', ''phase'', ''operation'']),
       (''forbidden'', strings (sorted_set FORBIDDEN_METRIC_LABELS))]),
     (''validation_summary'', JObj [(''required_drills'', strings (sorted_set REQUIRED_DRILLS)), (''safe_demo_runs_fault_injection'', JBool False),
       (''ph10_expected_actual_mismatch_allowed'', JBool False), (''sensitive_data_included'', JBool False),
       (''k6_only_root_cause_claim_allowed'', JBool False), (''consistency_violation_downgraded_to_latency'', JBool False)]),
     (''follow_up_candidates'', strings [''Toxiproxy or netem latency profiles'', ''OpenTelemetry full tracing'',
       ''Grafana latency attribution dashboard'', ''mock partner service compose profile'',
       ''controlled DB lock holder script''])]"

definition build_drill_report :: "exn + (string \<times> json) list" where
  "build_drill_report = bindE drill_catalog (\<lambda>drills. Inr (drill_report drills))"

subsection \<open>Validation\<close>

definition validate_actual_matches_analyzer :: "string \<Rightarrow> (string \<times> json) list \<Rightarrow> exn + string list" where
  "validate_actual_matches_analyzer label drill = (case obj_get ''ph10_input_scenario'' JNull drill of
       JStr scenario \<Rightarrow>
         if scenario \<notin> set SCENARIOS then Inr [label @ '' ph10_input_scenario is invalid: '' @ scenario]
         else bindE (analyzed_classification scenario) (\<lambda>actual_from_analyzer.
           Inr (if py_eq (obj_get ''actual_ph10_classification'' JNull drill) actual_from_analyzer then []
             else [label @ '' actual PH10 classification does not match analyzer output'']))
     | j \<Rightarrow> if hashable j then Inr [label @ '' ph10_input_scenario is invalid: '' @ py_str j] else Inl unhashable)"

definition validate_default_command :: "string \<Rightarrow> string \<Rightarrow> string list \<Rightarrow> string list" where
  "validate_default_command label command targets =
    (if matches_any PH11_DESTRUCTIVE_COMMAND_PATTERNS command
     then [label @ '' destructive/manual command is not allowed: '' @ command] else []) @
    (if \<not> is_make command then [label @ '' command must use make: '' @ command]
     else if \<not> known_target targets command then [label @ '' command target does not exist: '' @ command] else [])"

definition validate_manual_or_candidate_command :: "string \<Rightarrow> string \<Rightarrow> string \<Rightarrow> string list" where
  "validate_manual_or_candidate_command label field command =
    (if \<not> is_make command then [label @ '' '' @ field @ '' must use make: '' @ command]
     else (let target = target_of command in
       if occurs_in ''manual'' target \<or> occurs_in ''candidate'' target \<or> occurs_in ''demo'' target \<or>
          target \<in> {''k6-normal'', ''k6-peak'', ''k6-redis-down''} then []
       else [label @ '' '' @ field @ '' must be marked manual/candidate: '' @ command]))"

definition validate_k6_root_cause_language :: "string \<Rightarrow> (string \<times> json) list \<Rightarrow> string list" where
  "validate_k6_root_cause_language label drill = (let rendered = lower (dumps_default False (JObj drill)) in
     if occurs_in ''k6'' rendered \<and>
        (occurs_in ''k6 proves'' rendered \<or> occurs_in ''k6 alone proves'' rendered \<or> occurs_in ''k6 root cause'' rendered)
     then [label @ '' k6-only root cause claim is not allowed''] else [])"

definition classification_errors :: "string \<Rightarrow> (string \<times> json) list \<Rightarrow> string list" where
  "classification_errors label drill = (let
     expected = obj_get ''expected_ph10_classification'' JNull drill;
     actual = obj_get ''actual_ph10_classification'' JNull drill
   in (if member_of expected CLASSIFICATIONS then []
       else [label @ '' expected PH10 classification is invalid: '' @ py_str expected]) @
      (if member_of actual CLASSIFICATIONS then []
       else [label @ '' actual PH10 classification is invalid: '' @ py_str actual]) @
      (if py_eq expected actual then []
       else [label @ '' PH10 classification mismatch: expected '' @ py_str expected @ '', actual '' @ py_str actual]))"

definition marked_commands :: "string \<Rightarrow> (string \<times> json) list \<Rightarrow> string \<Rightarrow> string list" where
  "marked_commands label drill field = (let values = obj_get field (JList []) drill in
     not_listed (label @ '' '' @ field @ '' must be a list'') values @
     listed_text_errors (label @ '' '' @ field @ '' item must be a string'') (validate_manual_or_candidate_command label field) values)"

definition boundary_errors :: "string \<Rightarrow> (string \<times> json) list \<Rightarrow> string list" where
  "boundary_errors label drill = (let
     rendered = dumps_default False (JObj [(''commands'', obj_get ''commands'' (JList []) drill),
       (''safety_boundary'', obj_get ''safety_boundary'' (JStr []) drill)]);
     manual = (json_get ''manual_run_required'' drill = Some (JBool True))
   in (if json_get ''safe_to_auto_run'' drill = Some (JBool True) \<and> matches_any PH11_DESTRUCTIVE_COMMAND_PATTERNS rendered
       then [label @ '' safe auto-run drill contains manual action terms''] else []) @
      (if manual \<and> \<not> json_truthy (obj_get ''manual_approval_required_for'' JNull drill)
       then [label @ '' manual drill must document manual approval boundary''] else []) @
      (if manual \<and> \<not> json_truthy (obj_get ''safety_boundary'' JNull drill)
       then [label @ '' manual drill must document safety_boundary''] else []))"

text \<open>\<open>_validate_drill\<close>: a classification without a hash stops it, as the set lookup does.\<close>

definition validate_latency_drill :: "string list \<Rightarrow> nat \<Rightarrow> (string \<times> json) list \<Rightarrow> exn + string list" where
  "validate_latency_drill targets i drill = (let
     label = item_label ''drill_id'' i drill;
     commands = obj_get ''commands'' (JList []) drill
   in if \<not> hashable (obj_get ''expected_ph10_classification'' JNull drill) \<or> \<not> hashable (obj_get ''actual_ph10_classification'' JNull drill)
      then Inl unhashable
      else bindE (validate_actual_matches_analyzer label drill) (\<lambda>analyzer_errors. Inr (
        fields_message (label @ '' missing fields'') (sorted_minus PH11_DRILL_FIELDS (map fst drill)) @
        fields_message (label @ '' unexpected drill fields'') (sorted_minus (map fst drill) ALLOWED_DRILL_FIELDS) @
        classification_errors label drill @ analyzer_errors @
        not_listed (label @ '' commands must be a list'') commands @
        listed_text_errors (label @ '' command must be a string'') (\<lambda>command. validate_default_command label command targets) commands @
        concat (map (marked_commands label drill) [''manual_commands'', ''candidate_commands'']) @
        boundary_errors label drill @
        concat (map (\<lambda>field. if json_truthy (obj_get field JNull drill) then [] else [label @ '' '' @ field @ '' must not be empty''])
          [''expected_k6_evidence'', ''expected_server_evidence'', ''expected_consistency_evidence'', ''success_criteria'',
           ''failure_signals'', ''linked_docs'']) @
        validate_k6_root_cause_language label drill)))"

definition latency_drill_errors :: "string list \<Rightarrow> nat \<times> json \<Rightarrow> exn + string list" where
  "latency_drill_errors targets item = (case item of
       (i, JObj drill) \<Rightarrow> validate_latency_drill targets i drill
     | (i, _) \<Rightarrow> Inr [''drills['' @ nat_str i @ ''] must be an object''])"

text \<open>\<open>value in (0, "0")\<close>, by equality.\<close>

definition is_zero :: "json \<Rightarrow> bool" where
  "is_zero j \<longleftrightarrow> py_eq j (JInt 0) \<or> j = JStr ''0''"

definition validate_consistency_policy :: "(string \<times> json) list \<Rightarrow> string list" where
  "validate_consistency_policy payload = (case obj_get ''consistency_policy'' (JObj []) payload of
       JObj policy \<Rightarrow>
         if list_ex (\<lambda>counter. \<not> is_zero (obj_get counter JNull policy))
              [''duplicate_ledger_count'', ''duplicate_external_event_count'', ''reconciliation_failure_count'', ''invalid_state_transition_count''] \<and>
            \<not> occurs_in ''consistency'' (lower (py_str (obj_get ''violation_priority'' (JStr []) policy)))
         then [''consistency violation cannot be reported as clean latency''] else []
     | _ \<Rightarrow> [''consistency_policy must be an object''])"

definition drill_skipped_path :: "string \<Rightarrow> bool" where
  "drill_skipped_path path \<longleftrightarrow> starts_with ''$.sensitive_data_policy'' path \<or> starts_with ''$.metric_label_policy'' path"

definition drill_sensitive_content :: "(string \<times> json) list \<Rightarrow> string list" where
  "drill_sensitive_content payload =
     content_errors drill_skipped_path (\<lambda>k. matching_forbidden_key (lower k)) PH10_SENSITIVE_TEXT_PATTERNS (JObj payload) ''$''"

definition validate_drill_report :: "string option \<Rightarrow> (string \<times> json) list \<Rightarrow> exn + string list" where
  "validate_drill_report makefile payload = (let
     raw_drills = obj_get ''drills'' JNull payload;
     drills = listed raw_drills
   in bindE (names_found ''drill_id'' drills) (\<lambda>drill_ids.
      bindE (mapE (latency_drill_errors (make_targets makefile)) (enumerate 0 drills)) (\<lambda>drill_errors. Inr (sorted_set (
        fields_message ''missing top-level fields'' (sorted_minus PH11_TOP_LEVEL_FIELDS (map fst payload)) @
        fields_message ''unexpected top-level fields'' (sorted_minus (map fst payload) PH11_TOP_LEVEL_FIELDS) @
        not_listed ''drills must be a list'' raw_drills @
        (if \<not> py_eq (obj_get ''drill_count'' JNull payload) (JInt (int (length drills)))
         then [''drill_count must match drills length''] else []) @
        fields_message ''missing required latency drills'' (names_missing REQUIRED_DRILLS drill_ids) @
        concat drill_errors @
        validate_consistency_policy payload @ drill_sensitive_content payload @ validate_metric_labels (JObj payload) ''$'' @
        forbidden_claims PH11_FORBIDDEN_CLAIMS payload)))))"

definition validate_drill_document :: "string option \<Rightarrow> json \<Rightarrow> exn + string list" where
  "validate_drill_document makefile j = (case j of
       JObj payload \<Rightarrow> validate_drill_report makefile payload | _ \<Rightarrow> Inl (not_an_object j))"

subsection \<open>The command\<close>

definition drill_row :: "json \<Rightarrow> string" where
  "drill_row j = (case j of
       JObj drill \<Rightarrow> ''| `'' @ report_text ''drill_id'' drill @ ''` | '' @ report_text ''name'' drill @ '' | '' @
         lower (report_text ''safe_to_auto_run'' drill) @ '' | '' @ lower (report_text ''manual_run_required'' drill) @ '' | `'' @
         report_text ''expected_ph10_classification'' drill @ ''` | `'' @ report_text ''actual_ph10_classification'' drill @ ''` |''
     | _ \<Rightarrow> [])"

definition object_of :: "json \<Rightarrow> (string \<times> json) list" where
  "object_of j = (case j of JObj kvs \<Rightarrow> kvs | _ \<Rightarrow> [])"

definition render_drill_report :: "(string \<times> json) list \<Rightarrow> string" where
  "render_drill_report report = (let link = object_of (obj_get ''ph10_analyzer_link'' JNull report) in join [CHR 0x0A] (
     [''# PH11 Latency Drill Evidence Runner'', [],
      quoted_line ''Run ID'' ''run_id'' report, quoted_line ''Generated at'' ''generated_at'' report,
      quoted_line ''Phase'' ''phase'' report, ''- Current status: '' @ report_text ''current_status'' report,
      quoted_line ''Drill count'' ''drill_count'' report, [], ''## Scope'', []] @
     report_items ''scope'' report @
     [[], ''## Drill Catalog'', [], ''| Drill | Name | Safe Demo | Manual Required | Expected PH10 | Actual PH10 |'',
      ''| --- | --- | --- | --- | --- | --- |''] @
     map drill_row (listed (obj_get ''drills'' JNull report)) @
     [[], ''## PH10 Analyzer Link'', [],
      quoted_line ''Script'' ''script'' link, quoted_line ''Input contract'' ''input_contract'' link,
      ''- Policy: '' @ report_text ''expected_actual_policy'' link,
      [], ''## Safe Demo / Manual Boundary'', [], ''- Safe demo scenarios:''] @
     map (\<lambda>item. ''  - `'' @ py_str item @ ''`'') (listed (obj_get ''safe_demo_scenarios'' JNull report)) @
     [''- Manual drill candidates:''] @
     map (\<lambda>item. ''  - '' @ py_str item) (listed (obj_get ''manual_drill_candidates'' JNull report)) @
     [[], ''## Consistency Policy'', [],
      ''- '' @ report_text ''violation_priority'' (object_of (obj_get ''consistency_policy'' JNull report)),
      ''- Required sample consistency counters stay at zero.'',
      [], ''## Sensitive Data Policy'', [],
      ''- Plain financial identifiers, retry identifiers, payload contents, auth material, signing material, and endpoint values are prohibited.'',
      ''- Metric labels are limited to bounded route, endpoint, partner, method, status, result, phase, and operation fields.'',
      [], ''## Follow-up Candidates'', []] @
     report_items ''follow_up_candidates'' report) @ [CHR 0x0A])"

definition drill_rows :: "(string \<times> json) list \<Rightarrow> json list" where
  "drill_rows report = map (row_of [''drill_id'', ''name'', ''safe_to_auto_run'', ''manual_run_required'', ''expected_ph10_classification''])
     (listed (obj_get ''drills'' JNull report))"

definition written_drill :: "string \<Rightarrow> (string \<times> json) list \<Rightarrow> (string \<times> json) list \<Rightarrow> (string \<times> json) list \<Rightarrow> written" where
  "written_drill output_dir report ph10_input ph10_report = [
     (path_join output_dir ''sample-latency-drill-plan.json'', unicode_file (JObj report)),
     (path_join output_dir ''sample-latency-drill-plan.md'', text_file (render_drill_report report)),
     (path_join output_dir ''sample-ph10-input-evidence.json'', unicode_file (JObj ph10_input)),
     (path_join output_dir ''sample-ph10-attribution-report.json'', unicode_file (JObj ph10_report)),
     (path_join output_dir ''sample-ph10-attribution-report.md'', text_file (render_latency_report ph10_report))]"

text \<open>The commands, after the argument parser has checked the scenario.\<close>

datatype drill_command =
    Drill_demo string string
  | Drill_validate string artifact_file
  | Drill_list
  | Drill_generate string string

definition drill_handle :: "string option \<Rightarrow> drill_command \<Rightarrow> exn + (outcome \<times> written)" where
  "drill_handle makefile cmd = (case cmd of
       Drill_demo output_dir scenario \<Rightarrow>
         bindE build_drill_report (\<lambda>report.
         bindE (generate_ph10_input scenario) (\<lambda>ph10_input.
         bindE (analyze_evidence (JObj ph10_input)) (\<lambda>ph10_report.
         bindE (validate_drill_report makefile report) (\<lambda>validation_errors.
         bindE (validate_latency_report ph10_report) (\<lambda>ph10_errors.
         if validation_errors \<noteq> [] \<or> ph10_errors \<noteq> []
         then Inl (ValueError (dumps_default True (JObj [(''ph11_validation_errors'', strings validation_errors),
           (''ph10_validation_errors'', strings ph10_errors)])))
         else Inr (document_outcome 0 (JObj [
             (''output'', JStr (path_join output_dir ''sample-latency-drill-plan.json'')),
             (''report'', JStr (path_join output_dir ''sample-latency-drill-plan.md'')),
             (''ph10_input'', JStr (path_join output_dir ''sample-ph10-input-evidence.json'')),
             (''ph10_report'', JStr (path_join output_dir ''sample-ph10-attribution-report.json'')),
             (''ph10_report_markdown'', JStr (path_join output_dir ''sample-ph10-attribution-report.md'')),
             (''drill_count'', obj_get ''drill_count'' JNull report),
             (''sample_ph10_classification'', obj_get ''classification'' JNull ph10_report), (''validation_errors'', strings [])]),
           written_drill output_dir report ph10_input ph10_report))))))
     | Drill_validate path f \<Rightarrow>
         bindE (parsed f) (\<lambda>j. bindE (validate_drill_document makefile j) (\<lambda>errors.
         Inr (if errors \<noteq> []
           then system_exit (pretty_unicode (JObj [(''input'', JStr path), (''validation_errors'', strings errors)]))
           else document_outcome 0 (JObj [(''input'', JStr path), (''validation_errors'', strings [])]), [])))
     | Drill_list \<Rightarrow> bindE build_drill_report (\<lambda>report. Inr (document_outcome 0 (JObj [(''drills'', JList (drill_rows report))]), []))
     | Drill_generate scenario output \<Rightarrow>
         bindE (generate_ph10_input scenario) (\<lambda>evidence.
         bindE (analyze_evidence (JObj evidence)) (\<lambda>report.
         Inr (document_outcome 0 (JObj [(''output'', JStr output), (''scenario'', JStr scenario),
             (''ph10_classification'', obj_get ''classification'' JNull report)]),
           [(output, unicode_file (JObj evidence))]))))"

definition latency_drill_main :: "string option \<Rightarrow> drill_command \<Rightarrow> exn + (outcome \<times> written)" where
  "latency_drill_main makefile cmd = drill_main ''PH11 latency drill'' (drill_handle makefile cmd)"

end
