(* ===== verification/Hardening_Drill.thy ===== *)
theory Hardening_Drill
  imports Drill_Scan
begin

text \<open>
  The production hardening drill plan (\<open>scripts/ph9_production_hardening_drill.py\<close>): a catalog of eight drills with the commands
  that may run by default and those that may not, reported and validated against the targets of the Makefile. The
  four forbidden claims written in Korean cannot occur in a text of code points below 256 and are left out.
\<close>

subsection \<open>Constants\<close>

definition PH9_GENERATED_AT :: string where
  "PH9_GENERATED_AT = ''2026-07-07T00:00:00+00:00''"

definition PH9_TOP_LEVEL_FIELDS :: "string list" where
  "PH9_TOP_LEVEL_FIELDS = [''run_id'', ''generated_at'', ''phase'', ''scope'', ''current_status'', ''drill_count'', ''drills'',
     ''manual_approval_boundaries'', ''automation_boundaries'', ''candidate_commands_note'', ''follow_up_candidates'',
     ''validation_summary'']"

definition PH9_DRILL_FIELDS :: "string list" where
  "PH9_DRILL_FIELDS = [''phase'', ''drill_id'', ''name'', ''goal'', ''linked_docs'', ''safe_to_auto_run'', ''manual_run_required'',
     ''requires_docker'', ''requires_k6'', ''requires_database'', ''commands'', ''candidate_commands'', ''expected_evidence'',
     ''safety_boundary'', ''manual_approval_required_for'', ''success_criteria'', ''failure_signals'', ''sensitive_data_policy'',
     ''status'']"

definition REQUIRED_PHASES :: "string list" where
  "REQUIRED_PHASES = [''PH1'', ''PH2'', ''PH3'', ''PH4'', ''PH5'', ''PH6'', ''PH7'', ''PH8'']"

definition PH9_MANUAL_APPROVAL_TERMS :: "string list" where
  "PH9_MANUAL_APPROVAL_TERMS = [''write resume'', ''failover promote'', ''ledger compensation'', ''ledger correction'', ''customer impact'',
     ''partner secret rotation approval'', ''ai recovery adoption'']"

definition PH9_DESTRUCTIVE_COMMAND_PATTERNS :: "rx list" where
  "PH9_DESTRUCTIVE_COMMAND_PATTERNS =
    [docker_compose [''down'', ''stop'', ''pause'', ''rm''], rm_option, whole_word ''delete'', whole_word ''truncate'', whole_word ''drop'',
     lit_i ''ph1-db-down-drill'', lit_i ''ph2-db-down-incident-artifact'', lit_i ''ph3-db-down-incident-analysis'',
     lit_i ''ph1-write-suspend-resume'', lit_i ''release-quarantine'', whole_word ''approve'', lit_i ''failover'', lit_i ''promote'',
     lit_i ''compensation'', lit_i ''k6-'', lit_i ''latency-'']"

definition CANDIDATE_COMMAND_ALLOW_TARGETS :: "string list" where
  "CANDIDATE_COMMAND_ALLOW_TARGETS = [''ph1-db-down-drill'', ''ph2-db-down-incident-artifact'', ''ph3-db-down-incident-analysis'',
     ''ph4-recovery-case-from-latest'', ''ph5-reconciliation-run'', ''ph6-ai-context-sanitize-latest'',
     ''ph6-ai-context-recovery'', ''ph7-hmac-rotation-smoke'']"

definition PH9_SENSITIVE_TEXT_PATTERNS :: "(string \<times> rx) list" where
  "PH9_SENSITIVE_TEXT_PATTERNS =
    [assigned_pattern ''Authorization'', credential_pattern ''Bearer'', credential_pattern ''Basic'',
     assigned_pattern ''X-Signature'', assigned_pattern ''Idempotency-Key''] @
    map word_pattern [''client_secret'', ''raw_secret'', ''raw_signature'', ''hmac_signature'', ''raw_request_body''] @
    [(''raw request body'', lit_i ''raw request body'')] @
    map word_pattern [''raw_account_no'', ''account_no'', ''raw_idempotency_key'', ''database_url''] @
    [(''postgresql://'' @ [backslash] @ ''S+'', Seq (lit_i ''postgresql://'') text_run)]"

definition PH9_FORBIDDEN_CLAIMS :: "string list" where
  "PH9_FORBIDDEN_CLAIMS = [''queue-first guarantees ledger completion'', ''HA removes the need for consistency gate'',
     ''AI automatically executes recovery'']"

subsection \<open>The catalog and the report\<close>

definition PH1_DRILL :: "(string \<times> json) list" where
  "PH1_DRILL = [(''phase'', JStr ''PH1''), (''drill_id'', JStr ''ph1-postgres-write-suspend-db-down''), (''name'',
     JStr ''PostgreSQL Write Suspend / DB Down Drill''), (''goal'',
     JStr ''Confirm that unavailable PostgreSQL write path returns 503 + Retry-After and never reports financial completion.''),
     (''linked_docs'', strings [''docs/36-postgres-failure-and-write-suspend-policy.md'',
     ''docs/43-ph1-write-suspend-db-down-drill.md'']), (''safe_to_auto_run'', JBool False), (''manual_run_required'',
     JBool True), (''requires_docker'', JBool True), (''requires_k6'', JBool False), (''requires_database'', JBool True),
     (''commands'', strings [''make ph1-write-suspend-status'']), (''candidate_commands'', strings [''make ph1-db-down-drill'']),
     (''expected_evidence'', strings [''write suspend mode'', ''Retry-After response'', ''DB readiness failure'',
     ''post-recovery consistency check'']), (''safety_boundary'',
     JStr ''The drill may stop PostgreSQL locally, so PH9 records it as a manual-run candidate instead of running it by default.''),
     (''manual_approval_required_for'', strings [''write resume after DB recovery'', ''failover promote'']),
     (''success_criteria'', strings [''new financial writes are not successful while DB writes are unavailable'',
     ''503 + Retry-After is returned'', ''resume is not automatic'']), (''failure_signals'',
     strings [''successful write while write path is unavailable'', ''missing Retry-After'', ''automatic write resume'']),
     (''sensitive_data_policy'',
     JStr ''Plain financial identifiers, request payload content, signing material, authorization headers, and database URLs are prohibited.''),
     (''status'', JStr ''implemented_manual_drill'')]"

definition PH2_DRILL :: "(string \<times> json) list" where
  "PH2_DRILL = [(''phase'', JStr ''PH2''), (''drill_id'', JStr ''ph2-incident-artifact-sanitized-report''), (''name'',
     JStr ''Incident Artifact / Sanitized Report Drill''), (''goal'',
     JStr ''Create out-of-band incident evidence during DB failure without depending on the database.''), (''linked_docs'',
     strings [''docs/44-ph2-incident-artifact-sanitized-report.md'']), (''safe_to_auto_run'', JBool True),
     (''manual_run_required'', JBool False), (''requires_docker'', JBool False), (''requires_k6'', JBool False),
     (''requires_database'', JBool False), (''commands'', strings [''make ph2-incident-artifact'',
     ''make ph2-incident-artifact-validate'']), (''candidate_commands'', strings [''make ph2-db-down-incident-artifact'']),
     (''expected_evidence'', strings [''incident artifact'', ''sanitized report'', ''sensitive scan result'']),
     (''safety_boundary'', JStr ''PH2 default command creates sanitized local evidence only.''),
     (''manual_approval_required_for'', strings []), (''success_criteria'', strings [''artifact exists outside PostgreSQL'',
     ''sanitized report validates'', ''sensitive scan passes'']), (''failure_signals'', strings [''unsafe evidence value'',
     ''missing manifest'', ''validation error'']), (''sensitive_data_policy'',
     JStr ''Plain financial identifiers, retry keys, request payload content, signing material, authorization headers, and database URLs are prohibited.''),
     (''status'', JStr ''implemented_safe_drill'')]"

definition PH3_DRILL :: "(string \<times> json) list" where
  "PH3_DRILL = [(''phase'', JStr ''PH3''), (''drill_id'', JStr ''ph3-incident-analyzer-mvp''), (''name'',
     JStr ''Incident Analyzer MVP Drill''), (''goal'',
     JStr ''Classify incident artifacts with deterministic rules and count-only consistency summaries.''), (''linked_docs'',
     strings [''docs/45-ph3-incident-analyzer-mvp.md'']), (''safe_to_auto_run'', JBool True), (''manual_run_required'',
     JBool False), (''requires_docker'', JBool False), (''requires_k6'', JBool False), (''requires_database'', JBool False),
     (''commands'', strings [''make ph3-incident-analyze'', ''make ph3-incident-analyze-validate'']), (''candidate_commands'',
     strings [''make ph3-db-down-incident-analysis'']), (''expected_evidence'', strings [''analyzer output'', ''classification'',
     ''severity candidate'', ''recommended action candidate'']), (''safety_boundary'',
     JStr ''Analyzer output is advisory and never executes recovery.''), (''manual_approval_required_for'', strings []),
     (''success_criteria'', strings [''classification is deterministic'', ''manual review remains required'',
     ''no recovery action is executed'']), (''failure_signals'', strings [''missing classification'', ''unsafe artifact'',
     ''automatic recovery language'']), (''sensitive_data_policy'',
     JStr ''Only sanitized PH2 evidence and count summaries are allowed.''), (''status'', JStr ''implemented_safe_drill'')]"

definition PH4_DRILL :: "(string \<times> json) list" where
  "PH4_DRILL = [(''phase'', JStr ''PH4''), (''drill_id'', JStr ''ph4-recovery-case-quarantine-manual-approval''), (''name'',
     JStr ''Recovery Case / Quarantine / Manual Approval Drill''), (''goal'',
     JStr ''Record recovery cases and quarantine evidence while keeping execution blocked until operator approval.''),
     (''linked_docs'', strings [''docs/46-ph4-recovery-case-quarantine-manual-approval.md'']), (''safe_to_auto_run'',
     JBool False), (''manual_run_required'', JBool True), (''requires_docker'', JBool False), (''requires_k6'', JBool False),
     (''requires_database'', JBool True), (''commands'', strings [''make ph4-recovery-cases'', ''make ph4-quarantines'']),
     (''candidate_commands'', strings [''make ph4-recovery-case-from-latest'']), (''expected_evidence'',
     strings [''recovery case report'', ''quarantine record'', ''approval boundary'']), (''safety_boundary'',
     JStr ''PH4 list commands are safe; case creation needs prepared evidence.''), (''manual_approval_required_for'',
     strings [''recovery execution'', ''quarantine release'', ''ledger correction'']), (''success_criteria'',
     strings [''wrong-state transition is blocked'', ''quarantine is visible as evidence'',
     ''execution remains approval-gated'']), (''failure_signals'', strings [''case execution without approval'',
     ''quarantine duplicate ambiguity'', ''unsafe identifier exposure'']), (''sensitive_data_policy'',
     JStr ''Recovery evidence uses masked or internal identifiers only.''), (''status'', JStr ''implemented_manual_drill'')]"

definition PH5_DRILL :: "(string \<times> json) list" where
  "PH5_DRILL = [(''phase'', JStr ''PH5''), (''drill_id'', JStr ''ph5-stale-processing-reconciliation''), (''name'',
     JStr ''Stale PROCESSING Reconciliation Drill''), (''goal'',
     JStr ''Detect stale processing and count-only reconciliation issues without automatically completing or failing financial events.''),
     (''linked_docs'', strings [''docs/47-ph5-stale-processing-reconciliation.md'']), (''safe_to_auto_run'', JBool False),
     (''manual_run_required'', JBool True), (''requires_docker'', JBool False), (''requires_k6'', JBool False),
     (''requires_database'', JBool True), (''commands'', strings [''make ph5-reconciliation-validate'']),
     (''candidate_commands'', strings [''make ph5-reconciliation-run'']), (''expected_evidence'',
     strings [''stale processing count'', ''reconciliation summary'', ''manual action candidate'']), (''safety_boundary'',
     JStr ''PH5 proposes recovery cases and does not mutate money state.''), (''manual_approval_required_for'',
     strings [''mark completed decision'', ''mark failed decision'', ''ledger correction'']), (''success_criteria'',
     strings [''stale records are counted after threshold'', ''fresh processing is excluded'',
     ''manual action candidate is generated only as evidence'']), (''failure_signals'', strings [''automatic completion'',
     ''automatic failure'', ''missing count summary'']), (''sensitive_data_policy'',
     JStr ''Reports contain counts and masked recovery references only.''), (''status'', JStr ''implemented_manual_drill'')]"

definition PH6_DRILL :: "(string \<times> json) list" where
  "PH6_DRILL = [(''phase'', JStr ''PH6''), (''drill_id'', JStr ''ph6-ai-safe-context-sanitizer''), (''name'',
     JStr ''AI-safe Context Sanitizer Drill''), (''goal'',
     JStr ''Convert incident, recovery, and reconciliation evidence into allowlist-based AI-safe context.''), (''linked_docs'',
     strings [''docs/48-ph6-ai-safe-context-sanitizer.md'']), (''safe_to_auto_run'', JBool True), (''manual_run_required'',
     JBool False), (''requires_docker'', JBool False), (''requires_k6'', JBool False), (''requires_database'', JBool False),
     (''commands'', strings [''make ph6-ai-context-demo'', ''make ph6-ai-context-validate'']), (''candidate_commands'',
     strings [''make ph6-ai-context-sanitize-latest'', ''make ph6-ai-context-recovery'']), (''expected_evidence'',
     strings [''sanitized context JSON'', ''sanitized context Markdown'', ''validate result'']), (''safety_boundary'',
     JStr ''PH6 creates context only; it does not call external AI APIs or execute recovery.''),
     (''manual_approval_required_for'', strings []), (''success_criteria'', strings [''allowlist keeps safe evidence'',
     ''redaction summary contains no original unsafe value'', ''validator rejects unsafe input'']), (''failure_signals'',
     strings [''unsafe value remains'', ''redaction summary leaks value'', ''AI execution language appears'']),
     (''sensitive_data_policy'', JStr ''Only approved masked values, tokens, hashes, counts, and statuses are allowed.''),
     (''status'', JStr ''implemented_safe_drill'')]"

definition PH7_DRILL :: "(string \<times> json) list" where
  "PH7_DRILL = [(''phase'', JStr ''PH7''), (''drill_id'', JStr ''ph7-partner-hmac-rotation''), (''name'',
     JStr ''Partner HMAC Rotation Drill''), (''goal'',
     JStr ''Verify current, previous, revoked, disabled, and next dry-run HMAC cases without exposing signing material.''),
     (''linked_docs'', strings [''docs/49-ph7-partner-secret-rotation-hmac-hardening.md'']), (''safe_to_auto_run'', JBool True),
     (''manual_run_required'', JBool False), (''requires_docker'', JBool False), (''requires_k6'', JBool False),
     (''requires_database'', JBool False), (''commands'', strings [''make ph7-hmac-rotation-demo'',
     ''make ph7-hmac-rotation-validate'']), (''candidate_commands'', strings [''make ph7-hmac-rotation-smoke'']),
     (''expected_evidence'', strings [''HMAC rotation report'', ''next dry-run rejection on write API'', ''validate result'']),
     (''safety_boundary'', JStr ''The drill verifies rotation cases only. Final key retirement remains an approval decision.''),
     (''manual_approval_required_for'', strings []), (''success_criteria'', strings [''current and bounded previous cases pass'',
     ''revoked and disabled cases fail'', ''next staged key cannot write'']), (''failure_signals'',
     strings [''staged key accepted on write path'', ''unbounded previous key'', ''signing material exposure'']),
     (''sensitive_data_policy'',
     JStr ''Evidence may include key status and hashes, but never signing material or request payload content.''), (''status'',
     JStr ''implemented_safe_drill'')]"

definition PH8_DRILL :: "(string \<times> json) list" where
  "PH8_DRILL = [(''phase'', JStr ''PH8''), (''drill_id'', JStr ''ph8-postgres-ha-queue-decision-evidence''), (''name'',
     JStr ''PostgreSQL HA / Durable Queue Decision Evidence''), (''goal'',
     JStr ''Explain why direct PostgreSQL transaction plus fail-closed remains current behavior and why queue-first needs ACCEPTED/COMPLETED split.''),
     (''linked_docs'', strings [''docs/40-postgres-ha-and-queue-tradeoff-adr.md'',
     ''docs/50-ph8-postgres-ha-queue-decision-evidence.md'']), (''safe_to_auto_run'', JBool True), (''manual_run_required'',
     JBool False), (''requires_docker'', JBool False), (''requires_k6'', JBool False), (''requires_database'', JBool False),
     (''commands'', strings [''make ph8-ha-queue-decision-demo'', ''make ph8-ha-queue-decision-validate'']),
     (''candidate_commands'', strings []), (''expected_evidence'', strings [''decision matrix report'', ''validator result'',
     ''API contract boundary'']), (''safety_boundary'',
     JStr ''PH8 creates architecture evidence only; it does not provision HA or queue middleware.''),
     (''manual_approval_required_for'', strings []), (''success_criteria'',
     strings [''direct PostgreSQL remains current decision'', ''queue-first splits ACCEPTED and COMPLETED'',
     ''HA still requires consistency gate and write resume approval'']), (''failure_signals'',
     strings [''enqueue described as ledger completion'', ''HA described as replacing consistency gate'',
     ''score treated as benchmark'']), (''sensitive_data_policy'', JStr ''Architecture evidence contains no runtime data.''),
     (''status'', JStr ''implemented_safe_drill'')]"

definition hardening_catalog :: "(string \<times> json) list list" where
  "hardening_catalog = [PH1_DRILL, PH2_DRILL, PH3_DRILL, PH4_DRILL, PH5_DRILL, PH6_DRILL, PH7_DRILL, PH8_DRILL]"

definition hardening_report :: "(string \<times> json) list" where
  "hardening_report = [
     (''run_id'', JStr ''ph9-production-hardening-drill-plan-sample''),
     (''generated_at'', JStr PH9_GENERATED_AT),
     (''phase'', JStr ''PH9 Production Hardening Drill Plan & Evidence Runner''),
     (''scope'', strings [''PH1~PH8 hardening drill catalog'', ''safe evidence report generation'',
       ''validation of automation and manual approval boundaries'',
       ''PH10/PH11 latency work linked only as follow-up candidates'']),
     (''current_status'',
       JStr ''Implemented as a safe catalog/report/validator. Destructive drills, write resume, failover promote, financial correction, partner key retirement, and AI recovery adoption remain human-approved.''),
     (''drill_count'', JInt (int (length hardening_catalog))),
     (''drills'', JList (map JObj hardening_catalog)),
     (''manual_approval_boundaries'', strings [''PostgreSQL failover promote'',
       ''write resume after DB recovery or failover'', ''ledger correction or compensation'',
       ''customer or partner impact confirmation'', ''partner secret rotation approval'', ''queue replay or DLQ redrive'',
       ''AI-assisted recovery proposal adoption'']),
     (''automation_boundaries'', strings [''generate deterministic drill catalog'',
       ''validate required evidence and safety boundaries'', ''create sanitized JSON and Markdown reports'',
       ''run safe validators and read-only evidence checks'', ''leave state-changing drills as manual-run candidates'']),
     (''candidate_commands_note'',
       JStr ''candidate_commands are not default auto-run commands. Operators must read the linked drill document and confirm the manual boundary before running them.''),
     (''follow_up_candidates'', JList [JObj [(''phase'', JStr ''PH10''), (''name'',
       JStr ''Latency attribution instrumentation''), (''linked_docs'',
       strings [''docs/41-latency-attribution-and-external-dependency-diagnosis.md'']), (''status'',
       JStr ''follow_up_candidate''), (''note'',
       JStr ''PH9 does not implement latency attribution. k6 symptoms must be correlated with Nginx, FastAPI, PostgreSQL, Redis, and external dependency metrics in a later phase.'')],
       JObj [(''phase'', JStr ''PH11''), (''name'', JStr ''Latency drill test plan execution''), (''linked_docs'',
       strings [''docs/42-latency-drill-test-plan.md'']), (''status'', JStr ''follow_up_candidate''), (''note'',
       JStr ''Latency drill targets remain candidate commands, not PH9 completed drill commands.'')]]),
     (''validation_summary'', JObj [(''required_phases'', strings (sorted_set REQUIRED_PHASES)), (''sensitive_data_included'', JBool False),
       (''destructive_commands_allowed'', JBool False), (''latency_drills_completed_in_ph9'', JBool False)])]"

subsection \<open>Validation\<close>

definition validate_command :: "string \<Rightarrow> string \<Rightarrow> string list \<Rightarrow> string list" where
  "validate_command label command targets =
    (if matches_any PH9_DESTRUCTIVE_COMMAND_PATTERNS command
     then [label @ '' destructive/manual command is not allowed: '' @ command] else []) @
    (if \<not> is_make command then [label @ '' command must use an existing Makefile target: '' @ command]
     else if \<not> known_target targets command then [label @ '' command target does not exist: '' @ command] else [])"

definition validate_candidate_command :: "string \<Rightarrow> string \<Rightarrow> string list" where
  "validate_candidate_command label command =
    (if \<not> is_make command then [label @ '' candidate command must use make: '' @ command]
     else if target_of command \<notin> set CANDIDATE_COMMAND_ALLOW_TARGETS
     then [label @ '' candidate command is not allowlisted: '' @ command] else [])"

definition manual_terms :: "json \<Rightarrow> string list" where
  "manual_terms values = (case values of
       JList _ \<Rightarrow> (let rendered = lower (dumps_default False values) in filter (\<lambda>term. occurs_in term rendered) PH9_MANUAL_APPROVAL_TERMS)
     | _ \<Rightarrow> [])"

definition validate_hardening_drill :: "string list \<Rightarrow> nat \<Rightarrow> (string \<times> json) list \<Rightarrow> string list" where
  "validate_hardening_drill targets i drill = (let
     label = item_label ''drill_id'' i drill;
     commands = obj_get ''commands'' (JList []) drill;
     candidate_commands = obj_get ''candidate_commands'' (JList []) drill;
     approval_terms = manual_terms (obj_get ''manual_approval_required_for'' (JList []) drill)
   in
     fields_message (label @ '' missing fields'') (sorted_minus PH9_DRILL_FIELDS (map fst drill)) @
     (if member_of (obj_get ''phase'' JNull drill) [''PH10'', ''PH11''] \<or> starts_with ''ph10'' label \<or> starts_with ''ph11'' label
      then [label @ '' must be a follow-up candidate, not a completed drill''] else []) @
     concat (map (\<lambda>field. if json_truthy (obj_get field JNull drill) then [] else [label @ '' '' @ field @ '' must not be empty''])
       [''linked_docs'', ''success_criteria'', ''sensitive_data_policy'']) @
     not_listed (label @ '' commands must be a list'') commands @
     listed_text_errors (label @ '' command must be a string'') (\<lambda>command. validate_command label command targets) commands @
     not_listed (label @ '' candidate_commands must be a list'') candidate_commands @
     listed_text_errors (label @ '' candidate command must be a string'') (validate_candidate_command label) candidate_commands @
     (if json_get ''safe_to_auto_run'' drill = Some (JBool True) \<and> approval_terms \<noteq> []
      then [label @ '' safe_to_auto_run cannot include manual approval actions: '' @ join '', '' approval_terms] else []))"

definition hardening_drill_errors :: "string list \<Rightarrow> nat \<Rightarrow> json \<Rightarrow> string list" where
  "hardening_drill_errors targets i j = (case j of
       JObj drill \<Rightarrow> validate_hardening_drill targets i drill
     | _ \<Rightarrow> [''drills['' @ nat_str i @ ''] must be an object''])"

definition validate_follow_up_candidates :: "(string \<times> json) list \<Rightarrow> exn + string list" where
  "validate_follow_up_candidates payload = (case obj_get ''follow_up_candidates'' (JList []) payload of
       JList candidates \<Rightarrow> bindE (names_found ''phase'' candidates) (\<lambda>candidate_phases.
         Inr (map (\<lambda>phase. phase @ '' must be listed as a follow-up candidate'')
           (filter (\<lambda>phase. JStr phase \<notin> set candidate_phases) [''PH10'', ''PH11''])))
     | _ \<Rightarrow> Inr [''follow_up_candidates must be a list''])"

definition validate_hardening_report :: "string option \<Rightarrow> (string \<times> json) list \<Rightarrow> exn + string list" where
  "validate_hardening_report makefile payload = (let
     raw_drills = obj_get ''drills'' JNull payload;
     drills = listed raw_drills
   in bindE (names_found ''phase'' drills) (\<lambda>phases.
      bindE (validate_follow_up_candidates payload) (\<lambda>follow_up_errors. Inr (sorted_set (
        fields_message ''missing top-level fields'' (sorted_minus PH9_TOP_LEVEL_FIELDS (map fst payload)) @
        not_listed ''drills must be a list'' raw_drills @
        (if \<not> py_eq (obj_get ''drill_count'' JNull payload) (JInt (int (length drills)))
         then [''drill_count must match drills length''] else []) @
        fields_message ''missing required PH drills'' (names_missing REQUIRED_PHASES phases) @
        concat (map (\<lambda>(i, drill). hardening_drill_errors (make_targets makefile) i drill) (enumerate 0 drills)) @
        follow_up_errors @
        content_errors (\<lambda>_. False) (\<lambda>_. False) PH9_SENSITIVE_TEXT_PATTERNS (JObj payload) ''$'' @
        forbidden_claims PH9_FORBIDDEN_CLAIMS payload)))))"

definition validate_hardening_document :: "string option \<Rightarrow> json \<Rightarrow> exn + string list" where
  "validate_hardening_document makefile j = (case j of
       JObj payload \<Rightarrow> validate_hardening_report makefile payload | _ \<Rightarrow> Inl (not_an_object j))"

subsection \<open>The command\<close>

definition hardening_row :: "json \<Rightarrow> string" where
  "hardening_row j = (case j of
       JObj drill \<Rightarrow> ''| '' @ report_text ''phase'' drill @ '' | `'' @ report_text ''drill_id'' drill @ ''` | '' @ report_text ''name'' drill @ '' | '' @
         lower (report_text ''safe_to_auto_run'' drill) @ '' | '' @ lower (report_text ''manual_run_required'' drill) @ '' | '' @
         join '', '' (map py_str (take 2 (listed (obj_get ''expected_evidence'' JNull drill)))) @ '' |''
     | _ \<Rightarrow> [])"

definition candidate_line :: "json \<Rightarrow> string" where
  "candidate_line j = (case j of
       JObj c \<Rightarrow> ''- '' @ report_text ''phase'' c @ '': '' @ report_text ''name'' c @ '' ('' @ report_text ''status'' c @ '')''
     | _ \<Rightarrow> [])"

definition render_hardening_report :: "(string \<times> json) list \<Rightarrow> string" where
  "render_hardening_report report = join [CHR 0x0A] (
     [''# PH9 Production Hardening Drill Plan'', [],
      quoted_line ''Run ID'' ''run_id'' report, quoted_line ''Generated at'' ''generated_at'' report,
      quoted_line ''Phase'' ''phase'' report, ''- Current status: '' @ report_text ''current_status'' report,
      ''- Drill count: '' @ report_text ''drill_count'' report, [], ''## Scope'', []] @
     report_items ''scope'' report @
     [[], ''## Drill Catalog'', [], ''| Phase | Drill ID | Name | Safe Auto Run | Manual Run | Evidence |'',
      ''| --- | --- | --- | --- | --- | --- |''] @
     map hardening_row (listed (obj_get ''drills'' JNull report)) @ [[], ''## Automation Boundary'', []] @
     report_items ''automation_boundaries'' report @ [[], ''## Manual Approval Boundary'', []] @
     report_items ''manual_approval_boundaries'' report @
     [[], ''## Safety Notes'', [],
      ''- PH9 does not run destructive drills by default.'',
      ''- PH10/PH11 latency work is listed only as follow-up candidates.'',
      ''- AI-safe context generation does not authorize recovery execution.'',
      ''- Queue-first architecture must split `ACCEPTED` and `COMPLETED`.'',
      ''- Candidate commands note: '' @ report_text ''candidate_commands_note'' report, [], ''## Follow-up Candidates'', []] @
     map candidate_line (listed (obj_get ''follow_up_candidates'' JNull report)) @
     [[], ''## Validation Summary'', [],
      ''- Sensitive data included: false'', ''- Destructive commands allowed: false'',
      ''- PH10/PH11 latency drills completed in PH9: false'']) @ [CHR 0x0A]"

definition hardening_rows :: "(string \<times> json) list \<Rightarrow> json list" where
  "hardening_rows report = map (row_of [''phase'', ''drill_id'', ''name'', ''safe_to_auto_run'', ''manual_run_required''])
     (listed (obj_get ''drills'' JNull report))"

datatype hardening_command =
    Hardening_demo string
  | Hardening_validate string artifact_file
  | Hardening_list

definition hardening_handle :: "string option \<Rightarrow> hardening_command \<Rightarrow> exn + (outcome \<times> written)" where
  "hardening_handle makefile cmd = (case cmd of
       Hardening_demo output_dir \<Rightarrow>
         bindE (validate_hardening_report makefile hardening_report) (\<lambda>errors.
         if errors \<noteq> [] then Inl (ValueError (dumps_default False (strings errors)))
         else Inr (document_outcome 0 (JObj [
             (''output'', JStr (path_join output_dir ''sample-production-hardening-drill-plan.json'')),
             (''report'', JStr (path_join output_dir ''sample-production-hardening-drill-plan.md'')),
             (''drill_count'', obj_get ''drill_count'' JNull hardening_report), (''validation_errors'', strings [])]),
           [(path_join output_dir ''sample-production-hardening-drill-plan.json'', unicode_file (JObj hardening_report)),
            (path_join output_dir ''sample-production-hardening-drill-plan.md'', text_file (render_hardening_report hardening_report))]))
     | Hardening_validate path f \<Rightarrow>
         bindE (parsed f) (\<lambda>j. bindE (validate_hardening_document makefile j) (\<lambda>errors.
         Inr (if errors \<noteq> []
           then system_exit (pretty_unicode (JObj [(''input'', JStr path), (''validation_errors'', strings errors)]))
           else document_outcome 0 (JObj [(''input'', JStr path), (''validation_errors'', strings [])]), [])))
     | Hardening_list \<Rightarrow> Inr (document_outcome 0 (JObj [(''drills'', JList (hardening_rows hardening_report))]), []))"

definition hardening_main :: "string option \<Rightarrow> hardening_command \<Rightarrow> exn + (outcome \<times> written)" where
  "hardening_main makefile cmd = drill_main ''PH9 hardening drill'' (hardening_handle makefile cmd)"

end
