(* ===== verification/Decision_Matrix.thy ===== *)
theory Decision_Matrix
  imports Drill_Scan
begin

text \<open>
  The high-availability and queue decision matrix (\<open>scripts/ph8_ha_queue_decision_matrix.py\<close>): five options with their
  scores, the matrix of their totals, the report and its validator. The two forbidden claims written in Korean cannot
  occur in a text of code points below 256 and are left out.
\<close>

subsection \<open>Constants\<close>

definition PH8_GENERATED_AT :: string where
  "PH8_GENERATED_AT = ''2026-07-07T00:00:00+00:00''"

definition PH8_TOP_LEVEL_FIELDS :: "string list" where
  "PH8_TOP_LEVEL_FIELDS = [''run_id'', ''generated_at'', ''phase'', ''current_decision'', ''options'', ''decision_matrix'', ''recommendation'',
     ''manual_approval_required'', ''non_scope'', ''follow_up_candidates'', ''sensitive_data_included'']"

definition REQUIRED_OPTIONS :: "string list" where
  "REQUIRED_OPTIONS = [''direct_postgres_fail_closed'', ''postgres_primary_standby_ha'', ''synchronous_replication'', ''managed_db_ha'',
     ''durable_queue_first'']"

definition OPTION_FIELDS :: "string list" where
  "OPTION_FIELDS = [''option_id'', ''name'', ''api_response_semantics'', ''write_durability_model'', ''availability_score'',
     ''consistency_explainability_score'', ''operational_complexity_score'', ''cost_score'', ''local_portfolio_fit_score'',
     ''risk_summary'', ''required_new_controls'', ''decision'']"

definition DECISION_MATRIX_FIELDS :: "string list" where
  "DECISION_MATRIX_FIELDS = [''option_id'', ''total_context_score'', ''decision'', ''note'']"

definition SCORE_FIELDS :: "string list" where
  "SCORE_FIELDS = [''availability_score'', ''consistency_explainability_score'', ''operational_complexity_score'', ''cost_score'',
     ''local_portfolio_fit_score'']"

definition SENSITIVE_KEY_PATTERNS :: rx where
  "SENSITIVE_KEY_PATTERNS = any_of (map lit_i [''account_no'', ''raw_account_no'', ''idempotency_key'', ''raw_idempotency_key'',
     ''authorization'', ''signature'', ''client_secret'', ''access_token'', ''refresh_token'', ''password'', ''raw_request_body'',
     ''database_url''])"

definition PH8_SENSITIVE_TEXT_PATTERNS :: "(string \<times> rx) list" where
  "PH8_SENSITIVE_TEXT_PATTERNS =
    [assigned_pattern ''Authorization'', credential_pattern ''Bearer'', credential_pattern ''Basic'',
     assigned_pattern ''X-Signature'', assigned_pattern ''Idempotency-Key''] @
    map (\<lambda>w. (w, lit_i w)) [''raw_request_body'', ''raw_account_no'', ''raw_idempotency_key''] @
    [(''postgresql://'' @ [backslash] @ ''S+'', Seq (lit_i ''postgresql://'') text_run)]"

definition PH8_FORBIDDEN_CLAIMS :: "string list" where
  "PH8_FORBIDDEN_CLAIMS = [''queue-first guarantees ledger completion'', ''HA removes the need for consistency gate'']"

subsection \<open>The options and the report\<close>

definition DIRECT_POSTGRES :: "(string \<times> json) list" where
  "DIRECT_POSTGRES = [(''option_id'', JStr ''direct_postgres_fail_closed''), (''name'',
     JStr ''Current: Direct PostgreSQL Transaction + Fail-Closed''), (''api_response_semantics'',
     JStr ''COMPLETED only after PostgreSQL commit; 503 + Retry-After when write path is unavailable.''),
     (''write_durability_model'', JStr ''PostgreSQL commit is the durability boundary.''), (''availability_score'', JInt 2),
     (''consistency_explainability_score'', JInt 5), (''operational_complexity_score'', JInt 5), (''cost_score'', JInt 5),
     (''local_portfolio_fit_score'', JInt 5), (''risk_summary'',
     JStr ''Lower write availability during DB outage, but no ambiguous success response.''), (''required_new_controls'',
     strings [''write suspend'', ''Retry-After contract'', ''recovery case'', ''consistency gate before write resume'']),
     (''decision'', JStr ''recommended_now'')]"

definition PRIMARY_STANDBY :: "(string \<times> json) list" where
  "PRIMARY_STANDBY = [(''option_id'', JStr ''postgres_primary_standby_ha''), (''name'', JStr ''PostgreSQL Primary/Standby HA''),
     (''api_response_semantics'',
     JStr ''COMPLETED remains primary commit based; failover windows return 503 until consistency gate and write resume approval complete.''),
     (''write_durability_model'', JStr ''Primary write with standby replication.''), (''availability_score'', JInt 4),
     (''consistency_explainability_score'', JInt 4), (''operational_complexity_score'', JInt 3), (''cost_score'', JInt 3),
     (''local_portfolio_fit_score'', JInt 3), (''risk_summary'',
     JStr ''Stale connections, split brain risk, and replication lag during failover.''), (''required_new_controls'',
     strings [''failover consistency gate'', ''write resume approval'', ''primary identity verification'',
     ''connection pool recycle'']), (''decision'', JStr ''follow_up_candidate'')]"

definition SYNCHRONOUS_REPLICATION :: "(string \<times> json) list" where
  "SYNCHRONOUS_REPLICATION = [(''option_id'', JStr ''synchronous_replication''), (''name'', JStr ''Synchronous Replication''),
     (''api_response_semantics'',
     JStr ''COMPLETED still means commit, but commit latency and standby availability become part of the write path.''),
     (''write_durability_model'', JStr ''Commit waits for synchronous standby or quorum acknowledgement.''),
     (''availability_score'', JInt 3), (''consistency_explainability_score'', JInt 4), (''operational_complexity_score'',
     JInt 2), (''cost_score'', JInt 3), (''local_portfolio_fit_score'', JInt 2), (''risk_summary'',
     JStr ''Lower RPO, higher commit latency, and possible write stalls.''), (''required_new_controls'',
     strings [''commit timeout policy'', ''ledger-critical path classification'', ''write suspend on standby quorum loss'']),
     (''decision'', JStr ''follow_up_candidate'')]"

definition MANAGED_DB :: "(string \<times> json) list" where
  "MANAGED_DB = [(''option_id'', JStr ''managed_db_ha''), (''name'', JStr ''Managed DB HA''), (''api_response_semantics'',
     JStr ''COMPLETED remains database commit based; application still handles connection retry, readiness, consistency gate, and write resume approval.''),
     (''write_durability_model'', JStr ''Managed primary/standby or multi-AZ durability boundary.''), (''availability_score'',
     JInt 4), (''consistency_explainability_score'', JInt 4), (''operational_complexity_score'', JInt 4), (''cost_score'',
     JInt 2), (''local_portfolio_fit_score'', JInt 2), (''risk_summary'',
     JStr ''Cloud dependency, cost, and application-level failover handling remain.''), (''required_new_controls'',
     strings [''managed failover runbook'', ''readiness and stale connection drill'', ''consistency gate'',
     ''write resume approval'']), (''decision'', JStr ''recommended_later'')]"

definition QUEUE_FIRST :: "(string \<times> json) list" where
  "QUEUE_FIRST = [(''option_id'', JStr ''durable_queue_first''), (''name'', JStr ''Durable Queue-First Architecture''),
     (''api_response_semantics'',
     JStr ''API returns ACCEPTED for durable enqueue; COMPLETED is emitted only after consumer idempotency, PostgreSQL commit, and reconciliation evidence.''),
     (''write_durability_model'', JStr ''Queue durability first, PostgreSQL ledger posting later.''), (''availability_score'',
     JInt 5), (''consistency_explainability_score'', JInt 3), (''operational_complexity_score'', JInt 1), (''cost_score'',
     JInt 2), (''local_portfolio_fit_score'', JInt 1), (''risk_summary'',
     JStr ''Accept/posting split, DLQ, replay, offset, and reconciliation complexity.''), (''required_new_controls'',
     strings [''ACCEPTED vs COMPLETED API contract split'', ''consumer idempotency'', ''DLQ and replay approval'',
     ''offset checkpoint evidence'', ''reconciliation'']), (''decision'', JStr ''v2_candidate'')]"

definition options_list :: "(string \<times> json) list list" where
  "options_list = [DIRECT_POSTGRES, PRIMARY_STANDBY, SYNCHRONOUS_REPLICATION, MANAGED_DB, QUEUE_FIRST]"

text \<open>\<open>isinstance(value, int)\<close>: a boolean is an integer.\<close>

definition int_value :: "json \<Rightarrow> int option" where
  "int_value j = (case j of JInt i \<Rightarrow> Some i | JBool b \<Rightarrow> Some (of_bool b) | _ \<Rightarrow> None)"

definition scores :: "(string \<times> json) list \<Rightarrow> int option list" where
  "scores option = map (\<lambda>field. int_value (obj_get field JNull option)) SCORE_FIELDS"

definition total_score :: "(string \<times> json) list \<Rightarrow> int" where
  "total_score option = sum_list (map the (scores option))"

definition SCORE_NOTE :: string where
  "SCORE_NOTE = ''Scores are deterministic project-fit signals, not production benchmarks.''"

text \<open>One row; a missing field raises. The scores are integers: the function is only called on the options above, and what other values would add up to is left out.\<close>

definition decision_row :: "(string \<times> json) list \<Rightarrow> exn + json" where
  "decision_row option = (case filter (\<lambda>k. json_get k option = None) (''option_id'' # SCORE_FIELDS @ [''decision'']) of
       k # _ \<Rightarrow> Inl (KeyError k)
     | [] \<Rightarrow> if None \<in> set (scores option) then Inl (TypeError ''unsupported operand'')
         else Inr (JObj [
           (''option_id'', obj_get ''option_id'' JNull option), (''total_context_score'', JInt (total_score option)),
           (''decision'', obj_get ''decision'' JNull option), (''note'', JStr SCORE_NOTE)]))"

definition decision_matrix :: "(string \<times> json) list list \<Rightarrow> exn + json list" where
  "decision_matrix options = mapE decision_row options"

definition build_decision_report :: "exn + (string \<times> json) list" where
  "build_decision_report = bindE (decision_matrix options_list) (\<lambda>matrix. Inr [
     (''run_id'', JStr ''ph8-ha-queue-tradeoff-sample''),
     (''generated_at'', JStr PH8_GENERATED_AT),
     (''phase'', JStr ''PH8 PostgreSQL HA / Durable Queue Trade-off ADR''),
     (''current_decision'',
       JStr ''Maintain direct PostgreSQL transaction + fail-closed/write suspend now; treat PostgreSQL HA and durable queue-first architecture as follow-up availability and V2 contract candidates.''),
     (''options'', JList (map JObj options_list)),
     (''decision_matrix'', JList matrix),
     (''recommendation'', JObj [(''recommended_now'', strings [''Direct PostgreSQL transaction'',
       ''Fail-closed 503 + Retry-After when PostgreSQL write path is unavailable'',
       ''Write suspend, recovery case, and consistency gate before write resume'']), (''recommended_later'',
       strings [''Managed DB HA for production availability after failover drills'',
       ''Queue-first V2 only after ACCEPTED/COMPLETED API contract split'',
       ''Consumer idempotency, DLQ, replay, offset evidence, and reconciliation''])]),
     (''manual_approval_required'', strings [''PostgreSQL failover promote'', ''write resume after failover or restore'',
       ''ledger correction or compensation'', ''customer or partner impact confirmation'', ''queue replay and DLQ redrive'']),
     (''non_scope'', strings [''Patroni or repmgr cluster implementation'',
       ''Kafka, RabbitMQ, SQS, or cloud resource provisioning'', ''automatic failover promote'', ''automatic write resume'',
       ''queue-first API contract implementation'']),
     (''follow_up_candidates'', strings [''managed DB HA runbook and failover drill'',
       ''stale connection readiness drill'', ''queue-first API V2 ADR'', ''consumer idempotency and DLQ replay design'',
       ''RPO/RTO split for API accept and ledger posting'']),
     (''sensitive_data_included'', JBool False)])"

subsection \<open>Validation\<close>

definition validate_scores :: "(string \<times> json) list \<Rightarrow> string list" where
  "validate_scores option = concat (map (\<lambda>field.
     case int_value (obj_get field JNull option) of
       Some value \<Rightarrow> if value < 1 \<or> value > 5 then [py_str (obj_get ''option_id'' (JStr ''unknown'') option) @ '' '' @ field @ '' must be 1..5''] else []
     | None \<Rightarrow> [py_str (obj_get ''option_id'' (JStr ''unknown'') option) @ '' '' @ field @ '' must be 1..5'']) SCORE_FIELDS)"

definition validate_option_policy :: "(string \<times> json) list \<Rightarrow> string list" where
  "validate_option_policy option = (let
     option_id = obj_get ''option_id'' JNull option;
     rendered = lower (dumps_default True (JObj option))
   in
     (if option_id = JStr ''durable_queue_first'' \<and> (\<not> occurs_in ''accepted'' rendered \<or> \<not> occurs_in ''completed'' rendered)
      then [''durable_queue_first must split ACCEPTED and COMPLETED semantics''] else []) @
     (if member_of option_id [''postgres_primary_standby_ha'', ''managed_db_ha''] \<and>
         (\<not> occurs_in ''consistency gate'' rendered \<or> \<not> occurs_in ''write resume approval'' rendered)
      then [py_str option_id @ '' must mention consistency gate and write resume approval''] else []) @
     (if option_id = JStr ''direct_postgres_fail_closed'' \<and> \<not> occurs_in ''fail-closed'' rendered \<and> \<not> occurs_in ''503'' rendered
      then [''direct_postgres_fail_closed must reference fail-closed or 503''] else []) @
     (if option_id = JStr ''direct_postgres_fail_closed'' \<and> \<not> occurs_in ''write suspend'' rendered
      then [''direct_postgres_fail_closed must reference write suspend''] else []))"

definition option_errors :: "nat \<Rightarrow> json \<Rightarrow> string list" where
  "option_errors i j = (case j of
       JObj option \<Rightarrow> (let
           extra_keys = sorted_minus (map fst option) OPTION_FIELDS;
           missing_option_fields = sorted_minus OPTION_FIELDS (map fst option);
           label = item_label ''option_id'' i option
         in (if extra_keys \<noteq> [] then [label @ '' has unexpected keys: '' @ py_str (strings extra_keys)] else []) @
            fields_message (label @ '' missing fields'') missing_option_fields @
            validate_scores option @ validate_option_policy option)
     | _ \<Rightarrow> [''options['' @ nat_str i @ ''] must be an object''])"

text \<open>\<open>options_by_id\<close>: of two options with one name the later one counts.\<close>

definition option_named :: "json list \<Rightarrow> json \<Rightarrow> (string \<times> json) list option" where
  "option_named options option_id = (case option_id of
       JStr name \<Rightarrow> map_of (rev (concat (map (\<lambda>j. case j of
           JObj option \<Rightarrow> (case json_get ''option_id'' option of Some (JStr s) \<Rightarrow> [(s, option)] | _ \<Rightarrow> [])
         | _ \<Rightarrow> []) options))) name
     | _ \<Rightarrow> None)"

definition row_errors :: "json list \<Rightarrow> nat \<Rightarrow> json \<Rightarrow> string list" where
  "row_errors options i j = (case j of
       JObj row \<Rightarrow> (let
           extra_keys = sorted_minus (map fst row) DECISION_MATRIX_FIELDS;
           row_label = item_label ''option_id'' i row
         in fields_message (''decision_matrix row '' @ row_label @ '' has unexpected keys'') extra_keys @
           (case option_named options (obj_get ''option_id'' JNull row) of
              None \<Rightarrow> [''decision_matrix row has unknown option_id: '' @ row_label]
            | Some option \<Rightarrow>
                if None \<in> set (scores option) then []
                else
                  (if \<not> py_eq (obj_get ''total_context_score'' JNull row) (JInt (total_score option))
                   then [row_label @ '' total_context_score mismatch''] else []) @
                  (if \<not> py_eq (obj_get ''decision'' JNull row) (obj_get ''decision'' JNull option)
                   then [row_label @ '' decision mismatch''] else [])))
     | _ \<Rightarrow> [''decision_matrix['' @ nat_str i @ ''] must be an object''])"

definition validate_decision_matrix :: "(string \<times> json) list \<Rightarrow> exn + string list" where
  "validate_decision_matrix payload = (case obj_get ''options'' JNull payload of
       JList options \<Rightarrow> (case obj_get ''decision_matrix'' JNull payload of
           JList rows \<Rightarrow> bindE (names_found ''option_id'' rows) (\<lambda>row_ids. Inr (
             fields_message ''decision_matrix missing rows'' (names_missing REQUIRED_OPTIONS row_ids) @
             concat (map (\<lambda>(i, row). row_errors options i row) (enumerate 0 rows))))
         | _ \<Rightarrow> Inr [''decision_matrix must be a list''])
     | _ \<Rightarrow> Inr [])"

definition validate_decision_report :: "(string \<times> json) list \<Rightarrow> exn + string list" where
  "validate_decision_report payload = (let
     raw_options = obj_get ''options'' JNull payload;
     options = listed raw_options
   in bindE (names_found ''option_id'' options) (\<lambda>found_options.
      bindE (validate_decision_matrix payload) (\<lambda>matrix_errors. Inr (sorted_set (
        fields_message ''missing top-level fields'' (sorted_minus PH8_TOP_LEVEL_FIELDS (map fst payload)) @
        (if \<not> json_truthy (obj_get ''current_decision'' JNull payload) then [''current_decision must not be empty''] else []) @
        (if json_get ''sensitive_data_included'' payload \<noteq> Some (JBool False) then [''sensitive_data_included must be false''] else []) @
        not_listed ''options must be a list'' raw_options @
        fields_message ''missing required options'' (names_missing REQUIRED_OPTIONS found_options) @
        concat (map (\<lambda>(i, option). option_errors i option) (enumerate 0 options)) @
        matrix_errors @
        content_errors (\<lambda>_. False) (rx_search SENSITIVE_KEY_PATTERNS) PH8_SENSITIVE_TEXT_PATTERNS (JObj payload) ''$'' @
        forbidden_claims PH8_FORBIDDEN_CLAIMS payload)))))"

definition validate_decision_document :: "json \<Rightarrow> exn + string list" where
  "validate_decision_document j = (case j of JObj payload \<Rightarrow> validate_decision_report payload | _ \<Rightarrow> Inl (not_an_object j))"

subsection \<open>The command\<close>

definition option_row :: "json \<Rightarrow> string" where
  "option_row j = (case j of
       JObj option \<Rightarrow> ''| '' @ join '' | '' (map (\<lambda>k. report_text k option) (''name'' # SCORE_FIELDS @ [''decision''])) @ '' |''
     | _ \<Rightarrow> [])"

definition render_decision_report :: "(string \<times> json) list \<Rightarrow> string" where
  "render_decision_report report = (let
     recommendation = (case obj_get ''recommendation'' JNull report of JObj r \<Rightarrow> r | _ \<Rightarrow> [])
   in join [CHR 0x0A] (
     [''# PH8 PostgreSQL HA / Queue Decision Report'', [],
      quoted_line ''Run ID'' ''run_id'' report, quoted_line ''Generated at'' ''generated_at'' report,
      quoted_line ''Phase'' ''phase'' report, ''- Current decision: '' @ report_text ''current_decision'' report, [],
      ''## Contract Boundary'', [],
      ''- Direct PostgreSQL path: `COMPLETED` means PostgreSQL commit evidence exists.'',
      ''- Queue-first path: `ACCEPTED` means durable enqueue; `COMPLETED` means later ledger posting commit.'', [],
      ''## Score Note'', [], SCORE_NOTE, [], ''## Decision Matrix'', [],
      ''| Option | Availability | Explainability | Complexity | Cost | Local Fit | Decision |'',
      ''| --- | ---: | ---: | ---: | ---: | ---: | --- |''] @
     map option_row (listed (obj_get ''options'' JNull report)) @
     [[], ''## Recommendation'', [], ''Recommended now (`recommended_now`):''] @
     report_items ''recommended_now'' recommendation @ [[], ''Recommended later (`recommended_later`):''] @
     report_items ''recommended_later'' recommendation @ [[], ''Follow-up candidates (`follow_up_candidates`):''] @
     report_items ''follow_up_candidates'' report) @ [CHR 0x0A])"

datatype decision_command =
    Decision_demo string
  | Decision_validate string artifact_file

definition decision_handle :: "decision_command \<Rightarrow> exn + (outcome \<times> written)" where
  "decision_handle cmd = (case cmd of
       Decision_demo output_dir \<Rightarrow>
         bindE build_decision_report (\<lambda>report.
         bindE (validate_decision_report report) (\<lambda>errors.
         if errors \<noteq> [] then Inl (ValueError (dumps_default False (strings errors)))
         else Inr (document_outcome 0 (JObj [
             (''output'', JStr (path_join output_dir ''sample-ha-queue-decision-report.json'')),
             (''report'', JStr (path_join output_dir ''sample-ha-queue-decision-report.md'')),
             (''option_count'', JInt (int (length (listed (obj_get ''options'' JNull report))))),
             (''validation_errors'', strings [])]),
           [(path_join output_dir ''sample-ha-queue-decision-report.json'', unicode_file (JObj report)),
            (path_join output_dir ''sample-ha-queue-decision-report.md'', text_file (render_decision_report report))])))
     | Decision_validate path f \<Rightarrow>
         bindE (parsed f) (\<lambda>j. bindE (validate_decision_document j) (\<lambda>errors.
         Inr (if errors \<noteq> []
           then system_exit (pretty_unicode (JObj [(''input'', JStr path), (''validation_errors'', strings errors)]))
           else document_outcome 0 (JObj [(''input'', JStr path), (''validation_errors'', strings [])]), []))))"

definition decision_main :: "decision_command \<Rightarrow> exn + (outcome \<times> written)" where
  "decision_main cmd = drill_main ''PH8 HA/Queue decision'' (decision_handle cmd)"

end
