(* ===== verification/Plan_Properties.thy ===== *)
theory Plan_Properties
  imports Latency_Drill Hardening_Drill Decision_Matrix
begin

text \<open>
  What the plan scripts guarantee: the scenarios of the latency drills are classified as their drills expect, a plan with an
  unsafe drill is never accepted, and the decision matrix that is built is the one that is validated.
\<close>

subsection \<open>The gate for default commands\<close>

text \<open>A default command that may run: not destructive, and a target of the Makefile.\<close>

definition safe_default :: "rx list \<Rightarrow> string list \<Rightarrow> json \<Rightarrow> bool" where
  "safe_default destructive targets item = (case item of
       JStr command \<Rightarrow> \<not> matches_any destructive command \<and> is_make command \<and> known_target targets command
     | _ \<Rightarrow> False)"

text \<open>
  Both drill validators pass each default command through a gate, with their own list of destructive patterns and their own
  messages. What they share is when the gate is silent.
\<close>

locale command_gate =
  fixes gate :: "string \<Rightarrow> string \<Rightarrow> string list \<Rightarrow> string list" and destructive :: "rx list"
  assumes gate_silent: "gate label command targets = [] \<longleftrightarrow>
    \<not> matches_any destructive command \<and> is_make command \<and> known_target targets command"
begin

lemma commands_silent:
  "listed_text_errors msg (\<lambda>command. gate label command targets) j = [] \<longleftrightarrow>
    list_all (safe_default destructive targets) (listed j)"
  unfolding listed_text_errors_def list_all_iff concat_eq_Nil_conv
  by (auto simp: gate_silent safe_default_def split: json.splits)

end

interpretation hardening_gate: command_gate validate_command PH9_DESTRUCTIVE_COMMAND_PATTERNS
  by unfold_locales (simp add: validate_command_def)

interpretation latency_gate: command_gate validate_default_command PH11_DESTRUCTIVE_COMMAND_PATTERNS
  by unfold_locales (simp add: validate_default_command_def)

subsection \<open>Latency drills\<close>

text \<open>
  What an accepted drill owes: default commands that are safe targets of the Makefile, and one classification, expected,
  recorded and answered by the attribution for the drill's scenario.
\<close>

definition drill_in_order :: "string list \<Rightarrow> (string \<times> json) list \<Rightarrow> bool" where
  "drill_in_order targets drill \<longleftrightarrow>
     list_all (safe_default PH11_DESTRUCTIVE_COMMAND_PATTERNS targets) (listed (obj_get ''commands'' (JList []) drill)) \<and>
     py_eq (obj_get ''expected_ph10_classification'' JNull drill) (obj_get ''actual_ph10_classification'' JNull drill) \<and>
     (case obj_get ''ph10_input_scenario'' JNull drill of
        JStr scenario \<Rightarrow> (case analyzed_classification scenario of
            Inr c \<Rightarrow> py_eq (obj_get ''actual_ph10_classification'' JNull drill) c
          | Inl _ \<Rightarrow> False)
      | _ \<Rightarrow> False)"

lemma analyzer_silent:
  assumes "validate_actual_matches_analyzer label drill = Inr []"
  shows "\<exists>scenario c. obj_get ''ph10_input_scenario'' JNull drill = JStr scenario \<and> analyzed_classification scenario = Inr c \<and>
    py_eq (obj_get ''actual_ph10_classification'' JNull drill) c"
  using assms by (auto simp: validate_actual_matches_analyzer_def bindE_def split: json.splits if_splits sum.splits)

lemma latency_drill_silent:
  assumes "validate_latency_drill targets i drill = Inr []"
  shows "drill_in_order targets drill"
proof -
  have "validate_actual_matches_analyzer (item_label ''drill_id'' i drill) drill = Inr []"
    "classification_errors (item_label ''drill_id'' i drill) drill = []"
    "listed_text_errors (item_label ''drill_id'' i drill @ '' command must be a string'')
       (\<lambda>command. validate_default_command (item_label ''drill_id'' i drill) command targets) (obj_get ''commands'' (JList []) drill) = []"
    using assms by (auto simp: validate_latency_drill_def Let_def bindE_def split: if_splits sum.splits)
  then show ?thesis
    using analyzer_silent
    by (fastforce simp: drill_in_order_def latency_gate.commands_silent classification_errors_def Let_def split: if_splits)
qed

lemma mapE_concat_Nil:
  assumes "mapE f xs = Inr yss" "concat yss = []" "x \<in> set xs"
  shows "f x = Inr []"
  using assms by (induction xs arbitrary: yss) (auto simp: bindE_def split: sum.splits)

lemma enumerate_member: "x \<in> set xs \<Longrightarrow> \<exists>i. (i, x) \<in> set (enumerate n xs)"
  by (metis enumerate_eq_zip in_set_impl_in_set_zip2 length_upt add_diff_cancel_left')

lemma accepted_drills:
  assumes "validate_drill_report makefile payload = Inr []" "JObj drill \<in> set (listed (obj_get ''drills'' JNull payload))"
  shows "drill_in_order (make_targets makefile) drill"
proof -
  let ?drills = "enumerate 0 (listed (obj_get ''drills'' JNull payload))"
  obtain errs where "mapE (latency_drill_errors (make_targets makefile)) ?drills = Inr errs" "concat errs = []"
    using assms(1) by (auto simp: validate_drill_report_def Let_def bindE_def split: sum.splits)
  moreover obtain i where "(i, JObj drill) \<in> set ?drills" using enumerate_member [OF assms(2), of 0] by auto
  ultimately have "latency_drill_errors (make_targets makefile) (i, JObj drill) = Inr []" by (rule mapE_concat_Nil)
  then show ?thesis by (auto simp: latency_drill_errors_def intro: latency_drill_silent)
qed

subsection \<open>Hardening drills\<close>

text \<open>
  What an accepted hardening drill owes: safe default commands, candidate commands of the allowlist, and no action that
  needs an approval when it may run by itself.
\<close>

definition allowed_candidate :: "json \<Rightarrow> bool" where
  "allowed_candidate item = (case item of
       JStr command \<Rightarrow> is_make command \<and> target_of command \<in> set CANDIDATE_COMMAND_ALLOW_TARGETS
     | _ \<Rightarrow> False)"

definition hardening_in_order :: "string list \<Rightarrow> (string \<times> json) list \<Rightarrow> bool" where
  "hardening_in_order targets drill \<longleftrightarrow>
     list_all (safe_default PH9_DESTRUCTIVE_COMMAND_PATTERNS targets) (listed (obj_get ''commands'' (JList []) drill)) \<and>
     list_all allowed_candidate (listed (obj_get ''candidate_commands'' (JList []) drill)) \<and>
     (json_get ''safe_to_auto_run'' drill = Some (JBool True) \<longrightarrow>
       manual_terms (obj_get ''manual_approval_required_for'' (JList []) drill) = [])"

lemma candidates_silent:
  "listed_text_errors msg (validate_candidate_command label) j = [] \<longleftrightarrow> list_all allowed_candidate (listed j)"
  unfolding listed_text_errors_def list_all_iff concat_eq_Nil_conv
  by (auto simp: validate_candidate_command_def allowed_candidate_def split: json.splits)

lemma hardening_drill_silent:
  "validate_hardening_drill targets i drill = [] \<Longrightarrow> hardening_in_order targets drill"
  by (auto simp: validate_hardening_drill_def hardening_in_order_def Let_def hardening_gate.commands_silent candidates_silent
      split: if_splits)

lemma accepted_hardening:
  assumes "validate_hardening_report makefile payload = Inr []" "JObj drill \<in> set (listed (obj_get ''drills'' JNull payload))"
  shows "hardening_in_order (make_targets makefile) drill"
proof -
  let ?drills = "enumerate 0 (listed (obj_get ''drills'' JNull payload))"
  have "concat (map (\<lambda>(i, drill). hardening_drill_errors (make_targets makefile) i drill) ?drills) = []"
    using assms(1) by (auto simp: validate_hardening_report_def Let_def bindE_def split: sum.splits)
  moreover obtain i where "(i, JObj drill) \<in> set ?drills" using enumerate_member [OF assms(2), of 0] by auto
  ultimately have "hardening_drill_errors (make_targets makefile) i (JObj drill) = []" by fastforce
  then show ?thesis by (auto simp: hardening_drill_errors_def intro: hardening_drill_silent)
qed

subsection \<open>The decision matrix\<close>

lemma mapE_Inr: "mapE f xs = Inr ys \<Longrightarrow> list_all2 (\<lambda>x y. f x = Inr y) xs ys"
  by (induction xs arbitrary: ys) (auto simp: bindE_def list_all2_Cons1 split: sum.splits)

text \<open>The name of an option, when it is a text.\<close>

definition option_name :: "(string \<times> json) list \<Rightarrow> string option" where
  "option_name option = (case json_get ''option_id'' option of Some (JStr s) \<Rightarrow> Some s | _ \<Rightarrow> None)"

lemma option_name_get: "option_name option = Some s \<Longrightarrow> json_get ''option_id'' option = Some (JStr s)"
  by (auto simp: option_name_def split: option.splits json.splits)

lemma option_named_pairs:
  assumes "list_all (\<lambda>option. option_name option \<noteq> None) options"
  shows "option_named (map JObj options) (JStr s) = map_of (rev (map (\<lambda>option. (the (option_name option), option)) options)) s"
proof -
  have "map (\<lambda>j. case j of JObj option \<Rightarrow> (case json_get ''option_id'' option of Some (JStr s) \<Rightarrow> [(s, option)] | _ \<Rightarrow> []) | _ \<Rightarrow> [])
      (map JObj options) = map (\<lambda>option. [(the (option_name option), option)]) options"
    using assms by (induction options) (auto simp: option_name_def split: option.splits json.splits)
  then show ?thesis unfolding option_named_def by (simp only: json.case concat_map_singleton)
qed

text \<open>With distinct names, looking an option up by its name gives it back.\<close>

lemma option_named_self:
  assumes "list_all (\<lambda>option. option_name option \<noteq> None) options" "distinct (map option_name options)" "option \<in> set options"
    "option_name option = Some s"
  shows "option_named (map JObj options) (JStr s) = Some option"
proof -
  have "inj_on the (set (map option_name options))"
    using assms(1) by (auto simp: inj_on_def list_all_iff) (metis option.sel)
  then have "distinct (map (the \<circ> option_name) options)" using assms(2) by (simp add: distinct_map inj_on_def)
  then have "distinct (map fst (rev (map (\<lambda>option. (the (option_name option), option)) options)))"
    by (simp add: rev_map [symmetric] comp_def)
  moreover have "(s, option) \<in> set (rev (map (\<lambda>option. (the (option_name option), option)) options))"
    using assms(3,4) by force
  ultimately show ?thesis using option_named_pairs [OF assms(1)] map_of_is_SomeI by simp
qed

text \<open>The row built for an option passes the checks against that option.\<close>

lemma built_row_silent:
  assumes "decision_row option = Inr row" "option_name option = Some s" "json_get ''decision'' option = Some (JStr d)"
    "option_named options (JStr s) = Some option"
  shows "row_errors options i row = []" "\<exists>kvs. row = JObj kvs \<and> obj_get ''option_id'' JNull kvs = JStr s"
proof -
  have row: "row = JObj [(''option_id'', JStr s), (''total_context_score'', JInt (total_score option)),
      (''decision'', obj_get ''decision'' JNull option), (''note'', JStr SCORE_NOTE)]" and "None \<notin> set (scores option)"
    using assms(1) option_name_get [OF assms(2)] by (auto simp: decision_row_def obj_get_def split: list.splits if_splits)
  moreover have "sorted_minus [''option_id'', ''total_context_score'', ''decision'', ''note''] DECISION_MATRIX_FIELDS = []"
    by (simp add: sorted_minus_Nil DECISION_MATRIX_FIELDS_def)
  ultimately show "row_errors options i row = []"
    using assms(3,4) by (simp add: row_errors_def obj_get_def json_get_def fields_message_def flt_eq_def)
  show "\<exists>kvs. row = JObj kvs \<and> obj_get ''option_id'' JNull kvs = JStr s" unfolding row by (simp add: obj_get_def json_get_def)
qed

text \<open>An option with a name, a decision and integer scores.\<close>

definition complete_option :: "(string \<times> json) list \<Rightarrow> bool" where
  "complete_option option \<longleftrightarrow> option_name option \<noteq> None \<and>
     (case json_get ''decision'' option of Some (JStr _) \<Rightarrow> True | _ \<Rightarrow> False) \<and> None \<notin> set (scores option)"

lemma complete_options: "list_all complete_option options \<Longrightarrow> list_all (\<lambda>option. option_name option \<noteq> None) options"
  by (simp add: list_all_iff complete_option_def)

lemma complete_decision:
  "complete_option option \<Longrightarrow> \<exists>s d. option_name option = Some s \<and> json_get ''decision'' option = Some (JStr d)"
  by (auto simp: complete_option_def split: option.splits json.splits)

lemma complete_row:
  assumes "complete_option option"
  shows "\<exists>row. decision_row option = Inr row"
proof -
  have "json_get k option \<noteq> None" if "k \<in> set SCORE_FIELDS" for k
  proof
    assume "json_get k option = None"
    then have "int_value (obj_get k JNull option) = None" by (simp add: obj_get_def int_value_def)
    then have "None \<in> set (scores option)" using that by (force simp: scores_def)
    with assms show False by (simp add: complete_option_def)
  qed
  moreover have "json_get ''option_id'' option \<noteq> None" "json_get ''decision'' option \<noteq> None"
    using complete_decision [OF assms] option_name_get by fastforce+
  ultimately have "filter (\<lambda>k. json_get k option = None) (''option_id'' # SCORE_FIELDS @ [''decision'']) = []"
    by (auto simp: filter_empty_conv)
  then show ?thesis using assms by (simp add: decision_row_def complete_option_def del: filter.simps filter_append)
qed

lemma complete_matrix: "list_all complete_option options \<Longrightarrow> \<exists>rows. decision_matrix options = Inr rows"
proof (induction options)
  case (Cons option options)
  then show ?case using complete_row [of option] by (auto simp: decision_matrix_def bindE_def)
qed (simp add: decision_matrix_def)

lemma built_rows:
  assumes "list_all complete_option options" "distinct (map option_name options)" "decision_matrix options = Inr rows"
    "row \<in> set rows"
  obtains option s kvs where "option \<in> set options" "option_name option = Some s" "row = JObj kvs"
    "obj_get ''option_id'' JNull kvs = JStr s" "\<And>i. row_errors (map JObj options) i row = []"
proof -
  obtain option where o: "option \<in> set options" "decision_row option = Inr row"
    using mapE_Inr assms(3,4) by (force simp: decision_matrix_def list_all2_conv_all_nth in_set_conv_nth)
  then obtain s d where sd: "option_name option = Some s" "json_get ''decision'' option = Some (JStr d)"
    using complete_decision assms(1) by (metis list_all_iff)
  show ?thesis
    using that built_row_silent [OF o(2) sd option_named_self [OF complete_options [OF assms(1)] assms(2) o(1) sd(1)]] o(1) sd(1)
    by blast
qed

lemma built_names:
  assumes "list_all complete_option options" "distinct (map option_name options)" "decision_matrix options = Inr rows"
  shows "\<exists>found. names_found ''option_id'' rows = Inr found \<and> set found = (\<lambda>option. JStr (the (option_name option))) ` set options"
proof -
  let ?ids = "concat (map (\<lambda>j. case j of JObj kvs \<Rightarrow> [obj_get ''option_id'' JNull kvs] | _ \<Rightarrow> []) rows)"
  have "list_all2 (\<lambda>option row. decision_row option = Inr row) options rows"
    using assms(3) mapE_Inr by (simp add: decision_matrix_def)
  then have ids: "?ids = map (\<lambda>option. JStr (the (option_name option))) options"
    using assms(1)
  proof (induction rule: list_all2_induct)
    case (Cons option options row rows)
    then obtain s d where sd: "option_name option = Some s" "json_get ''decision'' option = Some (JStr d)"
      using complete_decision by fastforce
    then have "option_named [JObj option] (JStr s) = Some option" by (auto simp: option_named_def dest: option_name_get)
    from built_row_silent(2) [OF Cons.hyps(1) sd this] Cons sd(1) show ?case by auto
  qed simp
  then have "names_found ''option_id'' rows = Inr ?ids" by (auto simp: names_found_def list_all_iff)
  with ids show ?thesis by auto
qed

text \<open>A row without errors has the total and the decision of an option of the report.\<close>

definition true_row :: "(string \<times> json) list list \<Rightarrow> (string \<times> json) list \<Rightarrow> bool" where
  "true_row options row \<longleftrightarrow> list_ex (\<lambda>option. obj_get ''option_id'' JNull row = JStr (the (option_name option)) \<and>
     py_eq (obj_get ''total_context_score'' JNull row) (JInt (total_score option)) \<and>
     py_eq (obj_get ''decision'' JNull row) (obj_get ''decision'' JNull option)) options"

lemma option_named_member:
  assumes "list_all (\<lambda>option. option_name option \<noteq> None) options" "option_named (map JObj options) j = Some option"
  shows "option \<in> set options \<and> j = JStr (the (option_name option))"
proof -
  obtain s where s: "j = JStr s" using assms(2) by (auto simp: option_named_def split: json.splits)
  then have "map_of (rev (map (\<lambda>option. (the (option_name option), option)) options)) s = Some option"
    using assms option_named_pairs by simp
  from map_of_SomeD [OF this] s show ?thesis by auto
qed

lemma silent_row_true:
  assumes "list_all complete_option options" "row_errors (map JObj options) i (JObj row) = []"
  shows "true_row options row"
proof -
  obtain option where o: "option_named (map JObj options) (obj_get ''option_id'' JNull row) = Some option"
    using assms(2) by (auto simp: row_errors_def Let_def split: option.splits)
  note m = option_named_member [OF complete_options [OF assms(1)] o]
  then have "None \<notin> set (scores option)" using assms(1) by (auto simp: list_all_iff complete_option_def)
  then show ?thesis using assms(2) o m by (auto simp: row_errors_def Let_def true_row_def list_ex_iff split: if_splits)
qed

lemma matrix_rows_silent:
  assumes "json_get ''options'' payload = Some (JList (map JObj options))" "json_get ''decision_matrix'' payload = Some (JList rows)"
    "validate_decision_matrix payload = Inr []" "JObj row \<in> set rows"
  shows "\<exists>i. row_errors (map JObj options) i (JObj row) = []"
proof -
  obtain i where "(i, JObj row) \<in> set (enumerate 0 rows)" using enumerate_member [OF assms(4), of 0] by auto
  moreover have "concat (map (\<lambda>(i, row). row_errors (map JObj options) i row) (enumerate 0 rows)) = []"
    using assms(1-3) by (auto simp: validate_decision_matrix_def obj_get_def bindE_def split: sum.splits)
  ultimately show ?thesis by fastforce
qed

lemma built_matrix_silent:
  assumes "list_all complete_option options" "distinct (map option_name options)" "decision_matrix options = Inr rows"
    "set REQUIRED_OPTIONS \<subseteq> (\<lambda>option. the (option_name option)) ` set options"
    "json_get ''options'' payload = Some (JList (map JObj options))" "json_get ''decision_matrix'' payload = Some (JList rows)"
  shows "validate_decision_matrix payload = Inr []"
proof -
  obtain found where f: "names_found ''option_id'' rows = Inr found"
    "set found = (\<lambda>option. JStr (the (option_name option))) ` set options"
    using built_names [OF assms(1-3)] by blast
  then have "names_missing REQUIRED_OPTIONS found = []" using assms(4) by (auto simp: names_missing_def filter_empty_conv)
  moreover have "row_errors (map JObj options) i row = []" if "(i, row) \<in> set (enumerate 0 rows)" for i row
  proof -
    have "row \<in> set rows" using that by (auto simp: in_set_enumerate_eq)
    then show ?thesis by (rule built_rows [OF assms(1-3)])
  qed
  then have "concat (map (\<lambda>(i, row). row_errors (map JObj options) i row) (enumerate 0 rows)) = []" by auto
  ultimately show ?thesis using assms(5,6) f(1) by (simp add: validate_decision_matrix_def obj_get_def bindE_def fields_message_def)
qed

subsection \<open>The scenarios of the latency drills\<close>

lemma scenarios_classified:
  "analyzed_classification ''baseline'' = Inr (JStr ''baseline_normal_latency'')"
  "analyzed_classification ''db_pool_pressure'' = Inr (JStr ''internal_postgres_pool_pressure'')"
  "analyzed_classification ''db_lock_contention'' = Inr (JStr ''internal_postgres_lock_contention'')"
  "analyzed_classification ''redis_degraded'' = Inr (JStr ''redis_degraded_latency'')"
  "analyzed_classification ''redis_unavailable'' = Inr (JStr ''redis_unavailable_fallback'')"
  "analyzed_classification ''external_endpoint_slow'' = Inr (JStr ''external_endpoint_slow'')"
  "analyzed_classification ''app_http_client_path_issue'' = Inr (JStr ''app_http_client_path_issue'')"
  "analyzed_classification ''nginx_edge_latency'' = Inr (JStr ''edge_or_client_network_latency'')"
  "analyzed_classification ''insufficient_evidence'' = Inr (JStr ''insufficient_evidence'')"
  by code_simp+

text \<open>A drill with what it expects recorded as what was answered.\<close>

definition recorded :: "(string \<times> json) list \<Rightarrow> (string \<times> json) list" where
  "recorded item = item @ [(''actual_ph10_classification'', obj_get ''expected_ph10_classification'' JNull item)]"

definition expects :: "(string \<times> json) list \<Rightarrow> string \<Rightarrow> string \<Rightarrow> bool" where
  "expects item scenario classification \<longleftrightarrow> json_get ''ph10_input_scenario'' item = Some (JStr scenario) \<and>
     json_get ''expected_ph10_classification'' item = Some (JStr classification)"

lemma drills_expect:
  "expects LAT_001 ''baseline'' ''baseline_normal_latency'' \<and> expects LAT_002 ''db_pool_pressure'' ''internal_postgres_pool_pressure'' \<and>
   expects LAT_003 ''db_lock_contention'' ''internal_postgres_lock_contention'' \<and> expects LAT_004 ''redis_degraded'' ''redis_degraded_latency'' \<and>
   expects LAT_005 ''external_endpoint_slow'' ''external_endpoint_slow'' \<and>
   expects LAT_006 ''nginx_edge_latency'' ''edge_or_client_network_latency''"
  by code_simp

lemma catalog_expected:
  "expects item scenario c \<Longrightarrow> analyzed_classification scenario = Inr (JStr c) \<Longrightarrow> catalog_drill item = Inr (JObj (recorded item))"
  by (simp add: expects_def catalog_drill_def recorded_def obj_get_def bindE_def)

lemma catalog_recorded: "list_all (\<lambda>item. catalog_drill item = Inr (JObj (recorded item))) drill_definitions"
  using drills_expect by (auto simp: drill_definitions_def intro: catalog_expected scenarios_classified)

lemma mapE_total:
  "list_all (\<lambda>x. f x = Inr (g x)) xs \<Longrightarrow> mapE f xs = Inr (map g xs)"
  by (induction xs) (simp_all add: bindE_def)

subsection \<open>Properties\<close>

text \<open>
  C38: A latency drill plan with a drill that is not in order is never accepted: a default command that is destructive
  or no target of the Makefile, an expected classification other than the recorded one, or a recorded classification other than
  what the attribution answers for the drill's scenario.
\<close>

theorem unsafe_drill_refused:
  assumes "JObj drill \<in> set (listed (obj_get ''drills'' JNull payload))" "\<not> drill_in_order (make_targets makefile) drill"
  shows "validate_drill_report makefile payload \<noteq> Inr []"
  using assms accepted_drills by blast

theorem unsafe_drill_refused_witness:
  "validate_drill_report (Some ''ph11-latency-drill-demo: deps'') [(''drills'', JList [JObj [(''drill_id'', JStr ''LAT-003''),
     (''commands'', JList [JStr ''make ph11-latency-drill-demo && docker compose stop redis''])]])] \<noteq> Inr []"
  by (rule unsafe_drill_refused [where drill = "[(''drill_id'', JStr ''LAT-003''),
     (''commands'', JList [JStr ''make ph11-latency-drill-demo && docker compose stop redis''])]"]) code_simp+



text \<open>
  C40: The decision matrix built from complete options with distinct names that include the required ones is always built and accepted with
  them; and in any matrix that is accepted with them every row has the total score and the decision of the option it names.
\<close>

theorem decision_matrix_true:
  assumes "list_all complete_option options" "distinct (map option_name options)"
    "set REQUIRED_OPTIONS \<subseteq> (\<lambda>option. the (option_name option)) ` set options"
  shows "(\<exists>rows. decision_matrix options = Inr rows \<and> (\<forall>payload.
      json_get ''options'' payload = Some (JList (map JObj options)) \<and> json_get ''decision_matrix'' payload = Some (JList rows) \<longrightarrow>
      validate_decision_matrix payload = Inr [])) \<and>
    (\<forall>payload rows row.
      json_get ''options'' payload = Some (JList (map JObj options)) \<and> json_get ''decision_matrix'' payload = Some (JList rows) \<and>
      validate_decision_matrix payload = Inr [] \<and> JObj row \<in> set rows \<longrightarrow> true_row options row)"
  using complete_matrix [OF assms(1)] built_matrix_silent [OF assms(1,2) _ assms(3)] matrix_rows_silent silent_row_true [OF assms(1)]
  by metis

theorem decision_matrix_true_witness:
  "\<exists>rows. decision_matrix options_list = Inr rows \<and>
     validate_decision_matrix [(''options'', JList (map JObj options_list)), (''decision_matrix'', JList rows)] = Inr []"
proof -
  have "list_all complete_option options_list" by code_simp
  moreover have "distinct (map option_name options_list)" by code_simp
  moreover have "list_all (\<lambda>name. list_ex (\<lambda>option. option_name option = Some name) options_list) REQUIRED_OPTIONS" by code_simp
  then have "set REQUIRED_OPTIONS \<subseteq> (\<lambda>option. the (option_name option)) ` set options_list"
    by (force simp: list_all_iff list_ex_iff)
  ultimately show ?thesis using decision_matrix_true [of options_list] by (auto simp: json_get_def)
qed

end
