(* ===== verification/Printed_Text.thy ===== *)
theory Printed_Text
  imports Latency_Answers Drill_Scan
begin

text \<open>
  Where a word can occur in a printed JSON document: only inside one of its texts or keys. The report validators look for
  forbidden claims and patterns in whole documents; these lemmas reduce that to their texts one by one.
\<close>

subsection \<open>Words in texts\<close>

text \<open>Words by their first letter, so that one pass over a text looks for all of them.\<close>

type_synonym word_table = "(char \<times> string list) list"

fun mentions :: "word_table \<Rightarrow> string \<Rightarrow> bool" where
  "mentions ws [] = False"
| "mentions ws (c # s) = (case map_of ws c of
       None \<Rightarrow> mentions ws s
     | Some rests \<Rightarrow> if list_ex (\<lambda>w. starts w s) rests then True else mentions ws s)"

definition table_words :: "word_table \<Rightarrow> string list" where
  "table_words ws = concat (map (\<lambda>(c, rests). map ((#) c) rests) ws)"

lemma occurs_mentions:
  assumes "distinct (map fst ws)" "w \<in> set (table_words ws)" "occurs_in w s"
  shows "mentions ws s"
  using assms(3)
proof (induction s)
  case Nil
  then show ?case using assms(2) by (auto simp: occurs_in_iff table_words_def)
next
  case (Cons c s)
  obtain d rests v where v: "(d, rests) \<in> set ws" "v \<in> set rests" "w = d # v" using assms(2) by (auto simp: table_words_def)
  then have "map_of ws d = Some rests" using assms(1) by simp
  then show ?case using Cons v by (auto simp: occurs_in_Cons starts_take list_ex_iff split: option.split)
qed

subsection \<open>Evaluation\<close>

text \<open>Code equations that stop at the first difference.\<close>

lemma starts_lazy [code]:
  "starts [] s = True"
  "starts (p # ps) s = (case s of [] \<Rightarrow> False | c # s' \<Rightarrow> if p = c then starts ps s' else False)"
  by (auto split: list.split)

lemma char_eq_lazy [code]:
  "HOL.equal (Char b0 b1 b2 b3 b4 b5 b6 b7) (Char c0 c1 c2 c3 c4 c5 c6 c7) =
    (if b0 = c0 then if b1 = c1 then if b2 = c2 then if b3 = c3 then if b4 = c4 then if b5 = c5 then if b6 = c6 then b7 = c7
     else False else False else False else False else False else False else False)"
  by (auto simp: equal_eq)

lemma esc_char_exec [code]:
  "esc_char (Char b0 b1 b2 b3 b4 b5 b6 b7) =
    (if b5 \<or> b6 \<or> b7 then
       if b5 \<and> b1 \<and> \<not> b0 \<and> \<not> b2 \<and> \<not> b3 \<and> \<not> b4 \<and> \<not> b6 \<and> \<not> b7 then [backslash, dquote]
       else if b6 \<and> b4 \<and> b3 \<and> b2 \<and> \<not> b0 \<and> \<not> b1 \<and> \<not> b5 \<and> \<not> b7 then [backslash, backslash]
       else [Char b0 b1 b2 b3 b4 b5 b6 b7]
     else (let n = code_of (Char b0 b1 b2 b3 b4 b5 b6 b7) in
       if n = 10 then [backslash, CHR ''n''] else if n = 13 then [backslash, CHR ''r''] else if n = 9 then [backslash, CHR ''t'']
       else if n = 12 then [backslash, CHR ''f''] else if n = 8 then [backslash, CHR ''b'']
       else [backslash, CHR ''u'', CHR ''0'', CHR ''0''] @ hex2 n))"
  by (cases b0; cases b1; cases b2; cases b3; cases b4; cases b5; cases b6; cases b7)
    (simp_all add: esc_char_def code_of_def)

subsection \<open>Texts\<close>

text \<open>How a text is printed between its quotes, in lower case.\<close>

definition printed :: "string \<Rightarrow> string" where
  "printed s = lower (concat (map esc_char s))"

text \<open>A document, without floats, none of whose texts and keys mentions one of the words.\<close>

fun silent :: "word_table \<Rightarrow> json \<Rightarrow> bool" where
  "silent ws (JObj kvs) = list_all (\<lambda>(k, v). \<not> mentions ws (printed k) \<and> silent ws v) kvs"
| "silent ws (JList xs) = list_all (silent ws) xs"
| "silent ws (JStr s) = (\<not> mentions ws (printed s))"
| "silent ws (JFloat f) = False"
| "silent ws _ = True"

subsection \<open>Printed documents\<close>

definition glue :: "char \<Rightarrow> bool" where
  "glue c \<longleftrightarrow> is_digit c \<or> c \<in> set '',: []{}-nulltruefalse''"

text \<open>Texts made of characters between texts, and of quoted texts that do not contain a word.\<close>

inductive framed :: "string \<Rightarrow> string \<Rightarrow> bool" for w where
  framed_Nil: "framed w []"
| framed_glue: "glue c \<Longrightarrow> framed w t \<Longrightarrow> framed w (c # t)"
| framed_text: "\<not> occurs_in w s \<Longrightarrow> framed w t \<Longrightarrow> framed w (dquote # s @ dquote # t)"

lemma framed_append: "framed w s \<Longrightarrow> framed w t \<Longrightarrow> framed w (s @ t)"
  by (induction rule: framed.induct) (auto intro: framed.intros)

lemma framed_glues: "list_all glue s \<Longrightarrow> framed w s"
  by (induction s) (auto intro: framed.intros)

lemma framed_join: "list_all glue sep \<Longrightarrow> list_all (framed w) xs \<Longrightarrow> framed w (join sep xs)"
  by (induction sep xs rule: join.induct) (simp_all add: framed_append framed_glues framed_Nil)

lemma occurs_split:
  assumes "occurs_in w (x @ q # y)" "q \<notin> set w"
  shows "occurs_in w x \<or> occurs_in w y"
proof -
  obtain u t where "x @ q # y = u @ w @ t" using assms(1) by (auto simp: occurs_in_iff)
  then show ?thesis using assms(2)
    by (fastforce simp: occurs_in_iff append_eq_append_conv2 append_eq_Cons_conv Cons_eq_append_conv)
qed

lemma framed_absent:
  assumes "framed w t" "dquote \<notin> set w" "c \<in> set w" "\<not> glue c"
  shows "list_all glue u \<Longrightarrow> \<not> occurs_in w (u @ t)"
  using assms
proof (induction arbitrary: u rule: framed.induct)
  case framed_Nil
  then show ?case by (auto simp: occurs_in_iff list_all_iff)
next
  case (framed_glue d t)
  then show ?case using framed_glue.IH [of "u @ [d]"] by simp
next
  case (framed_text s t)
  have "\<not> occurs_in w u" using framed_text by (auto simp: occurs_in_iff list_all_iff)
  moreover have "\<not> occurs_in w t" using framed_text.IH [of "[]"] framed_text.prems by simp
  ultimately show ?case using framed_text occurs_split [of w u dquote] occurs_split [of w s dquote t] by auto
qed

lemma lower_append [simp]: "lower (s @ t) = lower s @ lower t"
  by (simp add: lower_def)

lemma lower_join: "lower (join sep xs) = join (lower sep) (map lower xs)"
  by (induction sep xs rule: join.induct) (simp_all add: lower_def)

lemma lower_punctuation:
  "lower ''['' = ''[''" "lower '']'' = '']''" "lower ''{'' = ''{''" "lower ''}'' = ''}''" "lower '', '' = '', ''" "lower '': '' = '': ''"
  "lower [dquote] = [dquote]" "lower ''null'' = ''null''" "lower ''true'' = ''true''" "lower ''false'' = ''false''"
  by code_simp+

lemma framed_quoted: "\<not> occurs_in w (printed s) \<Longrightarrow> framed w (lower (dumps_str s))"
proof -
  have "lower (dumps_str s) = [dquote] @ printed s @ [dquote]"
    using lower_punctuation(7) by (simp add: dumps_str_def printed_def lower_def)
  then show "\<not> occurs_in w (printed s) \<Longrightarrow> ?thesis" using framed_text [of w "printed s" "[]"] framed_Nil by simp
qed

lemma glue_marks: "list_all glue ''['' \<and> list_all glue '']'' \<and> list_all glue ''{'' \<and> list_all glue ''}'' \<and> list_all glue '', '' \<and>
    list_all glue '': '' \<and> list_all glue ''null'' \<and> list_all glue ''true'' \<and> list_all glue ''false''"
  by (simp add: glue_def)

lemma glue_int: "list_all glue (lower (int_str i))"
proof -
  have "lower_char c = c \<and> glue c" if "is_digit c \<or> c = CHR ''-''" for c
    using that
  proof
    assume "is_digit c"
    then show ?thesis by (simp add: glue_def lower_char_def is_digit_def Let_def)
  next
    assume "c = CHR ''-''"
    then show ?thesis by (simp add: glue_def lower_char_def Let_def code_of_def)
  qed
  moreover have "list_all (\<lambda>c. is_digit c \<or> c = CHR ''-'') (int_str i)"
    using nat_str_digits by (auto simp: int_str_def list_all_iff)
  ultimately show ?thesis by (simp add: list_all_iff lower_def)
qed

lemma silent_framed:
  assumes "silent ws j" "distinct (map fst ws)" "w \<in> set (table_words ws)"
  shows "framed w (lower (dumps_default b j))"
  using assms
proof (induction ws j rule: silent.induct)
  case (1 ws kvs)
  define ps where "ps = (if b then sort_key fst else id) (map (\<lambda>(k, v). (k, dumps_default b v)) kvs)"
  have "framed w (lower (dumps_str k @ '': '' @ t))" if "(k, t) \<in> set ps" for k t
  proof -
    from that obtain v where v: "(k, v) \<in> set kvs" "t = dumps_default b v" by (auto simp: ps_def split: if_splits)
    then have "\<not> mentions ws (printed k)" "silent ws v" using 1 by (auto simp: list_all_iff)
    moreover from this have "\<not> occurs_in w (printed k)" using occurs_mentions [OF 1(3,4)] by blast
    moreover have "framed w (lower t)" using 1(1) [OF v(1) refl] 1(3,4) v(2) \<open>silent ws v\<close> by simp
    moreover have "framed w '': ''" using glue_marks by (blast intro: framed_glues)
    ultimately show ?thesis unfolding lower_append lower_punctuation by (blast intro: framed_append framed_quoted)
  qed
  then have "list_all (framed w) (map lower (map (\<lambda>(k, t). dumps_str k @ '': '' @ t) ps))" by (auto simp: list_all_iff)
  from framed_join [OF _ this, of "'', ''"] show ?case
    using glue_marks unfolding ps_def
    by (simp only: dumps_default.simps lower_append lower_join lower_punctuation framed_append framed_glues)
next
  case (2 ws xs)
  then have "list_all (framed w) (map lower (map (dumps_default b) xs))" by (auto simp: list_all_iff)
  from framed_join [OF _ this, of "'', ''"] show ?case
    using glue_marks by (simp only: dumps_default.simps lower_append lower_join lower_punctuation framed_append framed_glues)
next
  case (3 ws s)
  then show ?case using occurs_mentions by (auto intro!: framed_quoted)
qed (use glue_marks glue_int in \<open>simp_all add: lower_punctuation framed_glues\<close>)

text \<open>A word that is not made of separators alone occurs in a printed document only if one of its texts mentions it.\<close>

lemma silent_absent:
  assumes "silent ws j" "distinct (map fst ws)" "w \<in> set (table_words ws)" "dquote \<notin> set w" "list_ex (\<lambda>c. \<not> glue c) w"
  shows "\<not> occurs_in w (lower (dumps_default b j))"
  using framed_absent [OF silent_framed [OF assms(1-3)], of _ "[]"] assms(4,5) by (auto simp: list_ex_iff)

text \<open>Claims that each contain one of the words are not found.\<close>

definition claims_need :: "string list \<Rightarrow> word_table \<Rightarrow> bool" where
  "claims_need claims ws \<longleftrightarrow> distinct (map fst ws) \<and>
     list_all (\<lambda>claim. list_ex (\<lambda>w. occurs_in w (lower claim)) (table_words ws)) claims \<and>
     list_all (\<lambda>w. dquote \<notin> set w \<and> list_ex (\<lambda>c. \<not> glue c) w) (table_words ws)"

lemma claims_absent:
  assumes "claims_need claims ws" "silent ws j" "claim \<in> set claims"
  shows "\<not> occurs_in (lower claim) (lower (dumps_default b j))"
proof -
  obtain w where w: "w \<in> set (table_words ws)" "occurs_in w (lower claim)" "dquote \<notin> set w" "list_ex (\<lambda>c. \<not> glue c) w"
    using assms(1,3) by (fastforce simp: claims_need_def list_all_iff list_ex_iff)
  have "distinct (map fst ws)" using assms(1) by (simp add: claims_need_def)
  from silent_absent [OF assms(2) this w(1,3,4)] show ?thesis using occurs_trans [OF w(2)] by blast
qed

lemma no_forbidden_claims:
  assumes "claims_need claims ws" "silent ws (JObj payload)"
  shows "forbidden_claims claims payload = []"
  using claims_absent [OF assms] by (simp add: forbidden_claims_def Let_def filter_empty_conv del: dumps_default.simps)

end
