(* ===== verification/Plan_Accepted.thy ===== *)
theory Plan_Accepted
  imports Plan_Properties Printed_Text
begin

text \<open>
  The plans the scripts build are accepted by their own validators. What a validator looks for in texts is reduced to words
  (\<open>Printed_Text\<close>), and the words are looked up in the texts of the plan.
\<close>

subsection \<open>Sensitive content\<close>

fun tidy :: "(string \<Rightarrow> bool) \<Rightarrow> word_table \<Rightarrow> json \<Rightarrow> bool" where
  "tidy key_hit ws (JObj kvs) = list_all (\<lambda>(k, v). \<not> key_hit k \<and> tidy key_hit ws v) kvs"
| "tidy key_hit ws (JList xs) = list_all (tidy key_hit ws) xs"
| "tidy key_hit ws (JStr s) = (\<not> mentions ws (lower s))"
| "tidy key_hit ws _ = True"

definition patterns_need :: "(string \<times> rx) list \<Rightarrow> word_table \<Rightarrow> bool" where
  "patterns_need patterns ws \<longleftrightarrow> distinct (map fst ws) \<and>
     (\<forall>(t, r) \<in> set patterns. \<exists>w v. needs w r \<and> v \<in> set (table_words ws) \<and> occurs_in v (lower w))"

lemma patterns_absent:
  assumes "patterns_need patterns ws" "\<not> mentions ws (lower s)" "(t, r) \<in> set patterns"
  shows "\<not> rx_search r s"
proof -
  obtain w v where w: "needs w r" and v: "v \<in> set (table_words ws)" "occurs_in v (lower w)"
    using assms(1,3) by (auto simp: patterns_need_def)
  have "\<not> occurs_in v (lower s)" using occurs_mentions [OF _ v(1)] assms(1,2) by (auto simp: patterns_need_def)
  then show ?thesis using needs_absent [OF w] occurs_trans [OF v(2)] by blast
qed

lemma tidy_content:
  assumes "patterns_need patterns ws"
  shows "tidy key_hit ws j \<Longrightarrow> content_errors skip key_hit patterns j path = []"
    and "list_all (\<lambda>(k, v). \<not> key_hit k \<and> tidy key_hit ws v) kvs \<Longrightarrow> field_content skip key_hit patterns kvs path = []"
    and "list_all (tidy key_hit ws) xs \<Longrightarrow> item_content skip key_hit patterns xs i path = []"
proof (induction j and kvs and xs arbitrary: path and path and i path rule: json_cases_induct)
  case (1 j)
  then show ?case
    by (cases j) (auto simp: content_errors.simps is_container_def filter_empty_conv dest: patterns_absent [OF assms])
qed (auto simp: content_errors.simps [of _ _ _ "JObj _"] content_errors.simps [of _ _ _ "JList _"])

lemma content_skipped: "skip path \<Longrightarrow> content_errors skip key_hit patterns j path = []"
  by (simp add: content_errors.simps)

lemma field_content_Nil:
  "field_content skip key_hit patterns kvs path = [] \<longleftrightarrow>
    list_all (\<lambda>(k, v). \<not> key_hit k \<and> content_errors skip key_hit patterns v (path @ ''.'' @ k) = []) kvs"
  by (induction kvs) auto

subsection \<open>The words of the latency drill plan\<close>

definition SENSITIVE_TABLE :: word_table where
  "SENSITIVE_TABLE = [(CHR ''a'', [''uth'', ''ccount'']), (CHR ''b'', [''earer'', ''asic'']), (CHR ''s'', [''ignature'', ''ecret'']),
     (CHR ''i'', [''dempotency'']), (CHR ''t'', [''oken'']), (CHR ''p'', [''assword'']), (CHR ''r'', [''aw_'']), (CHR ''d'', [''atabase'']),
     (CHR '':'', [''//''])]"

lemma ph10_patterns_need: "patterns_need PH10_SENSITIVE_TEXT_PATTERNS SENSITIVE_TABLE"
proof -
  have "distinct (map fst SENSITIVE_TABLE)" "set SENSITIVE_WORDS = set (table_words SENSITIVE_TABLE)"
    by (auto simp: SENSITIVE_TABLE_def table_words_def SENSITIVE_WORDS_def)
  moreover have "\<exists>w v. needs w r \<and> v \<in> set SENSITIVE_WORDS \<and> occurs_in v (lower w)" if r: "(t, r) \<in> set PH10_SENSITIVE_TEXT_PATTERNS" for t r
    using pattern_words [OF r] words_sensitive by (fastforce simp: list_all_iff list_ex_iff)
  ultimately show ?thesis by (auto simp: patterns_need_def)
qed

definition CLAIM_TABLE :: word_table where
  "CLAIM_TABLE = [(CHR ''p'', [''roves'']), (CHR ''a'', [''utomatically'']), (CHR ''c'', [''onfirmed'']), (CHR ''r'', [''oot cause''])]"

lemma ph11_claims_need: "claims_need (PH11_FORBIDDEN_CLAIMS @ [''k6 proves'', ''k6 alone proves'', ''k6 root cause'']) CLAIM_TABLE"
  by code_simp

text \<open>The words the destructive patterns need.\<close>

definition DESTRUCTIVE_TABLE :: word_table where
  "DESTRUCTIVE_TABLE = [(CHR ''d'', [''ocker'', ''elete'', ''rop'', ''b-lock'', ''b-pool'']), (CHR ''r'', [''m'', ''edis-down'', ''edis-delay'']),
     (CHR ''t'', [''runcate'', ''oxiproxy'']), (CHR ''s'', [''top'']), (CHR ''n'', [''etem'']), (CHR ''f'', [''ailover'']), (CHR ''p'', [''romote'', ''artner'']),
     (CHR ''w'', [''rite-resume'']), (CHR ''l'', [''edger''])]"

definition unmarked :: "rx list \<Rightarrow> (string \<times> rx) list" where
  "unmarked rs = map (Pair []) rs"

lemma destructive_needs [simp]:
  "needs ''docker'' (docker_compose verbs)" "needs ''rm'' rm_option" "needs w (seq (whole_word w # rs))" "needs w (seq (lit_i w # rs))"
  by (simp_all add: docker_compose_def rm_option_def needs_first needs_later needs_lit del: lit_i.simps)

lemma ph11_destructive_need: "patterns_need (unmarked PH11_DESTRUCTIVE_COMMAND_PATTERNS) DESTRUCTIVE_TABLE"
proof -
  let ?ws = "[''docker'', ''rm'', ''delete'', ''truncate'', ''drop'', ''stop'', ''db-lock'', ''db-pool'', ''redis-down'', ''redis-delay'', ''toxiproxy'',
    ''netem'', ''failover'', ''promote'', ''write-resume'', ''ledger'', ''partner'']"
  have "list_all (\<lambda>w. list_ex (\<lambda>v. occurs_in v (lower w)) (table_words DESTRUCTIVE_TABLE)) ?ws" by code_simp
  moreover have "\<exists>w \<in> set ?ws. needs w r" if "(t, r) \<in> set (unmarked PH11_DESTRUCTIVE_COMMAND_PATTERNS)" for t r
    using that by (auto simp: unmarked_def PH11_DESTRUCTIVE_COMMAND_PATTERNS_def needs_lit simp del: lit_i.simps seq.simps)
  moreover have "distinct (map fst DESTRUCTIVE_TABLE)" by (simp add: DESTRUCTIVE_TABLE_def)
  ultimately show ?thesis by (fastforce simp: patterns_need_def list_all_iff list_ex_iff)
qed

lemma harmless:
  assumes "patterns_need (unmarked rs) ws" "\<not> mentions ws (lower s)"
  shows "\<not> matches_any rs s"
  using patterns_absent [OF assms, of "[]"] by (auto simp: matches_any_def list_ex_iff unmarked_def)

subsection \<open>Keys and labels\<close>

definition label_key :: "string \<Rightarrow> bool" where
  "label_key k \<longleftrightarrow> lower k \<in> {''metric_labels'', ''labels'', ''label_candidates'', ''prometheus_labels''}"

fun unlabelled :: "json \<Rightarrow> bool" where
  "unlabelled (JObj kvs) = list_all (\<lambda>(k, v). \<not> label_key k \<and> unlabelled v) kvs"
| "unlabelled (JList xs) = list_all unlabelled xs"
| "unlabelled _ = True"

lemma unlabelled_clean:
  "unlabelled j \<Longrightarrow> validate_metric_labels j path = []"
  "list_all (\<lambda>(k, v). \<not> label_key k \<and> unlabelled v) kvs \<Longrightarrow>
    label_fields kvs path = []"
  "list_all unlabelled xs \<Longrightarrow> label_items xs i path = []"
proof (induction j and kvs and xs arbitrary: path and path and i path rule: json_cases_induct)
  case (1 j)
  then show ?case by (cases j) (auto simp: is_container_def)
qed (auto simp: label_errors_def label_key_def)

text \<open>A value without objects inside.\<close>

fun flat :: "json \<Rightarrow> bool" where
  "flat (JObj kvs) = False"
| "flat (JList xs) = list_all flat xs"
| "flat _ = True"

lemma flat_tidy: "flat j \<Longrightarrow> tidy f ws j = tidy g ws j"
  by (induction j) (auto simp: list_all_iff)

lemma flat_unlabelled: "flat j \<Longrightarrow> unlabelled j"
  by (induction j) (auto simp: list_all_iff)

subsection \<open>The latency drills\<close>

definition DEFAULT_TARGETS :: "string list" where
  "DEFAULT_TARGETS = [''ph11-latency-drill-generate-ph10-input'', ''ph11-latency-drill-validate'', ''ph11-latency-drill-demo'']"

definition plain_drill :: "(string \<times> json) list \<Rightarrow> bool" where
  "plain_drill d \<longleftrightarrow> list_all (\<lambda>(k, v). k \<in> set PH11_DRILL_FIELDS \<and> flat v) d \<and>
     tidy (\<lambda>_. False) SENSITIVE_TABLE (JObj d) \<and> silent CLAIM_TABLE (JObj d)"

definition harmless_command :: "json \<Rightarrow> bool" where
  "harmless_command item = (case item of
       JStr c \<Rightarrow> \<not> mentions DESTRUCTIVE_TABLE (lower c) \<and> is_make c \<and> known_target DEFAULT_TARGETS c | _ \<Rightarrow> False)"

definition boundary_text :: "(string \<times> json) list \<Rightarrow> string" where
  "boundary_text d = dumps_default False (JObj [(''commands'', obj_get ''commands'' (JList []) d),
     (''safety_boundary'', obj_get ''safety_boundary'' (JStr []) d)])"

text \<open>What the validator asks of a drill, apart from its texts, the Makefile and the attribution.\<close>

definition ready_drill :: "string \<Rightarrow> (string \<times> json) list \<Rightarrow> bool" where
  "ready_drill label d \<longleftrightarrow> json_get ''drill_id'' d = Some (JStr label) \<and>
     list_all (\<lambda>f. f \<in> set (map fst d)) PH11_DRILL_FIELDS \<and>
     (case obj_get ''commands'' (JList []) d of JList cs \<Rightarrow> list_all harmless_command cs | _ \<Rightarrow> False) \<and>
     concat (map (marked_commands label d) [''manual_commands'', ''candidate_commands'']) = [] \<and>
     (if json_get ''safe_to_auto_run'' d = Some (JBool True) then \<not> mentions DESTRUCTIVE_TABLE (lower (boundary_text d)) else True) \<and>
     (if json_get ''manual_run_required'' d = Some (JBool True)
      then json_truthy (obj_get ''manual_approval_required_for'' JNull d) \<and> json_truthy (obj_get ''safety_boundary'' JNull d) else True) \<and>
     list_all (\<lambda>f. json_truthy (obj_get f JNull d)) [''expected_k6_evidence'', ''expected_server_evidence'',
       ''expected_consistency_evidence'', ''success_criteria'', ''failure_signals'', ''linked_docs'']"

definition agreed_drill :: "(string \<times> json) list \<Rightarrow> string \<Rightarrow> string \<Rightarrow> bool" where
  "agreed_drill d scenario c \<longleftrightarrow> json_get ''ph10_input_scenario'' d = Some (JStr scenario) \<and> scenario \<in> set SCENARIOS \<and>
     json_get ''expected_ph10_classification'' d = Some (JStr c) \<and> json_get ''actual_ph10_classification'' d = Some (JStr c) \<and>
     c \<in> set CLASSIFICATIONS"

lemma agreed_silent:
  assumes "agreed_drill d scenario c" "analyzed_classification scenario = Inr (JStr c)"
  shows "classification_errors label d = []" "validate_actual_matches_analyzer label d = Inr []"
    "hashable (obj_get ''expected_ph10_classification'' JNull d)" "hashable (obj_get ''actual_ph10_classification'' JNull d)"
  using assms
  by (simp_all add: agreed_drill_def classification_errors_def validate_actual_matches_analyzer_def obj_get_def member_of_def bindE_def)

lemma harmless_commands:
  assumes "list_all harmless_command cs" "set DEFAULT_TARGETS \<subseteq> set targets"
  shows "list_all (safe_default PH11_DESTRUCTIVE_COMMAND_PATTERNS targets) cs"
  using assms harmless [OF ph11_destructive_need]
  by (fastforce simp: list_all_iff harmless_command_def safe_default_def known_target_def split: json.splits list.splits)

lemma k6_language_silent:
  assumes "silent CLAIM_TABLE (JObj d)"
  shows "validate_k6_root_cause_language label d = []"
proof -
  have "lower ''k6 proves'' = ''k6 proves''" "lower ''k6 alone proves'' = ''k6 alone proves''" "lower ''k6 root cause'' = ''k6 root cause''"
    by code_simp+
  with claims_absent [OF ph11_claims_need assms, of "''k6 proves''" False] claims_absent [OF ph11_claims_need assms, of "''k6 alone proves''" False]
    claims_absent [OF ph11_claims_need assms, of "''k6 root cause''" False]
  show ?thesis by (simp add: validate_k6_root_cause_language_def Let_def del: dumps_default.simps)
qed

lemma ready_boundary: "ready_drill label d \<Longrightarrow> boundary_errors label d = []"
  using harmless [OF ph11_destructive_need, of "boundary_text d"]
  by (auto simp: ready_drill_def boundary_errors_def boundary_text_def Let_def simp del: dumps_default.simps split: if_splits)

lemma ready_drill_silent:
  assumes "ready_drill label d" "plain_drill d" "agreed_drill d scenario c" "analyzed_classification scenario = Inr (JStr c)"
    "set DEFAULT_TARGETS \<subseteq> set targets"
  shows "validate_latency_drill targets i d = Inr []"
proof -
  have l: "item_label ''drill_id'' i d = label" using assms(1) by (simp add: ready_drill_def item_label_def obj_get_def py_str_def)
  obtain cs where cs: "obj_get ''commands'' (JList []) d = JList cs" "list_all harmless_command cs"
    using assms(1) by (auto simp: ready_drill_def split: json.splits)
  have "sorted_minus PH11_DRILL_FIELDS (map fst d) = []" "sorted_minus (map fst d) ALLOWED_DRILL_FIELDS = []"
    using assms(1,2) by (auto simp: sorted_minus_Nil ready_drill_def plain_drill_def list_all_iff ALLOWED_DRILL_FIELDS_def)
  moreover have "listed_text_errors msg (\<lambda>command. validate_default_command label command targets) (JList cs) = []" for msg
    using harmless_commands [OF cs(2) assms(5)] by (simp add: latency_gate.commands_silent listed_def)
  moreover have "concat (map (\<lambda>field. if json_truthy (obj_get field JNull d) then [] else [label @ '' '' @ field @ '' must not be empty''])
      [''expected_k6_evidence'', ''expected_server_evidence'', ''expected_consistency_evidence'', ''success_criteria'',
       ''failure_signals'', ''linked_docs'']) = []" using assms(1) by (simp add: ready_drill_def)
  moreover have "concat (map (marked_commands label d) [''manual_commands'', ''candidate_commands'']) = []"
    using assms(1) by (simp add: ready_drill_def)
  ultimately show ?thesis
    using agreed_silent(1,2) [OF assms(3,4), of label] agreed_silent(3,4) [OF assms(3,4)] ready_boundary [OF assms(1)] k6_language_silent [of d label] assms(2)
    by (simp add: validate_latency_drill_def l cs(1) bindE_def fields_message_def not_listed_def plain_drill_def)
qed

lemma drill_ready_1: "ready_drill ''LAT-001'' (recorded LAT_001)"
  by code_simp

lemma drill_ready_2: "ready_drill ''LAT-002'' (recorded LAT_002)"
  by code_simp

lemma drill_ready_3: "ready_drill ''LAT-003'' (recorded LAT_003)"
  by code_simp

lemma drill_ready_4: "ready_drill ''LAT-004'' (recorded LAT_004)"
  by code_simp

lemma drill_ready_5: "ready_drill ''LAT-005'' (recorded LAT_005)"
  by code_simp

lemma drill_ready_6: "ready_drill ''LAT-006'' (recorded LAT_006)"
  by code_simp

lemmas drills_ready = drill_ready_1 drill_ready_2 drill_ready_3 drill_ready_4 drill_ready_5 drill_ready_6

lemma drill_plain_1: "plain_drill (recorded LAT_001)"
  by code_simp

lemma drill_plain_2: "plain_drill (recorded LAT_002)"
  by code_simp

lemma drill_plain_3: "plain_drill (recorded LAT_003)"
  by code_simp

lemma drill_plain_4: "plain_drill (recorded LAT_004)"
  by code_simp

lemma drill_plain_5: "plain_drill (recorded LAT_005)"
  by code_simp

lemma drill_plain_6: "plain_drill (recorded LAT_006)"
  by code_simp

lemmas drills_plain = drill_plain_1 drill_plain_2 drill_plain_3 drill_plain_4 drill_plain_5 drill_plain_6

lemma drills_agreed:
  "agreed_drill (recorded LAT_001) ''baseline'' ''baseline_normal_latency''"
  "agreed_drill (recorded LAT_002) ''db_pool_pressure'' ''internal_postgres_pool_pressure''"
  "agreed_drill (recorded LAT_003) ''db_lock_contention'' ''internal_postgres_lock_contention''"
  "agreed_drill (recorded LAT_004) ''redis_degraded'' ''redis_degraded_latency''"
  "agreed_drill (recorded LAT_005) ''external_endpoint_slow'' ''external_endpoint_slow''"
  "agreed_drill (recorded LAT_006) ''nginx_edge_latency'' ''edge_or_client_network_latency''"
  by code_simp+

lemma drills_silent:
  assumes "d \<in> set (map recorded drill_definitions)" "set DEFAULT_TARGETS \<subseteq> set targets"
  shows "validate_latency_drill targets i d = Inr []" "plain_drill d"
proof -
  note r = ready_drill_silent [OF _ _ _ _ assms(2), of _ _ _ _ i]
  show "validate_latency_drill targets i d = Inr []"
    using assms(1) r [OF drills_ready(1) drills_plain(1) drills_agreed(1) scenarios_classified(1)]
      r [OF drills_ready(2) drills_plain(2) drills_agreed(2) scenarios_classified(2)]
      r [OF drills_ready(3) drills_plain(3) drills_agreed(3) scenarios_classified(3)]
      r [OF drills_ready(4) drills_plain(4) drills_agreed(4) scenarios_classified(4)]
      r [OF drills_ready(5) drills_plain(5) drills_agreed(5) scenarios_classified(6)]
      r [OF drills_ready(6) drills_plain(6) drills_agreed(6) scenarios_classified(8)]
    by (auto simp: drill_definitions_def)
  show "plain_drill d" using assms(1) drills_plain by (auto simp: drill_definitions_def)
qed

subsection \<open>The rest of the plan\<close>

definition other_fields :: "(string \<times> json) list" where
  "other_fields = filter (\<lambda>(k, _). k \<noteq> ''drills'' \<and> k \<noteq> ''drill_count'') (drill_report [])"

lemma report_fields:
  "(k, v) \<in> set (drill_report drills) \<longleftrightarrow>
    (k, v) \<in> set other_fields \<or> k = ''drills'' \<and> v = JList drills \<or> k = ''drill_count'' \<and> v = JInt (int (length drills))"
  by (auto simp: drill_report_def other_fields_def)

lemma fields_plain: "list_all plain_key (PH11_TOP_LEVEL_FIELDS @ PH11_DRILL_FIELDS)"
  by code_simp

lemma fields_silent: "list_all (\<lambda>k. \<not> mentions CLAIM_TABLE (printed k)) [''drills'', ''drill_count''] \<and> silent CLAIM_TABLE (JObj other_fields)"
  by code_simp

lemma fields_tidy:
  "list_all (\<lambda>(k, v). if drill_skipped_path (''$.'' @ k) then True else tidy (\<lambda>k. matching_forbidden_key (lower k)) SENSITIVE_TABLE v) other_fields"
  by code_simp

lemma fields_unlabelled: "unlabelled (JObj other_fields)"
  by code_simp

text \<open>The plan of the demo: the report with the drills of the catalog.\<close>

definition demo_drills :: "(string \<times> json) list list" where
  "demo_drills = map recorded drill_definitions"

definition demo_plan :: "(string \<times> json) list" where
  "demo_plan = drill_report (map JObj demo_drills)"

lemma demo_plan_built: "build_drill_report = Inr demo_plan"
  using mapE_total [OF catalog_recorded]
  by (simp add: build_drill_report_def drill_catalog_def demo_plan_def demo_drills_def bindE_def comp_def)

lemma demo_plain: "d \<in> set demo_drills \<Longrightarrow> plain_drill d"
  using drills_plain by (auto simp: demo_drills_def drill_definitions_def)

lemma plan_key_plain: "k \<in> set PH11_TOP_LEVEL_FIELDS \<union> set PH11_DRILL_FIELDS \<Longrightarrow> plain_key k"
  using fields_plain by (auto simp: list_all_iff)

lemma plan_keys: "set (map fst (drill_report drills)) = set PH11_TOP_LEVEL_FIELDS"
  by (auto simp: drill_report_def PH11_TOP_LEVEL_FIELDS_def)

lemma drill_content:
  assumes "plain_drill d"
  shows "tidy (\<lambda>k. matching_forbidden_key (lower k)) SENSITIVE_TABLE (JObj d)" "unlabelled (JObj d)"
proof -
  have "\<not> matching_forbidden_key (lower k) \<and> tidy (\<lambda>k. matching_forbidden_key (lower k)) SENSITIVE_TABLE v \<and>
      \<not> label_key k \<and> unlabelled v" if "(k, v) \<in> set d" for k v
  proof -
    have "list_all (\<lambda>(k, v). k \<in> set PH11_DRILL_FIELDS \<and> flat v) d" "tidy (\<lambda>_. False) SENSITIVE_TABLE (JObj d)"
      using assms by (simp_all only: plain_drill_def)
    then have "k \<in> set PH11_DRILL_FIELDS" "flat v" "tidy (\<lambda>_. False) SENSITIVE_TABLE v" using that by (auto simp: list_all_iff)
    with plan_key_plain [of k] have "plain_key k" "flat v" "tidy (\<lambda>_. False) SENSITIVE_TABLE v" by simp_all
    then show ?thesis using flat_tidy [of v "\<lambda>k. matching_forbidden_key (lower k)" SENSITIVE_TABLE "\<lambda>_. False"] flat_unlabelled by (simp add: plain_key_def label_key_def)
  qed
  then show "tidy (\<lambda>k. matching_forbidden_key (lower k)) SENSITIVE_TABLE (JObj d)" "unlabelled (JObj d)"
    by (auto simp: list_all_iff)
qed

lemma plan_content: "drill_sensitive_content demo_plan = []"
proof -
  have "\<not> matching_forbidden_key (lower k) \<and> content_errors drill_skipped_path (\<lambda>k. matching_forbidden_key (lower k))
      PH10_SENSITIVE_TEXT_PATTERNS v (''$'' @ ''.'' @ k) = []" if kv: "(k, v) \<in> set demo_plan" for k v
  proof -
    have "k \<in> set (map fst demo_plan)" using kv by force
    then have "plain_key k" using plan_keys plan_key_plain by (auto simp: demo_plan_def)
    moreover have "drill_skipped_path (''$.'' @ k) \<or> tidy (\<lambda>k. matching_forbidden_key (lower k)) SENSITIVE_TABLE v"
      using kv fields_tidy drill_content(1) [OF demo_plain]
      by (auto simp: demo_plan_def report_fields list_all_iff split: if_splits)
    then have "content_errors drill_skipped_path (\<lambda>k. matching_forbidden_key (lower k)) PH10_SENSITIVE_TEXT_PATTERNS v (''$.'' @ k) = []"
      using tidy_content(1) [OF ph10_patterns_need] content_skipped by blast
    ultimately show ?thesis by (simp add: plain_key_def)
  qed
  then have "field_content drill_skipped_path (\<lambda>k. matching_forbidden_key (lower k)) PH10_SENSITIVE_TEXT_PATTERNS demo_plan ''$'' = []"
    unfolding field_content_Nil list_all_iff by blast
  then show ?thesis by (simp add: drill_sensitive_content_def content_errors.simps)
qed

lemma plan_unlabelled: "validate_metric_labels (JObj demo_plan) ''$'' = []"
proof (rule unlabelled_clean(1))
  have "\<not> label_key k \<and> unlabelled v" if kv: "(k, v) \<in> set demo_plan" for k v
  proof -
    have "k \<in> set (map fst demo_plan)" using kv by force
    then have "plain_key k" using plan_keys plan_key_plain by (auto simp: demo_plan_def)
    moreover have "unlabelled v"
      using kv fields_unlabelled drill_content(2) [OF demo_plain] by (auto simp: demo_plan_def report_fields list_all_iff)
    ultimately show ?thesis by (simp add: plain_key_def label_key_def)
  qed
  then show "unlabelled (JObj demo_plan)" by (auto simp: list_all_iff)
qed

lemma plan_claims: "forbidden_claims PH11_FORBIDDEN_CLAIMS demo_plan = []"
proof (rule no_forbidden_claims)
  show "claims_need PH11_FORBIDDEN_CLAIMS CLAIM_TABLE" using ph11_claims_need by (simp add: claims_need_def)
  have "silent CLAIM_TABLE (JList (map JObj demo_drills))" using demo_plain by (auto simp: plain_drill_def list_all_iff)
  then have "\<not> mentions CLAIM_TABLE (printed k) \<and> silent CLAIM_TABLE v" if "(k, v) \<in> set demo_plan" for k v
    using that fields_silent by (auto simp: demo_plan_def report_fields list_all_iff)
  then show "silent CLAIM_TABLE (JObj demo_plan)" by (auto simp: list_all_iff)
qed

lemma ready_id: "ready_drill label d \<Longrightarrow> obj_get ''drill_id'' JNull d = JStr label"
  by (simp add: ready_drill_def obj_get_def)

lemma plan_ids: "names_found ''drill_id'' (map JObj demo_drills) = Inr (map JStr REQUIRED_DRILLS)"
proof -
  have "map (\<lambda>d. obj_get ''drill_id'' JNull d) demo_drills = map JStr REQUIRED_DRILLS"
    by (simp add: demo_drills_def drill_definitions_def REQUIRED_DRILLS_def drills_ready [THEN ready_id])
  then show ?thesis by (simp add: names_found_def comp_def list_all_iff)
qed

lemma plan_drills:
  assumes "set DEFAULT_TARGETS \<subseteq> set targets"
  shows "\<exists>errs. mapE (latency_drill_errors targets) (enumerate 0 (map JObj demo_drills)) = Inr errs \<and> concat errs = []"
proof -
  have "list_all (\<lambda>item. latency_drill_errors targets item = Inr []) (enumerate 0 (map JObj demo_drills))"
    unfolding list_all_iff
  proof
    fix item assume "item \<in> set (enumerate 0 (map JObj demo_drills))"
    then have "snd item \<in> set (map JObj demo_drills)" by (metis enumerate_eq_zip set_zip_rightD prod.collapse)
    then obtain i d where "item = (i, JObj d)" "d \<in> set demo_drills" by (cases item) auto
    then show "latency_drill_errors targets item = Inr []"
      using drills_silent(1) [of d, OF _ assms] by (simp add: latency_drill_errors_def demo_drills_def)
  qed
  from mapE_total [OF this] show ?thesis by simp
qed

lemma plan_policy: "validate_consistency_policy demo_plan = []"
proof -
  have "obj_get ''consistency_policy'' (JObj []) demo_plan = obj_get ''consistency_policy'' (JObj []) (drill_report [])"
    by (simp add: demo_plan_def drill_report_def obj_get_def json_get_def)
  moreover have "validate_consistency_policy (drill_report []) = []" by code_simp
  ultimately show ?thesis by (simp add: validate_consistency_policy_def)
qed

lemma plan_lists:
  "obj_get ''drills'' JNull demo_plan = JList (map JObj demo_drills)"
  "obj_get ''drill_count'' JNull demo_plan = JInt (int (length demo_drills))"
  by (simp_all add: demo_plan_def drill_report_def obj_get_def json_get_def)

text \<open>
  C37: For every scenario the latency drill runner generates evidence that the latency attribution classifies as listed here. The plan the
  runner builds records for each drill the classification it expects, and whenever the Makefile has the three targets the
  drills run by default, the plan passes its own validator without an error.
\<close>

theorem drill_plan_accepted:
  assumes "list_all (\<lambda>target. target \<in> set (make_targets makefile))
    [''ph11-latency-drill-generate-ph10-input'', ''ph11-latency-drill-validate'', ''ph11-latency-drill-demo'']"
  shows "map analyzed_classification SCENARIOS = map (\<lambda>c. Inr (JStr c))
      [''baseline_normal_latency'', ''internal_postgres_pool_pressure'', ''internal_postgres_lock_contention'', ''redis_degraded_latency'',
       ''redis_unavailable_fallback'', ''external_endpoint_slow'', ''app_http_client_path_issue'', ''edge_or_client_network_latency'',
       ''insufficient_evidence''] \<and>
    (\<exists>report. build_drill_report = Inr report \<and> validate_drill_report makefile report = Inr [])"
proof
  show "map analyzed_classification SCENARIOS = map (\<lambda>c. Inr (JStr c))
      [''baseline_normal_latency'', ''internal_postgres_pool_pressure'', ''internal_postgres_lock_contention'', ''redis_degraded_latency'',
       ''redis_unavailable_fallback'', ''external_endpoint_slow'', ''app_http_client_path_issue'', ''edge_or_client_network_latency'',
       ''insufficient_evidence'']"
    by (simp add: SCENARIOS_def scenarios_classified)
  have "set DEFAULT_TARGETS \<subseteq> set (make_targets makefile)" using assms by (simp add: DEFAULT_TARGETS_def)
  then obtain errs where e: "mapE (latency_drill_errors (make_targets makefile)) (enumerate 0 (map JObj demo_drills)) = Inr errs"
    "concat errs = []" using plan_drills by blast
  have "py_eq (JInt (int (length demo_drills))) (JInt (int (length demo_drills)))" by (simp add: flt_eq_def)
  then have "validate_drill_report makefile demo_plan = Inr []"
    using e plan_keys [of "map JObj demo_drills"]
    by (simp add: validate_drill_report_def plan_lists listed_def not_listed_def plan_ids bindE_def fields_message_def sorted_minus_Nil
        plan_policy plan_content plan_unlabelled plan_claims names_missing_def demo_plan_def [symmetric]
        del: py_eq.simps validate_metric_labels.simps)
  then show "\<exists>report. build_drill_report = Inr report \<and> validate_drill_report makefile report = Inr []"
    using demo_plan_built by blast
qed

theorem drill_plan_accepted_witness:
  "\<exists>report. build_drill_report = Inr report \<and> validate_drill_report (Some (join [CHR 0x0A] [''ph11-latency-drill-demo: ## Generate'',
     ''ph11-latency-drill-validate:'', ''ph11-latency-drill-generate-ph10-input: build''])) report = Inr []"
proof -
  have "list_all (\<lambda>target. target \<in> set (make_targets (Some (join [CHR 0x0A] [''ph11-latency-drill-demo: ## Generate'',
     ''ph11-latency-drill-validate:'', ''ph11-latency-drill-generate-ph10-input: build'']))))
    [''ph11-latency-drill-generate-ph10-input'', ''ph11-latency-drill-validate'', ''ph11-latency-drill-demo'']" by code_simp
  from drill_plan_accepted [OF this] show ?thesis ..
qed

end
