(* ===== verification/Migration_Check.thy ===== *)
theory Migration_Check
  imports Drill_Common
begin

text \<open>
  The migration smoke check (\<open>scripts/check_migration_constraints.py\<close>): the unique constraints and the partial unique index the
  service relies on (\<open>Tables\<close>) are looked up in the catalogue of PostgreSQL. The catalogue is an argument, read as the two
  kinds of rows the queries select from; the script ends when all are there, lists the missing ones, or fails
  on a query with more than one row.
\<close>

text \<open>A row of \<open>pg_constraint\<close> with its table and its columns in attribute order, and one of \<open>pg_indexes\<close>.\<close>

record catalogue_constraint =
  con_table :: string
  con_name :: string
  con_type :: char
  con_columns :: "string list"

record catalogue_index =
  ix_table :: string
  ix_name :: string
  ix_def :: string

record catalogue =
  cat_constraints :: "catalogue_constraint list"
  cat_indexes :: "catalogue_index list"

definition EXPECTED_UNIQUE_CONSTRAINTS :: "(string \<times> string \<times> string list) list" where
  "EXPECTED_UNIQUE_CONSTRAINTS = [
     (''accounts'', ''uq_accounts_account_no'', [''account_no'']),
     (''idempotency_records'', ''uq_idempotency_records_key'', [''idempotency_key'']),
     (''transaction_events'', ''uq_transaction_events_external_event_id'', [''external_event_id'']),
     (''ledger_entries'', ''uq_ledger_entries_transaction_event_id'', [''transaction_event_id''])]"

definition EXPECTED_PARTIAL_UNIQUE_INDEXES :: "(string \<times> string \<times> string \<times> string) list" where
  "EXPECTED_PARTIAL_UNIQUE_INDEXES = [
     (''uq_quarantine_records_active_target'', ''quarantine_records'',
      ''CREATE UNIQUE INDEX uq_quarantine_records_active_target'', ''WHERE (active = true)'')]"

datatype migration_result =
    Constraints_present
  | Constraints_missing "string list"
  | Multiple_rows

text \<open>\<open>scalar_one_or_none\<close>\<close>

definition scalar_one_or_none :: "'a list \<Rightarrow> migration_result + 'a option" where
  "scalar_one_or_none rows = (case rows of [] \<Rightarrow> Inr None | [x] \<Rightarrow> Inr (Some x) | _ \<Rightarrow> Inl Multiple_rows)"

definition named_constraint :: "catalogue \<Rightarrow> string \<Rightarrow> string \<Rightarrow> catalogue_constraint list" where
  "named_constraint C table name =
     filter (\<lambda>c. con_table c = table \<and> con_name c = name \<and> con_type c = CHR ''u'') (cat_constraints C)"

definition equivalent_unique :: "catalogue \<Rightarrow> string \<Rightarrow> string list \<Rightarrow> catalogue_constraint list" where
  "equivalent_unique C table columns =
     filter (\<lambda>c. con_table c = table \<and> con_type c = CHR ''u'' \<and> con_columns c = columns) (cat_constraints C)"

definition missing_constraint :: "catalogue \<Rightarrow> string \<times> string \<times> string list \<Rightarrow> migration_result + string list" where
  "missing_constraint C expected = (case expected of (table, name, columns) \<Rightarrow>
     bindE (scalar_one_or_none (named_constraint C table name)) (\<lambda>exists.
     if exists \<noteq> None then Inr []
     else bindE (scalar_one_or_none (equivalent_unique C table columns)) (\<lambda>equivalent.
       Inr (if equivalent \<noteq> None then [] else [name]))))"

definition missing_index :: "catalogue \<Rightarrow> string \<times> string \<times> string \<times> string \<Rightarrow> migration_result + string list" where
  "missing_index C expected = (case expected of (name, table, required_prefix, required_predicate) \<Rightarrow>
     bindE (scalar_one_or_none (filter (\<lambda>ix. ix_table ix = table \<and> ix_name ix = name) (cat_indexes C))) (\<lambda>found.
     Inr (case found of
         Some ix \<Rightarrow> if occurs_in required_prefix (ix_def ix) \<and> occurs_in required_predicate (ix_def ix) then [] else [name]
       | None \<Rightarrow> [name])))"

definition check_migration_constraints :: "catalogue \<Rightarrow> migration_result" where
  "check_migration_constraints C = (case
     bindE (mapE (missing_constraint C) EXPECTED_UNIQUE_CONSTRAINTS) (\<lambda>constraints.
     bindE (mapE (missing_index C) EXPECTED_PARTIAL_UNIQUE_INDEXES) (\<lambda>indexes. Inr (concat constraints @ concat indexes))) of
       Inl r \<Rightarrow> r
     | Inr missing \<Rightarrow> if missing \<noteq> [] then Constraints_missing missing else Constraints_present)"

subsection \<open>When the check passes\<close>

text \<open>A table has the constraint: under its name, or as one other unique constraint on the same columns.\<close>

definition has_unique :: "catalogue \<Rightarrow> string \<times> string \<times> string list \<Rightarrow> bool" where
  "has_unique C expected = (case expected of (table, name, columns) \<Rightarrow>
     length (named_constraint C table name) = 1 \<or>
     named_constraint C table name = [] \<and> length (equivalent_unique C table columns) = 1)"

definition has_index :: "catalogue \<Rightarrow> string \<times> string \<times> string \<times> string \<Rightarrow> bool" where
  "has_index C expected = (case expected of (name, table, required_prefix, required_predicate) \<Rightarrow>
     (case filter (\<lambda>ix. ix_table ix = table \<and> ix_name ix = name) (cat_indexes C) of
        [ix] \<Rightarrow> occurs_in required_prefix (ix_def ix) \<and> occurs_in required_predicate (ix_def ix)
      | _ \<Rightarrow> False))"

lemma scalar_one_iff:
  "scalar_one_or_none rows = Inr None \<longleftrightarrow> rows = []"
  "scalar_one_or_none rows = Inr (Some x) \<longleftrightarrow> rows = [x]"
  "scalar_one_or_none rows = Inl r \<longleftrightarrow> r = Multiple_rows \<and> length rows > 1"
  by (auto simp: scalar_one_or_none_def split: list.splits)

lemma missing_constraint_silent: "missing_constraint C expected = Inr [] \<longleftrightarrow> has_unique C expected"
  by (cases expected)
    (auto simp: missing_constraint_def has_unique_def bindE_def scalar_one_or_none_def length_Suc_conv split: list.splits)

lemma missing_index_silent: "missing_index C expected = Inr [] \<longleftrightarrow> has_index C expected"
  by (cases expected) (auto simp: missing_index_def has_index_def bindE_def scalar_one_or_none_def split: list.splits)

lemma mapE_silent: "(\<exists>yss. mapE f xs = Inr yss \<and> concat yss = []) \<longleftrightarrow> list_all (\<lambda>x. f x = Inr []) xs"
  by (induction xs) (auto simp: bindE_def split: sum.splits)

lemma only_multiple:
  "missing_constraint C e = Inl r \<Longrightarrow> r = Multiple_rows" "missing_index C e' = Inl r \<Longrightarrow> r = Multiple_rows"
  by (auto simp: missing_constraint_def missing_index_def bindE_def scalar_one_iff split: prod.splits sum.splits if_splits)

lemma mapE_Inl: "mapE f xs = Inl r \<Longrightarrow> \<exists>x \<in> set xs. f x = Inl r"
  by (induction xs) (auto simp: bindE_def split: sum.splits)

lemma mapE_multiple:
  "mapE (missing_constraint C) xs = Inl r \<Longrightarrow> r \<noteq> Constraints_present" "mapE (missing_index C) ys = Inl r \<Longrightarrow> r \<noteq> Constraints_present"
  by (auto dest!: mapE_Inl only_multiple)

text \<open>The check passes exactly when every expected constraint and index is there.\<close>

theorem migration_check_passes_iff:
  "check_migration_constraints C = Constraints_present \<longleftrightarrow>
     list_all (has_unique C) EXPECTED_UNIQUE_CONSTRAINTS \<and> list_all (has_index C) EXPECTED_PARTIAL_UNIQUE_INDEXES"
proof -
  have "check_migration_constraints C = Constraints_present \<longleftrightarrow>
      (\<exists>yss. mapE (missing_constraint C) EXPECTED_UNIQUE_CONSTRAINTS = Inr yss \<and> concat yss = []) \<and>
      (\<exists>zss. mapE (missing_index C) EXPECTED_PARTIAL_UNIQUE_INDEXES = Inr zss \<and> concat zss = [])"
  proof (cases "mapE (missing_constraint C) EXPECTED_UNIQUE_CONSTRAINTS")
    case (Inl r)
    then show ?thesis using mapE_multiple(1) [OF Inl] by (simp add: check_migration_constraints_def bindE_def)
  next
    case (Inr yss)
    then show ?thesis using mapE_multiple(2) [of C EXPECTED_PARTIAL_UNIQUE_INDEXES]
      by (cases "mapE (missing_index C) EXPECTED_PARTIAL_UNIQUE_INDEXES") (simp_all add: check_migration_constraints_def bindE_def)
  qed
  then show ?thesis by (simp only: mapE_silent missing_constraint_silent missing_index_silent)
qed

end
