(* ===== verification/Spec2Isabelle.thy ===== *)
theory Spec2Isabelle
  imports Service_Properties Api_Properties Processing_Properties Liveness Bank_Refinement Ai_Context_Properties
    Incident_Properties Suspend_Cli Operator_Properties Ai_Context_Cli Latency_Properties Rotation_Properties Plan_Accepted
    Migration_Check
begin

text \<open>
  A verification development of the financial event consistency system: a FastAPI service that accepts deposits,
  withdrawals, payments and cancellations exactly once per idempotency key, keeps account balances equal to their
  ledgers, and surrounds that core with request signatures, a write-suspension switch, reconciliation, recovery cases,
  quarantine and an incident pipeline.

  \<^bold>\<open>How a request flows.\<close> \<open>POST /api/v1/transaction-events\<close> (theory \<open>Api\<close>) passes the middleware, the signature check
  (\<open>Api_Dependencies\<close>, \<open>Security_Hmac\<close>), the idempotency-key check and the write-suspension guard (\<open>Write_Suspension\<close>), and
  reaches \<open>TransactionEventService.process\<close> (\<open>Transaction_Service\<close>). That takes a Redis lock or falls back to the database
  (\<open>Redis\<close>), asks the idempotency service what to do with the key (\<open>Idempotency_Service\<close>, \<open>Cached_Idempotency\<close>), and for a
  new key runs the event: the state machine (\<open>State_Service\<close>), the account row and the ledger (\<open>Ledger_Service\<close>), the recorded
  answer, one commit. Every exception leaves through the handlers of \<open>Api\<close> as an HTTP answer.

  \<^bold>\<open>Theories and sources\<close> (paths below \<open>src/\<close>):
  \<^item> \<open>Prelude\<close>: programs over a state that may raise, their weakest preconditions (\<open>wp_simps\<close>), rows of tables
    (\<open>table_simps\<close>). \<open>Py_Text\<close>, \<open>Py_Hash\<close>, \<open>Py_Json\<close>, \<open>Py_Convert\<close>, \<open>Py_Regex\<close>, \<open>Py_Json_Text\<close>: what the sources use of Python's
    strings, SHA-256 and HMAC (32-bit words), JSON texts, conversions and regular expressions. Characters are code points
    below 256.
  \<^item> \<open>Domain\<close>: \<open>backend/app/domain\<close> and \<open>security/exceptions.py\<close>, one constructor per exception class. \<open>Schemas\<close>: the request
    schema. \<open>Metrics\<close>: \<open>observability/metrics.py\<close>. \<open>Tables\<close>: the models and migrations with their constraints. \<open>World\<close>: \<open>db/session.py\<close> and
    the environment. \<open>Repositories\<close>: \<open>backend/app/repositories\<close>.
  \<^item> \<open>State_Service\<close>, \<open>Ledger_Service\<close>, \<open>Idempotency_Service\<close>, \<open>Cached_Idempotency\<close>, \<open>Quarantine\<close>, \<open>Transaction_Service\<close>,
    \<open>Recovery\<close>, \<open>Reconciliation\<close>, \<open>Write_Suspension\<close>: the service of that name under \<open>backend/app/services\<close>. \<open>Redis\<close>: \<open>cache/\<close> and
    \<open>redis/\<close>. \<open>Security_Hmac\<close>, \<open>Partner_Hmac\<close>: \<open>security/\<close> and \<open>observability/logging.py\<close>. \<open>Api_Dependencies\<close>, \<open>Api\<close>: \<open>api/\<close> and
    \<open>core/\<close>. \<open>Ai_Context\<close>: \<open>security/ai_context_sanitizer.py\<close>.
  \<^item> \<open>Incident_Artifact\<close>, \<open>Incident_Analyzer\<close>, \<open>Recovery_Cli\<close>, \<open>Reconciliation_Cli\<close>, \<open>Ai_Context_Cli\<close>: the commands \<open>ph2\<close> to \<open>ph6\<close> under
    \<open>scripts/\<close>. \<open>Suspend_Cli\<close>: \<open>scripts/write_suspend_state.py\<close>. \<open>Latency_Attribution\<close>: \<open>scripts/ph10_latency_attribution.py\<close>, over the
    doubles of \<open>Py_Float\<close>. \<open>Rotation_Drill\<close>: \<open>scripts/ph7_hmac_rotation_drill.py\<close>. \<open>Decision_Matrix\<close>, \<open>Hardening_Drill\<close>, \<open>Latency_Drill\<close>: the plan
    scripts \<open>ph8\<close>, \<open>ph9\<close> and \<open>ph11\<close>. \<open>Drill_Common\<close>, \<open>Drill_Scan\<close>: what the report scripts share. \<open>Migration_Check\<close>:
    \<open>scripts/check_migration_constraints.py\<close>.
  \<^item> \<open>Consistency\<close>, \<open>Row_Checks\<close>, \<open>Processing\<close>, \<open>Samples\<close>: the invariant of the committed rows, the executable counterparts of its
    clauses, the reasoning about \<open>process\<close> step by step, and the concrete data the witnesses use.

  \<^bold>\<open>State and environment.\<close> The world of a request holds the committed tables, the tables the open transaction sees, the
  state of the session (no transaction, in one, or unusable after a failed statement), Redis, the metric registry, the
  suspension switch and a step clock. SQLAlchemy, PostgreSQL, Redis and the clock are not part of the sources; the
  record \<open>env\<close> is the parameter that stands for them. At every step it may fail a query, a flush, a commit or a Redis
  command, make a failing commit or command take effect or not, and let other transactions commit. What the theorems rely on
  is written as hypotheses: other transactions keep the database consistent (\<open>others_consistent\<close>), or there are none
  (\<open>alone\<close>); nothing fails (\<open>orderly\<close>), for liveness only.

  \<^bold>\<open>What is shown.\<close>
  \<^item> \<open>Guarantees\<close>: for every environment, \<open>process\<close> keeps the committed rows consistent (balances equal ledger sums and are
    not negative, one ledger entry per completed event, histories that follow the state machine, answers that match
    their rows) and changes them at most once per key. \<open>Processing_Properties\<close>: replay of recorded answers, refusal of
    reused keys, and the masking of integrity errors. \<open>Liveness\<close>: without faults an acceptable request is processed.
  \<^item> \<open>Bank_Refinement\<close>: an abstract bank with atomic steps, the locale \<open>simulation\<close>, and its interpretation on \<open>process\<close>: any
    sequence of requests with any faults refines it, and what every bank step keeps, every sequence of requests keeps.
  \<^item> \<open>Cached_Idempotency\<close>: the locale \<open>idempotency_port\<close> states what \<open>process\<close> needs of an idempotency service; it is
    interpreted once for the plain and the cached service, and the proofs about \<open>process\<close> rest on its facts.
  \<^item> \<open>Service_Properties\<close>: the services on every branch, locks, cache, quarantine, the recovery lifecycle, reconciliation against
    the consistency invariant. \<open>Api_Properties\<close>: answers for every exception, signatures accepted exactly when valid, the
    fail-closed suspension guard, label sets and log fields. \<open>Ai_Context_Properties\<close>: what leaves the context sanitiser.
  \<^item> \<open>Artifact_Properties\<close>, \<open>Incident_Properties\<close>: from collected evidence through the analyzer to a recovery case. \<open>Books_Frame\<close>,
    \<open>Operator_Properties\<close>: no operator command touches the books. \<open>Suspend_Cli\<close>, \<open>Ai_Context_Cli\<close>: the files these commands write are
    the ones the service and the validators read. \<open>Latency_Answers\<close>, \<open>Latency_Properties\<close>: what an attribution rests on, and what
    the validator finds in a report. \<open>Rotation_Properties\<close>: the drill's cases are decided as expected. \<open>Plan_Properties\<close>: unsafe
    plans are refused (the locale \<open>command_gate\<close>, interpreted for both drill validators), and the decision matrix is true to its
    options. \<open>Printed_Text\<close>, \<open>Plan_Accepted\<close>: where words can occur in a printed document, and that the latency drill plan passes its
    own validator.

  \<^bold>\<open>Bounds and fuel.\<close> No definition uses fuel: the retry loop of \<open>process\<close> is a recursion on the attempts left, which the code
  fixes at two, loops over rows are recursions over lists, the JSON reader recurses on the text, and the search for a free
  directory name (\<open>free_suffix\<close>) is a partial function that is proved to return. Integers are Python's, except SHA-256 (32-bit
  words) and the \<open>BIGINT\<close> columns, whose range is a constraint of \<open>Tables\<close>; floats are IEEE doubles.

  \<^bold>\<open>Not modelled.\<close> Application wiring and routers (\<open>main.py\<close>, \<open>api/router.py\<close>), logging set-up, the Alembic runner: calls into
  frameworks without decisions of their own. Log lines, span timings and observed durations. Pydantic's parsing of
  bodies: the schema's own validators are modelled, the parser is not under \<open>src/\<close>. The argument
  parsers of the scripts: a command starts from the arguments they return.
\<close>

end
